(* ===== verification/Crit_Prelude.thy ===== *)
theory Crit_Prelude
  imports Main "HOL-Library.Multiset" "HOL-Library.State_Monad" "HOL-Library.Word"
begin

text \<open>
  Shared vocabulary of the development.

  \<^item> Go values: \<open>duration\<close> (\<^verbatim>\<open>time.Duration\<close>), \<open>goerror\<close> (values of the interface type
    \<^verbatim>\<open>error\<close> the code builds or receives), Go maps as association lists with distinct keys.
    The order of the list stands for the order in which \<^verbatim>\<open>range\<close> visits the map, which Go
    leaves open: every theorem is stated for lists in any order.
  \<^item> \<open>dict\<close>, the interface of a finite map, interpreted on the association lists.
  \<^item> \<open>sort.Sort\<close> as insertion by a \<open>less\<close> function, with \<open>weak_order\<close>, the contract
    that \<^verbatim>\<open>sort.Interface\<close> asks of \<open>less\<close>. \<^verbatim>\<open>sort.Sort\<close> does not promise what it does with
    equivalent elements; since every list it is given here comes from a \<^verbatim>\<open>range\<close> over a map,
    the sorted list of some order of the map is any sorted arrangement at all.
  \<^item> Effects: a state monad over a world (everything behind the Kubernetes clients, of any
    type) and the sequence of calls made so far; \<open>emits\<close>, a small calculus for
    which calls an operation may make.
\<close>

named_theorems run_simps \<open>how the effectful operations run\<close>
named_theorems emits_intros \<open>which calls an operation may make\<close>
named_theorems at_most_intros \<open>how many calls an operation may make\<close>
named_theorems filter_simps \<open>machine filters on a machine that is present\<close>

section \<open>Durations, errors\<close>

type_synonym time = int

datatype duration = Duration int

instantiation duration :: "{zero, linorder}"
begin

definition zero_duration :: duration where
  "zero_duration = Duration 0"

fun less_eq_duration :: "duration \<Rightarrow> duration \<Rightarrow> bool" where
  "less_eq_duration (Duration a) (Duration b) = (a \<le> b)"

fun less_duration :: "duration \<Rightarrow> duration \<Rightarrow> bool" where
  "less_duration (Duration a) (Duration b) = (a < b)"

instance
proof
  fix x y z :: duration
  show "(x < y) = (x \<le> y \<and> \<not> y \<le> x)" by (cases x; cases y) auto
  show "x \<le> x" by (cases x) simp
  show "x \<le> y \<Longrightarrow> y \<le> z \<Longrightarrow> x \<le> z" by (cases x; cases y; cases z) simp
  show "x \<le> y \<Longrightarrow> y \<le> x \<Longrightarrow> x = y" by (cases x; cases y) simp
  show "x \<le> y \<or> y \<le> x" by (cases x; cases y) auto
qed

end

definition seconds :: "int \<Rightarrow> duration" where
  "seconds n = Duration (n * 1000000000)"

lemma seconds_pos [simp]: "0 < seconds n \<longleftrightarrow> 0 < n"
  by (simp add: seconds_def zero_duration_def)

lemma seconds_eq [simp]: "seconds a = seconds b \<longleftrightarrow> a = b"
  by (simp add: seconds_def)

lemma seconds_eq_0 [simp]: "seconds a = 0 \<longleftrightarrow> a = 0"
  by (simp add: seconds_def zero_duration_def)

datatype goerror =
    ExtError string                   \<comment> \<open>an error value returned by code outside the repository\<close>
  | NewError string                   \<comment> \<open>\<^verbatim>\<open>errors.New\<close>, \<^verbatim>\<open>errors.Errorf\<close>, \<^verbatim>\<open>fmt.Errorf\<close>\<close>
  | WrapError string goerror          \<comment> \<open>\<^verbatim>\<open>errors.Wrap\<close>, \<^verbatim>\<open>errors.Wrapf\<close>\<close>
  | RequeueAfterError duration        \<comment> \<open>\<^verbatim>\<open>capierrors.RequeueAfterError\<close>\<close>
  | AggregateError "goerror list"     \<comment> \<open>\<^verbatim>\<open>kerrors.NewAggregate\<close>\<close>
  | Panic string                      \<comment> \<open>not an error value: the call panics\<close>

section \<open>Go maps\<close>

type_synonym ('k, 'v) gomap = "('k \<times> 'v) list"

definition gm_wf :: "('k, 'v) gomap \<Rightarrow> bool" where
  "gm_wf m \<longleftrightarrow> distinct (map fst m)"

fun gm_put :: "'k \<Rightarrow> 'v \<Rightarrow> ('k, 'v) gomap \<Rightarrow> ('k, 'v) gomap" where
  "gm_put k v [] = [(k, v)]"
| "gm_put k v ((k', v') # m) = (if k' = k then (k, v) # m else (k', v') # gm_put k v m)"

definition gm_del :: "'k \<Rightarrow> ('k, 'v) gomap \<Rightarrow> ('k, 'v) gomap" where
  "gm_del k m = filter (\<lambda>e. fst e \<noteq> k) m"

lemma map_of_gm_put [simp]: "map_of (gm_put k v m) = (map_of m)(k \<mapsto> v)"
  by (induction m) auto

lemma keys_gm_put: "map fst (gm_put k v m) = (if k \<in> fst ` set m then map fst m else map fst m @ [k])"
  by (induction m) (auto simp: rev_image_eqI)

lemma gm_wf_put [simp, intro]: "gm_wf m \<Longrightarrow> gm_wf (gm_put k v m)"
  by (auto simp: gm_wf_def keys_gm_put simp flip: set_map)

lemma map_of_gm_del [simp]: "map_of (gm_del k m) = (map_of m)(k := None)"
  by (induction m) (auto simp: gm_del_def fun_eq_iff)

lemma gm_wf_del [simp, intro]: "gm_wf m \<Longrightarrow> gm_wf (gm_del k m)"
  by (auto simp: gm_wf_def gm_del_def distinct_map_filter)

lemma gm_wf_filter [simp, intro]: "gm_wf m \<Longrightarrow> gm_wf (filter P m)"
  by (simp add: gm_wf_def distinct_map_filter)

lemma gm_wf_Nil [simp, intro]: "gm_wf []"
  by (simp add: gm_wf_def)

lemma gm_wf_Cons: "gm_wf (e # m) \<longleftrightarrow> fst e \<notin> fst ` set m \<and> gm_wf m"
  by (simp add: gm_wf_def)

lemma gm_get_iff: "gm_wf m \<Longrightarrow> map_of m k = Some v \<longleftrightarrow> (k, v) \<in> set m"
  by (simp add: gm_wf_def)

text \<open>
  The interface of a finite map. A client that builds a map by a sequence of stores, as the
  counters of \<^verbatim>\<open>pick\<close> and the machine collections are built, reads back the last value
  stored under each key, or what the map held before.
\<close>

locale dict =
  fixes lookup :: "'m \<Rightarrow> 'k \<Rightarrow> 'v option"
    and put :: "'k \<Rightarrow> 'v \<Rightarrow> 'm \<Rightarrow> 'm"
    and remove :: "'k \<Rightarrow> 'm \<Rightarrow> 'm"
    and nothing :: "'m"
    and keys :: "'m \<Rightarrow> 'k list"
    and wf :: "'m \<Rightarrow> bool"
  assumes lookup_nothing: "lookup nothing = (\<lambda>_. None)"
    and lookup_put: "wf m \<Longrightarrow> lookup (put k v m) = (lookup m)(k \<mapsto> v)"
    and lookup_remove: "wf m \<Longrightarrow> lookup (remove k m) = (lookup m)(k := None)"
    and keys_lookup: "wf m \<Longrightarrow> set (keys m) = dom (lookup m)"
    and distinct_keys: "wf m \<Longrightarrow> distinct (keys m)"
    and wf_nothing: "wf nothing"
    and wf_put: "wf m \<Longrightarrow> wf (put k v m)"
    and wf_remove: "wf m \<Longrightarrow> wf (remove k m)"
begin

lemma wf_fold_put: "wf m \<Longrightarrow> wf (fold (\<lambda>x. put (f x) (g x)) xs m)"
  by (induction xs arbitrary: m) (auto intro: wf_put)

lemma lookup_fold_put:
  "wf m \<Longrightarrow> lookup (fold (\<lambda>x. put (f x) (g x)) xs m) k =
     (case List.find (\<lambda>x. f x = k) (rev xs) of Some x \<Rightarrow> Some (g x) | None \<Rightarrow> lookup m k)"
proof (induction xs rule: rev_induct)
  case Nil
  then show ?case by simp
next
  case (snoc x xs)
  then show ?case by (simp add: lookup_put wf_fold_put)
qed

lemma lookup_fold_put_distinct:
  assumes "wf m" and "distinct (map f xs)" and "x \<in> set xs"
  shows "lookup (fold (\<lambda>x. put (f x) (g x)) xs m) (f x) = Some (g x)"
  using assms
proof (induction xs rule: rev_induct)
  case Nil
  then show ?case by simp
next
  case (snoc y ys)
  then show ?case
    by (cases "f x = f y") (auto simp: lookup_put wf_fold_put rev_image_eqI)
qed

lemma keys_fold_put:
  "wf m \<Longrightarrow> set (keys (fold (\<lambda>x. put (f x) (g x)) xs m)) = set (keys m) \<union> f ` set xs"
proof (induction xs rule: rev_induct)
  case Nil
  then show ?case by simp
next
  case (snoc x xs)
  then show ?case by (simp add: keys_lookup lookup_put wf_fold_put wf_put)
qed

lemma length_keys: "wf m \<Longrightarrow> length (keys m) = card (dom (lookup m))"
  by (metis keys_lookup distinct_keys distinct_card)

end

interpretation gm: dict "map_of" gm_put gm_del "[]" "map fst" gm_wf
proof
  show "distinct (map fst m)" if "gm_wf m" for m :: "('a, 'b) gomap"
    using that by (simp add: gm_wf_def)
  show "set (map fst m) = dom (map_of m)" for m :: "('a, 'b) gomap"
    by (simp add: dom_map_of_conv_image_fst)
qed auto

section \<open>Sorting\<close>

fun go_insert :: "('a \<Rightarrow> 'a \<Rightarrow> bool) \<Rightarrow> 'a \<Rightarrow> 'a list \<Rightarrow> 'a list" where
  "go_insert lt x [] = [x]"
| "go_insert lt x (y # ys) = (if lt y x then y # go_insert lt x ys else x # y # ys)"

definition go_sort :: "('a \<Rightarrow> 'a \<Rightarrow> bool) \<Rightarrow> 'a list \<Rightarrow> 'a list" where
  "go_sort lt xs = foldr (go_insert lt) xs []"

lemma mset_go_insert [simp]: "mset (go_insert lt x xs) = add_mset x (mset xs)"
  by (induction xs) auto

lemma mset_go_sort [simp]: "mset (go_sort lt xs) = mset xs"
  by (induction xs) (auto simp: go_sort_def)

lemma set_go_insert [simp]: "set (go_insert lt x xs) = insert x (set xs)"
  by (metis mset_go_insert set_mset_add_mset_insert set_mset_mset)

lemma set_go_sort [simp]: "set (go_sort lt xs) = set xs"
  by (metis mset_go_sort set_mset_mset)

lemma length_go_sort [simp]: "length (go_sort lt xs) = length xs"
  by (metis mset_go_sort size_mset)

lemma go_sort_eq_Nil [simp]: "go_sort lt xs = [] \<longleftrightarrow> xs = []"
  by (metis length_0_conv length_go_sort)

locale weak_order =
  fixes lt :: "'a \<Rightarrow> 'a \<Rightarrow> bool"
  assumes asym: "lt x y \<Longrightarrow> \<not> lt y x"
    and negtrans: "lt x z \<Longrightarrow> lt x y \<or> lt y z"
begin

lemma irrefl: "\<not> lt x x"
  using asym by blast

lemma sorted_go_insert:
  "sorted_wrt (\<lambda>x y. \<not> lt y x) xs \<Longrightarrow> sorted_wrt (\<lambda>x y. \<not> lt y x) (go_insert lt x xs)"
  by (induction xs) (auto dest: asym negtrans)

lemma sorted_go_sort: "sorted_wrt (\<lambda>x y. \<not> lt y x) (go_sort lt xs)"
  by (induction xs) (auto simp: go_sort_def intro: sorted_go_insert)

lemma hd_go_sort:
  assumes "x \<in> set xs"
  shows "\<not> lt x (go_sort lt xs ! 0)"
proof -
  obtain y ys where "go_sort lt xs = y # ys"
    using assms by (metis go_sort_eq_Nil list.exhaust list.set(1) empty_iff)
  moreover from this assms have "x = y \<or> x \<in> set ys"
    by (metis set_go_sort set_ConsD)
  ultimately show ?thesis
    using sorted_go_sort [of xs] irrefl by auto
qed

lemma last_go_sort:
  assumes "x \<in> set xs"
  shows "\<not> lt (go_sort lt xs ! (length xs - 1)) x"
proof -
  have "x \<in> set (go_sort lt xs)" using assms by simp
  then obtain i where i: "i < length xs" "go_sort lt xs ! i = x"
    by (metis in_set_conv_nth length_go_sort)
  show ?thesis
  proof (cases "i = length xs - 1")
    case True
    with i irrefl show ?thesis by simp
  next
    case False
    with i have "i < length xs - 1" by simp
    with i sorted_go_sort [of xs] show ?thesis
      by (auto simp: sorted_wrt_iff_nth_less)
  qed
qed

lemma weak_order_reverse: "weak_order (\<lambda>x y. lt y x)"
  by unfold_locales (use asym negtrans in blast)+

end

section \<open>Strings and paths\<close>

text \<open>\<^verbatim>\<open>strings.Split\<close> at one character, \<^verbatim>\<open>strings.Join\<close>, \<^verbatim>\<open>strings.HasSuffix\<close>.\<close>

fun split_on :: "'a \<Rightarrow> 'a list \<Rightarrow> 'a list list" where
  "split_on sep [] = [[]]"
| "split_on sep (c # s) = (if c = sep then [] # split_on sep s
     else case split_on sep s of [] \<Rightarrow> [[c]] | w # ws \<Rightarrow> (c # w) # ws)"

fun join_with :: "'a list \<Rightarrow> 'a list list \<Rightarrow> 'a list" where
  "join_with sep [] = []"
| "join_with sep [w] = w"
| "join_with sep (w # ws) = w @ sep @ join_with sep ws"

definition has_suffix :: "'a list \<Rightarrow> 'a list \<Rightarrow> bool" where
  "has_suffix s suf \<longleftrightarrow> length suf \<le> length s \<and> drop (length s - length suf) s = suf"

lemma split_on_ne [simp]: "split_on sep s \<noteq> []"
  by (induction s) (auto split: list.splits)

lemma join_with_Cons: "ws \<noteq> [] \<Longrightarrow> join_with sep (w # ws) = w @ sep @ join_with sep ws"
  by (cases ws) simp_all

lemma join_split [simp]: "join_with [sep] (split_on sep s) = s"
proof (induction s)
  case Nil
  then show ?case by simp
next
  case (Cons c s)
  obtain w ws where ws: "split_on sep s = w # ws" by (cases "split_on sep s") auto
  with Cons show ?case
    by (cases ws) (auto simp: join_with_Cons)
qed

lemma split_on_free: "w \<in> set (split_on sep s) \<Longrightarrow> sep \<notin> set w"
  by (induction s arbitrary: w) (auto split: list.splits if_splits)

lemma split_on_append:
  "sep \<notin> set w \<Longrightarrow> split_on sep (w @ sep # s) = w # split_on sep s"
  by (induction w) auto

lemma split_on_word: "sep \<notin> set w \<Longrightarrow> split_on sep w = [w]"
  by (induction w) auto

lemma split_join:
  "ws \<noteq> [] \<Longrightarrow> \<forall>w \<in> set ws. sep \<notin> set w \<Longrightarrow> split_on sep (join_with [sep] ws) = ws"
proof (induction ws)
  case Nil
  then show ?case by simp
next
  case (Cons w ws)
  then show ?case
    by (cases ws) (simp_all add: split_on_word split_on_append join_with_Cons)
qed

lemma has_suffix_append [simp]: "has_suffix (s @ t) t"
  by (simp add: has_suffix_def)

lemma has_suffix_iff: "has_suffix s suf \<longleftrightarrow> (\<exists>p. s = p @ suf)"
  by (metis append_take_drop_id has_suffix_append has_suffix_def)

text \<open>
  \<^verbatim>\<open>filepath.Clean\<close> and \<^verbatim>\<open>filepath.Join\<close> on Unix paths: the components are kept on a stack,
  last one first; a dot-dot component removes the one before it where there is one to remove,
  and vanishes at the root.
\<close>

fun clean_stack :: "bool \<Rightarrow> string list \<Rightarrow> string list \<Rightarrow> string list" where
  "clean_stack rooted st [] = rev st"
| "clean_stack rooted st (w # ws) =
     (if w = [] \<or> w = ''.'' then clean_stack rooted st ws
      else if w = ''..'' then
        (case st of
           [] \<Rightarrow> clean_stack rooted (if rooted then [] else [w]) ws
         | x # st' \<Rightarrow> if x = ''..'' then clean_stack rooted (w # st) ws
                      else clean_stack rooted st' ws)
      else clean_stack rooted (w # st) ws)"

definition path_Clean :: "string \<Rightarrow> string" where
  "path_Clean p =
     (let rooted = (p \<noteq> [] \<and> hd p = CHR ''/'');
          ws = clean_stack rooted [] (split_on CHR ''/'' p)
      in if rooted then CHR ''/'' # join_with ''/'' ws
         else if ws = [] then ''.'' else join_with ''/'' ws)"

definition path_Join :: "string list \<Rightarrow> string" where
  "path_Join elem = (case dropWhile (\<lambda>e. e = []) elem of
     [] \<Rightarrow> []
   | es \<Rightarrow> path_Clean (join_with ''/'' es))"

section \<open>Effects\<close>

text \<open>
  A run of the program is a function on the world and the sequence of calls made so far.
  \<open>call\<close> makes one call to code outside the repository and records it; the callee may
  change the world in any way, also for calls that only read, since other programs act on
  the same cluster. \<open>extern\<close> runs code outside the repository that the record does not
  name (a random name, a client that is built).
\<close>

record ('w, 'e) st =
  world :: 'w
  trace :: "'e list"

type_synonym ('w, 'e, 'a) io = "(('w, 'e) st, 'a) state"

definition extern :: "('w \<Rightarrow> 'a \<times> 'w) \<Rightarrow> ('w, 'e, 'a) io" where
  "extern f = State (\<lambda>s. case f (world s) of (r, w) \<Rightarrow> (r, s\<lparr>world := w\<rparr>))"

definition call :: "'e \<Rightarrow> ('w \<Rightarrow> 'a \<times> 'w) \<Rightarrow> ('w, 'e, 'a) io" where
  "call e f = State (\<lambda>s. case f (world s) of (r, w) \<Rightarrow>
     (r, s\<lparr>world := w, trace := trace s @ [e]\<rparr>))"

definition note_event :: "'e \<Rightarrow> ('w, 'e, unit) io" where
  "note_event e = State (\<lambda>s. ((), s\<lparr>trace := trace s @ [e]\<rparr>))"

lemma run_extern [run_simps]:
  "run_state (extern f) s = (case f (world s) of (r, w) \<Rightarrow> (r, s\<lparr>world := w\<rparr>))"
  by (simp add: extern_def)

lemma run_call [run_simps]:
  "run_state (call e f) s = (case f (world s) of (r, w) \<Rightarrow>
     (r, s\<lparr>world := w, trace := trace s @ [e]\<rparr>))"
  by (simp add: call_def)

lemma run_note_event [run_simps]:
  "run_state (note_event e) s = ((), s\<lparr>trace := trace s @ [e]\<rparr>)"
  by (simp add: note_event_def)

text \<open>\<open>emits P m\<close>: every call that \<open>m\<close> makes satisfies \<open>P\<close>, from every state.\<close>

definition emits :: "('e \<Rightarrow> bool) \<Rightarrow> ('w, 'e, 'a) io \<Rightarrow> bool" where
  "emits P m \<longleftrightarrow> (\<forall>s. \<exists>es. trace (snd (run_state m s)) = trace s @ es \<and> list_all P es)"

lemma emitsD:
  "emits P m \<Longrightarrow> run_state m s = (r, s') \<Longrightarrow> \<exists>es. trace s' = trace s @ es \<and> list_all P es"
  by (metis emits_def snd_conv)

lemma emits_return [emits_intros]: "emits P (State_Monad.return x)"
  by (simp add: emits_def)

lemma emits_bind [emits_intros]:
  assumes "emits P m" and "\<And>x. emits P (f x)"
  shows "emits P (State_Monad.bind m f)"
  unfolding emits_def
proof
  fix s
  obtain x s' where m: "run_state m s = (x, s')" by fastforce
  obtain es where "trace s' = trace s @ es" "list_all P es"
    using emitsD [OF assms(1) m] by blast
  moreover obtain es' where
    "trace (snd (run_state (f x) s')) = trace s' @ es'" "list_all P es'"
    using assms(2) unfolding emits_def by blast
  ultimately show "\<exists>es. trace (snd (run_state (State_Monad.bind m f) s)) = trace s @ es \<and> list_all P es"
    using m by (intro exI [of _ "es @ es'"]) simp
qed

lemma emits_extern [emits_intros]: "emits P (extern f)"
  by (simp add: emits_def run_extern split: prod.split)

lemma emits_call [emits_intros]: "P e \<Longrightarrow> emits P (call e f)"
  by (simp add: emits_def run_call split: prod.split)

lemma emits_note_event [emits_intros]: "P e \<Longrightarrow> emits P (note_event e)"
  by (simp add: emits_def run_note_event)

lemma emits_if [emits_intros]:
  "(b \<Longrightarrow> emits P m) \<Longrightarrow> (\<not> b \<Longrightarrow> emits P n) \<Longrightarrow> emits P (if b then m else n)"
  by simp

lemma emits_case_sum [emits_intros]:
  "(\<And>e. r = Inl e \<Longrightarrow> emits P (f e)) \<Longrightarrow> (\<And>x. r = Inr x \<Longrightarrow> emits P (g x)) \<Longrightarrow>
   emits P (case r of Inl e \<Rightarrow> f e | Inr x \<Rightarrow> g x)"
  by (cases r) auto

lemma emits_case_option [emits_intros]:
  "(r = None \<Longrightarrow> emits P m) \<Longrightarrow> (\<And>x. r = Some x \<Longrightarrow> emits P (f x)) \<Longrightarrow>
   emits P (case r of None \<Rightarrow> m | Some x \<Rightarrow> f x)"
  by (cases r) auto

lemma emits_case_prod [emits_intros]:
  "(\<And>x y. p = (x, y) \<Longrightarrow> emits P (f x y)) \<Longrightarrow> emits P (case p of (x, y) \<Rightarrow> f x y)"
  by (cases p) auto

lemma emits_let [emits_intros]: "emits P (f x) \<Longrightarrow> emits P (let y = x in f y)"
  by simp

lemma emits_weaken: "emits P m \<Longrightarrow> (\<And>e. P e \<Longrightarrow> Q e) \<Longrightarrow> emits Q m"
  unfolding emits_def list_all_iff by metis

text \<open>
  The two loop shapes of the code: \<open>for_each\<close> returns at the first error, \<open>for_all\<close> runs
  the body on every element and collects the errors.
\<close>

fun for_each :: "('a \<Rightarrow> ('w, 'e, goerror option) io) \<Rightarrow> 'a list \<Rightarrow> ('w, 'e, goerror option) io" where
  "for_each f [] = State_Monad.return None"
| "for_each f (x # xs) = do {
     r \<leftarrow> f x;
     case r of Some e \<Rightarrow> State_Monad.return (Some e) | None \<Rightarrow> for_each f xs }"

fun for_all :: "('a \<Rightarrow> ('w, 'e, goerror option) io) \<Rightarrow> 'a list \<Rightarrow> ('w, 'e, goerror list) io" where
  "for_all f [] = State_Monad.return []"
| "for_all f (x # xs) = do {
     r \<leftarrow> f x;
     es \<leftarrow> for_all f xs;
     State_Monad.return (case r of Some e \<Rightarrow> e # es | None \<Rightarrow> es) }"

lemma emits_for_each [emits_intros]: "(\<And>x. emits P (f x)) \<Longrightarrow> emits P (for_each f xs)"
  by (induction xs) (auto intro!: emits_intros)

lemma emits_for_all [emits_intros]: "(\<And>x. emits P (f x)) \<Longrightarrow> emits P (for_all f xs)"
  by (induction xs) (auto intro!: emits_intros)

text \<open>\<open>at_most n P m\<close>: at most \<open>n\<close> of the calls that \<open>m\<close> makes satisfy \<open>P\<close>, from every state.\<close>

definition at_most :: "nat \<Rightarrow> ('e \<Rightarrow> bool) \<Rightarrow> ('w, 'e, 'a) io \<Rightarrow> bool" where
  "at_most n P m \<longleftrightarrow>
     (\<forall>s. \<exists>es. trace (snd (run_state m s)) = trace s @ es \<and> length (filter P es) \<le> n)"

lemma at_mostD:
  "at_most n P m \<Longrightarrow> run_state m s = (r, s') \<Longrightarrow> \<exists>es. trace s' = trace s @ es \<and> length (filter P es) \<le> n"
  by (metis at_most_def snd_conv)

lemma at_most_mono: "at_most n P m \<Longrightarrow> n \<le> k \<Longrightarrow> at_most k P m"
  unfolding at_most_def by (meson le_trans)

lemma emits_at_most: "emits (\<lambda>e. \<not> P e) m \<Longrightarrow> at_most n P m"
  unfolding emits_def at_most_def
proof
  fix s
  assume "\<forall>s. \<exists>es. trace (snd (run_state m s)) = trace s @ es \<and> list_all (\<lambda>e. \<not> P e) es"
  then obtain es where es: "trace (snd (run_state m s)) = trace s @ es" "list_all (\<lambda>e. \<not> P e) es" by blast
  then have "filter P es = []" by (auto simp: filter_empty_conv list_all_iff)
  with es show "\<exists>es. trace (snd (run_state m s)) = trace s @ es \<and> length (filter P es) \<le> n" by auto
qed

lemma at_most_bind:
  assumes "at_most a P m" and "\<And>x. at_most b P (f x)" and "a + b \<le> n"
  shows "at_most n P (State_Monad.bind m f)"
  unfolding at_most_def
proof
  fix s
  obtain x s' where m: "run_state m s = (x, s')" by fastforce
  obtain es where "trace s' = trace s @ es" "length (filter P es) \<le> a"
    using at_mostD [OF assms(1) m] by blast
  moreover obtain es' where
    "trace (snd (run_state (f x) s')) = trace s' @ es'" "length (filter P es') \<le> b"
    using assms(2) unfolding at_most_def by blast
  ultimately show "\<exists>es. trace (snd (run_state (State_Monad.bind m f) s)) = trace s @ es \<and> length (filter P es) \<le> n"
    using m assms(3) by (intro exI [of _ "es @ es'"]) auto
qed

lemma at_most_pred:
  assumes "at_most n Q m" and "\<And>e. P e \<Longrightarrow> Q e"
  shows "at_most n P m"
  unfolding at_most_def
proof
  fix s
  obtain es where es: "trace (snd (run_state m s)) = trace s @ es" "length (filter Q es) \<le> n"
    using assms(1) unfolding at_most_def by blast
  have "length (filter P es) = length (filter P (filter Q es))"
    using assms(2) by (intro arg_cong [where f = length]) (auto intro!: filter_cong)
  then have "length (filter P es) \<le> n"
    using es(2) length_filter_le [of P "filter Q es"] by linarith
  with es show "\<exists>es. trace (snd (run_state m s)) = trace s @ es \<and> length (filter P es) \<le> n" by blast
qed

lemma at_most_then [at_most_intros]:
  "at_most 0 P m \<Longrightarrow> (\<And>x. at_most n P (f x)) \<Longrightarrow> at_most n P (State_Monad.bind m f)"
  by (rule at_most_bind [where a = 0 and b = n]) simp_all

lemma at_most_return [at_most_intros]: "at_most n P (State_Monad.return x)"
  by (intro emits_at_most emits_return)

lemma at_most_if [at_most_intros]:
  "(b \<Longrightarrow> at_most n P m) \<Longrightarrow> (\<not> b \<Longrightarrow> at_most n P m') \<Longrightarrow> at_most n P (if b then m else m')"
  by simp

lemma at_most_case_sum [at_most_intros]:
  "(\<And>e. r = Inl e \<Longrightarrow> at_most n P (f e)) \<Longrightarrow> (\<And>x. r = Inr x \<Longrightarrow> at_most n P (g x)) \<Longrightarrow>
   at_most n P (case r of Inl e \<Rightarrow> f e | Inr x \<Rightarrow> g x)"
  by (cases r) auto

lemma at_most_case_option [at_most_intros]:
  "(r = None \<Longrightarrow> at_most n P m) \<Longrightarrow> (\<And>x. r = Some x \<Longrightarrow> at_most n P (f x)) \<Longrightarrow>
   at_most n P (case r of None \<Rightarrow> m | Some x \<Rightarrow> f x)"
  by (cases r) auto

lemma at_most_case_prod [at_most_intros]:
  "(\<And>x y. p = (x, y) \<Longrightarrow> at_most n P (f x y)) \<Longrightarrow> at_most n P (case p of (x, y) \<Rightarrow> f x y)"
  by (cases p) auto

lemma at_most_call: "at_most 1 P (call e f)"
  by (simp add: at_most_def run_call split: prod.split)

lemma at_most_trace:
  "at_most n P m \<Longrightarrow> run_state m s = (r, s') \<Longrightarrow> trace s' = trace s @ es \<Longrightarrow> length (filter P es) \<le> n"
  by (drule (1) at_mostD) auto

lemma emits_trace:
  "emits P m \<Longrightarrow> run_state m s = (r, s') \<Longrightarrow> trace s' = trace s @ es \<Longrightarrow> list_all P es"
  by (drule (1) emitsD) auto

text \<open>
  \<open>yields Q m\<close>: from every state, the result of \<open>m\<close> and the calls it makes satisfy \<open>Q\<close>. The rule for
  a sequence passes what the first part established on to the second.
\<close>

definition yields :: "('a \<Rightarrow> 'e list \<Rightarrow> bool) \<Rightarrow> ('w, 'e, 'a) io \<Rightarrow> bool" where
  "yields Q m \<longleftrightarrow>
     (\<forall>s. \<exists>es. trace (snd (run_state m s)) = trace s @ es \<and> Q (fst (run_state m s)) es)"

lemma yields_return: "Q x [] \<Longrightarrow> yields Q (State_Monad.return x)"
  by (simp add: yields_def)

lemma yields_bind:
  assumes "yields R m" and "\<And>x es. R x es \<Longrightarrow> yields (\<lambda>y es'. Q y (es @ es')) (f x)"
  shows "yields Q (State_Monad.bind m f)"
  unfolding yields_def
proof
  fix s
  obtain x s1 where m: "run_state m s = (x, s1)" by fastforce
  with assms(1) obtain es where es: "trace s1 = trace s @ es" "R x es"
    unfolding yields_def by (metis fst_conv snd_conv)
  with assms(2) obtain es' where "trace (snd (run_state (f x) s1)) = trace s1 @ es'"
      "Q (fst (run_state (f x) s1)) (es @ es')"
    unfolding yields_def by blast
  with es m show "\<exists>es. trace (snd (run_state (State_Monad.bind m f) s)) = trace s @ es \<and>
      Q (fst (run_state (State_Monad.bind m f) s)) es"
    by simp
qed

lemma yields_emits: "emits P m \<longleftrightarrow> yields (\<lambda>_. list_all P) m"
  by (simp add: emits_def yields_def)

lemma yields_weaken: "yields R m \<Longrightarrow> (\<And>x es. R x es \<Longrightarrow> Q x es) \<Longrightarrow> yields Q m"
  unfolding yields_def by meson

lemma yields_trace:
  "yields Q m \<Longrightarrow> run_state m s = (r, s') \<Longrightarrow> trace s' = trace s @ es \<Longrightarrow> Q r es"
  unfolding yields_def by (metis fst_conv same_append_eq snd_conv)

lemma yields_call: "(\<And>w. Q (fst (f w)) [e]) \<Longrightarrow> yields Q (call e f)"
  by (simp add: yields_def run_call case_prod_beta)

lemma yields_answer: "yields (\<lambda>x es. es = [e] \<and> (\<exists>w. x = fst (f w))) (call e f)"
  by (rule yields_call) blast

lemma yields_extern: "yields (\<lambda>_ es. es = []) (extern f)"
  by (simp add: yields_def run_extern split: prod.split)

lemma yields_if: "yields Q m \<Longrightarrow> yields Q n \<Longrightarrow> yields Q (if b then m else n)"
  by simp

text \<open>What is known of the result of the first part may bound the calls of the second.\<close>

lemma emits_after:
  assumes "yields R m" and "\<And>x es. R x es \<Longrightarrow> list_all P es \<and> emits P (f x)"
  shows "emits P (State_Monad.bind m f)"
  unfolding yields_emits
  by (rule yields_bind [OF assms(1)]) (use assms(2) in \<open>auto simp: yields_emits elim: yields_weaken\<close>)

end
