(* ===== verification/Api_Types.thy ===== *)
theory Api_Types
  imports Crit_Prelude
begin

unbundle bit_operations_syntax

text \<open>
  The data of the program: the API types of \<^verbatim>\<open>src/apis/\<close> (version v1alpha2, the storage
  version), and of the Kubernetes and Cluster API structs the fields the code reads or writes.
  A Go pointer is an \<open>option\<close> (\<open>None\<close> is nil); a nil map or slice is the empty list, which
  reads the same, except where the code tests it for nil. \<open>lib\<close> collects the functions
  and constants of the packages the code calls that are not in the repository; they are
  parameters of the model, and what the code relies on is stated by the named predicates at
  the end of the theory. \<open>Hash\<close>, the configuration hash that decides which machines are out
  of date, is modelled down to the FNV-1a arithmetic on 32-bit words.
\<close>

section \<open>Kubernetes and Cluster API objects\<close>

record ObjectReference =
  ref_Kind :: string
  ref_APIVersion :: string
  ref_Namespace :: string
  ref_Name :: string
  ref_UID :: string

record OwnerReference =
  or_APIVersion :: string
  or_Kind :: string
  or_Name :: string
  or_UID :: string
  or_Controller :: "bool option"

record ObjectMeta =
  Name :: string
  Namespace :: string
  UID :: string
  Labels :: "(string, string) gomap"
  Annotations :: "(string, string) gomap option"
  OwnerReferences :: "OwnerReference list"
  Finalizers :: "string list"
  CreationTimestamp :: time
  DeletionTimestamp :: "time option"

record ObjectKey =
  key_Namespace :: string
  key_Name :: string

record Machine =
  m_meta :: ObjectMeta
  m_ClusterName :: string
  m_Version :: "string option"
  m_InfrastructureRef :: ObjectReference
  m_ConfigRef :: "ObjectReference option"
  m_FailureDomain :: "string option"
  m_NodeRef :: "ObjectReference option"

record FailureDomainSpec =
  fds_ControlPlane :: bool

type_synonym FailureDomains = "(string, FailureDomainSpec) gomap"

record APIEndpoint =
  ep_Host :: string
  ep_Port :: int

record ClusterNetwork =
  cn_ServiceDomain :: string
  cn_Services :: "string list option"
  cn_Pods :: "string list option"

record Cluster =
  cl_meta :: ObjectMeta
  cl_ControlPlaneEndpoint :: APIEndpoint
  cl_ClusterNetwork :: "ClusterNetwork option"
  cl_ControlPlaneRef :: "ObjectReference option"
  cl_InfrastructureReady :: bool
  cl_ControlPlaneInitialized :: bool
  cl_FailureDomains :: FailureDomains

record Taint =
  taint_Key :: string
  taint_Effect :: string

record Condition =
  cond_Type :: string
  cond_Status :: string

record Node =
  node_meta :: ObjectMeta
  node_Taints :: "Taint list"
  node_Conditions :: "Condition list"

record Pod =
  pod_meta :: ObjectMeta
  pod_Conditions :: "Condition list"

record Secret =
  s_meta :: ObjectMeta
  s_Type :: string
  s_Data :: "(string, string) gomap option"

section \<open>CritConfig\<close>

record File =
  file_Path :: string
  file_Owner :: string
  file_Permissions :: string
  file_Encoding :: string
  file_Content :: string

record User =
  user_Name :: string
  user_Gecos :: "string option"
  user_Groups :: "string option"
  user_HomeDir :: "string option"
  user_Inactive :: "bool option"
  user_Shell :: "string option"
  user_Passwd :: "string option"
  user_PrimaryGroup :: "string option"
  user_LockPassword :: "bool option"
  user_Sudo :: "string option"
  user_SSHAuthorizedKeys :: "string list"

record NTP =
  ntp_Servers :: "string list"
  ntp_Enabled :: "bool option"

record CritConfigSpec =
  spec_Config :: string
  spec_Files :: "File list"
  spec_PreCritCommands :: "string list"
  spec_PostCritCommands :: "string list"
  spec_Users :: "User list"
  spec_NTP :: "NTP option"
  spec_Format :: string
  spec_Verbosity :: bool

record CritConfigStatus =
  cfgst_Ready :: bool
  cfgst_DataSecretName :: "string option"
  cfgst_FailureReason :: string
  cfgst_FailureMessage :: string

record CritConfig =
  cfg_meta :: ObjectMeta
  cfg_Spec :: CritConfigSpec
  cfg_Status :: CritConfigStatus

section \<open>CritControlPlane\<close>

record CritControlPlaneSpec =
  ccps_Replicas :: int
  ccps_Version :: string
  ccps_InfrastructureTemplate :: ObjectReference
  ccps_CritConfigSpec :: CritConfigSpec

record CritControlPlaneStatus =
  ccpst_Selector :: string
  ccpst_Replicas :: "32 word"
  ccpst_UpdatedReplicas :: "32 word"
  ccpst_ReadyReplicas :: "32 word"
  ccpst_UnavailableReplicas :: "32 word"
  ccpst_Initialized :: bool
  ccpst_Ready :: bool
  ccpst_FailureReason :: string
  ccpst_FailureMessage :: "string option"

record CritControlPlane =
  ccp_meta :: ObjectMeta
  ccp_Spec :: CritControlPlaneSpec
  ccp_Status :: CritControlPlaneStatus

definition CritControlPlaneFinalizer :: string where
  "CritControlPlaneFinalizer = ''crit.controlplane.cluster.x-k8s.io''"

definition CritControlPlaneHashLabelKey :: string where
  "CritControlPlaneHashLabelKey = ''crit.controlplane.cluster.x-k8s.io/hash''"

definition controlplane_GroupVersion :: "string \<times> string" where
  "controlplane_GroupVersion = (''controlplane.cluster.x-k8s.io'', ''v1alpha2'')"

definition bootstrap_GroupVersion :: "string \<times> string" where
  "bootstrap_GroupVersion = (''bootstrap.cluster.x-k8s.io'', ''v1alpha2'')"

section \<open>The node configuration of crit\<close>

text \<open>
  The configuration objects a \<^verbatim>\<open>CritConfigSpec\<close> carries in serialized form (\<^verbatim>\<open>critv1\<close>): the fields
  the controllers read or fill in; the fields they pass on unchanged are \<open>nc_rest\<close>.
\<close>

record NodeConfiguration =
  nc_KubeDir :: string
  nc_KubernetesVersion :: string
  nc_ClusterDomain :: string
  nc_rest :: string

record ControlPlaneConfiguration =
  cpc_ClusterName :: string
  cpc_ControlPlaneEndpoint :: APIEndpoint
  cpc_ExtraSANs :: "string list"
  cpc_ServiceSubnet :: string
  cpc_PodSubnet :: string
  cpc_NodeConfiguration :: NodeConfiguration

record WorkerConfiguration =
  wc_ClusterName :: string
  wc_ControlPlaneEndpoint :: APIEndpoint
  wc_BootstrapToken :: string
  wc_NodeConfiguration :: NodeConfiguration

datatype crit_object =
    ControlPlaneObj ControlPlaneConfiguration
  | WorkerObj WorkerConfiguration
  | OtherObj string

record codec =
  Unmarshal :: "string \<Rightarrow> goerror + crit_object"
  Marshal :: "crit_object \<Rightarrow> goerror + string"

section \<open>The packages the code calls\<close>

record lib =
  ClusterLabelName :: string
  MachineControlPlaneLabelName :: string
  IsZero :: "time option \<Rightarrow> bool"
  Before :: "time \<Rightarrow> time option \<Rightarrow> bool"
  MachineLess :: "Machine \<Rightarrow> Machine \<Rightarrow> bool"
  FilterControlPlane :: "FailureDomains \<Rightarrow> FailureDomains"
  GetIDs :: "FailureDomains \<Rightarrow> string option list"
  DeepHashObject :: "string \<times> ObjectReference \<times> CritConfigSpec \<Rightarrow> string"
  GetControllerOf :: "ObjectMeta \<Rightarrow> OwnerReference option"
  NewControllerRef :: "ObjectMeta \<Rightarrow> string \<times> string \<Rightarrow> string \<Rightarrow> OwnerReference"
  GroupVersion_String :: "string \<times> string \<Rightarrow> string"
  NewAggregate :: "goerror option list \<Rightarrow> goerror option"
  IsNotFound :: "goerror \<Rightarrow> bool"
  IsAlreadyExists :: "goerror \<Rightarrow> bool"
  Cause :: "goerror \<Rightarrow> goerror"
  IsNodeReady :: "Node \<Rightarrow> bool"
  PodReady :: string
  ConditionTrue :: string
  TaintNodeUnreachable :: string
  TaintEffectNoExecute :: string
  NamespaceSystem :: string
  TemplateSuffix :: string
  EndpointIsZero :: "APIEndpoint \<Rightarrow> bool"
  EndpointString :: "APIEndpoint \<Rightarrow> string"
  IsPaused :: "Cluster \<Rightarrow> ObjectMeta \<Rightarrow> bool"
  EnsureOwnerRef :: "OwnerReference list \<Rightarrow> OwnerReference \<Rightarrow> OwnerReference list"
  cluster_GroupVersion :: "string \<times> string"
  AddFinalizer :: "ObjectMeta \<Rightarrow> string \<Rightarrow> ObjectMeta"
  RemoveFinalizer :: "ObjectMeta \<Rightarrow> string \<Rightarrow> ObjectMeta"
  LabelSelectorAsSelector :: "(string, string) gomap \<Rightarrow> goerror + string"

section \<open>The configuration hash\<close>

text \<open>\<^verbatim>\<open>hash/fnv\<close>, 32-bit FNV-1a: exclusive-or with the byte, then multiply, modulo \<open>2 ^ 32\<close>.\<close>

definition fnv32a_step :: "char \<Rightarrow> 32 word \<Rightarrow> 32 word" where
  "fnv32a_step c h = (h XOR of_char c) * 16777619"

definition fnv32a :: "string \<Rightarrow> 32 word" where
  "fnv32a bs = fold fnv32a_step bs 2166136261"

text \<open>\<^verbatim>\<open>fmt.Sprintf("%d", n)\<close> for an unsigned \<open>n\<close>.\<close>

fun decimal :: "nat \<Rightarrow> string" where
  "decimal n = (if n < 10 then [char_of (48 + n)] else decimal (n div 10) @ [char_of (48 + n mod 10)])"

declare decimal.simps [simp del]

definition Hash :: "lib \<Rightarrow> CritControlPlaneSpec \<Rightarrow> string" where
  "Hash L c = decimal (unat (fnv32a (DeepHashObject L
     (ccps_Version c, ccps_InfrastructureTemplate c, ccps_CritConfigSpec c))))"

definition SetConfig :: "goerror + string \<Rightarrow> CritConfigSpec \<Rightarrow> goerror + CritConfigSpec" where
  "SetConfig marshalled c = (case marshalled of
     Inl err \<Rightarrow> Inl err
   | Inr data \<Rightarrow> Inr (c\<lparr>spec_Config := data\<rparr>))"

section \<open>What the code relies on\<close>

text \<open>Cluster API: \<^verbatim>\<open>MachinesByCreationTimestamp\<close> is an ordering by creation timestamp.\<close>

definition machine_order :: "lib \<Rightarrow> bool" where
  "machine_order L \<longleftrightarrow> weak_order (MachineLess L) \<and>
     (\<forall>a b. CreationTimestamp (m_meta a) < CreationTimestamp (m_meta b) \<longrightarrow> MachineLess L a b)"

text \<open>
  Cluster API: \<^verbatim>\<open>FilterControlPlane\<close> keeps the domains suitable for control plane nodes,
  \<^verbatim>\<open>GetIDs\<close> lists the identifiers of the domains.
\<close>

definition domain_filter :: "lib \<Rightarrow> bool" where
  "domain_filter L \<longleftrightarrow>
     (\<forall>fds. gm_wf fds \<longrightarrow> gm_wf (FilterControlPlane L fds)) \<and>
     (\<forall>fds. set (FilterControlPlane L fds) = {e \<in> set fds. fds_ControlPlane (snd e)}) \<and>
     (\<forall>fds. set (GetIDs L fds) = (Some \<circ> fst) ` set fds)"

text \<open>The three label keys the controller sets on a machine are different.\<close>

definition label_keys :: "lib \<Rightarrow> bool" where
  "label_keys L \<longleftrightarrow> distinct [ClusterLabelName L, MachineControlPlaneLabelName L, CritControlPlaneHashLabelKey]"

text \<open>API machinery: an aggregate of errors is nil exactly when all of them are nil.\<close>

definition aggregates :: "lib \<Rightarrow> bool" where
  "aggregates L \<longleftrightarrow> (\<forall>errs. NewAggregate L errs = None \<longleftrightarrow> (\<forall>e \<in> set errs. e = None))"

text \<open>
  API machinery: the controller of an object is the owner reference marked as controller, and
  \<^verbatim>\<open>NewControllerRef\<close> makes such a reference, with the owner's name and the given kind.
\<close>

definition controller_refs :: "lib \<Rightarrow> bool" where
  "controller_refs L \<longleftrightarrow>
     (\<forall>m. GetControllerOf L m = List.find (\<lambda>r. or_Controller r = Some True) (OwnerReferences m)) \<and>
     (\<forall>m gv k. or_Controller (NewControllerRef L m gv k) = Some True \<and>
        or_Kind (NewControllerRef L m gv k) = k \<and> or_Name (NewControllerRef L m gv k) = Name m)"

section \<open>Properties of the hash\<close>

lemma decimal_digits: "set (decimal n) \<subseteq> set ''0123456789''"
proof (induction n rule: decimal.induct)
  case (1 n)
  have d: "char_of (48 + k) \<in> set ''0123456789''" if "k < 10" for k :: nat
  proof -
    have "k = 0 \<or> k = 1 \<or> k = 2 \<or> k = 3 \<or> k = 4 \<or> k = 5 \<or> k = 6 \<or> k = 7 \<or> k = 8 \<or> k = 9"
      using that by arith
    then show ?thesis by (elim disjE) (simp_all add: char_of_def bit_0)
  qed
  show ?case
    using 1 d [of n] d [of "n mod 10"] by (subst decimal.simps) (auto split: if_splits)
qed

fun undecimal :: "string \<Rightarrow> nat" where
  "undecimal s = fold (\<lambda>c n. 10 * n + (of_char c - 48)) s 0"

lemma undecimal_decimal: "undecimal (decimal n) = n"
proof (induction n rule: decimal.induct)
  case (1 n)
  have d: "(of_char (char_of (48 + k) :: char) :: nat) - 48 = k" if "k < 10" for k :: nat
    using that by simp
  show ?case
    using 1 d [of n] d [of "n mod 10"] by (subst decimal.simps) (auto split: if_splits)
qed

lemma decimal_eq_iff [simp]: "decimal a = decimal b \<longleftrightarrow> a = b"
  by (metis undecimal_decimal)

lemma Hash_eq_iff:
  "Hash L a = Hash L b \<longleftrightarrow>
     fnv32a (DeepHashObject L (ccps_Version a, ccps_InfrastructureTemplate a, ccps_CritConfigSpec a)) =
     fnv32a (DeepHashObject L (ccps_Version b, ccps_InfrastructureTemplate b, ccps_CritConfigSpec b))"
  by (simp add: Hash_def word_unat_eq_iff)

end
