(* ===== verification/Machine_Filters.thy ===== *)
theory Machine_Filters
  imports Api_Types
begin

text \<open>
  \<^verbatim>\<open>src/internal/machinefilters/machine_filters.go\<close>. A filter takes a pointer to a machine, so
  it can be asked about nil. \<open>machine_filter\<close> is the contract of the filters that find machines:
  nil is never found, and a machine is found when its test holds. Every such filter of the
  package is an instance, with the test written as a reference predicate.
\<close>

type_synonym Func = "Machine option \<Rightarrow> bool"

fun And :: "Func list \<Rightarrow> Func" where
  "And [] machine = True"
| "And (f # filters) machine = (if \<not> f machine then False else And filters machine)"

fun Or :: "Func list \<Rightarrow> Func" where
  "Or [] machine = False"
| "Or (f # filters) machine = (if f machine then True else Or filters machine)"

definition Not :: "Func \<Rightarrow> Func" where
  "Not mf machine = (\<not> mf machine)"

fun InFailureDomains_loop :: "string option list \<Rightarrow> Machine \<Rightarrow> bool" where
  "InFailureDomains_loop [] machine = False"
| "InFailureDomains_loop (fd # failureDomains) machine =
     (case fd of
        None \<Rightarrow> if m_FailureDomain machine = None then True
                else InFailureDomains_loop failureDomains machine
      | Some d \<Rightarrow>
          (case m_FailureDomain machine of
             None \<Rightarrow> InFailureDomains_loop failureDomains machine
           | Some d' \<Rightarrow> if d = d' then True else InFailureDomains_loop failureDomains machine))"

definition InFailureDomains :: "string option list \<Rightarrow> Func" where
  "InFailureDomains failureDomains machine = (case machine of
     None \<Rightarrow> False
   | Some m \<Rightarrow> InFailureDomains_loop failureDomains m)"

definition OwnedControlPlaneMachines :: "lib \<Rightarrow> string \<Rightarrow> Func" where
  "OwnedControlPlaneMachines L controlPlaneName machine = (case machine of
     None \<Rightarrow> False
   | Some m \<Rightarrow>
       (case map_of (Labels (m_meta m)) (MachineControlPlaneLabelName L) of
          None \<Rightarrow> False
        | Some owner \<Rightarrow> owner = controlPlaneName))"

definition HasDeletionTimestamp :: "lib \<Rightarrow> Func" where
  "HasDeletionTimestamp L machine = (case machine of
     None \<Rightarrow> False
   | Some m \<Rightarrow> \<not> IsZero L (DeletionTimestamp (m_meta m)))"

definition MatchesConfigurationHash :: "string \<Rightarrow> Func" where
  "MatchesConfigurationHash configHash machine = (case machine of
     None \<Rightarrow> False
   | Some m \<Rightarrow>
       (case map_of (Labels (m_meta m)) CritControlPlaneHashLabelKey of
          Some hash \<Rightarrow> hash = configHash
        | None \<Rightarrow> False))"

definition OlderThan :: "lib \<Rightarrow> time option \<Rightarrow> Func" where
  "OlderThan L t machine = (case machine of
     None \<Rightarrow> False
   | Some m \<Rightarrow> Before L (CreationTimestamp (m_meta m)) t)"

definition HasAnnotationKey :: "string \<Rightarrow> Func" where
  "HasAnnotationKey key machine = (case machine of
     None \<Rightarrow> False
   | Some m \<Rightarrow>
       (case Annotations (m_meta m) of
          None \<Rightarrow> False
        | Some annotations \<Rightarrow> (case map_of annotations key of Some _ \<Rightarrow> True | None \<Rightarrow> False)))"

section \<open>Combinators\<close>

lemma And_iff [simp]: "And fs machine \<longleftrightarrow> (\<forall>f \<in> set fs. f machine)"
  by (induction fs) auto

lemma Or_iff [simp]: "Or fs machine \<longleftrightarrow> (\<exists>f \<in> set fs. f machine)"
  by (induction fs) auto

lemma Not_iff [simp]: "Not f machine \<longleftrightarrow> \<not> f machine"
  by (simp add: Not_def)

lemma Not_And: "Not (And fs) = Or (map Not fs)"
  by (rule ext) auto

section \<open>The contract of a filter\<close>

locale machine_filter =
  fixes accepts :: Func
    and test :: "Machine \<Rightarrow> bool"
  assumes nil_rejected: "\<not> accepts None"
    and accepts_Some: "accepts (Some m) = test m"
begin

lemma accepts_iff: "accepts machine \<longleftrightarrow> (\<exists>m. machine = Some m \<and> test m)"
  by (cases machine) (auto simp: nil_rejected accepts_Some)

lemma And_rejects_nil: "accepts \<in> set fs \<Longrightarrow> \<not> And fs None"
  using nil_rejected by auto

lemma filter_values: "filter (accepts \<circ> Some) ms = filter test ms"
  by (simp add: accepts_Some comp_def)

lemma filter_Not_values: "filter (Not accepts \<circ> Some) ms = filter (\<lambda>m. \<not> test m) ms"
  by (simp add: accepts_Some comp_def)

end

lemma InFailureDomains_loop_iff:
  "InFailureDomains_loop fds m \<longleftrightarrow> m_FailureDomain m \<in> set fds"
  by (induction fds) (auto split: option.splits)

interpretation in_domains: machine_filter "InFailureDomains fds" "\<lambda>m. m_FailureDomain m \<in> set fds"
  by unfold_locales (simp_all add: InFailureDomains_def InFailureDomains_loop_iff)

interpretation owned: machine_filter "OwnedControlPlaneMachines L name"
  "\<lambda>m. map_of (Labels (m_meta m)) (MachineControlPlaneLabelName L) = Some name"
  by unfold_locales (auto simp: OwnedControlPlaneMachines_def split: option.splits)

interpretation deleting: machine_filter "HasDeletionTimestamp L"
  "\<lambda>m. \<not> IsZero L (DeletionTimestamp (m_meta m))"
  by unfold_locales (simp_all add: HasDeletionTimestamp_def)

interpretation hash_matches: machine_filter "MatchesConfigurationHash h"
  "\<lambda>m. map_of (Labels (m_meta m)) CritControlPlaneHashLabelKey = Some h"
  by unfold_locales (auto simp: MatchesConfigurationHash_def split: option.splits)

interpretation older: machine_filter "OlderThan L t" "\<lambda>m. Before L (CreationTimestamp (m_meta m)) t"
  by unfold_locales (simp_all add: OlderThan_def)

interpretation annotated: machine_filter "HasAnnotationKey key"
  "\<lambda>m. \<exists>as. Annotations (m_meta m) = Some as \<and> map_of as key \<noteq> None"
  by unfold_locales (auto simp: HasAnnotationKey_def split: option.splits)

lemmas accepts_present [filter_simps] =
  in_domains.accepts_Some owned.accepts_Some deleting.accepts_Some hash_matches.accepts_Some
  older.accepts_Some annotated.accepts_Some

text \<open>
  A machine passes \<^verbatim>\<open>InFailureDomains(fds...)\<close> exactly when it is present and its failure
  domain, nil included, is one of \<open>fds\<close>; the negated filter passes the other machines and,
  unlike the filter, nil.
\<close>

theorem in_failure_domains_spec:
  "(InFailureDomains fds machine \<longleftrightarrow> (\<exists>m. machine = Some m \<and> m_FailureDomain m \<in> set fds)) \<and>
   (Not (InFailureDomains fds) machine \<longleftrightarrow>
     (case machine of None \<Rightarrow> True | Some m \<Rightarrow> m_FailureDomain m \<notin> set fds))"
  by (auto simp: in_domains.accepts_iff split: option.splits)

end
