(* ===== verification/Samples.thy ===== *)
theory Samples
  imports Api_Types
begin

text \<open>
  A concrete instance of the library parameters that satisfies what the code relies on, and a
  few concrete objects: the inputs at which the witnesses of the development evaluate.
\<close>

fun sample_cause :: "goerror \<Rightarrow> goerror" where
  "sample_cause (WrapError _ e) = sample_cause e"
| "sample_cause e = e"

definition sample_lib :: lib where
  "sample_lib = \<lparr>
     ClusterLabelName = ''cn'',
     MachineControlPlaneLabelName = ''cp'',
     IsZero = (\<lambda>t. case t of None \<Rightarrow> True | Some x \<Rightarrow> x = 0),
     Before = (\<lambda>a t. case t of None \<Rightarrow> False | Some b \<Rightarrow> a < b),
     MachineLess = (\<lambda>a b. CreationTimestamp (m_meta a) < CreationTimestamp (m_meta b)),
     FilterControlPlane = filter (\<lambda>e. fds_ControlPlane (snd e)),
     GetIDs = map (Some \<circ> fst),
     DeepHashObject = (\<lambda>(version, _, spec). version @ spec_Config spec),
     GetControllerOf = (\<lambda>m. List.find (\<lambda>r. or_Controller r = Some True) (OwnerReferences m)),
     NewControllerRef = (\<lambda>m gv k. \<lparr>or_APIVersion = snd gv, or_Kind = k, or_Name = Name m,
       or_UID = UID m, or_Controller = Some True\<rparr>),
     GroupVersion_String = (\<lambda>gv. fst gv @ ''/'' @ snd gv),
     NewAggregate = (\<lambda>errs. case List.map_filter (\<lambda>e. e) errs of [] \<Rightarrow> None | es \<Rightarrow> Some (AggregateError es)),
     IsNotFound = (\<lambda>e. e = ExtError ''NotFound''),
     IsAlreadyExists = (\<lambda>e. e = ExtError ''AlreadyExists''),
     Cause = sample_cause,
     IsNodeReady = (\<lambda>n. \<lparr>cond_Type = ''Ready'', cond_Status = ''True''\<rparr> \<in> set (node_Conditions n)),
     PodReady = ''Ready'',
     ConditionTrue = ''True'',
     TaintNodeUnreachable = ''unreachable'',
     TaintEffectNoExecute = ''NoExecute'',
     NamespaceSystem = ''kube-system'',
     TemplateSuffix = ''Template'',
     EndpointIsZero = (\<lambda>e. ep_Host e = [] \<and> ep_Port e = 0),
     EndpointString = ep_Host,
     IsPaused = (\<lambda>_ _. False),
     EnsureOwnerRef = (\<lambda>rs r. if r \<in> set rs then rs else rs @ [r]),
     cluster_GroupVersion = (''cluster.x-k8s.io'', ''v1alpha3''),
     AddFinalizer = (\<lambda>m f. if f \<in> set (Finalizers m) then m else m\<lparr>Finalizers := Finalizers m @ [f]\<rparr>),
     RemoveFinalizer = (\<lambda>m f. m\<lparr>Finalizers := removeAll f (Finalizers m)\<rparr>),
     LabelSelectorAsSelector = (\<lambda>_. Inr ''selector'') \<rparr>"

lemma sample_lib_sel [simp]:
  "ClusterLabelName sample_lib = ''cn''"
  "MachineControlPlaneLabelName sample_lib = ''cp''"
  "IsZero sample_lib = (\<lambda>t. case t of None \<Rightarrow> True | Some x \<Rightarrow> x = 0)"
  "Before sample_lib = (\<lambda>a t. case t of None \<Rightarrow> False | Some b \<Rightarrow> a < b)"
  "MachineLess sample_lib = (\<lambda>a b. CreationTimestamp (m_meta a) < CreationTimestamp (m_meta b))"
  "FilterControlPlane sample_lib = filter (\<lambda>e. fds_ControlPlane (snd e))"
  "GetIDs sample_lib = map (Some \<circ> fst)"
  "DeepHashObject sample_lib = (\<lambda>(version, _, spec). version @ spec_Config spec)"
  "GetControllerOf sample_lib = (\<lambda>m. List.find (\<lambda>r. or_Controller r = Some True) (OwnerReferences m))"
  "NewControllerRef sample_lib = (\<lambda>m gv k. \<lparr>or_APIVersion = snd gv, or_Kind = k, or_Name = Name m, or_UID = UID m, or_Controller = Some True\<rparr>)"
  "GroupVersion_String sample_lib = (\<lambda>gv. fst gv @ ''/'' @ snd gv)"
  "NewAggregate sample_lib = (\<lambda>errs. case List.map_filter (\<lambda>e. e) errs of [] \<Rightarrow> None | es \<Rightarrow> Some (AggregateError es))"
  "IsNotFound sample_lib = (\<lambda>e. e = ExtError ''NotFound'')"
  "IsAlreadyExists sample_lib = (\<lambda>e. e = ExtError ''AlreadyExists'')"
  "Cause sample_lib = sample_cause"
  "IsNodeReady sample_lib = (\<lambda>n. \<lparr>cond_Type = ''Ready'', cond_Status = ''True''\<rparr> \<in> set (node_Conditions n))"
  "PodReady sample_lib = ''Ready''"
  "ConditionTrue sample_lib = ''True''"
  "TaintNodeUnreachable sample_lib = ''unreachable''"
  "TaintEffectNoExecute sample_lib = ''NoExecute''"
  "NamespaceSystem sample_lib = ''kube-system''"
  "TemplateSuffix sample_lib = ''Template''"
  "EndpointIsZero sample_lib = (\<lambda>e. ep_Host e = [] \<and> ep_Port e = 0)"
  "EndpointString sample_lib = ep_Host"
  "IsPaused sample_lib = (\<lambda>_ _. False)"
  "EnsureOwnerRef sample_lib = (\<lambda>rs r. if r \<in> set rs then rs else rs @ [r])"
  "cluster_GroupVersion sample_lib = (''cluster.x-k8s.io'', ''v1alpha3'')"
  "AddFinalizer sample_lib = (\<lambda>m f. if f \<in> set (Finalizers m) then m else m\<lparr>Finalizers := Finalizers m @ [f]\<rparr>)"
  "RemoveFinalizer sample_lib = (\<lambda>m f. m\<lparr>Finalizers := removeAll f (Finalizers m)\<rparr>)"
  "LabelSelectorAsSelector sample_lib = (\<lambda>_. Inr ''selector'')"
  by (simp_all only: sample_lib_def lib.simps)

definition sample_meta :: "string \<Rightarrow> ObjectMeta" where
  "sample_meta n = \<lparr>Name = n, Namespace = ''ns'', UID = n, Labels = [], Annotations = None,
     OwnerReferences = [], Finalizers = [], CreationTimestamp = 0, DeletionTimestamp = None\<rparr>"

definition sample_ref :: ObjectReference where
  "sample_ref = \<lparr>ref_Kind = ''K'', ref_APIVersion = ''v'', ref_Namespace = ''ns'', ref_Name = ''r'', ref_UID = ''u''\<rparr>"

definition sample_machine :: "string \<Rightarrow> string option \<Rightarrow> time \<Rightarrow> Machine" where
  "sample_machine n fd t = \<lparr>m_meta = (sample_meta n)\<lparr>CreationTimestamp := t\<rparr>, m_ClusterName = ''c'',
     m_Version = None, m_InfrastructureRef = sample_ref, m_ConfigRef = None, m_FailureDomain = fd,
     m_NodeRef = None\<rparr>"

definition sample_domains :: FailureDomains where
  "sample_domains = [(''a'', \<lparr>fds_ControlPlane = True\<rparr>), (''b'', \<lparr>fds_ControlPlane = True\<rparr>)]"

lemmas sample_defs = sample_meta_def sample_ref_def sample_machine_def sample_domains_def

lemma sample_machine_order: "machine_order sample_lib"
  by (auto simp: machine_order_def weak_order_def)

lemma sample_domain_filter: "domain_filter sample_lib"
  by (auto simp: domain_filter_def)

lemma sample_label_keys: "label_keys sample_lib"
  by (simp add: label_keys_def CritControlPlaneHashLabelKey_def)

lemma sample_aggregates: "aggregates sample_lib"
proof -
  have "(case List.map_filter (\<lambda>e. e) errs of [] \<Rightarrow> None | es \<Rightarrow> Some (AggregateError es)) = None
      \<longleftrightarrow> (\<forall>e \<in> set errs. e = None)" for errs :: "goerror option list"
    by (induction errs) (auto simp: map_filter_simps split: list.splits option.splits)
  then show ?thesis by (simp add: aggregates_def)
qed

lemma sample_controller_refs: "controller_refs sample_lib"
  by (simp add: controller_refs_def)

lemma sample_domains_wf: "gm_wf sample_domains"
  by (simp add: sample_domains_def gm_wf_def)

end
