(* ===== verification/Machine_Collection.thy ===== *)
theory Machine_Collection
  imports Machine_Filters Samples
begin

text \<open>
  \<^verbatim>\<open>src/internal/machine_collection.go\<close>: \<^verbatim>\<open>FilterableMachineCollection\<close>, a map from names to
  machines. \<open>coll_wf\<close> is its invariant: one entry per key, and every machine is stored under
  its own name. \<open>machine_coll\<close> states what the control plane relies on (what a filter keeps
  and how many machines there are); it is interpreted on the collection's operations.
\<close>

type_synonym FilterableMachineCollection = "(string, Machine) gomap"

fun Insert :: "FilterableMachineCollection \<Rightarrow> Machine option list \<Rightarrow> FilterableMachineCollection" where
  "Insert s [] = s"
| "Insert s (None # machines) = Insert s machines"
| "Insert s (Some m # machines) = Insert (gm_put (Name (m_meta m)) m s) machines"

definition NewFilterableMachineCollection :: "Machine option list \<Rightarrow> FilterableMachineCollection" where
  "NewFilterableMachineCollection machines = Insert [] machines"

fun insert_items :: "FilterableMachineCollection \<Rightarrow> Machine list \<Rightarrow> FilterableMachineCollection" where
  "insert_items ss [] = ss"
| "insert_items ss (m # items) = insert_items (Insert ss [Some m]) items"

definition NewFilterableMachineCollectionFromMachineList ::
  "Machine list option \<Rightarrow> goerror + FilterableMachineCollection" where
  "NewFilterableMachineCollectionFromMachineList machineList = (case machineList of
     None \<Rightarrow> Inl (Panic ''nil pointer dereference'')
   | Some items \<Rightarrow> Inr (insert_items [] items))"

definition SortedByCreationTimestamp :: "lib \<Rightarrow> FilterableMachineCollection \<Rightarrow> Machine list" where
  "SortedByCreationTimestamp L s = go_sort (MachineLess L) (map snd s)"

definition unsortedList :: "FilterableMachineCollection \<Rightarrow> Machine option list" where
  "unsortedList s = map (Some \<circ> snd) s"

definition Len :: "FilterableMachineCollection \<Rightarrow> nat" where
  "Len s = length s"

fun filtered_loop ::
  "Func \<Rightarrow> FilterableMachineCollection \<Rightarrow> Machine option list \<Rightarrow> FilterableMachineCollection" where
  "filtered_loop f ss [] = ss"
| "filtered_loop f ss (m # machines) = filtered_loop f (if f m then Insert ss [m] else ss) machines"

definition newFilteredMachineCollection :: "Func \<Rightarrow> Machine option list \<Rightarrow> FilterableMachineCollection" where
  "newFilteredMachineCollection f machines = filtered_loop f [] machines"

definition Filter :: "FilterableMachineCollection \<Rightarrow> Func list \<Rightarrow> FilterableMachineCollection" where
  "Filter s filters = newFilteredMachineCollection (And filters) (unsortedList s)"

definition AnyFilter :: "FilterableMachineCollection \<Rightarrow> Func list \<Rightarrow> FilterableMachineCollection" where
  "AnyFilter s filters = newFilteredMachineCollection (Or filters) (unsortedList s)"

definition Oldest :: "lib \<Rightarrow> FilterableMachineCollection \<Rightarrow> Machine option" where
  "Oldest L s = (if length s = 0 then None else Some (SortedByCreationTimestamp L s ! 0))"

definition Newest :: "lib \<Rightarrow> FilterableMachineCollection \<Rightarrow> Machine option" where
  "Newest L s = (if length s = 0 then None else Some (SortedByCreationTimestamp L s ! (length s - 1)))"

definition DeepCopy :: "FilterableMachineCollection \<Rightarrow> FilterableMachineCollection" where
  "DeepCopy s = fold (\<lambda>m result. Insert result [Some m]) (map snd s) []"

section \<open>The invariant\<close>

definition coll_wf :: "FilterableMachineCollection \<Rightarrow> bool" where
  "coll_wf s \<longleftrightarrow> gm_wf s \<and> (\<forall>e \<in> set s. Name (m_meta (snd e)) = fst e)"

abbreviation members :: "FilterableMachineCollection \<Rightarrow> Machine set" where
  "members s \<equiv> snd ` set s"

lemma coll_wf_Nil [simp, intro]: "coll_wf []"
  by (simp add: coll_wf_def)

lemma set_gm_put: "set (gm_put k v m) \<subseteq> insert (k, v) (set m)"
  by (induction k v m rule: gm_put.induct) (auto split: if_splits)

lemma coll_wf_put [intro]: "coll_wf s \<Longrightarrow> coll_wf (gm_put (Name (m_meta m)) m s)"
  using set_gm_put [of "Name (m_meta m)" m s] by (auto simp: coll_wf_def)

lemma coll_wf_Insert [intro]: "coll_wf s \<Longrightarrow> coll_wf (Insert s ms)"
  by (induction s ms rule: Insert.induct) auto

lemma coll_wf_insert_items [intro]: "coll_wf s \<Longrightarrow> coll_wf (insert_items s ms)"
  by (induction s ms rule: insert_items.induct) auto

lemma coll_wf_filtered_loop: "coll_wf s \<Longrightarrow> coll_wf (filtered_loop f s ms)"
  by (induction f s ms rule: filtered_loop.induct) (simp_all add: coll_wf_Insert)

lemma coll_wf_filter: "coll_wf s \<Longrightarrow> coll_wf (filter P s)"
  by (auto simp: coll_wf_def)

lemma coll_wf_append:
  "coll_wf (s @ t) \<longleftrightarrow> coll_wf s \<and> coll_wf t \<and> fst ` set s \<inter> fst ` set t = {}"
  unfolding coll_wf_def gm_wf_def map_append distinct_append set_append set_map by blast

lemma coll_wf_Cons:
  "coll_wf (e # s) \<longleftrightarrow> Name (m_meta (snd e)) = fst e \<and> fst e \<notin> fst ` set s \<and> coll_wf s"
  unfolding coll_wf_def gm_wf_Cons list.set by blast

lemma gm_put_fresh: "k \<notin> fst ` set m \<Longrightarrow> gm_put k v m = m @ [(k, v)]"
  by (induction m) auto

text \<open>On a well-formed collection, filtering keeps the entries that pass, in order.\<close>

lemma filtered_loop_eq:
  assumes "coll_wf (ss @ s)"
  shows "filtered_loop f ss (map (Some \<circ> snd) s) = ss @ filter (\<lambda>e. f (Some (snd e))) s"
  using assms
proof (induction s arbitrary: ss)
  case Nil
  then show ?case by simp
next
  case (Cons e s)
  then have e: "Name (m_meta (snd e)) = fst e" "fst e \<notin> fst ` set ss"
    and wf: "coll_wf ((ss @ [e]) @ s)" "coll_wf (ss @ s)"
    by (simp_all add: coll_wf_append coll_wf_Cons)
  have "filtered_loop f (gm_put (Name (m_meta (snd e))) (snd e) ss) (map (Some \<circ> snd) s) =
      ss @ e # filter (\<lambda>e. f (Some (snd e))) s"
    using e Cons.IH [OF wf(1)] by (simp add: gm_put_fresh comp_def)
  with Cons.IH [OF wf(2)] show ?case by (simp add: comp_def)
qed

lemma newFiltered_eq:
  "coll_wf s \<Longrightarrow> newFilteredMachineCollection f (unsortedList s) = filter (\<lambda>e. f (Some (snd e))) s"
  using filtered_loop_eq [of "[]" s f] by (simp add: newFilteredMachineCollection_def unsortedList_def)

lemma Filter_eq: "coll_wf s \<Longrightarrow> Filter s fs = filter (\<lambda>e. And fs (Some (snd e))) s"
  by (simp add: Filter_def newFiltered_eq)

lemma AnyFilter_eq: "coll_wf s \<Longrightarrow> AnyFilter s fs = filter (\<lambda>e. Or fs (Some (snd e))) s"
  by (simp add: AnyFilter_def newFiltered_eq)

lemma coll_wf_Filter [intro]: "coll_wf s \<Longrightarrow> coll_wf (Filter s fs)"
  by (simp only: Filter_eq coll_wf_filter)

lemma coll_wf_AnyFilter [intro]: "coll_wf s \<Longrightarrow> coll_wf (AnyFilter s fs)"
  by (simp only: AnyFilter_eq coll_wf_filter)

lemma members_distinct: "coll_wf s \<Longrightarrow> distinct (map (\<lambda>m. Name (m_meta m)) (map snd s))"
  by (auto simp: coll_wf_def gm_wf_def comp_def cong: map_cong)

lemma members_inj: "coll_wf s \<Longrightarrow> inj_on (\<lambda>m. Name (m_meta m)) (members s)"
  using members_distinct [of s] by (simp only: distinct_map set_map)

lemma card_members: "coll_wf s \<Longrightarrow> card (members s) = length s"
  using members_distinct [of s] by (metis distinct_card distinct_map length_map set_map)

lemma members_Filter: "coll_wf s \<Longrightarrow> members (Filter s fs) = {m \<in> members s. And fs (Some m)}"
  by (auto simp: Filter_eq)

section \<open>The interface of a collection\<close>

locale machine_coll =
  fixes elements :: "'c \<Rightarrow> Machine set"
    and select :: "'c \<Rightarrow> Func list \<Rightarrow> 'c"
    and count :: "'c \<Rightarrow> nat"
    and ok :: "'c \<Rightarrow> bool"
  assumes elements_select: "ok c \<Longrightarrow> elements (select c fs) = {m \<in> elements c. And fs (Some m)}"
    and count_elements: "ok c \<Longrightarrow> count c = card (elements c)"
    and finite_elements: "finite (elements c)"
    and ok_select: "ok c \<Longrightarrow> ok (select c fs)"
begin

lemma select_select: "ok c \<Longrightarrow> elements (select (select c fs) gs) = elements (select c (fs @ gs))"
  by (auto simp: elements_select ok_select)

lemma count_select_le: "ok c \<Longrightarrow> count (select c fs) \<le> count c"
  by (simp add: count_elements ok_select elements_select card_mono finite_elements)

lemma count_partition: "ok c \<Longrightarrow> count (select c [f]) + count (select c [Not f]) = count c"
proof -
  assume ok: "ok c"
  have "elements c = {m \<in> elements c. f (Some m)} \<union> {m \<in> elements c. \<not> f (Some m)}" by auto
  then have "card (elements c) = card {m \<in> elements c. f (Some m)} + card {m \<in> elements c. \<not> f (Some m)}"
    by (metis (no_types, lifting) card_Un_disjoint finite_Un finite_elements disjoint_iff mem_Collect_eq)
  with ok show ?thesis by (simp add: count_elements ok_select elements_select)
qed

lemma count_select_0: "ok c \<Longrightarrow> count (select c fs) = 0 \<longleftrightarrow> (\<forall>m \<in> elements c. \<not> And fs (Some m))"
  by (auto simp: count_elements ok_select elements_select finite_elements)

lemma count_select_all: "ok c \<Longrightarrow> count (select c fs) = count c \<longleftrightarrow> (\<forall>m \<in> elements c. And fs (Some m))"
proof -
  assume ok: "ok c"
  have "card {m \<in> elements c. And fs (Some m)} = card (elements c) \<longleftrightarrow>
      {m \<in> elements c. And fs (Some m)} = elements c"
    using finite_elements by (metis (no_types, lifting) card_subset_eq mem_Collect_eq subsetI)
  with ok show ?thesis by (auto simp: count_elements ok_select elements_select)
qed

end

interpretation fmc: machine_coll "members" Filter Len coll_wf
proof
  fix c :: FilterableMachineCollection
  assume wf: "coll_wf c"
  show "members (Filter c fs) = {m \<in> members c. And fs (Some m)}" for fs
    using wf by (rule members_Filter)
  show "Len c = card (members c)"
    using wf by (simp add: card_members Len_def)
  show "coll_wf (Filter c fs)" for fs
    using wf by auto
qed auto

section \<open>Lookup, order, copies\<close>

lemma map_of_Insert:
  "map_of (Insert s ms) k =
     (case List.find (\<lambda>m. Name (m_meta m) = k) (rev (List.map_filter id ms)) of
        Some m \<Rightarrow> Some m | None \<Rightarrow> map_of s k)"
proof -
  have "Insert s ms = fold (\<lambda>m. gm_put (Name (m_meta m)) m) (List.map_filter id ms) s"
    by (induction s ms rule: Insert.induct) (simp_all add: map_filter_simps)
  moreover have "map_of (fold (\<lambda>m. gm_put (Name (m_meta m)) m) xs t) k =
      (case List.find (\<lambda>m. Name (m_meta m) = k) (rev xs) of Some m \<Rightarrow> Some m | None \<Rightarrow> map_of t k)" for xs t
    by (induction xs arbitrary: t rule: rev_induct) auto
  ultimately show ?thesis by simp
qed

lemma insert_items_eq_Insert: "insert_items s ms = Insert s (map Some ms)"
  by (induction s ms rule: insert_items.induct) simp_all

lemma DeepCopy_eq: "coll_wf s \<Longrightarrow> DeepCopy s = s"
proof -
  assume wf: "coll_wf s"
  have "fold (\<lambda>m result. Insert result [Some m]) (map snd t) r = filtered_loop (\<lambda>_. True) r (map (Some \<circ> snd) t)" for t r
    by (induction t arbitrary: r) simp_all
  then have "DeepCopy s = filtered_loop (\<lambda>_. True) [] (map (Some \<circ> snd) s)"
    by (simp only: DeepCopy_def)
  with filtered_loop_eq [of "[]" s "\<lambda>_. True"] wf show ?thesis by simp
qed

lemma Oldest_eq_None [simp]: "Oldest L s = None \<longleftrightarrow> s = []"
  by (simp add: Oldest_def)

lemma Oldest_in: "Oldest L s = Some m \<Longrightarrow> m \<in> members s"
proof -
  assume "Oldest L s = Some m"
  then have "s \<noteq> []" "m = SortedByCreationTimestamp L s ! 0" by (auto simp: Oldest_def split: if_splits)
  then have "m \<in> set (SortedByCreationTimestamp L s)"
    by (simp add: SortedByCreationTimestamp_def nth_mem del: set_go_sort)
  then show ?thesis by (simp add: SortedByCreationTimestamp_def)
qed

lemma Oldest_least:
  "machine_order L \<Longrightarrow> Oldest L s = Some m \<Longrightarrow> m' \<in> members s \<Longrightarrow>
     CreationTimestamp (m_meta m) \<le> CreationTimestamp (m_meta m')"
  using weak_order.hd_go_sort [of "MachineLess L" m' "map snd s"]
  by (auto simp: machine_order_def Oldest_def SortedByCreationTimestamp_def not_less [symmetric]
      split: if_splits)

lemma Newest_in: "Newest L s = Some m \<Longrightarrow> m \<in> members s"
proof -
  assume "Newest L s = Some m"
  then have "s \<noteq> []" "m = SortedByCreationTimestamp L s ! (length s - 1)"
    by (auto simp: Newest_def split: if_splits)
  then have "m \<in> set (SortedByCreationTimestamp L s)"
    by (simp add: SortedByCreationTimestamp_def nth_mem del: set_go_sort)
  then show ?thesis by (simp add: SortedByCreationTimestamp_def)
qed

lemma Newest_greatest:
  "machine_order L \<Longrightarrow> Newest L s = Some m \<Longrightarrow> m' \<in> members s \<Longrightarrow>
     CreationTimestamp (m_meta m') \<le> CreationTimestamp (m_meta m)"
  using weak_order.last_go_sort [of "MachineLess L" m' "map snd s"]
  by (auto simp: machine_order_def Newest_def SortedByCreationTimestamp_def not_less [symmetric]
      split: if_splits)

end
