(* ===== verification/Failure_Domain.thy ===== *)
theory Failure_Domain
  imports Machine_Collection
begin

text \<open>
  \<^verbatim>\<open>src/internal/failure_domain.go\<close>: counting the machines per failure domain and picking the
  domains with the fewest or the most. \<open>machines_in\<close> is the reference count. The functions
  sort the counts; \<open>weak_order\<close> is interpreted on the comparison and on its reverse.
\<close>

record ControlPlane =
  cp_CCP :: CritControlPlane
  cp_Cluster :: Cluster
  cp_Machines :: FilterableMachineCollection

record failureDomainAggregation =
  fda_id :: string
  fda_count :: int

definition fda_Less :: "failureDomainAggregation \<Rightarrow> failureDomainAggregation \<Rightarrow> bool" where
  "fda_Less x y \<longleftrightarrow> fda_count x < fda_count y"

fun init_counters :: "(string, int) gomap \<Rightarrow> FailureDomains \<Rightarrow> (string, int) gomap" where
  "init_counters counters [] = counters"
| "init_counters counters (fd # fds) = init_counters (gm_put (fst fd) 0 counters) fds"

fun count_machines :: "FailureDomains \<Rightarrow> (string, int) gomap \<Rightarrow> Machine list \<Rightarrow> (string, int) gomap" where
  "count_machines failureDomains counters [] = counters"
| "count_machines failureDomains counters (m # machines) =
     (case m_FailureDomain m of
        None \<Rightarrow> count_machines failureDomains counters machines
      | Some ident \<Rightarrow>
          if map_of failureDomains ident = None then count_machines failureDomains counters machines
          else count_machines failureDomains
            (gm_put ident ((case map_of counters ident of Some n \<Rightarrow> n | None \<Rightarrow> 0) + 1) counters) machines)"

definition pick :: "FailureDomains \<Rightarrow> FilterableMachineCollection \<Rightarrow> failureDomainAggregation list" where
  "pick failureDomains machines =
     (if length failureDomains = 0 then []
      else map (\<lambda>(fd, n). \<lparr>fda_id = fd, fda_count = n\<rparr>)
        (count_machines failureDomains (init_counters [] failureDomains) (map snd machines)))"

definition orderDescending ::
  "FailureDomains \<Rightarrow> FilterableMachineCollection \<Rightarrow> failureDomainAggregation list" where
  "orderDescending failureDomains machines =
     (let aggregations = pick failureDomains machines
      in if length aggregations = 0 then []
         else go_sort (\<lambda>x y. fda_Less y x) aggregations)"

fun PickMost_inner :: "string \<Rightarrow> Machine list \<Rightarrow> bool" where
  "PickMost_inner ident [] = False"
| "PickMost_inner ident (m # machines) =
     (case m_FailureDomain m of
        None \<Rightarrow> PickMost_inner ident machines
      | Some d \<Rightarrow> if d = ident then True else PickMost_inner ident machines)"

fun PickMost_loop :: "failureDomainAggregation list \<Rightarrow> Machine list \<Rightarrow> string option" where
  "PickMost_loop [] machines = None"
| "PickMost_loop (fd # fds) machines =
     (if PickMost_inner (fda_id fd) machines then Some (fda_id fd) else PickMost_loop fds machines)"

definition PickMost :: "lib \<Rightarrow> ControlPlane \<Rightarrow> FilterableMachineCollection \<Rightarrow> string option" where
  "PickMost L c machines =
     (let fds = orderDescending (FilterControlPlane L (cl_FailureDomains (cp_Cluster c))) (cp_Machines c)
      in PickMost_loop fds (map snd machines))"

definition PickFewest :: "FailureDomains \<Rightarrow> FilterableMachineCollection \<Rightarrow> string option" where
  "PickFewest failureDomains machines =
     (let aggregations = pick failureDomains machines
      in if length aggregations = 0 then None
         else Some (fda_id (go_sort fda_Less aggregations ! 0)))"

definition PickNFewest ::
  "FailureDomains \<Rightarrow> FilterableMachineCollection \<Rightarrow> int \<Rightarrow> goerror + string option list" where
  "PickNFewest failureDomains machines n =
     (if n < 0 then Inl (Panic ''makeslice: len out of range'')
      else
        let fds = replicate (nat n) None;
            aggregations = pick failureDomains machines
        in if length aggregations = 0 then Inr fds
           else
             let sorted = go_sort fda_Less aggregations
             in Inr (map (\<lambda>i. Some (fda_id (sorted ! (i mod length sorted)))) [0..<nat n]))"

section \<open>The reference count\<close>

definition machines_in :: "string \<Rightarrow> FilterableMachineCollection \<Rightarrow> nat" where
  "machines_in d s = length (filter (\<lambda>m. m_FailureDomain m = Some d) (map snd s))"

definition domain_ids :: "FailureDomains \<Rightarrow> string set" where
  "domain_ids fds = fst ` set fds"

interpretation fewest_first: weak_order fda_Less
  by unfold_locales (auto simp: fda_Less_def)

interpretation most_first: weak_order "\<lambda>x y. fda_Less y x"
  by (rule fewest_first.weak_order_reverse)

lemma init_counters_eq: "init_counters c fds = fold (\<lambda>fd. gm_put (fst fd) 0) fds c"
  by (induction c fds rule: init_counters.induct) simp_all

lemma init_counters_wf [intro]: "gm_wf c \<Longrightarrow> gm_wf (init_counters c fds)"
  unfolding init_counters_eq by (rule gm.wf_fold_put)

lemma map_of_init_counters:
  "gm_wf c \<Longrightarrow> map_of (init_counters c fds) d = (if d \<in> domain_ids fds then Some 0 else map_of c d)"
  unfolding init_counters_eq domain_ids_def
  by (subst gm.lookup_fold_put) (auto split: option.splits simp: find_None_iff find_Some_iff in_set_conv_nth
      image_iff, metis in_set_conv_nth length_rev set_rev)

lemma count_machines_wf [intro]: "gm_wf c \<Longrightarrow> gm_wf (count_machines fds c ms)"
  by (induction fds c ms rule: count_machines.induct) (auto split: option.splits)

lemma known_domain: "map_of fds d = None \<longleftrightarrow> d \<notin> domain_ids fds"
  by (simp add: domain_ids_def map_of_eq_None_iff)

lemma map_of_count_machines:
  "map_of c d = Some n \<Longrightarrow> d \<in> domain_ids fds \<Longrightarrow>
   map_of (count_machines fds c ms) d =
     Some (n + int (length (filter (\<lambda>m. m_FailureDomain m = Some d) ms)))"
proof (induction fds c ms arbitrary: n rule: count_machines.induct)
  case (1 fds c)
  then show ?case by simp
next
  case (2 fds c m ms)
  then show ?case
    by (cases "m_FailureDomain m") (auto simp: known_domain split: if_splits)
qed

lemma dom_count_machines:
  "dom (map_of c) = domain_ids fds \<Longrightarrow> dom (map_of (count_machines fds c ms)) = domain_ids fds"
proof (induction fds c ms rule: count_machines.induct)
  case (1 fds c)
  then show ?case by simp
next
  case (2 fds c m ms)
  then show ?case
    by (cases "m_FailureDomain m") (simp_all add: known_domain insert_absorb del: fun_upd_apply)
qed

lemma pick_ids:
  assumes "gm_wf fds"
  shows "distinct (map fda_id (pick fds s)) \<and> fda_id ` set (pick fds s) = domain_ids fds"
proof (cases "fds = []")
  case True
  then show ?thesis by (simp add: pick_def domain_ids_def)
next
  case False
  let ?c = "count_machines fds (init_counters [] fds) (map snd s)"
  have wf: "gm_wf ?c" by auto
  have "dom (map_of (init_counters [] fds)) = domain_ids fds"
    by (auto simp: map_of_init_counters split: if_splits)
  then have "fst ` set ?c = domain_ids fds"
    using dom_count_machines by (simp flip: dom_map_of_conv_image_fst)
  with False wf show ?thesis
    by (simp add: pick_def gm_wf_def comp_def case_prod_unfold image_image)
qed

lemma pick_count:
  assumes "a \<in> set (pick fds s)"
  shows "fda_count a = int (machines_in (fda_id a) s) \<and> fda_id a \<in> domain_ids fds"
proof -
  let ?c = "count_machines fds (init_counters [] fds) (map snd s)"
  have wf: "gm_wf ?c" by auto
  from assms have a: "(fda_id a, fda_count a) \<in> set ?c"
    by (auto simp: pick_def split: if_splits)
  have "dom (map_of (init_counters [] fds)) = domain_ids fds"
    by (auto simp: map_of_init_counters split: if_splits)
  with a have d: "fda_id a \<in> domain_ids fds"
    using dom_count_machines [of "init_counters [] fds" fds "map snd s"]
    by (metis dom_map_of_conv_image_fst fst_conv imageI)
  have "map_of ?c (fda_id a) = Some (fda_count a)"
    using a wf by (simp add: gm_get_iff)
  moreover have "map_of (init_counters [] fds) (fda_id a) = Some 0"
    using d by (simp add: map_of_init_counters)
  ultimately show ?thesis
    using d map_of_count_machines [of "init_counters [] fds" "fda_id a" 0 fds "map snd s"]
    by (simp add: machines_in_def)
qed

lemma pick_eq_Nil [simp]: "gm_wf fds \<Longrightarrow> pick fds s = [] \<longleftrightarrow> fds = []"
  using pick_ids [of fds s] by (auto simp: domain_ids_def pick_def)

lemma pick_ex: "gm_wf fds \<Longrightarrow> d \<in> domain_ids fds \<Longrightarrow> \<exists>a \<in> set (pick fds s). fda_id a = d"
  using pick_ids [of fds s] by (metis imageE)

lemma set_orderDescending: "set (orderDescending fds s) = set (pick fds s)"
  by (auto simp: orderDescending_def Let_def)

lemma sorted_orderDescending: "sorted_wrt (\<lambda>x y. fda_count y \<le> fda_count x) (orderDescending fds s)"
  using most_first.sorted_go_sort [of "pick fds s"]
  by (auto simp: orderDescending_def Let_def fda_Less_def not_less)

section \<open>Fewest\<close>

lemma PickFewest_None: "gm_wf fds \<Longrightarrow> PickFewest fds s = None \<longleftrightarrow> fds = []"
  by (simp add: PickFewest_def Let_def)

lemma PickFewest_Some:
  assumes "gm_wf fds" and "PickFewest fds s = Some d"
  shows "d \<in> domain_ids fds" and "d' \<in> domain_ids fds \<Longrightarrow> machines_in d s \<le> machines_in d' s"
proof -
  let ?h = "go_sort fda_Less (pick fds s) ! 0"
  from assms(2) have ne: "pick fds s \<noteq> []" and d: "d = fda_id ?h"
    by (auto simp: PickFewest_def Let_def split: if_splits)
  have "?h \<in> set (go_sort fda_Less (pick fds s))"
    using ne by (simp add: nth_mem del: set_go_sort)
  then have h: "?h \<in> set (pick fds s)" by simp
  show "d \<in> domain_ids fds" using pick_count [OF h] d by simp
  assume "d' \<in> domain_ids fds"
  then obtain a where a: "a \<in> set (pick fds s)" "fda_id a = d'"
    using pick_ex [OF assms(1)] by blast
  then have "fda_count ?h \<le> fda_count a"
    using fewest_first.hd_go_sort [OF a(1)] by (simp add: fda_Less_def)
  then show "machines_in d s \<le> machines_in d' s"
    using pick_count [OF h] pick_count [OF a(1)] a(2) d by simp
qed

section \<open>Most\<close>

lemma PickMost_inner_iff: "PickMost_inner d ms \<longleftrightarrow> (\<exists>m \<in> set ms. m_FailureDomain m = Some d)"
  by (induction d ms rule: PickMost_inner.induct) (auto split: option.splits)

lemma PickMost_loop_None:
  "PickMost_loop fds ms = None \<longleftrightarrow> (\<forall>a \<in> set fds. \<forall>m \<in> set ms. m_FailureDomain m \<noteq> Some (fda_id a))"
  by (induction fds ms rule: PickMost_loop.induct) (auto simp: PickMost_inner_iff)

lemma PickMost_loop_Some:
  "PickMost_loop fds ms = Some d \<Longrightarrow> sorted_wrt (\<lambda>x y. fda_count y \<le> fda_count x) fds \<Longrightarrow>
   \<exists>a \<in> set fds. fda_id a = d \<and> (\<exists>m \<in> set ms. m_FailureDomain m = Some d) \<and>
     (\<forall>b \<in> set fds. (\<exists>m \<in> set ms. m_FailureDomain m = Some (fda_id b)) \<longrightarrow> fda_count b \<le> fda_count a)"
  by (induction fds ms rule: PickMost_loop.induct) (auto simp: PickMost_inner_iff split: if_splits)

lemma PickMost_None:
  assumes "gm_wf (FilterControlPlane L (cl_FailureDomains (cp_Cluster c)))"
  shows "PickMost L c ms = None \<longleftrightarrow>
    (\<forall>m \<in> members ms. \<forall>d \<in> domain_ids (FilterControlPlane L (cl_FailureDomains (cp_Cluster c))).
       m_FailureDomain m \<noteq> Some d)"
  unfolding pick_ids [OF assms, THEN conjunct2, of "cp_Machines c", symmetric]
  by (auto simp: PickMost_def Let_def PickMost_loop_None set_orderDescending)

lemma PickMost_Some:
  assumes wf: "gm_wf (FilterControlPlane L (cl_FailureDomains (cp_Cluster c)))"
    and "PickMost L c ms = Some d"
  shows "d \<in> domain_ids (FilterControlPlane L (cl_FailureDomains (cp_Cluster c)))"
    and "\<exists>m \<in> members ms. m_FailureDomain m = Some d"
    and "d' \<in> domain_ids (FilterControlPlane L (cl_FailureDomains (cp_Cluster c))) \<Longrightarrow>
      m \<in> members ms \<Longrightarrow> m_FailureDomain m = Some d' \<Longrightarrow>
      machines_in d' (cp_Machines c) \<le> machines_in d (cp_Machines c)"
proof -
  let ?fds = "FilterControlPlane L (cl_FailureDomains (cp_Cluster c))"
  let ?p = "pick ?fds (cp_Machines c)"
  have loop: "PickMost_loop (orderDescending ?fds (cp_Machines c)) (map snd ms) = Some d"
    using assms(2) by (simp add: PickMost_def Let_def)
  obtain a where a: "a \<in> set ?p" "fda_id a = d" "\<exists>m \<in> members ms. m_FailureDomain m = Some d"
    "\<forall>b \<in> set ?p. (\<exists>m \<in> members ms. m_FailureDomain m = Some (fda_id b)) \<longrightarrow> fda_count b \<le> fda_count a"
    using PickMost_loop_Some [OF loop sorted_orderDescending]
    unfolding set_orderDescending set_map by blast
  show "d \<in> domain_ids ?fds" using pick_count [OF a(1)] a(2) by simp
  show "\<exists>m \<in> members ms. m_FailureDomain m = Some d" by (rule a(3))
  assume "d' \<in> domain_ids ?fds" and m: "m \<in> members ms" "m_FailureDomain m = Some d'"
  then obtain b where b: "b \<in> set ?p" "fda_id b = d'"
    using pick_ex [OF wf] by blast
  with a(4) m have "fda_count b \<le> fda_count a" by blast
  then show "machines_in d' (cp_Machines c) \<le> machines_in d (cp_Machines c)"
    using pick_count [OF a(1)] pick_count [OF b(1)] a(2) b(2) by simp
qed

section \<open>The N fewest\<close>

lemma PickNFewest_panics: "(\<exists>e. PickNFewest fds s n = Inl e) \<longleftrightarrow> n < 0"
  by (simp add: PickNFewest_def Let_def)

lemma count_residues:
  "j < k \<Longrightarrow> length (filter (\<lambda>i. i mod k = j) [0..<n]) = n div k + (if j < n mod k then 1 else 0)"
  by (induction n) (auto simp: div_Suc mod_Suc)

lemma count_cycled:
  assumes "distinct ys" and "j < length ys"
  shows "count_list (map (\<lambda>i. Some (ys ! (i mod length ys))) is) (Some (ys ! j)) =
    length (filter (\<lambda>i. i mod length ys = j) is)"
proof (induction "is")
  case Nil
  then show ?case by simp
next
  case (Cons i "is")
  have "i mod length ys < length ys" using assms(2) by (intro mod_less_divisor) linarith
  with assms Cons show ?case by (auto simp: nth_eq_iff_index_eq)
qed

lemma PickNFewest_cycle:
  assumes "gm_wf fds" and "fds \<noteq> []" and "0 \<le> n"
  obtains ys where "distinct ys" and "set ys = domain_ids fds" and "ys \<noteq> []"
    and "sorted (map (\<lambda>d. machines_in d s) ys)"
    and "PickNFewest fds s n = Inr (map (\<lambda>i. Some (ys ! (i mod length ys))) [0..<nat n])"
proof
  let ?as = "go_sort fda_Less (pick fds s)"
  let ?ys = "map fda_id ?as"
  have ne: "pick fds s \<noteq> []" using assms by simp
  have "distinct (map fda_id (pick fds s))" using pick_ids [OF assms(1), of s] by simp
  moreover have "mset ?ys = mset (map fda_id (pick fds s))" by simp
  ultimately show "distinct ?ys" by (metis mset_eq_imp_distinct_iff)
  show "set ?ys = domain_ids fds" using pick_ids [OF assms(1), of s] by simp
  show "?ys \<noteq> []" using ne by simp
  have "sorted (map (\<lambda>a. machines_in (fda_id a) s) ?as)"
    unfolding sorted_map
    by (rule sorted_wrt_mono_rel [OF _ fewest_first.sorted_go_sort])
      (use pick_count in \<open>fastforce simp: fda_Less_def\<close>)
  then show "sorted (map (\<lambda>d. machines_in d s) ?ys)" by (simp add: comp_def)
  show "PickNFewest fds s n = Inr (map (\<lambda>i. Some (?ys ! (i mod length ?ys))) [0..<nat n])"
    using assms(3) ne by (simp add: PickNFewest_def Let_def)
qed

section \<open>Properties\<close>

text \<open>
  \<^verbatim>\<open>PickFewest\<close> returns nil only when there is no failure domain; otherwise it returns one
  of the domains, and no domain has fewer machines in it.
\<close>

theorem pick_fewest_minimal:
  assumes "gm_wf fds"
  shows "case PickFewest fds s of
      None \<Rightarrow> fds = []
    | Some d \<Rightarrow> d \<in> domain_ids fds \<and> (\<forall>d' \<in> domain_ids fds. machines_in d s \<le> machines_in d' s)"
  using PickFewest_None [OF assms] PickFewest_Some [OF assms] by (auto split: option.split)

theorem pick_fewest_minimal_witness:
  "PickFewest sample_domains [(''m'', sample_machine ''m'' (Some ''a'') 1)] = Some ''b'' \<and>
   machines_in ''b'' [(''m'', sample_machine ''m'' (Some ''a'') 1)]
     \<le> machines_in ''a'' [(''m'', sample_machine ''m'' (Some ''a'') 1)]"
proof -
  have "PickFewest sample_domains [(''m'', sample_machine ''m'' (Some ''a'') 1)] = Some ''b''"
    by (simp add: PickFewest_def pick_def go_sort_def fda_Less_def sample_defs)
  moreover have "''a'' \<in> domain_ids sample_domains"
    by (simp add: domain_ids_def sample_domains_def)
  ultimately show ?thesis
    using pick_fewest_minimal [OF sample_domains_wf, of "[(''m'', sample_machine ''m'' (Some ''a'') 1)]"]
    by auto
qed

text \<open>
  C31: with at least one failure domain, \<^verbatim>\<open>PickNFewest\<close> returns \<open>n\<close> domains spread evenly:
  the numbers of times two domains are picked differ by at most one, and a domain with fewer
  machines is picked at least as often.
\<close>

theorem pick_n_fewest_balanced:
  assumes "gm_wf fds" and "fds \<noteq> []" and "0 \<le> n"
  shows "\<exists>ds. PickNFewest fds s n = Inr ds \<and> length ds = nat n \<and> set ds \<subseteq> Some ` domain_ids fds \<and>
    (\<forall>d \<in> domain_ids fds. \<forall>d' \<in> domain_ids fds.
       count_list ds (Some d) \<le> Suc (count_list ds (Some d')) \<and>
       (machines_in d s < machines_in d' s \<longrightarrow> count_list ds (Some d') \<le> count_list ds (Some d)))"
proof -
  obtain ys where ys: "distinct ys" "set ys = domain_ids fds" "ys \<noteq> []"
    "sorted (map (\<lambda>d. machines_in d s) ys)"
    and res: "PickNFewest fds s n = Inr (map (\<lambda>i. Some (ys ! (i mod length ys))) [0..<nat n])"
    using PickNFewest_cycle [OF assms] .
  let ?ds = "map (\<lambda>i. Some (ys ! (i mod length ys))) [0..<nat n]"
  have cnt: "count_list ?ds (Some (ys ! j)) = nat n div length ys + (if j < nat n mod length ys then 1 else 0)"
    if "j < length ys" for j
    using count_cycled [OF ys(1) that] count_residues [OF that] by simp
  have "count_list ?ds (Some d) \<le> Suc (count_list ?ds (Some d')) \<and>
      (machines_in d s < machines_in d' s \<longrightarrow> count_list ?ds (Some d') \<le> count_list ?ds (Some d))"
    if "d \<in> domain_ids fds" "d' \<in> domain_ids fds" for d d'
  proof -
    obtain j j' where j: "j < length ys" "d = ys ! j" "j' < length ys" "d' = ys ! j'"
      using \<open>d \<in> domain_ids fds\<close> \<open>d' \<in> domain_ids fds\<close> ys(2) by (metis in_set_conv_nth)
    have "j < j'" if "machines_in d s < machines_in d' s"
      using that j ys(4) by (metis length_map not_le nth_map sorted_nth_mono)
    with cnt j show ?thesis by auto
  qed
  moreover have "set ?ds \<subseteq> Some ` domain_ids fds"
    using ys(2,3) by (auto simp flip: ys(2) intro!: imageI nth_mem)
  ultimately show ?thesis using res by auto
qed

theorem pick_n_fewest_balanced_witness:
  "\<exists>ds. PickNFewest sample_domains [] 3 = Inr ds \<and> length ds = 3"
  using pick_n_fewest_balanced [OF sample_domains_wf, of 3 "[]"] by (auto simp: sample_domains_def)

end
