(* ===== verification/Cluster_Client.thy ===== *)
theory Cluster_Client
  imports Samples
begin

text \<open>
  The calls the controllers make to the management cluster, to workload clusters and to the
  event recorder. \<open>action\<close> names them, for the record of calls of a run; \<open>client\<close> holds
  the functions behind them (\<^verbatim>\<open>client.Client\<close>, \<^verbatim>\<open>external.CloneTemplate\<close>,
  \<^verbatim>\<open>kubeconfig.CreateSecretWithOwner\<close>, the patch helpers, the remote clients). They are
  parameters: any function on a world of any type. A remote client and a kubeconfig are opaque
  strings, a REST configuration is one with a timeout.
\<close>

record CloneTemplateInput =
  cti_TemplateRef :: ObjectReference
  cti_Namespace :: string
  cti_OwnerRef :: OwnerReference
  cti_ClusterName :: string
  cti_Labels :: "(string, string) gomap"

record Unstructured =
  u_ref :: ObjectReference
  u_meta :: ObjectMeta

record RestConfig =
  rc_Config :: string
  rc_Timeout :: duration

datatype action =
    GetCCP ObjectKey
  | GetOwnerCluster string
  | PatchCCP CritControlPlane
  | ListMachines string "(string, string) gomap"
  | UpdateMachine Machine
  | CreateMachine Machine
  | DeleteMachine Machine
  | CreateConfig CritConfig
  | CloneTemplate CloneTemplateInput
  | DeleteObject ObjectReference
  | GetExternal ObjectReference string
  | PatchExternal Unstructured
  | GetSecret ObjectKey
  | CreateSecret Secret
  | UpdateSecret Secret
  | GetKubeconfig ObjectKey
  | CreateKubeconfig ObjectKey string OwnerReference
  | NewRemoteClient RestConfig
  | ListNodes string
  | GetPod string ObjectKey
  | GetConfigMap string ObjectKey
  | RecordEvent string
  | GetConfig ObjectKey
  | GetConfigOwner string
  | GetClusterByName string string
  | PatchConfig CritConfig
  | RemoteGetSecret string ObjectKey
  | RemoteCreateSecret string Secret
  | RemoteUpdateSecret string Secret
  | GetCluster ObjectKey
  | NewCache RestConfig string
  | StartCache nat
  | StartHealthCheck nat ObjectKey RestConfig
  | StartWatch string string nat string
  | ProbePath RestConfig string

record 'w client =
  getCCP :: "ObjectKey \<Rightarrow> 'w \<Rightarrow> (goerror + CritControlPlane) \<times> 'w"
  getOwnerCluster :: "ObjectMeta \<Rightarrow> 'w \<Rightarrow> (goerror + Cluster option) \<times> 'w"
  newPatchHelper :: "ObjectMeta \<Rightarrow> 'w \<Rightarrow> goerror option \<times> 'w"
  patchCCP :: "CritControlPlane \<Rightarrow> CritControlPlane \<Rightarrow> 'w \<Rightarrow> goerror option \<times> 'w"
  listMachines :: "string \<Rightarrow> (string, string) gomap \<Rightarrow> 'w \<Rightarrow> (goerror + Machine list) \<times> 'w"
  updateMachine :: "Machine \<Rightarrow> 'w \<Rightarrow> (goerror + Machine) \<times> 'w"
  createMachine :: "Machine \<Rightarrow> 'w \<Rightarrow> goerror option \<times> 'w"
  deleteMachine :: "Machine \<Rightarrow> 'w \<Rightarrow> goerror option \<times> 'w"
  createConfig :: "CritConfig \<Rightarrow> 'w \<Rightarrow> (goerror + CritConfig) \<times> 'w"
  cloneTemplate :: "CloneTemplateInput \<Rightarrow> 'w \<Rightarrow> (goerror + ObjectReference) \<times> 'w"
  deleteObject :: "ObjectReference \<Rightarrow> 'w \<Rightarrow> goerror option \<times> 'w"
  generateName :: "string \<Rightarrow> 'w \<Rightarrow> string \<times> 'w"
  getExternal :: "ObjectReference \<Rightarrow> string \<Rightarrow> 'w \<Rightarrow> (goerror + Unstructured) \<times> 'w"
  patchExternal :: "Unstructured \<Rightarrow> Unstructured \<Rightarrow> 'w \<Rightarrow> goerror option \<times> 'w"
  getSecret :: "ObjectKey \<Rightarrow> 'w \<Rightarrow> (goerror + Secret) \<times> 'w"
  createSecret :: "Secret \<Rightarrow> 'w \<Rightarrow> goerror option \<times> 'w"
  updateSecret :: "Secret \<Rightarrow> 'w \<Rightarrow> goerror option \<times> 'w"

record 'w remote =
  getKubeconfig :: "ObjectKey \<Rightarrow> 'w \<Rightarrow> (goerror + string) \<times> 'w"
  createKubeconfig :: "ObjectKey \<Rightarrow> string \<Rightarrow> OwnerReference \<Rightarrow> 'w \<Rightarrow> goerror option \<times> 'w"
  restConfigFromKubeConfig :: "string \<Rightarrow> goerror + RestConfig"
  newClient :: "RestConfig \<Rightarrow> 'w \<Rightarrow> (goerror + string) \<times> 'w"
  listNodes :: "string \<Rightarrow> (string, string) gomap \<Rightarrow> 'w \<Rightarrow> (goerror + Node list) \<times> 'w"
  getPod :: "string \<Rightarrow> ObjectKey \<Rightarrow> 'w \<Rightarrow> (goerror + Pod) \<times> 'w"
  getConfigMap :: "string \<Rightarrow> ObjectKey \<Rightarrow> 'w \<Rightarrow> goerror option \<times> 'w"
  ErrDependentCertificateNotFound :: goerror

text \<open>\<^verbatim>\<open>ctrl.Result\<close>, what a reconciliation asks of the work queue.\<close>

record Result =
  Requeue :: bool
  RequeueAfter :: duration

definition no_requeue :: Result where "no_requeue = \<lparr>Requeue = False, RequeueAfter = 0\<rparr>"
definition requeue :: Result where "requeue = \<lparr>Requeue = True, RequeueAfter = 0\<rparr>"

definition ObjectKey_of :: "ObjectMeta \<Rightarrow> ObjectKey" where
  "ObjectKey_of m = \<lparr>key_Namespace = Namespace m, key_Name = Name m\<rparr>"

text \<open>Which calls change machines, and which calls change anything in the management cluster.\<close>

fun is_machine_write :: "action \<Rightarrow> bool" where
  "is_machine_write (CreateMachine _) = True"
| "is_machine_write (DeleteMachine _) = True"
| "is_machine_write (UpdateMachine _) = True"
| "is_machine_write _ = False"

fun is_delete :: "action \<Rightarrow> bool" where
  "is_delete (DeleteMachine _) = True"
| "is_delete _ = False"

fun is_create :: "action \<Rightarrow> bool" where
  "is_create (CreateMachine _) = True"
| "is_create _ = False"

fun is_read :: "action \<Rightarrow> bool" where
  "is_read (GetCCP _) = True"
| "is_read (GetOwnerCluster _) = True"
| "is_read (ListMachines _ _) = True"
| "is_read (GetExternal _ _) = True"
| "is_read (GetSecret _) = True"
| "is_read (GetKubeconfig _) = True"
| "is_read (NewRemoteClient _) = True"
| "is_read (ListNodes _) = True"
| "is_read (GetPod _ _) = True"
| "is_read (GetConfigMap _ _) = True"
| "is_read (RecordEvent _) = True"
| "is_read (GetConfig _) = True"
| "is_read (GetConfigOwner _) = True"
| "is_read (GetClusterByName _ _) = True"
| "is_read (RemoteGetSecret _ _) = True"
| "is_read _ = False"

definition creates :: "action list \<Rightarrow> Machine list" where
  "creates as = List.map_filter (\<lambda>a. case a of CreateMachine m \<Rightarrow> Some m | _ \<Rightarrow> None) as"

definition deletes :: "action list \<Rightarrow> Machine list" where
  "deletes as = List.map_filter (\<lambda>a. case a of DeleteMachine m \<Rightarrow> Some m | _ \<Rightarrow> None) as"

lemma creates_append [simp]: "creates (as @ bs) = creates as @ creates bs"
  by (simp add: creates_def List.map_filter_def)

lemma deletes_append [simp]: "deletes (as @ bs) = deletes as @ deletes bs"
  by (simp add: deletes_def List.map_filter_def)

lemma creates_Nil [simp]: "creates [] = []" and deletes_Nil [simp]: "deletes [] = []"
  by (simp_all add: creates_def deletes_def List.map_filter_def)

lemma creates_Cons [simp]:
  "creates (a # as) = (case a of CreateMachine m \<Rightarrow> m # creates as | _ \<Rightarrow> creates as)"
  by (simp add: creates_def map_filter_simps split: action.split)

lemma deletes_Cons [simp]:
  "deletes (a # as) = (case a of DeleteMachine m \<Rightarrow> m # deletes as | _ \<Rightarrow> deletes as)"
  by (simp add: deletes_def map_filter_simps split: action.split)

lemma no_creates: "list_all (\<lambda>a. \<not> is_create a) as \<Longrightarrow> creates as = []"
  by (induction as) (auto split: action.split)

lemma no_deletes: "list_all (\<lambda>a. \<not> is_delete a) as \<Longrightarrow> deletes as = []"
  by (induction as) (auto split: action.split)

lemma reads_write_nothing [simp]: "is_read a \<Longrightarrow> \<not> is_machine_write a"
  "is_read a \<Longrightarrow> \<not> is_create a" "is_read a \<Longrightarrow> \<not> is_delete a"
  by (cases a; simp)+

lemma reads_only:
  assumes "emits is_read m" and "run_state m s = (x, s')"
  obtains es where "trace s' = trace s @ es" and "list_all is_read es" and "creates es = []" and "deletes es = []"
proof -
  obtain es where es: "trace s' = trace s @ es" "list_all is_read es"
    using emitsD [OF assms] by blast
  then have "list_all (\<lambda>a. \<not> is_create a) es" "list_all (\<lambda>a. \<not> is_delete a) es"
    by (auto elim!: list.pred_mono_strong)
  with es that no_creates no_deletes show thesis by blast
qed

section \<open>A concrete client\<close>

text \<open>
  The world of the witnesses: the machines of one cluster; every other object is fixed.
\<close>

definition sample_cluster :: Cluster where
  "sample_cluster = \<lparr>cl_meta = sample_meta ''c'', cl_ControlPlaneEndpoint = \<lparr>ep_Host = ''h'', ep_Port = 1\<rparr>,
     cl_ClusterNetwork = None, cl_ControlPlaneRef = None, cl_InfrastructureReady = True,
     cl_ControlPlaneInitialized = True, cl_FailureDomains = sample_domains\<rparr>"

definition sample_spec :: CritConfigSpec where
  "sample_spec = \<lparr>spec_Config = ''x'', spec_Files = [], spec_PreCritCommands = [], spec_PostCritCommands = [],
     spec_Users = [], spec_NTP = None, spec_Format = [], spec_Verbosity = False\<rparr>"

definition sample_ccp :: "int \<Rightarrow> CritControlPlane" where
  "sample_ccp n = \<lparr>ccp_meta = sample_meta ''k'',
     ccp_Spec = \<lparr>ccps_Replicas = n, ccps_Version = ''v'', ccps_InfrastructureTemplate = sample_ref,
       ccps_CritConfigSpec = sample_spec\<rparr>,
     ccp_Status = \<lparr>ccpst_Selector = [], ccpst_Replicas = 0, ccpst_UpdatedReplicas = 0,
       ccpst_ReadyReplicas = 0, ccpst_UnavailableReplicas = 0, ccpst_Initialized = False,
       ccpst_Ready = False, ccpst_FailureReason = [], ccpst_FailureMessage = None\<rparr>\<rparr>"

definition sample_node :: "string \<Rightarrow> Node" where
  "sample_node n = \<lparr>node_meta = sample_meta n, node_Taints = [],
     node_Conditions = [\<lparr>cond_Type = ''Ready'', cond_Status = ''True''\<rparr>]\<rparr>"

definition sample_pod :: "string \<Rightarrow> string \<Rightarrow> Pod" where
  "sample_pod n ready = \<lparr>pod_meta = sample_meta n, pod_Conditions = [\<lparr>cond_Type = ''Ready'', cond_Status = ready\<rparr>]\<rparr>"

definition sample_client :: "Machine list client" where
  "sample_client = \<lparr>
     getCCP = (\<lambda>_ w. (Inr (sample_ccp 1), w)),
     getOwnerCluster = (\<lambda>_ w. (Inr (Some sample_cluster), w)),
     newPatchHelper = (\<lambda>_ w. (None, w)),
     patchCCP = (\<lambda>_ _ w. (None, w)),
     listMachines = (\<lambda>_ _ w. (Inr w, w)),
     updateMachine = (\<lambda>m w. (Inr m, w)),
     createMachine = (\<lambda>m w. (None, w @ [m])),
     deleteMachine = (\<lambda>m w. (None, removeAll m w)),
     createConfig = (\<lambda>c w. (Inr c, w)),
     cloneTemplate = (\<lambda>i w. (Inr (cti_TemplateRef i), w)),
     deleteObject = (\<lambda>_ w. (None, w)),
     generateName = (\<lambda>n w. (n @ decimal (length w), w)),
     getExternal = (\<lambda>r _ w. (Inr \<lparr>u_ref = r, u_meta = sample_meta (ref_Name r)\<rparr>, w)),
     patchExternal = (\<lambda>_ _ w. (None, w)),
     getSecret = (\<lambda>_ w. (Inr \<lparr>s_meta = sample_meta ''s'', s_Type = [],
       s_Data = Some [(''tls.crt'', ''C''), (''tls.key'', ''K'')]\<rparr>, w)),
     createSecret = (\<lambda>_ w. (None, w)),
     updateSecret = (\<lambda>_ w. (None, w)) \<rparr>"

lemma sample_client_sel [simp]:
  "getCCP sample_client = (\<lambda>_ w. (Inr (sample_ccp 1), w))"
  "getOwnerCluster sample_client = (\<lambda>_ w. (Inr (Some sample_cluster), w))"
  "newPatchHelper sample_client = (\<lambda>_ w. (None, w))"
  "patchCCP sample_client = (\<lambda>_ _ w. (None, w))"
  "listMachines sample_client = (\<lambda>_ _ w. (Inr w, w))"
  "updateMachine sample_client = (\<lambda>m w. (Inr m, w))"
  "createMachine sample_client = (\<lambda>m w. (None, w @ [m]))"
  "deleteMachine sample_client = (\<lambda>m w. (None, removeAll m w))"
  "createConfig sample_client = (\<lambda>c w. (Inr c, w))"
  "cloneTemplate sample_client = (\<lambda>i w. (Inr (cti_TemplateRef i), w))"
  "deleteObject sample_client = (\<lambda>_ w. (None, w))"
  "generateName sample_client = (\<lambda>n w. (n @ decimal (length w), w))"
  "getExternal sample_client = (\<lambda>r _ w. (Inr \<lparr>u_ref = r, u_meta = sample_meta (ref_Name r)\<rparr>, w))"
  "patchExternal sample_client = (\<lambda>_ _ w. (None, w))"
  "getSecret sample_client = (\<lambda>_ w. (Inr \<lparr>s_meta = sample_meta ''s'', s_Type = [], s_Data = Some [(''tls.crt'', ''C''), (''tls.key'', ''K'')]\<rparr>, w))"
  "createSecret sample_client = (\<lambda>_ w. (None, w))"
  "updateSecret sample_client = (\<lambda>_ w. (None, w))"
  by (simp_all only: sample_client_def client.simps)

definition sample_remote :: "string list \<Rightarrow> Machine list remote" where
  "sample_remote nodes = \<lparr>
     getKubeconfig = (\<lambda>_ w. (Inr ''kc'', w)),
     createKubeconfig = (\<lambda>_ _ _ w. (None, w)),
     restConfigFromKubeConfig = (\<lambda>k. Inr \<lparr>rc_Config = k, rc_Timeout = 0\<rparr>),
     newClient = (\<lambda>r w. (Inr (rc_Config r), w)),
     listNodes = (\<lambda>_ _ w. (Inr (map sample_node nodes), w)),
     getPod = (\<lambda>_ k w. (Inr (sample_pod (key_Name k) ''True''), w)),
     getConfigMap = (\<lambda>_ _ w. (None, w)),
     ErrDependentCertificateNotFound = ExtError ''DependentCertificateNotFound'' \<rparr>"

lemma sample_remote_sel [simp]:
  "getKubeconfig (sample_remote nodes) = (\<lambda>_ w. (Inr ''kc'', w))"
  "createKubeconfig (sample_remote nodes) = (\<lambda>_ _ _ w. (None, w))"
  "restConfigFromKubeConfig (sample_remote nodes) = (\<lambda>k. Inr \<lparr>rc_Config = k, rc_Timeout = 0\<rparr>)"
  "newClient (sample_remote nodes) = (\<lambda>r w. (Inr (rc_Config r), w))"
  "listNodes (sample_remote nodes) = (\<lambda>_ _ w. (Inr (map sample_node nodes), w))"
  "getPod (sample_remote nodes) = (\<lambda>_ k w. (Inr (sample_pod (key_Name k) ''True''), w))"
  "getConfigMap (sample_remote nodes) = (\<lambda>_ _ w. (None, w))"
  "ErrDependentCertificateNotFound (sample_remote nodes) = ExtError ''DependentCertificateNotFound''"
  by (simp_all only: sample_remote_def remote.simps)

text \<open>A client behind which there is nothing.\<close>

definition blank_client :: "'w client" where
  "blank_client = \<lparr>
     getCCP = (\<lambda>_ w. (Inl (ExtError ''NotFound''), w)),
     getOwnerCluster = (\<lambda>_ w. (Inr None, w)),
     newPatchHelper = (\<lambda>_ w. (None, w)),
     patchCCP = (\<lambda>_ _ w. (None, w)),
     listMachines = (\<lambda>_ _ w. (Inr [], w)),
     updateMachine = (\<lambda>_ w. (Inl (ExtError ''NotFound''), w)),
     createMachine = (\<lambda>_ w. (None, w)),
     deleteMachine = (\<lambda>_ w. (Some (ExtError ''NotFound''), w)),
     createConfig = (\<lambda>c w. (Inr c, w)),
     cloneTemplate = (\<lambda>_ w. (Inl (ExtError ''NotFound''), w)),
     deleteObject = (\<lambda>_ w. (Some (ExtError ''NotFound''), w)),
     generateName = (\<lambda>n w. (n, w)),
     getExternal = (\<lambda>_ _ w. (Inl (ExtError ''NotFound''), w)),
     patchExternal = (\<lambda>_ _ w. (None, w)),
     getSecret = (\<lambda>_ w. (Inl (ExtError ''NotFound''), w)),
     createSecret = (\<lambda>_ w. (None, w)),
     updateSecret = (\<lambda>_ w. (Some (ExtError ''NotFound''), w)) \<rparr>"

end
