(* ===== verification/Control_Plane.thy ===== *)
theory Control_Plane
  imports Failure_Domain Cluster_Client
begin

text \<open>
  \<^verbatim>\<open>src/internal/control_plane.go\<close> and \<^verbatim>\<open>src/internal/cluster_labels.go\<close>: the labels of control
  plane machines, and the business logic of a control plane: which machines are out of date,
  which machine to remove, where to put the next one, whose machines these are.
\<close>

section \<open>Labels\<close>

definition ControlPlaneLabelsForCluster :: "lib \<Rightarrow> string \<Rightarrow> string \<Rightarrow> (string, string) gomap" where
  "ControlPlaneLabelsForCluster L clusterName controlPlaneName =
     gm_put (MachineControlPlaneLabelName L) controlPlaneName
       (gm_put (ClusterLabelName L) clusterName [])"

definition ControlPlaneLabelsForClusterWithHash ::
  "lib \<Rightarrow> string \<Rightarrow> string \<Rightarrow> string \<Rightarrow> (string, string) gomap" where
  "ControlPlaneLabelsForClusterWithHash L clusterName controlPlaneName hash =
     (let labels = ControlPlaneLabelsForCluster L clusterName controlPlaneName
      in gm_put CritControlPlaneHashLabelKey hash labels)"

definition ControlPlaneSelectorForCluster :: "lib \<Rightarrow> string \<Rightarrow> string \<Rightarrow> (string, string) gomap" where
  "ControlPlaneSelectorForCluster L clusterName controlPlaneName =
     ControlPlaneLabelsForCluster L clusterName controlPlaneName"

section \<open>The control plane\<close>

definition NewControlPlane ::
  "Cluster \<Rightarrow> CritControlPlane \<Rightarrow> FilterableMachineCollection \<Rightarrow> ControlPlane" where
  "NewControlPlane cluster ccp ownedMachines =
     \<lparr>cp_CCP = ccp, cp_Cluster = cluster, cp_Machines = ownedMachines\<rparr>"

definition cp_FailureDomains :: "ControlPlane \<Rightarrow> FailureDomains" where
  "cp_FailureDomains c =
     (if cl_FailureDomains (cp_Cluster c) = [] then [] else cl_FailureDomains (cp_Cluster c))"

definition Version :: "ControlPlane \<Rightarrow> string" where
  "Version c = ccps_Version (ccp_Spec (cp_CCP c))"

definition InfrastructureTemplate :: "ControlPlane \<Rightarrow> ObjectReference" where
  "InfrastructureTemplate c = ccps_InfrastructureTemplate (ccp_Spec (cp_CCP c))"

definition SpecHash :: "lib \<Rightarrow> ControlPlane \<Rightarrow> string" where
  "SpecHash L c = Hash L (ccp_Spec (cp_CCP c))"

definition take_ownership :: "lib \<Rightarrow> ObjectMeta \<Rightarrow> Machine \<Rightarrow> Machine" where
  "take_ownership L ccp m = m\<lparr>m_meta := (m_meta m)\<lparr>OwnerReferences :=
     OwnerReferences (m_meta m) @ [NewControllerRef L ccp controlplane_GroupVersion ''CritControlPlane'']\<rparr>\<rparr>"

fun EnsureOwnership_loop ::
  "lib \<Rightarrow> 'w client \<Rightarrow> ObjectMeta \<Rightarrow> FilterableMachineCollection \<Rightarrow> FilterableMachineCollection \<Rightarrow>
   goerror list \<Rightarrow> ('w, action, goerror option \<times> FilterableMachineCollection) io" where
  "EnsureOwnership_loop L C ccp seen [] errs =
     State_Monad.return (if length errs > 0 then NewAggregate L (map Some errs) else None, seen)"
| "EnsureOwnership_loop L C ccp seen ((k, machine) # machines) errs =
     (case GetControllerOf L (m_meta machine) of
        Some controllerRef \<Rightarrow>
          if or_Kind controllerRef \<noteq> ''CritControlPlane'' \<or> or_Name controllerRef \<noteq> Name ccp
          then State_Monad.return (Some (NewError ''Machine is already owned by another controller''),
                 seen @ (k, machine) # machines)
          else EnsureOwnership_loop L C ccp (seen @ [(k, machine)]) machines errs
      | None \<Rightarrow>
          let owned = take_ownership L ccp machine
          in do {
            r \<leftarrow> call (UpdateMachine owned) (updateMachine C owned);
            (case r of
               Inl err \<Rightarrow> EnsureOwnership_loop L C ccp (seen @ [(k, owned)]) machines (errs @ [err])
             | Inr updated \<Rightarrow> EnsureOwnership_loop L C ccp (seen @ [(k, updated)]) machines errs)
          })"

definition EnsureOwnership ::
  "lib \<Rightarrow> 'w client \<Rightarrow> ControlPlane \<Rightarrow> ('w, action, goerror option \<times> ControlPlane) io" where
  "EnsureOwnership L C c = do {
     (err, machines) \<leftarrow> EnsureOwnership_loop L C (ccp_meta (cp_CCP c)) [] (cp_Machines c) [];
     State_Monad.return (err, c\<lparr>cp_Machines := machines\<rparr>) }"

definition AsOwnerReference :: "lib \<Rightarrow> ControlPlane \<Rightarrow> OwnerReference" where
  "AsOwnerReference L c = \<lparr>
     or_APIVersion = GroupVersion_String L controlplane_GroupVersion,
     or_Kind = ''CritControlPlane'',
     or_Name = Name (ccp_meta (cp_CCP c)),
     or_UID = UID (ccp_meta (cp_CCP c)),
     or_Controller = None\<rparr>"

definition MachinesNeedingUpgrade :: "lib \<Rightarrow> ControlPlane \<Rightarrow> FilterableMachineCollection" where
  "MachinesNeedingUpgrade L c =
     Filter (cp_Machines c) [Not (MatchesConfigurationHash (SpecHash L c))]"

definition FailureDomainWithMostMachines ::
  "lib \<Rightarrow> ControlPlane \<Rightarrow> FilterableMachineCollection \<Rightarrow> string option" where
  "FailureDomainWithMostMachines L c machines =
     (let notInFailureDomains = Filter machines
            [Not (InFailureDomains (GetIDs L (FilterControlPlane L (cp_FailureDomains c))))]
      in if length notInFailureDomains > 0
         then (case Oldest L notInFailureDomains of
                 Some oldest \<Rightarrow> m_FailureDomain oldest
               | None \<Rightarrow> None)
         else PickMost L c machines)"

definition MachineInFailureDomainWithMostMachines ::
  "lib \<Rightarrow> ControlPlane \<Rightarrow> FilterableMachineCollection \<Rightarrow> goerror + Machine" where
  "MachineInFailureDomainWithMostMachines L c machines =
     (let fd = FailureDomainWithMostMachines L c machines;
          machinesInFailureDomain = Filter machines [InFailureDomains [fd]]
      in case Oldest L machinesInFailureDomain of
           None \<Rightarrow> Inl (NewError ''failed to pick control plane Machine to mark for deletion'')
         | Some machineToMark \<Rightarrow> Inr machineToMark)"

definition FailureDomainWithFewestMachines :: "lib \<Rightarrow> ControlPlane \<Rightarrow> string option" where
  "FailureDomainWithFewestMachines L c =
     (if length (FilterControlPlane L (cl_FailureDomains (cp_Cluster c))) = 0 then None
      else PickFewest (FilterControlPlane L (cp_FailureDomains c)) (cp_Machines c))"

definition NFailureDomainsWithFewestMachines ::
  "lib \<Rightarrow> ControlPlane \<Rightarrow> int \<Rightarrow> goerror + string option list" where
  "NFailureDomainsWithFewestMachines L c replicas =
     PickNFewest (FilterControlPlane L (cp_FailureDomains c)) (cp_Machines c) replicas"

definition new_meta :: "string \<Rightarrow> string \<Rightarrow> (string, string) gomap \<Rightarrow> OwnerReference list \<Rightarrow> ObjectMeta" where
  "new_meta name namespace labels owners = \<lparr>Name = name, Namespace = namespace, UID = [],
     Labels = labels, Annotations = None, OwnerReferences = owners, Finalizers = [],
     CreationTimestamp = 0, DeletionTimestamp = None\<rparr>"

definition GenerateCritConfig ::
  "lib \<Rightarrow> 'w client \<Rightarrow> ControlPlane \<Rightarrow> CritConfigSpec \<Rightarrow> ('w, action, CritConfig) io" where
  "GenerateCritConfig L C c spec = do {
     name \<leftarrow> extern (generateName C (Name (ccp_meta (cp_CCP c)) @ ''-''));
     State_Monad.return \<lparr>
       cfg_meta = new_meta name (Namespace (ccp_meta (cp_CCP c)))
         (ControlPlaneLabelsForClusterWithHash L (Name (cl_meta (cp_Cluster c)))
            (Name (ccp_meta (cp_CCP c))) (SpecHash L c))
         [\<lparr>or_APIVersion = GroupVersion_String L controlplane_GroupVersion,
           or_Kind = ''CritControlPlane'', or_Name = Name (ccp_meta (cp_CCP c)),
           or_UID = UID (ccp_meta (cp_CCP c)), or_Controller = None\<rparr>],
       cfg_Spec = spec,
       cfg_Status = \<lparr>cfgst_Ready = False, cfgst_DataSecretName = None,
         cfgst_FailureReason = [], cfgst_FailureMessage = []\<rparr>\<rparr> }"

definition NewMachine ::
  "lib \<Rightarrow> 'w client \<Rightarrow> ControlPlane \<Rightarrow> ObjectReference \<Rightarrow> ObjectReference option \<Rightarrow> string option \<Rightarrow>
   ('w, action, Machine) io" where
  "NewMachine L C c infraRef bootstrapRef failureDomain = do {
     name \<leftarrow> extern (generateName C (Name (ccp_meta (cp_CCP c)) @ ''-''));
     State_Monad.return \<lparr>
       m_meta = new_meta name (Namespace (ccp_meta (cp_CCP c)))
         (ControlPlaneLabelsForClusterWithHash L (Name (cl_meta (cp_Cluster c)))
            (Name (ccp_meta (cp_CCP c))) (SpecHash L c))
         [NewControllerRef L (ccp_meta (cp_CCP c)) controlplane_GroupVersion ''CritControlPlane''],
       m_ClusterName = Name (cl_meta (cp_Cluster c)),
       m_Version = Some (Version c),
       m_InfrastructureRef = infraRef,
       m_ConfigRef = bootstrapRef,
       m_FailureDomain = failureDomain,
       m_NodeRef = None\<rparr> }"

definition HasDeletingMachine :: "lib \<Rightarrow> ControlPlane \<Rightarrow> bool" where
  "HasDeletingMachine L c \<longleftrightarrow> length (Filter (cp_Machines c) [HasDeletionTimestamp L]) > 0"

section \<open>Labels: what a label set says\<close>

lemma labels_with_hash:
  assumes "label_keys L"
  shows "map_of (ControlPlaneLabelsForClusterWithHash L cn cpn h) (ClusterLabelName L) = Some cn"
    and "map_of (ControlPlaneLabelsForClusterWithHash L cn cpn h) (MachineControlPlaneLabelName L) = Some cpn"
    and "map_of (ControlPlaneLabelsForClusterWithHash L cn cpn h) CritControlPlaneHashLabelKey = Some h"
  using assms
  by (auto simp: label_keys_def ControlPlaneLabelsForClusterWithHash_def ControlPlaneLabelsForCluster_def)

lemma labels_wf: "gm_wf (ControlPlaneLabelsForClusterWithHash L cn cpn h)"
  unfolding ControlPlaneLabelsForClusterWithHash_def ControlPlaneLabelsForCluster_def Let_def
  by (intro gm_wf_put gm_wf_Nil)

section \<open>Out-of-date machines\<close>

lemma cp_FailureDomains_eq [simp]: "cp_FailureDomains c = cl_FailureDomains (cp_Cluster c)"
  by (simp add: cp_FailureDomains_def)

lemma members_MachinesNeedingUpgrade:
  "coll_wf (cp_Machines c) \<Longrightarrow> members (MachinesNeedingUpgrade L c) =
     {m \<in> members (cp_Machines c).
        map_of (Labels (m_meta m)) CritControlPlaneHashLabelKey \<noteq> Some (SpecHash L c)}"
  by (auto simp: MachinesNeedingUpgrade_def members_Filter filter_simps)

lemma MachinesNeedingUpgrade_wf [intro]:
  "coll_wf (cp_Machines c) \<Longrightarrow> coll_wf (MachinesNeedingUpgrade L c)"
  by (auto simp: MachinesNeedingUpgrade_def)

lemma Filter_Nil_iff: "coll_wf s \<Longrightarrow> Filter s fs = [] \<longleftrightarrow> (\<forall>m \<in> members s. \<not> And fs (Some m))"
  using fmc.count_select_0 [of s fs] by (simp add: Len_def)

lemma HasDeletingMachine_iff:
  "coll_wf (cp_Machines c) \<Longrightarrow>
   HasDeletingMachine L c \<longleftrightarrow> (\<exists>m \<in> members (cp_Machines c). \<not> IsZero L (DeletionTimestamp (m_meta m)))"
  using Filter_Nil_iff [of "cp_Machines c" "[HasDeletionTimestamp L]"]
  by (auto simp: HasDeletingMachine_def filter_simps)

section \<open>The machine to remove\<close>

text \<open>A machine lies outside the current domains when its domain, nil included, is not one of them.\<close>

definition outside_domains :: "lib \<Rightarrow> ControlPlane \<Rightarrow> Machine \<Rightarrow> bool" where
  "outside_domains L c m \<longleftrightarrow>
     m_FailureDomain m \<notin> Some ` domain_ids (FilterControlPlane L (cl_FailureDomains (cp_Cluster c)))"

lemma outside_domains_filter:
  "domain_filter L \<Longrightarrow>
   InFailureDomains (GetIDs L (FilterControlPlane L (cl_FailureDomains (cp_Cluster c)))) (Some m)
     \<longleftrightarrow> \<not> outside_domains L c m"
  unfolding outside_domains_def domain_ids_def domain_filter_def image_comp
  by (metis in_domains.accepts_Some)

lemma FailureDomainWithMostMachines_cases:
  assumes "domain_filter L" and "coll_wf ms" and "ms \<noteq> []"
    and "gm_wf (cl_FailureDomains (cp_Cluster c))"
  obtains (outside) m where "m \<in> members ms" and "outside_domains L c m"
      and "FailureDomainWithMostMachines L c ms = m_FailureDomain m"
  | (inside) d where "\<forall>m \<in> members ms. \<not> outside_domains L c m"
      and "FailureDomainWithMostMachines L c ms = Some d" and "PickMost L c ms = Some d"
proof (cases "\<exists>m \<in> members ms. outside_domains L c m")
  case True
  let ?out = "Filter ms [Not (InFailureDomains
    (GetIDs L (FilterControlPlane L (cl_FailureDomains (cp_Cluster c)))))]"
  have ne: "?out \<noteq> []"
    using True assms(1,2) by (auto simp: Filter_Nil_iff outside_domains_filter)
  then obtain m where m: "Oldest L ?out = Some m"
    by (metis Oldest_eq_None not_None_eq)
  then have "m \<in> members ?out" by (rule Oldest_in)
  then have "m \<in> members ms" "outside_domains L c m"
    using assms(1,2) by (auto simp: members_Filter outside_domains_filter)
  moreover have "FailureDomainWithMostMachines L c ms = m_FailureDomain m"
    using m ne by (simp add: FailureDomainWithMostMachines_def Let_def)
  ultimately show thesis by (rule outside)
next
  case False
  then have none: "Filter ms [Not (InFailureDomains
      (GetIDs L (FilterControlPlane L (cl_FailureDomains (cp_Cluster c)))))] = []"
    using assms(1,2) by (auto simp: Filter_Nil_iff outside_domains_filter)
  have wf: "gm_wf (FilterControlPlane L (cl_FailureDomains (cp_Cluster c)))"
    using assms(1,4) by (simp add: domain_filter_def)
  obtain m where m: "m \<in> members ms" using assms(3) by (cases ms) auto
  with False obtain d where "d \<in> domain_ids (FilterControlPlane L (cl_FailureDomains (cp_Cluster c)))"
    "m_FailureDomain m = Some d"
    unfolding outside_domains_def by blast
  with m have "PickMost L c ms \<noteq> None"
    by (metis PickMost_None [OF wf])
  with none False inside show thesis
    by (auto simp: FailureDomainWithMostMachines_def Oldest_def)
qed

lemma MachineInFailureDomain_oldest:
  assumes "machine_order L" and "coll_wf ms"
    and "MachineInFailureDomainWithMostMachines L c ms = Inr m"
  shows "m \<in> members ms" and "m_FailureDomain m = FailureDomainWithMostMachines L c ms"
    and "m' \<in> members ms \<Longrightarrow> m_FailureDomain m' = m_FailureDomain m \<Longrightarrow>
      CreationTimestamp (m_meta m) \<le> CreationTimestamp (m_meta m')"
proof -
  let ?in = "Filter ms [InFailureDomains [FailureDomainWithMostMachines L c ms]]"
  have o: "Oldest L ?in = Some m"
    using assms(3) by (auto simp: MachineInFailureDomainWithMostMachines_def Let_def split: option.splits)
  have mem: "members ?in = {m \<in> members ms. m_FailureDomain m = FailureDomainWithMostMachines L c ms}"
    using assms(2) by (auto simp: members_Filter filter_simps)
  show "m \<in> members ms" and fd: "m_FailureDomain m = FailureDomainWithMostMachines L c ms"
    using Oldest_in [OF o] mem by auto
  show "CreationTimestamp (m_meta m) \<le> CreationTimestamp (m_meta m')"
    if "m' \<in> members ms" "m_FailureDomain m' = m_FailureDomain m"
    using Oldest_least [OF assms(1) o] that mem fd by auto
qed

lemma MachineInFailureDomain_total:
  assumes "domain_filter L" and "coll_wf ms" and "ms \<noteq> []"
    and "gm_wf (cl_FailureDomains (cp_Cluster c))"
  shows "\<exists>m. MachineInFailureDomainWithMostMachines L c ms = Inr m"
proof -
  have "gm_wf (FilterControlPlane L (cl_FailureDomains (cp_Cluster c)))"
    using assms(1,4) by (simp add: domain_filter_def)
  then have "\<exists>m \<in> members ms. m_FailureDomain m = FailureDomainWithMostMachines L c ms"
    using FailureDomainWithMostMachines_cases [OF assms] PickMost_Some(2) by metis
  then have "Filter ms [InFailureDomains [FailureDomainWithMostMachines L c ms]] \<noteq> []"
    using assms(2) by (auto simp: Filter_Nil_iff filter_simps)
  then show ?thesis
    by (auto simp: MachineInFailureDomainWithMostMachines_def Let_def split: option.split)
qed

section \<open>Ownership\<close>

text \<open>The API server returns the object it stored: an update keeps the owner references sent.\<close>

definition update_echoes :: "'w client \<Rightarrow> bool" where
  "update_echoes C \<longleftrightarrow> (\<forall>m w m' w'. updateMachine C m w = (Inr m', w') \<longrightarrow>
     OwnerReferences (m_meta m') = OwnerReferences (m_meta m))"

definition controlled_by :: "lib \<Rightarrow> ObjectMeta \<Rightarrow> Machine \<Rightarrow> bool" where
  "controlled_by L ccp m \<longleftrightarrow> (\<exists>r. GetControllerOf L (m_meta m) = Some r \<and>
     or_Kind r = ''CritControlPlane'' \<and> or_Name r = Name ccp)"

lemma GetControllerOf_find:
  "controller_refs L \<Longrightarrow>
   GetControllerOf L m = List.find (\<lambda>r. or_Controller r = Some True) (OwnerReferences m)"
  by (simp add: controller_refs_def)

lemma NewControllerRef_fields:
  assumes "controller_refs L"
  shows "or_Controller (NewControllerRef L m gv k) = Some True"
    and "or_Kind (NewControllerRef L m gv k) = k" and "or_Name (NewControllerRef L m gv k) = Name m"
  using assms unfolding controller_refs_def by blast+

lemma take_ownership_controlled:
  assumes "controller_refs L" and "GetControllerOf L (m_meta m) = None"
    and "OwnerReferences (m_meta m') = OwnerReferences (m_meta (take_ownership L ccp m))"
  shows "controlled_by L ccp m'"
proof -
  let ?r = "NewControllerRef L ccp controlplane_GroupVersion ''CritControlPlane''"
  have "List.find (\<lambda>r. or_Controller r = Some True) (rs @ [?r]) = Some ?r"
    if "List.find (\<lambda>r. or_Controller r = Some True) rs = None" for rs
    using that NewControllerRef_fields(1) [OF assms(1)] by (induction rs) (auto split: if_splits)
  with assms NewControllerRef_fields [OF assms(1)] show ?thesis
    by (auto simp: GetControllerOf_find controlled_by_def take_ownership_def)
qed

lemma EnsureOwnership_loop_updates:
  "emits (\<lambda>a. \<exists>m \<in> members ms. GetControllerOf L (m_meta m) = None \<and> a = UpdateMachine (take_ownership L ccp m))
     (EnsureOwnership_loop L C ccp seen ms errs)"
proof (induction L C ccp seen ms errs rule: EnsureOwnership_loop.induct)
  case (1 L C ccp seen errs)
  then show ?case by (simp add: emits_intros)
next
  case (2 L C ccp seen k m ms errs)
  note weaken = emits_weaken [where P = "\<lambda>a. \<exists>m \<in> members ms.
    GetControllerOf L (m_meta m) = None \<and> a = UpdateMachine (take_ownership L ccp m)"]
  show ?case
    by (auto simp: Let_def intro!: emits_intros split: option.split)
      (rule weaken; use 2 in auto)+
qed

lemma EnsureOwnership_loop_complete:
  assumes "controller_refs L" and "aggregates L" and "update_echoes C"
    and "run_state (EnsureOwnership_loop L C ccp seen ms errs) s = ((None, ms'), s')"
    and "\<forall>m \<in> members seen. errs = [] \<longrightarrow> controlled_by L ccp m"
  shows "\<forall>m \<in> members ms'. controlled_by L ccp m"
  using assms
proof (induction L C ccp seen ms errs arbitrary: s rule: EnsureOwnership_loop.induct)
  case (1 L C ccp seen errs)
  then have "errs = []"
    by (auto simp: aggregates_def split: if_splits)
  with 1 show ?case by auto
next
  case (2 L C ccp seen k m ms errs)
  show ?case
  proof (cases "GetControllerOf L (m_meta m)")
    case None
    obtain r w where u: "updateMachine C (take_ownership L ccp m) (world s) = (r, w)" by fastforce
    show ?thesis
    proof (cases r)
      case (Inl e)
      with 2(1) [OF None refl] 2(4-) None u show ?thesis
        by (simp add: run_simps Let_def)
    next
      case (Inr m')
      with u \<open>update_echoes C\<close> have
        "OwnerReferences (m_meta m') = OwnerReferences (m_meta (take_ownership L ccp m))"
        by (auto simp: update_echoes_def)
      with take_ownership_controlled [OF \<open>controller_refs L\<close> None] have "controlled_by L ccp m'" .
      with 2(2) [OF None refl] 2(4-) None u Inr show ?thesis
        by (simp add: run_simps Let_def)
    qed
  next
    case (Some r)
    with 2(3) [OF Some] 2(4-) show ?thesis
      by (auto simp: controlled_by_def split: if_splits)
  qed
qed

section \<open>Properties\<close>

text \<open>
  C30: with at least one machine to choose from, the choice of the machine to remove succeeds.
  It is one of the given machines, no older machine shares its failure domain, and its domain is
  right: outside the current domains if any of the machines is, otherwise one with the most
  control plane machines among the domains the given machines are in.
\<close>

theorem machine_to_remove:
  assumes "domain_filter L" and "machine_order L" and "coll_wf ms" and "ms \<noteq> []"
    and "gm_wf (cl_FailureDomains (cp_Cluster c))"
  shows "\<exists>m \<in> members ms. MachineInFailureDomainWithMostMachines L c ms = Inr m \<and>
    (\<forall>m' \<in> members ms. m_FailureDomain m' = m_FailureDomain m \<longrightarrow>
       CreationTimestamp (m_meta m) \<le> CreationTimestamp (m_meta m')) \<and>
    (if \<exists>m' \<in> members ms. outside_domains L c m' then outside_domains L c m
     else \<forall>m' \<in> members ms. machines_in (the (m_FailureDomain m')) (cp_Machines c)
       \<le> machines_in (the (m_FailureDomain m)) (cp_Machines c))"
proof -
  obtain m where m: "MachineInFailureDomainWithMostMachines L c ms = Inr m"
    using MachineInFailureDomain_total [OF assms(1,3,4,5)] by blast
  note old = MachineInFailureDomain_oldest [OF assms(2,3) m]
  have wf: "gm_wf (FilterControlPlane L (cl_FailureDomains (cp_Cluster c)))"
    using assms(1,5) by (simp add: domain_filter_def)
  have "if \<exists>m' \<in> members ms. outside_domains L c m' then outside_domains L c m
     else \<forall>m' \<in> members ms. machines_in (the (m_FailureDomain m')) (cp_Machines c)
       \<le> machines_in (the (m_FailureDomain m)) (cp_Machines c)"
  proof -
    consider (outside) m' where "m' \<in> members ms" "outside_domains L c m'"
        "FailureDomainWithMostMachines L c ms = m_FailureDomain m'"
      | (inside) d where "\<forall>m \<in> members ms. \<not> outside_domains L c m"
        "FailureDomainWithMostMachines L c ms = Some d" "PickMost L c ms = Some d"
      using FailureDomainWithMostMachines_cases [OF assms(1,3,4,5)] by blast
    then show ?thesis
    proof cases
    case (outside m')
    with old(2) have "outside_domains L c m" by (simp add: outside_domains_def)
    with outside show ?thesis by auto
  next
    case (inside d)
    have "machines_in (the (m_FailureDomain m')) (cp_Machines c) \<le> machines_in d (cp_Machines c)"
      if "m' \<in> members ms" for m'
      using PickMost_Some(3) [OF wf inside(3)] inside(1) that
      by (force simp: outside_domains_def)
    with inside old(2) show ?thesis by simp
    qed
  qed
  with m old show ?thesis by blast
qed

theorem machine_to_remove_witness:
  "\<exists>m \<in> members [(''m'', sample_machine ''m'' None 1)].
     MachineInFailureDomainWithMostMachines sample_lib
       (NewControlPlane sample_cluster (sample_ccp 1) []) [(''m'', sample_machine ''m'' None 1)] = Inr m"
  using machine_to_remove [OF sample_domain_filter sample_machine_order,
      of "[(''m'', sample_machine ''m'' None 1)]" "NewControlPlane sample_cluster (sample_ccp 1) []"]
  by (auto simp: coll_wf_def gm_wf_def sample_defs NewControlPlane_def sample_cluster_def)

text \<open>
  \<^verbatim>\<open>EnsureOwnership\<close> never takes a machine from another controller: every update it sends is
  for a machine of the control plane that had no controller, with the one new reference added.
\<close>

theorem ownership_never_stolen:
  "emits (\<lambda>a. \<exists>m \<in> members (cp_Machines c). GetControllerOf L (m_meta m) = None \<and>
       a = UpdateMachine (take_ownership L (ccp_meta (cp_CCP c)) m))
     (EnsureOwnership L C c)"
  unfolding EnsureOwnership_def
  by (intro emits_intros emits_case_prod EnsureOwnership_loop_updates)

text \<open>
  when \<^verbatim>\<open>EnsureOwnership\<close> returns no error, every machine of the control plane is controlled
  by this \<^verbatim>\<open>CritControlPlane\<close>.
\<close>

theorem ownership_complete:
  assumes "controller_refs L" and "aggregates L" and "update_echoes C"
    and "run_state (EnsureOwnership L C c) s = ((None, c'), s')"
  shows "\<forall>m \<in> members (cp_Machines c'). controlled_by L (ccp_meta (cp_CCP c)) m"
proof -
  obtain err ms s1 where run: "run_state (EnsureOwnership_loop L C (ccp_meta (cp_CCP c)) [] (cp_Machines c) []) s = ((err, ms), s1)"
    by (metis prod.exhaust)
  with assms(4) have "err = None" "cp_Machines c' = ms"
    by (auto simp: EnsureOwnership_def)
  with EnsureOwnership_loop_complete [OF assms(1-3)] run show ?thesis by simp
qed

theorem ownership_complete_witness:
  "\<exists>c' s'. run_state (EnsureOwnership sample_lib sample_client
       (NewControlPlane sample_cluster (sample_ccp 1) [(''m'', sample_machine ''m'' None 1)]))
       \<lparr>world = [], trace = []\<rparr> = ((None, c'), s') \<and>
     controlled_by sample_lib (sample_meta ''k'') (snd (hd (cp_Machines c')))"
proof -
  let ?c = "NewControlPlane sample_cluster (sample_ccp 1) [(''m'', sample_machine ''m'' None 1)]"
  have up: "update_echoes sample_client" by (auto simp: update_echoes_def)
  have "\<exists>c' s'. run_state (EnsureOwnership sample_lib sample_client ?c) \<lparr>world = [], trace = []\<rparr>
      = ((None, c'), s') \<and> cp_Machines c' \<noteq> []"
    by (simp add: EnsureOwnership_def NewControlPlane_def run_simps Let_def sample_defs)
  then obtain c' s' where run: "run_state (EnsureOwnership sample_lib sample_client ?c)
      \<lparr>world = [], trace = []\<rparr> = ((None, c'), s')" and ne: "cp_Machines c' \<noteq> []" by blast
  have "\<forall>m \<in> members (cp_Machines c'). controlled_by sample_lib (ccp_meta (cp_CCP ?c)) m"
    by (rule ownership_complete [OF sample_controller_refs sample_aggregates up run])
  then have "controlled_by sample_lib (sample_meta ''k'') (snd (hd (cp_Machines c')))"
    using ne by (simp add: NewControlPlane_def sample_ccp_def)
  with run show ?thesis by blast
qed

end
