(* ===== verification/Certificates.thy ===== *)
theory Certificates
  imports Cluster_Client
begin

text \<open>
  \<^verbatim>\<open>src/internal/secret/\<close>: the certificates a cluster is bootstrapped with, kept as secrets of
  the management cluster. Keys, certificates and their encodings come from \<^verbatim>\<open>crypto/x509\<close> and the
  Cluster API \<^verbatim>\<open>certs\<close> package; they are the parameters \<open>crypto\<close>, on opaque byte strings. The
  code passes a slice of pointers and fills the key pairs in place; the model returns the
  filled list with the error. Dereferencing a nil key pair is a panic.
\<close>

section \<open>Names and purposes\<close>

definition KubeconfigDataName :: string where "KubeconfigDataName = ''value''"
definition TLSKeyDataName :: string where "TLSKeyDataName = ''tls.key''"
definition TLSCrtDataName :: string where "TLSCrtDataName = ''tls.crt''"
definition Kubeconfig :: string where "Kubeconfig = ''kubeconfig''"
definition ClusterCA :: string where "ClusterCA = ''ca''"
definition EtcdCA :: string where "EtcdCA = ''etcd''"
definition ServiceAccount :: string where "ServiceAccount = ''sa''"
definition FrontProxyCA :: string where "FrontProxyCA = ''proxy''"
definition AuthProxyCA :: string where "AuthProxyCA = ''auth-proxy''"
definition APIServerEtcdClient :: string where "APIServerEtcdClient = ''apiserver-etcd-client''"

lemmas purpose_defs = ClusterCA_def EtcdCA_def ServiceAccount_def FrontProxyCA_def AuthProxyCA_def
  APIServerEtcdClient_def Kubeconfig_def

definition secret_Name :: "string \<Rightarrow> string \<Rightarrow> string" where
  "secret_Name cluster suffix = cluster @ ''-'' @ suffix"

definition secret_key :: "ObjectKey \<Rightarrow> string \<Rightarrow> ObjectKey" where
  "secret_key clusterName purpose =
     \<lparr>key_Namespace = key_Namespace clusterName, key_Name = secret_Name (key_Name clusterName) purpose\<rparr>"

definition GetFromNamespacedName ::
  "'w client \<Rightarrow> ObjectKey \<Rightarrow> string \<Rightarrow> ('w, action, goerror + Secret) io" where
  "GetFromNamespacedName C clusterName purpose =
     (let secretKey = secret_key clusterName purpose
      in call (GetSecret secretKey) (getSecret C secretKey))"

definition secret_Get :: "'w client \<Rightarrow> ObjectKey \<Rightarrow> string \<Rightarrow> ('w, action, goerror + Secret) io" where
  "secret_Get C cluster purpose = GetFromNamespacedName C cluster purpose"

section \<open>Key pairs and the x509 package\<close>

record KeyPair =
  kp_Cert :: string
  kp_Key :: string

datatype KeyUsage = KeyUsageKeyEncipherment | KeyUsageDigitalSignature | KeyUsageCertSign
datatype ExtKeyUsage = ExtKeyUsageClientAuth

record x509_template =
  SerialNumber :: int
  CommonName :: string
  Organization :: "string list"
  NotBefore :: time
  NotAfter :: time
  KeyUsages :: "KeyUsage list"
  ExtKeyUsages :: "ExtKeyUsage list"
  MaxPathLenZero :: bool
  BasicConstraintsValid :: bool
  MaxPathLen :: int
  IsCA :: bool

datatype x509_parent = ParentTemplate x509_template | ParentCert string

record 'w crypto =
  NewPrivateKey :: "'w \<Rightarrow> (goerror + string) \<times> 'w"
  time_Now :: "'w \<Rightarrow> time \<times> 'w"
  CreateCertificate :: "x509_template \<Rightarrow> x509_parent \<Rightarrow> string \<Rightarrow> string \<Rightarrow> 'w \<Rightarrow> (goerror + string) \<times> 'w"
  Public :: "string \<Rightarrow> string"
  ParseCertificate :: "string \<Rightarrow> goerror + string"
  DecodeCertPEM :: "string \<Rightarrow> goerror + string"
  DecodePrivateKeyPEM :: "string \<Rightarrow> goerror + string"
  EncodeCertPEM :: "string \<Rightarrow> string"
  EncodePrivateKeyPEM :: "string \<Rightarrow> string"
  EncodePublicKeyPEM :: "string \<Rightarrow> goerror + string"
  X509KeyPair :: "string \<Rightarrow> string \<Rightarrow> goerror + string"
  ParseCertsPEM :: "string \<Rightarrow> goerror + string list"
  spki_sha256 :: "string \<Rightarrow> string"  \<comment> \<open>the bytes of the sum of the public key info\<close>

definition minute :: int where "minute = 60000000000"
definition hour :: int where "hour = 3600000000000"

definition newSelfSignedCACert :: "'w crypto \<Rightarrow> string \<Rightarrow> ('w, action, goerror + string) io" where
  "newSelfSignedCACert K key = do {
     now \<leftarrow> extern (time_Now K);
     let tmpl = \<lparr>SerialNumber = 0, CommonName = ''kubernetes'', Organization = [],
       NotBefore = now + minute * (-5), NotAfter = now + hour * 24 * 365 * 10,
       KeyUsages = [KeyUsageKeyEncipherment, KeyUsageDigitalSignature, KeyUsageCertSign],
       ExtKeyUsages = [], MaxPathLenZero = True, BasicConstraintsValid = True, MaxPathLen = 0,
       IsCA = True\<rparr>;
     b \<leftarrow> extern (CreateCertificate K tmpl (ParentTemplate tmpl) (Public K key) key);
     State_Monad.return (case b of
       Inl err \<Rightarrow> Inl (WrapError ''failed to create self signed CA certificate'' err)
     | Inr der \<Rightarrow> ParseCertificate K der) }"

definition newCertificateAuthority :: "'w crypto \<Rightarrow> ('w, action, goerror + string \<times> string) io" where
  "newCertificateAuthority K = do {
     r \<leftarrow> extern (NewPrivateKey K);
     case r of
       Inl err \<Rightarrow> State_Monad.return (Inl err)
     | Inr key \<Rightarrow> do {
         c \<leftarrow> newSelfSignedCACert K key;
         State_Monad.return (case c of Inl err \<Rightarrow> Inl err | Inr cert \<Rightarrow> Inr (cert, key)) } }"

definition generateCACert :: "'w crypto \<Rightarrow> ('w, action, goerror + KeyPair) io" where
  "generateCACert K = do {
     r \<leftarrow> newCertificateAuthority K;
     State_Monad.return (case r of
       Inl err \<Rightarrow> Inl err
     | Inr (x509Cert, privKey) \<Rightarrow>
         Inr \<lparr>kp_Cert = EncodeCertPEM K x509Cert, kp_Key = EncodePrivateKeyPEM K privKey\<rparr>) }"

definition generateServiceAccountKeys :: "'w crypto \<Rightarrow> ('w, action, goerror + KeyPair) io" where
  "generateServiceAccountKeys K = do {
     r \<leftarrow> extern (NewPrivateKey K);
     State_Monad.return (case r of
       Inl err \<Rightarrow> Inl err
     | Inr saCreds \<Rightarrow>
         (case EncodePublicKeyPEM K (Public K saCreds) of
            Inl err \<Rightarrow> Inl err
          | Inr saPub \<Rightarrow> Inr \<lparr>kp_Cert = saPub, kp_Key = EncodePrivateKeyPEM K saCreds\<rparr>)) }"

section \<open>Certificates\<close>

record Certificate =
  cert_Generated :: bool
  cert_Purpose :: string
  cert_KeyPair :: "KeyPair option"
  cert_CertFile :: string
  cert_KeyFile :: string

type_synonym Certificates = "Certificate list"

definition new_cert :: "string \<Rightarrow> string \<Rightarrow> string \<Rightarrow> Certificate" where
  "new_cert purpose certFile keyFile = \<lparr>cert_Generated = False, cert_Purpose = purpose,
     cert_KeyPair = None, cert_CertFile = certFile, cert_KeyFile = keyFile\<rparr>"

definition NewCertificatesForControlPlane :: "string \<Rightarrow> Certificates" where
  "NewCertificatesForControlPlane dir = [
     new_cert ClusterCA (path_Join [dir, ''ca.crt'']) (path_Join [dir, ''ca.key'']),
     new_cert ServiceAccount (path_Join [dir, ''sa.pub'']) (path_Join [dir, ''sa.key'']),
     new_cert FrontProxyCA (path_Join [dir, ''front-proxy-ca.crt'']) (path_Join [dir, ''front-proxy-ca.key'']),
     new_cert AuthProxyCA (path_Join [dir, ''auth-proxy-ca.crt'']) (path_Join [dir, ''auth-proxy-ca.key'']),
     new_cert EtcdCA (path_Join [dir, ''etcd'', ''ca.crt'']) (path_Join [dir, ''etcd'', ''ca.key''])]"

definition NewCertificatesForWorker :: "string \<Rightarrow> Certificates" where
  "NewCertificatesForWorker dir = [new_cert ClusterCA (path_Join [dir, ''ca.crt'']) []]"

fun GetByPurpose :: "Certificates \<Rightarrow> string \<Rightarrow> Certificate option" where
  "GetByPurpose [] purpose = None"
| "GetByPurpose (certificate # c) purpose =
     (if cert_Purpose certificate = purpose then Some certificate else GetByPurpose c purpose)"

definition secretToKeyPair :: "Secret \<Rightarrow> goerror + KeyPair" where
  "secretToKeyPair s =
     (let data = (case s_Data s of None \<Rightarrow> [] | Some d \<Rightarrow> d)
      in case map_of data TLSCrtDataName of
           None \<Rightarrow> Inl (NewError ''missing data for key tls.crt'')
         | Some c \<Rightarrow>
             let key = (case map_of data TLSKeyDataName of None \<Rightarrow> [] | Some k \<Rightarrow> k)
             in Inr \<lparr>kp_Cert = c, kp_Key = key\<rparr>)"

fun Lookup :: "lib \<Rightarrow> 'w client \<Rightarrow> ObjectKey \<Rightarrow> Certificates \<Rightarrow> ('w, action, goerror option \<times> Certificates) io" where
  "Lookup L C clusterName [] = State_Monad.return (None, [])"
| "Lookup L C clusterName (certificate # c) = do {
     let key = secret_key clusterName (cert_Purpose certificate);
     r \<leftarrow> call (GetSecret key) (getSecret C key);
     case r of
       Inl err \<Rightarrow>
         if IsNotFound L err then do {
           (e, rest) \<leftarrow> Lookup L C clusterName c;
           State_Monad.return (e, certificate # rest) }
         else State_Monad.return (Some err, certificate # c)
     | Inr s \<Rightarrow>
         (case secretToKeyPair s of
            Inl err \<Rightarrow> State_Monad.return (Some err, certificate # c)
          | Inr kp \<Rightarrow> do {
              (e, rest) \<leftarrow> Lookup L C clusterName c;
              State_Monad.return (e, certificate\<lparr>cert_KeyPair := Some kp\<rparr> # rest) }) }"

fun EnsureAllExist :: "Certificates \<Rightarrow> goerror option" where
  "EnsureAllExist [] = None"
| "EnsureAllExist (certificate # c) =
     (case cert_KeyPair certificate of
        None \<Rightarrow> Some (NewError ''missing certificate'')
      | Some kp \<Rightarrow>
          if length (kp_Cert kp) = 0
          then Some (WrapError (''for certificate: '' @ cert_Purpose certificate) (NewError ''missing crt data''))
          else if length (kp_Key kp) = 0
          then Some (WrapError (''for certificate: '' @ cert_Purpose certificate) (NewError ''missing key data''))
          else EnsureAllExist c)"

fun Generate :: "'w crypto \<Rightarrow> Certificates \<Rightarrow> ('w, action, goerror option \<times> Certificates) io" where
  "Generate K [] = State_Monad.return (None, [])"
| "Generate K (certificate # c) =
     (if cert_KeyPair certificate = None \<and> cert_Purpose certificate \<noteq> APIServerEtcdClient then do {
        r \<leftarrow> (if cert_Purpose certificate = ServiceAccount then generateServiceAccountKeys K
             else generateCACert K);
        case r of
          Inl err \<Rightarrow> State_Monad.return (Some err, certificate # c)
        | Inr kp \<Rightarrow> do {
            (e, rest) \<leftarrow> Generate K c;
            State_Monad.return (e, certificate\<lparr>cert_KeyPair := Some kp, cert_Generated := True\<rparr> # rest) } }
      else do {
        (e, rest) \<leftarrow> Generate K c;
        State_Monad.return (e, certificate # rest) })"

definition AsSecret :: "lib \<Rightarrow> Certificate \<Rightarrow> ObjectKey \<Rightarrow> OwnerReference \<Rightarrow> goerror + Secret" where
  "AsSecret L c clusterName owner = (case cert_KeyPair c of
     None \<Rightarrow> Inl (Panic ''nil pointer dereference'')
   | Some kp \<Rightarrow> Inr \<lparr>
       s_meta = \<lparr>Name = secret_Name (key_Name clusterName) (cert_Purpose c),
         Namespace = key_Namespace clusterName, UID = [],
         Labels = [(ClusterLabelName L, key_Name clusterName)], Annotations = None,
         OwnerReferences = (if cert_Generated c then [owner] else []), Finalizers = [],
         CreationTimestamp = 0, DeletionTimestamp = None\<rparr>,
       s_Type = [],
       s_Data = Some [(TLSKeyDataName, kp_Key kp), (TLSCrtDataName, kp_Cert kp)]\<rparr>)"

definition save_one :: "lib \<Rightarrow> 'w client \<Rightarrow> ObjectKey \<Rightarrow> OwnerReference \<Rightarrow> Certificate \<Rightarrow> ('w, action, goerror option) io" where
  "save_one L C clusterName owner certificate =
     (if \<not> cert_Generated certificate then State_Monad.return None
      else case AsSecret L certificate clusterName owner of
             Inl p \<Rightarrow> State_Monad.return (Some p)
           | Inr s \<Rightarrow> call (CreateSecret s) (createSecret C s))"

definition SaveGenerated ::
  "lib \<Rightarrow> 'w client \<Rightarrow> ObjectKey \<Rightarrow> OwnerReference \<Rightarrow> Certificates \<Rightarrow> ('w, action, goerror option) io" where
  "SaveGenerated L C clusterName owner c = for_each (save_one L C clusterName owner) c"

definition LookupOrGenerate ::
  "lib \<Rightarrow> 'w client \<Rightarrow> 'w crypto \<Rightarrow> ObjectKey \<Rightarrow> OwnerReference \<Rightarrow> Certificates \<Rightarrow>
   ('w, action, goerror option \<times> Certificates) io" where
  "LookupOrGenerate L C K clusterName owner c = do {
     (err, c1) \<leftarrow> Lookup L C clusterName c;
     case err of
       Some e \<Rightarrow> State_Monad.return (Some e, c1)
     | None \<Rightarrow> do {
         (err, c2) \<leftarrow> Generate K c1;
         case err of
           Some e \<Rightarrow> State_Monad.return (Some e, c2)
         | None \<Rightarrow> do {
             err \<leftarrow> SaveGenerated L C clusterName owner c2;
             State_Monad.return (err, c2) } } }"

text \<open>\<^verbatim>\<open>hex.EncodeToString\<close> writes lower case already; the code asks for it again.\<close>

definition hex_digits :: string where
  "hex_digits = ''0123456789abcdef''"

fun hex_EncodeToString :: "string \<Rightarrow> string" where
  "hex_EncodeToString [] = []"
| "hex_EncodeToString (b # bs) = (let n = of_char b :: nat in
     hex_digits ! (n div 16) # hex_digits ! (n mod 16) # hex_EncodeToString bs)"

definition to_lower :: "char \<Rightarrow> char" where
  "to_lower c = (let n = of_char c :: nat in if 65 \<le> n \<and> n \<le> 90 then char_of (n + 32) else c)"

definition hashCert :: "'w crypto \<Rightarrow> string \<Rightarrow> string" where
  "hashCert K certificate = ''sha256:'' @ map to_lower (hex_EncodeToString (spki_sha256 K certificate))"

definition Hashes :: "'w crypto \<Rightarrow> Certificate \<Rightarrow> goerror + string list" where
  "Hashes K c = (case cert_KeyPair c of
     None \<Rightarrow> Inl (Panic ''nil pointer dereference'')
   | Some kp \<Rightarrow>
       (case ParseCertsPEM K (kp_Cert kp) of
          Inl err \<Rightarrow> Inl (WrapError (''unable to parse '' @ cert_Purpose c @ '' certificate'') err)
        | Inr certificates \<Rightarrow> Inr (map (hashCert K) certificates)))"

text \<open>Two certificates have the same hash only if their sums are the same.\<close>

lemma hex_digits_lower: "n < 16 \<Longrightarrow> to_lower (hex_digits ! n) = hex_digits ! n"
proof -
  assume "n < 16"
  moreover have "list_all (\<lambda>c. to_lower c = c) hex_digits" by (simp add: hex_digits_def to_lower_def)
  ultimately show ?thesis by (simp add: list_all_length hex_digits_def)
qed

lemma hex_digits_inj: "n < 16 \<Longrightarrow> m < 16 \<Longrightarrow> hex_digits ! n = hex_digits ! m \<longleftrightarrow> n = m"
  by (rule nth_eq_iff_index_eq) (simp_all add: hex_digits_def)

lemma of_char_nibble: "(of_char b :: nat) div 16 < 16"
  using nat_of_char_less_256 [of b] by (simp add: less_mult_imp_div_less)

lemma hex_EncodeToString_lower: "map to_lower (hex_EncodeToString bs) = hex_EncodeToString bs"
  by (induction bs) (simp_all add: Let_def hex_digits_lower of_char_nibble)

lemma hex_EncodeToString_inj: "hex_EncodeToString bs = hex_EncodeToString bs' \<longleftrightarrow> bs = bs'"
proof (induction bs arbitrary: bs')
  case Nil
  then show ?case by (cases bs') (simp_all add: Let_def)
next
  case (Cons b bs)
  show ?case
  proof (cases bs')
    case (Cons c cs)
    have "(of_char b :: nat) = of_char c \<longleftrightarrow>
      (of_char b :: nat) div 16 = of_char c div 16 \<and> (of_char b :: nat) mod 16 = of_char c mod 16"
      by (metis div_mult_mod_eq)
    then show ?thesis using Cons Cons.IH [of cs]
      by (simp add: Let_def hex_digits_inj of_char_nibble)
  qed (simp add: Let_def)
qed

lemma hashCert_inj: "hashCert K c = hashCert K d \<longleftrightarrow> spki_sha256 K c = spki_sha256 K d"
  by (simp add: hashCert_def hex_EncodeToString_lower hex_EncodeToString_inj)

definition cert_AsFiles :: "Certificate \<Rightarrow> goerror + File list" where
  "cert_AsFiles c = (case cert_KeyPair c of
     None \<Rightarrow> Inl (Panic ''nil pointer dereference'')
   | Some kp \<Rightarrow> Inr (
       (if length (kp_Cert kp) > 0 then [\<lparr>file_Path = cert_CertFile c, file_Owner = ''root:root'',
          file_Permissions = ''0640'', file_Encoding = [], file_Content = kp_Cert kp\<rparr>] else []) @
       (if length (kp_Key kp) > 0 then [\<lparr>file_Path = cert_KeyFile c, file_Owner = ''root:root'',
          file_Permissions = ''0600'', file_Encoding = [], file_Content = kp_Key kp\<rparr>] else [])))"

fun append_files :: "Certificates \<Rightarrow> string list \<Rightarrow> File list \<Rightarrow> goerror + File list" where
  "append_files c [] certFiles = Inr certFiles"
| "append_files c (purpose # purposes) certFiles = (case GetByPurpose c purpose of
     None \<Rightarrow> append_files c purposes certFiles
   | Some cert \<Rightarrow>
       (case cert_AsFiles cert of
          Inl p \<Rightarrow> Inl p
        | Inr files \<Rightarrow> append_files c purposes (certFiles @ files)))"

definition AsFiles :: "Certificates \<Rightarrow> goerror + File list" where
  "AsFiles c = append_files c [ClusterCA, EtcdCA, FrontProxyCA, ServiceAccount, APIServerEtcdClient] []"

section \<open>Lemmas\<close>

lemma secretToKeyPair_AsSecret:
  "AsSecret L c cn owner = Inr s \<Longrightarrow> cert_KeyPair c = Some kp \<Longrightarrow> secretToKeyPair s = Inr kp"
  by (auto simp: AsSecret_def secretToKeyPair_def TLSCrtDataName_def TLSKeyDataName_def)

lemma AsSecret_key: "AsSecret L c cn owner = Inr s \<Longrightarrow> ObjectKey_of (s_meta s) = secret_key cn (cert_Purpose c)"
  by (auto simp: AsSecret_def ObjectKey_of_def secret_key_def split: option.splits)

lemma secret_key_inject [simp]: "secret_key cn p = secret_key cn q \<longleftrightarrow> p = q"
  by (simp add: secret_key_def secret_Name_def)

lemma EnsureAllExist_iff:
  "EnsureAllExist c = None \<longleftrightarrow>
     (\<forall>x \<in> set c. \<exists>kp. cert_KeyPair x = Some kp \<and> kp_Cert kp \<noteq> [] \<and> kp_Key kp \<noteq> [])"
  by (induction c) (auto split: option.splits)

text \<open>How \<^verbatim>\<open>Generate\<close> changes one certificate.\<close>

definition generated_from :: "Certificate \<Rightarrow> Certificate \<Rightarrow> bool" where
  "generated_from x y \<longleftrightarrow>
     (if cert_KeyPair x = None \<and> cert_Purpose x \<noteq> APIServerEtcdClient
      then \<exists>kp. y = x\<lparr>cert_KeyPair := Some kp, cert_Generated := True\<rparr> else y = x)"

lemma Generate_list:
  "run_state (Generate K c) s = ((None, c'), s') \<Longrightarrow> list_all2 generated_from c c'"
proof (induction c arbitrary: s c')
  case (Cons x c)
  show ?case
  proof (cases "cert_KeyPair x = None \<and> cert_Purpose x \<noteq> APIServerEtcdClient")
    case True
    with Cons.prems obtain kp s1 rest where "run_state (Generate K c) s1 = ((None, rest), s')"
      "c' = x\<lparr>cert_KeyPair := Some kp, cert_Generated := True\<rparr> # rest"
      by (auto simp: case_prod_beta prod_eq_iff split: sum.splits)
    with Cons.IH True show ?thesis by (auto simp: generated_from_def)
  next
    case False
    with Cons.prems obtain rest where "run_state (Generate K c) s = ((None, rest), s')" "c' = x # rest"
      by (auto simp: case_prod_beta prod_eq_iff)
    with Cons.IH False show ?thesis by (auto simp: generated_from_def)
  qed
qed simp

lemma generated_from_Purpose: "generated_from x y \<Longrightarrow> cert_Purpose y = cert_Purpose x"
  by (auto simp: generated_from_def split: if_splits)

lemma generated_from_None:
  "generated_from x y \<Longrightarrow> cert_KeyPair y = None \<Longrightarrow> cert_Purpose y = APIServerEtcdClient"
  by (auto simp: generated_from_def split: if_splits)

lemma emits_newCertificate [emits_intros]:
  "emits P (generateCACert K)" "emits P (generateServiceAccountKeys K)"
  unfolding generateCACert_def newCertificateAuthority_def newSelfSignedCACert_def Let_def
    generateServiceAccountKeys_def
  by (intro emits_intros)+

lemma emits_Generate [emits_intros]: "emits P (Generate K c)"
  by (induction c) (auto intro!: emits_intros)

lemma emits_LookupOrGenerate [emits_intros]:
  assumes "\<And>k. P (GetSecret k)" and "\<And>s. P (CreateSecret s)"
  shows "emits P (LookupOrGenerate L C K cn owner c)"
proof -
  have "emits P (Lookup L C cn xs)" for xs
    by (induction xs) (auto simp: Let_def assms intro!: emits_intros)
  moreover have "emits P (SaveGenerated L C cn owner xs)" for xs
    unfolding SaveGenerated_def save_one_def by (intro emits_intros assms)
  ultimately show ?thesis
    unfolding LookupOrGenerate_def by (intro emits_intros)
qed

lemma emits_nothing: "emits (\<lambda>_. False) m \<Longrightarrow> run_state m s = (r, s') \<Longrightarrow> trace s' = trace s"
  by (drule (1) emitsD) (auto simp: list_all_iff)

lemma Generate_trace: "run_state (Generate K c) s = (r, s') \<Longrightarrow> trace s' = trace s"
  by (rule emits_nothing [OF emits_Generate])

lemma Lookup_trace:
  "run_state (Lookup L C cn c) s = ((None, c'), s') \<Longrightarrow>
   trace s' = trace s @ map (\<lambda>x. GetSecret (secret_key cn (cert_Purpose x))) c \<and>
   list_all2 (\<lambda>x y. y = x \<or> (\<exists>kp. y = x\<lparr>cert_KeyPair := Some kp\<rparr>)) c c'"
proof (induction c arbitrary: s c')
  case (Cons x c)
  then show ?case
    by (fastforce simp: run_simps Let_def split: if_splits sum.splits prod.splits)
qed simp

lemma SaveGenerated_trace:
  "run_state (SaveGenerated L C cn owner c) s = (None, s') \<Longrightarrow>
   \<exists>ss. trace s' = trace s @ map CreateSecret ss \<and>
     list_all2 (\<lambda>x sec. AsSecret L x cn owner = Inr sec) (filter cert_Generated c) ss"
proof (induction c arbitrary: s)
  case Nil
  then show ?case by (simp add: SaveGenerated_def)
next
  case (Cons x c)
  show ?case
  proof (cases "cert_Generated x")
    case False
    with Cons show ?thesis by (simp add: SaveGenerated_def save_one_def)
  next
    case True
    with Cons.prems obtain sec w where as: "AsSecret L x cn owner = Inr sec"
      and run: "run_state (SaveGenerated L C cn owner c) (s\<lparr>world := w, trace := trace s @ [CreateSecret sec]\<rparr>) = (None, s')"
      by (auto simp: SaveGenerated_def save_one_def run_simps split: sum.splits prod.splits option.splits)
    from Cons.IH [OF run] obtain ss where "trace s' = trace s @ CreateSecret sec # map CreateSecret ss"
      "list_all2 (\<lambda>x sec. AsSecret L x cn owner = Inr sec) (filter cert_Generated c) ss" by auto
    with as True show ?thesis by (intro exI [of _ "sec # ss"]) simp
  qed
qed

lemma LookupOrGenerate_steps:
  assumes "run_state (LookupOrGenerate L C K cn owner c) s = ((None, c'), s')"
  obtains c1 s1 s2 where "run_state (Lookup L C cn c) s = ((None, c1), s1)"
    and "run_state (Generate K c1) s1 = ((None, c'), s2)"
    and "run_state (SaveGenerated L C cn owner c') s2 = (None, s')"
  using assms
  by (auto simp: LookupOrGenerate_def split: prod.splits option.splits)

section \<open>A store of secrets\<close>

text \<open>
  What the Kubernetes API documents of the secrets behind a client, seen through \<open>sel\<close>: a get
  returns the stored secret or a not-found error, a create stores a secret under a free name, and
  is refused where the name is taken. Making keys and certificates touches no secret.
\<close>

definition secret_store :: "lib \<Rightarrow> 'w client \<Rightarrow> ('w \<Rightarrow> ObjectKey \<Rightarrow> Secret option) \<Rightarrow> bool" where
  "secret_store L C sel \<longleftrightarrow>
     (\<forall>k w. snd (getSecret C k w) = w \<and>
        (case sel w k of
           Some s \<Rightarrow> fst (getSecret C k w) = Inr s
         | None \<Rightarrow> \<exists>e. fst (getSecret C k w) = Inl e \<and> IsNotFound L e)) \<and>
     (\<forall>s w. fst (createSecret C s w) = None \<longrightarrow> sel w (ObjectKey_of (s_meta s)) = None \<and>
        sel (snd (createSecret C s w)) = (sel w)(ObjectKey_of (s_meta s) \<mapsto> s))"

definition crypto_apart :: "'w crypto \<Rightarrow> ('w \<Rightarrow> ObjectKey \<Rightarrow> Secret option) \<Rightarrow> bool" where
  "crypto_apart K sel \<longleftrightarrow>
     (\<forall>w. sel (snd (NewPrivateKey K w)) = sel w) \<and> (\<forall>w. sel (snd (time_Now K w)) = sel w) \<and>
     (\<forall>t p pub key w. sel (snd (CreateCertificate K t p pub key w)) = sel w)"

text \<open>What one certificate is after it was looked up.\<close>

definition looked_up :: "(ObjectKey \<Rightarrow> Secret option) \<Rightarrow> ObjectKey \<Rightarrow> Certificate \<Rightarrow> Certificate" where
  "looked_up m cn x = (case m (secret_key cn (cert_Purpose x)) of
     None \<Rightarrow> x
   | Some s \<Rightarrow> (case secretToKeyPair s of Inl _ \<Rightarrow> x | Inr kp \<Rightarrow> x\<lparr>cert_KeyPair := Some kp\<rparr>))"

definition readable :: "(ObjectKey \<Rightarrow> Secret option) \<Rightarrow> ObjectKey \<Rightarrow> Certificate \<Rightarrow> bool" where
  "readable m cn x \<longleftrightarrow> (case m (secret_key cn (cert_Purpose x)) of
     None \<Rightarrow> True | Some s \<Rightarrow> \<exists>kp. secretToKeyPair s = Inr kp)"

lemma getSecret_cases:
  assumes "secret_store L C sel"
  obtains (found) s where "sel w k = Some s" and "getSecret C k w = (Inr s, w)"
  | (missing) e where "sel w k = None" and "getSecret C k w = (Inl e, w)" and "IsNotFound L e"
proof -
  have "snd (getSecret C k w) = w" and "case sel w k of
      Some s \<Rightarrow> fst (getSecret C k w) = Inr s
    | None \<Rightarrow> \<exists>e. fst (getSecret C k w) = Inl e \<and> IsNotFound L e"
    using assms unfolding secret_store_def by blast+
  with found missing show thesis
    by (cases "sel w k"; cases "getSecret C k w") auto
qed

lemma Lookup_step:
  assumes st: "secret_store L C sel"
  shows "run_state (Lookup L C cn (x # c)) s =
    (let s1 = s\<lparr>trace := trace s @ [GetSecret (secret_key cn (cert_Purpose x))]\<rparr>
     in case sel (world s) (secret_key cn (cert_Purpose x)) of
          Some sec \<Rightarrow>
            (case secretToKeyPair sec of
               Inl err \<Rightarrow> ((Some err, x # c), s1)
             | Inr kp \<Rightarrow> apfst (apsnd ((#) (x\<lparr>cert_KeyPair := Some kp\<rparr>))) (run_state (Lookup L C cn c) s1))
        | None \<Rightarrow> apfst (apsnd ((#) x)) (run_state (Lookup L C cn c) s1))"
  by (rule getSecret_cases [OF st, of "world s" "secret_key cn (cert_Purpose x)"])
    (auto simp: run_simps Let_def case_prod_beta prod_eq_iff split: sum.split)

lemma Lookup_store:
  assumes st: "secret_store L C sel" and run: "run_state (Lookup L C cn c) s = ((None, c'), s')"
  shows "world s' = world s \<and> c' = map (looked_up (sel (world s)) cn) c \<and>
    list_all (readable (sel (world s)) cn) c"
  using run
proof (induction c arbitrary: s c')
  case (Cons x c)
  obtain rest where *: "c' = looked_up (sel (world s)) cn x # rest" "readable (sel (world s)) cn x"
    "run_state (Lookup L C cn c)
       (s\<lparr>trace := trace s @ [GetSecret (secret_key cn (cert_Purpose x))]\<rparr>) = ((None, rest), s')"
    using Cons.prems unfolding Lookup_step [OF st] looked_up_def readable_def
    by (auto simp: prod_eq_iff Let_def split: sum.splits option.splits)
  from Cons.IH [OF *(3)] * show ?case by simp
qed simp

lemma Lookup_store_total:
  assumes st: "secret_store L C sel" and "list_all (readable (sel (world s)) cn) c"
  shows "fst (run_state (Lookup L C cn c) s) = (None, map (looked_up (sel (world s)) cn) c)"
  using assms(2)
proof (induction c arbitrary: s)
  case (Cons x c)
  let ?s = "s\<lparr>trace := trace s @ [GetSecret (secret_key cn (cert_Purpose x))]\<rparr>"
  have "fst (run_state (Lookup L C cn c) ?s) = (None, map (looked_up (sel (world s)) cn) c)"
    using Cons.IH [of ?s] Cons.prems by simp
  moreover have "fst (run_state (Lookup L C cn (x # c)) s) =
      apsnd ((#) (looked_up (sel (world s)) cn x)) (fst (run_state (Lookup L C cn c) ?s))"
    using Cons.prems unfolding Lookup_step [OF st] looked_up_def readable_def
    by (auto simp: Let_def split: option.splits)
  ultimately show ?case by simp
qed simp

lemma Generate_store:
  assumes "crypto_apart K sel" and "run_state (Generate K c) s = (r, s')"
  shows "sel (world s') = sel (world s)"
  using assms(2)
proof (induction c arbitrary: s r)
  case (Cons x c)
  have gen: "sel (world (snd (run_state (generateCACert K) s))) = sel (world s)"
    "sel (world (snd (run_state (generateServiceAccountKeys K) s))) = sel (world s)"
    using assms(1)
    by (auto simp: crypto_apart_def generateCACert_def newCertificateAuthority_def newSelfSignedCACert_def
        generateServiceAccountKeys_def run_simps Let_def case_prod_beta split: sum.split)
  show ?case
    using Cons gen
    by (auto simp: case_prod_beta split: if_splits sum.splits) (metis prod.collapse)+
qed simp

lemma SaveGenerated_store:
  assumes st: "secret_store L C sel"
    and "run_state (SaveGenerated L C cn owner c) s = (None, s')"
    and "distinct (map cert_Purpose c)"
  shows "sel (world s') k =
    (case List.find (\<lambda>x. cert_Generated x \<and> k = secret_key cn (cert_Purpose x)) c of
       Some x \<Rightarrow> (case AsSecret L x cn owner of Inr sec \<Rightarrow> Some sec | Inl _ \<Rightarrow> None)
     | None \<Rightarrow> sel (world s) k)"
  using assms(2,3)
proof (induction c arbitrary: s)
  case Nil
  then show ?case by (simp add: SaveGenerated_def)
next
  case (Cons x c)
  show ?case
  proof (cases "cert_Generated x")
    case False
    with Cons show ?thesis by (simp add: SaveGenerated_def save_one_def)
  next
    case True
    with Cons.prems(1) obtain sec w where as: "AsSecret L x cn owner = Inr sec"
      and cr: "createSecret C sec (world s) = (None, w)"
      and run: "run_state (SaveGenerated L C cn owner c) (s\<lparr>world := w, trace := trace s @ [CreateSecret sec]\<rparr>) = (None, s')"
      by (auto simp: SaveGenerated_def save_one_def run_simps split: sum.splits prod.splits option.splits)
    have w: "sel w = (sel (world s))(secret_key cn (cert_Purpose x) \<mapsto> sec)"
      using st cr AsSecret_key [OF as] unfolding secret_store_def by (metis fst_conv snd_conv)
    have none: "List.find (\<lambda>y. cert_Generated y \<and> secret_key cn (cert_Purpose x) = secret_key cn (cert_Purpose y)) c = None"
      using Cons.prems(2) by (auto simp: find_None_iff)
    show ?thesis
      using Cons.IH [OF run] Cons.prems(2) w as True none by (auto split: option.split)
  qed
qed

lemma unmark [simp]: "\<not> cert_Generated x \<Longrightarrow> x\<lparr>cert_Generated := False\<rparr> = x"
  by (cases x) simp

lemma looked_up_generated_again:
  assumes "cert_KeyPair x = None" and "\<not> cert_Generated x" and "readable m cn x"
    and "generated_from (looked_up m cn x) y"
    and "m' (secret_key cn (cert_Purpose x)) =
      (if cert_Generated y then (case AsSecret L y cn owner of Inr sec \<Rightarrow> Some sec | Inl _ \<Rightarrow> None)
       else m (secret_key cn (cert_Purpose x)))"
  shows "looked_up m' cn x = y\<lparr>cert_Generated := False\<rparr> \<and> readable m' cn x"
proof -
  let ?k = "secret_key cn (cert_Purpose x)"
  show ?thesis
  proof (cases "m ?k")
    case (Some sec)
    with assms(3) obtain kp where kp: "secretToKeyPair sec = Inr kp" by (auto simp: readable_def)
    then have y: "y = x\<lparr>cert_KeyPair := Some kp\<rparr>"
      using assms(1,4) Some by (simp add: looked_up_def generated_from_def)
    then have "m' ?k = Some sec" using assms(2,5) Some by simp
    with y kp assms(2) show ?thesis by (simp add: looked_up_def readable_def)
  next
    case None
    show ?thesis
    proof (cases "cert_Purpose x = APIServerEtcdClient")
      case True
      with None assms(4) have y: "y = x" by (simp add: looked_up_def generated_from_def)
      then have "m' ?k = None" using assms(2,5) None by simp
      with y assms(2) show ?thesis by (simp add: looked_up_def readable_def)
    next
      case False
      with None assms(1,4) obtain kp where y: "y = x\<lparr>cert_KeyPair := Some kp, cert_Generated := True\<rparr>"
        by (auto simp: looked_up_def generated_from_def)
      then obtain sec where sec: "AsSecret L y cn owner = Inr sec" by (simp add: AsSecret_def)
      with y have "secretToKeyPair sec = Inr kp" by (intro secretToKeyPair_AsSecret) auto
      moreover have "m' ?k = Some sec" using assms(5) sec y by simp
      ultimately show ?thesis using y assms(2) by (simp add: looked_up_def readable_def)
    qed
  qed
qed

text \<open>After \<^verbatim>\<open>LookupOrGenerate\<close> succeeded, a lookup finds the key pair of every certificate.\<close>

lemma lookup_again:
  assumes "secret_store L C sel" and "crypto_apart K sel"
    and "distinct (map cert_Purpose c)"
    and "list_all (\<lambda>x. cert_KeyPair x = None \<and> \<not> cert_Generated x) c"
    and "run_state (LookupOrGenerate L C K cn owner c) s = ((None, c'), s')"
  shows "fst (run_state (Lookup L C cn c) s') = (None, map (\<lambda>y. y\<lparr>cert_Generated := False\<rparr>) c')"
proof -
  obtain c1 s1 s2 where l: "run_state (Lookup L C cn c) s = ((None, c1), s1)"
    and g: "run_state (Generate K c1) s1 = ((None, c'), s2)"
    and sv: "run_state (SaveGenerated L C cn owner c') s2 = (None, s')"
    using LookupOrGenerate_steps [OF assms(5)] .
  let ?m = "sel (world s)" and ?m' = "sel (world s')"
  have look: "c1 = map (looked_up ?m cn) c" "list_all (readable ?m cn) c" and m: "sel (world s2) = ?m"
    using Lookup_store [OF assms(1) l] Generate_store [OF assms(2) g] by auto
  have purp [simp]: "cert_Purpose (looked_up ?m cn x) = cert_Purpose x" for x
    by (auto simp: looked_up_def split: option.split sum.split)
  have len: "length c' = length c" and gen: "\<And>i. i < length c \<Longrightarrow> generated_from (looked_up ?m cn (c ! i)) (c' ! i)"
    using Generate_list [OF g] look(1) by (auto simp: list_all2_conv_all_nth)
  then have dist: "distinct (map cert_Purpose c')"
    using assms(3) generated_from_Purpose by (metis (no_types, lifting) length_map nth_equalityI nth_map purp)
  have "looked_up ?m' cn (c ! i) = (c' ! i)\<lparr>cert_Generated := False\<rparr> \<and> readable ?m' cn (c ! i)"
    if i: "i < length c" for i
  proof (rule looked_up_generated_again [OF _ _ _ gen [OF i]])
    let ?k = "secret_key cn (cert_Purpose (c ! i))"
    have pi: "cert_Purpose (c' ! i) = cert_Purpose (c ! i)" using gen [OF i] by (metis generated_from_Purpose purp)
    have "List.find (\<lambda>x. cert_Generated x \<and> ?k = secret_key cn (cert_Purpose x)) c' =
        (if cert_Generated (c' ! i) then Some (c' ! i) else None)"
      using dist i len pi
      by (auto simp: find_Some_iff find_None_iff in_set_conv_nth distinct_conv_nth) (metis nth_map)+
    then show "?m' ?k = (if cert_Generated (c' ! i)
        then (case AsSecret L (c' ! i) cn owner of Inr sec \<Rightarrow> Some sec | Inl _ \<Rightarrow> None) else ?m ?k)"
      using SaveGenerated_store [OF assms(1) sv dist, of ?k] m by simp
  qed (use assms(4) look(2) i in \<open>auto simp: list_all_length\<close>)
  then have "map (looked_up ?m' cn) c = map (\<lambda>y. y\<lparr>cert_Generated := False\<rparr>) c'"
    and "list_all (readable ?m' cn) c"
    using len by (auto simp: list_eq_iff_nth_eq list_all_length)
  then show ?thesis by (simp add: Lookup_store_total [OF assms(1)])
qed

lemma LookupOrGenerate_pairs:
  assumes "run_state (LookupOrGenerate L C K cn owner c) s = ((None, c'), s')"
  shows "list_all (\<lambda>y. cert_KeyPair y = None \<longrightarrow> cert_Purpose y = APIServerEtcdClient) c'"
proof -
  obtain c1 s1 s2 where "run_state (Generate K c1) s1 = ((None, c'), s2)" using LookupOrGenerate_steps [OF assms] .
  from Generate_list [OF this] show ?thesis by (auto simp: list_all2_conv_all_nth list_all_length generated_from_None)
qed

lemma LookupOrGenerate_purposes:
  assumes "run_state (LookupOrGenerate L C K cn owner c) s = ((None, c'), s')"
  shows "map cert_Purpose c' = map cert_Purpose c"
proof -
  obtain c1 s1 s2 where l: "run_state (Lookup L C cn c) s = ((None, c1), s1)" and g: "run_state (Generate K c1) s1 = ((None, c'), s2)"
    using LookupOrGenerate_steps [OF assms] .
  have "map cert_Purpose c1 = map cert_Purpose c"
    using Lookup_trace [OF l] by (force simp: list_all2_conv_all_nth intro!: nth_equalityI)
  moreover have "map cert_Purpose c' = map cert_Purpose c1"
    using Generate_list [OF g] by (auto simp: list_all2_conv_all_nth list_eq_iff_nth_eq generated_from_Purpose)
  ultimately show ?thesis by simp
qed

lemma stored_pair:
  assumes "secret_store L C sel" and "crypto_apart K sel" and "distinct (map cert_Purpose c)"
    and "list_all (\<lambda>x. cert_KeyPair x = None \<and> \<not> cert_Generated x) c"
    and run: "run_state (LookupOrGenerate L C K cn owner c) s = ((None, c'), s')"
    and i: "i < length c" and kp: "cert_KeyPair (c' ! i) = Some kp"
  shows "\<exists>sec. sel (world s') (secret_key cn (cert_Purpose (c ! i))) = Some sec \<and> secretToKeyPair sec = Inr kp"
proof -
  obtain s2 where l: "run_state (Lookup L C cn c) s' = ((None, map (\<lambda>y. y\<lparr>cert_Generated := False\<rparr>) c'), s2)"
    using lookup_again [OF assms(1-5)] by (metis prod.collapse)
  have eq: "map (\<lambda>y. y\<lparr>cert_Generated := False\<rparr>) c' = map (looked_up (sel (world s')) cn) c"
    using Lookup_store [OF assms(1) l] by simp
  then have "length c' = length c" by (metis length_map)
  with eq i have "looked_up (sel (world s')) cn (c ! i) = (c' ! i)\<lparr>cert_Generated := False\<rparr>" by (metis nth_map)
  moreover have "cert_KeyPair (c ! i) = None" using assms(4) i by (simp add: list_all_length)
  ultimately show ?thesis using kp by (auto simp: looked_up_def split: option.splits sum.splits dest: arg_cong [of _ _ cert_KeyPair])
qed

section \<open>A concrete store\<close>

definition secret_client :: "(ObjectKey \<Rightarrow> Secret option) client" where
  "secret_client = blank_client\<lparr>
     getSecret := (\<lambda>k w. (case w k of None \<Rightarrow> Inl (ExtError ''NotFound'') | Some s \<Rightarrow> Inr s, w)),
     createSecret := (\<lambda>s w. if w (ObjectKey_of (s_meta s)) = None
       then (None, w(ObjectKey_of (s_meta s) \<mapsto> s)) else (Some (ExtError ''AlreadyExists''), w))\<rparr>"

lemma secret_client_sel [simp]:
  "getSecret secret_client = (\<lambda>k w. (case w k of None \<Rightarrow> Inl (ExtError ''NotFound'') | Some s \<Rightarrow> Inr s, w))"
  "createSecret secret_client = (\<lambda>s w. if w (ObjectKey_of (s_meta s)) = None
     then (None, w(ObjectKey_of (s_meta s) \<mapsto> s)) else (Some (ExtError ''AlreadyExists''), w))"
  by (simp_all add: secret_client_def)

definition sample_crypto :: "'w crypto" where
  "sample_crypto = \<lparr>
     NewPrivateKey = (\<lambda>w. (Inr ''priv'', w)), time_Now = (\<lambda>w. (0, w)),
     CreateCertificate = (\<lambda>_ _ pub _ w. (Inr pub, w)), Public = (\<lambda>k. ''pub-'' @ k),
     ParseCertificate = Inr, DecodeCertPEM = Inr, DecodePrivateKeyPEM = Inr,
     EncodeCertPEM = (\<lambda>c. c), EncodePrivateKeyPEM = (\<lambda>k. k), EncodePublicKeyPEM = Inr,
     X509KeyPair = (\<lambda>c k. Inr (c @ k)), ParseCertsPEM = (\<lambda>c. Inr [c]), spki_sha256 = (\<lambda>c. c) \<rparr>"

lemma sample_crypto_sel [simp]:
  "NewPrivateKey sample_crypto = (\<lambda>w. (Inr ''priv'', w))" "time_Now sample_crypto = (\<lambda>w. (0, w))"
  "CreateCertificate sample_crypto = (\<lambda>_ _ pub _ w. (Inr pub, w))" "Public sample_crypto = (\<lambda>k. ''pub-'' @ k)"
  "ParseCertificate sample_crypto = Inr" "DecodeCertPEM sample_crypto = Inr" "DecodePrivateKeyPEM sample_crypto = Inr"
  "EncodeCertPEM sample_crypto = (\<lambda>c. c)" "EncodePrivateKeyPEM sample_crypto = (\<lambda>k. k)"
  "EncodePublicKeyPEM sample_crypto = Inr" "X509KeyPair sample_crypto = (\<lambda>c k. Inr (c @ k))"
  "ParseCertsPEM sample_crypto = (\<lambda>c. Inr [c])" "spki_sha256 sample_crypto = (\<lambda>c. c)"
  by (simp_all add: sample_crypto_def)

definition sample_key :: ObjectKey where
  "sample_key = \<lparr>key_Namespace = ''ns'', key_Name = ''c''\<rparr>"

definition sample_owner :: OwnerReference where
  "sample_owner = \<lparr>or_APIVersion = ''v'', or_Kind = ''K'', or_Name = ''n'', or_UID = ''u'', or_Controller = None\<rparr>"

lemma sample_secret_store: "secret_store sample_lib secret_client (\<lambda>w. w)"
  by (auto simp: secret_store_def split: option.split)

lemma sample_crypto_apart: "crypto_apart sample_crypto sel"
  by (simp add: crypto_apart_def)

lemma sample_generation:
  "\<exists>c' s'. run_state (LookupOrGenerate sample_lib secret_client sample_crypto sample_key sample_owner
       (NewCertificatesForWorker ''/pki'')) \<lparr>world = Map.empty, trace = []\<rparr> = ((None, c'), s') \<and>
     filter cert_Generated c' = c' \<and> length c' = 1"
  by (simp add: NewCertificatesForWorker_def new_cert_def LookupOrGenerate_def run_simps Let_def purpose_defs
      generateCACert_def newCertificateAuthority_def newSelfSignedCACert_def SaveGenerated_def save_one_def AsSecret_def)

section \<open>Properties\<close>

text \<open>
  C36: when \<^verbatim>\<open>LookupOrGenerate\<close> returns no error it has read the secret of every certificate, in
  order, then created exactly one secret for each certificate it generated; the certificates keep
  their purposes, and each has a key pair unless it is the user-supplied etcd client pair.
\<close>

theorem lookup_or_generate_complete:
  assumes "run_state (LookupOrGenerate L C K cn owner c) s = ((None, c'), s')"
  shows "(\<exists>ss. trace s' = trace s @ map (\<lambda>x. GetSecret (secret_key cn (cert_Purpose x))) c @ map CreateSecret ss \<and>
      list_all2 (\<lambda>x sec. AsSecret L x cn owner = Inr sec) (filter cert_Generated c') ss) \<and>
    map cert_Purpose c' = map cert_Purpose c \<and>
    list_all (\<lambda>y. cert_KeyPair y = None \<longrightarrow> cert_Purpose y = APIServerEtcdClient) c'"
proof -
  obtain c1 s1 s2 where l: "run_state (Lookup L C cn c) s = ((None, c1), s1)"
    and g: "run_state (Generate K c1) s1 = ((None, c'), s2)"
    and sv: "run_state (SaveGenerated L C cn owner c') s2 = (None, s')"
    using LookupOrGenerate_steps [OF assms] .
  from Lookup_trace [OF l] Generate_trace [OF g] SaveGenerated_trace [OF sv]
    LookupOrGenerate_purposes [OF assms] LookupOrGenerate_pairs [OF assms]
  show ?thesis by auto
qed

theorem lookup_or_generate_complete_witness:
  "\<exists>c' s'. run_state (LookupOrGenerate sample_lib secret_client sample_crypto sample_key sample_owner
       (NewCertificatesForWorker ''/pki'')) \<lparr>world = Map.empty, trace = []\<rparr> = ((None, c'), s') \<and>
     map cert_Purpose c' = [ClusterCA] \<and> length (trace s') = 2"
proof -
  obtain c' s' where run: "run_state (LookupOrGenerate sample_lib secret_client sample_crypto sample_key
      sample_owner (NewCertificatesForWorker ''/pki'')) \<lparr>world = Map.empty, trace = []\<rparr> = ((None, c'), s')"
    and gen: "filter cert_Generated c' = c'" "length c' = 1"
    using sample_generation by blast
  from lookup_or_generate_complete [OF run] have "map cert_Purpose c' = [ClusterCA]"
    "length (trace s') = 2"
    using gen by (auto simp: NewCertificatesForWorker_def new_cert_def dest: list_all2_lengthD)
  with run show ?thesis by (intro exI conjI)
qed

text \<open>
  C6: a cluster's certificates are generated once. After \<^verbatim>\<open>LookupOrGenerate\<close> has succeeded, looking
  the same certificates up again succeeds and gives back every key pair, generated ones included,
  so a later reconciliation finds all of them and generates none.
\<close>

theorem certificates_stable:
  assumes "secret_store L C sel" and "crypto_apart K sel"
    and "distinct (map cert_Purpose c)"
    and "list_all (\<lambda>x. cert_KeyPair x = None \<and> \<not> cert_Generated x) c"
    and "run_state (LookupOrGenerate L C K cn owner c) s = ((None, c'), s')"
  shows "fst (run_state (Lookup L C cn c) s') = (None, map (\<lambda>y. y\<lparr>cert_Generated := False\<rparr>) c')"
  using assms by (rule lookup_again)

theorem certificates_stable_witness:
  "\<exists>c' s'. fst (run_state (Lookup sample_lib secret_client sample_key (NewCertificatesForWorker ''/pki'')) s')
      = (None, map (\<lambda>y. y\<lparr>cert_Generated := False\<rparr>) c') \<and> c' \<noteq> []"
proof -
  obtain c' s' where run: "run_state (LookupOrGenerate sample_lib secret_client sample_crypto sample_key
      sample_owner (NewCertificatesForWorker ''/pki'')) \<lparr>world = Map.empty, trace = []\<rparr> = ((None, c'), s')"
    and "length c' = 1"
    using sample_generation by blast
  then have "c' \<noteq> []" by auto
  moreover from certificates_stable [OF sample_secret_store sample_crypto_apart _ _ run]
  have "fst (run_state (Lookup sample_lib secret_client sample_key (NewCertificatesForWorker ''/pki'')) s')
      = (None, map (\<lambda>y. y\<lparr>cert_Generated := False\<rparr>) c')"
    by (simp add: NewCertificatesForWorker_def new_cert_def)
  ultimately show ?thesis by blast
qed

text \<open>
  the files of a complete set of control plane certificates: the certificate and then the
  key of the cluster, etcd and front proxy authorities and of the service account, in this order,
  every certificate readable by root's group and every key by root alone. The pair of the
  authentication proxy is not written, although it has file names.
\<close>

theorem control_plane_files:
  assumes "map cert_Purpose c = map cert_Purpose (NewCertificatesForControlPlane dir)"
    and "map cert_CertFile c = map cert_CertFile (NewCertificatesForControlPlane dir)"
    and "map cert_KeyFile c = map cert_KeyFile (NewCertificatesForControlPlane dir)"
    and "EnsureAllExist c = None"
  shows "\<exists>files. AsFiles c = Inr files \<and>
    map (\<lambda>f. (file_Path f, file_Owner f, file_Permissions f)) files =
     [(path_Join [dir, ''ca.crt''], ''root:root'', ''0640''), (path_Join [dir, ''ca.key''], ''root:root'', ''0600''),
      (path_Join [dir, ''etcd'', ''ca.crt''], ''root:root'', ''0640''), (path_Join [dir, ''etcd'', ''ca.key''], ''root:root'', ''0600''),
      (path_Join [dir, ''front-proxy-ca.crt''], ''root:root'', ''0640''), (path_Join [dir, ''front-proxy-ca.key''], ''root:root'', ''0600''),
      (path_Join [dir, ''sa.pub''], ''root:root'', ''0640''), (path_Join [dir, ''sa.key''], ''root:root'', ''0600'')]"
proof -
  obtain ca sa fp ap et where c: "c = [ca, sa, fp, ap, et]"
    using arg_cong [OF assms(1), of length]
    by (auto simp: NewCertificatesForControlPlane_def length_Suc_conv eval_nat_numeral)
  show ?thesis
    using assms unfolding EnsureAllExist_iff
    by (auto simp: c NewCertificatesForControlPlane_def new_cert_def purpose_defs AsFiles_def cert_AsFiles_def)
qed

theorem control_plane_files_witness:
  "\<exists>files. AsFiles (map (\<lambda>x. x\<lparr>cert_KeyPair := Some \<lparr>kp_Cert = ''C'', kp_Key = ''K''\<rparr>\<rparr>)
      (NewCertificatesForControlPlane ''/pki'')) = Inr files \<and> length files = 8"
proof -
  let ?c = "map (\<lambda>x. x\<lparr>cert_KeyPair := Some \<lparr>kp_Cert = ''C'', kp_Key = ''K''\<rparr>\<rparr>)
      (NewCertificatesForControlPlane ''/pki'')"
  have "\<exists>files. AsFiles ?c = Inr files \<and> length (map (\<lambda>f. (file_Path f, file_Owner f, file_Permissions f)) files) = 8"
    using control_plane_files [of ?c "''/pki''"]
    by (auto simp: EnsureAllExist_iff)
  then show ?thesis by simp
qed

end
