(* ===== verification/Workload_Cluster.thy ===== *)
theory Workload_Cluster
  imports Control_Plane Certificates
begin

text \<open>
  \<^verbatim>\<open>src/internal/cluster.go\<close>, \<^verbatim>\<open>src/internal/workload_cluster.go\<close> and \<^verbatim>\<open>src/internal/remote/cluster.go\<close>:
  reaching a workload cluster from the management cluster, the health of its control plane nodes,
  and the check that gates every change of scale. Texts of errors are shortened to their fixed part.
\<close>

section \<open>Clients of a workload cluster\<close>

definition RESTConfig :: "'w remote \<Rightarrow> ObjectKey \<Rightarrow> ('w, action, goerror + RestConfig) io" where
  "RESTConfig R cluster = do {
     r \<leftarrow> call (GetKubeconfig cluster) (getKubeconfig R cluster);
     State_Monad.return (case r of
       Inl err \<Rightarrow> Inl (WrapError ''failed to retrieve kubeconfig secret for Cluster'' err)
     | Inr kubeConfig \<Rightarrow>
         (case restConfigFromKubeConfig R kubeConfig of
            Inl err \<Rightarrow> Inl (WrapError ''failed to create REST configuration for Cluster'' err)
          | Inr restConfig \<Rightarrow> Inr restConfig)) }"

definition NewClusterClient :: "'w remote \<Rightarrow> ObjectKey \<Rightarrow> ('w, action, goerror + string) io" where
  "NewClusterClient R cluster = do {
     r \<leftarrow> RESTConfig R cluster;
     case r of
       Inl err \<Rightarrow> State_Monad.return (Inl err)
     | Inr restConfig \<Rightarrow> do {
         c \<leftarrow> call (NewRemoteClient restConfig) (newClient R restConfig);
         State_Monad.return (case c of
           Inl err \<Rightarrow> Inl (WrapError ''failed to create client for Cluster'' err)
         | Inr ret \<Rightarrow> Inr ret) } }"

record TlsConfig =
  tls_RootCAs :: string
  tls_Certificates :: "string list"

record Workload =
  wl_Client :: string
  wl_etcd :: TlsConfig

definition newClientCert :: "'w crypto \<Rightarrow> string \<Rightarrow> string \<Rightarrow> string \<Rightarrow> ('w, action, goerror + string) io" where
  "newClientCert K caCert key caKey = do {
     now \<leftarrow> extern (time_Now K);
     let tmpl = \<lparr>SerialNumber = 0, CommonName = ''cluster-api.x-k8s.io'', Organization = [],
       NotBefore = now + minute * (-5), NotAfter = now + hour * 24 * 365 * 10,
       KeyUsages = [KeyUsageDigitalSignature], ExtKeyUsages = [ExtKeyUsageClientAuth],
       MaxPathLenZero = False, BasicConstraintsValid = False, MaxPathLen = 0, IsCA = False\<rparr>;
     b \<leftarrow> extern (CreateCertificate K tmpl (ParentCert caCert) (Public K key) caKey);
     State_Monad.return (case b of
       Inl err \<Rightarrow> Inl (WrapError ''failed to create signed client certificate'' err)
     | Inr der \<Rightarrow> ParseCertificate K der) }"

definition generateClientCert :: "'w crypto \<Rightarrow> string \<Rightarrow> string \<Rightarrow> ('w, action, goerror + string) io" where
  "generateClientCert K caCertEncoded caKeyEncoded = do {
     r \<leftarrow> extern (NewPrivateKey K);
     case r of
       Inl err \<Rightarrow> State_Monad.return (Inl err)
     | Inr privKey \<Rightarrow>
         (case DecodeCertPEM K caCertEncoded of
            Inl err \<Rightarrow> State_Monad.return (Inl err)
          | Inr caCert \<Rightarrow>
              (case DecodePrivateKeyPEM K caKeyEncoded of
                 Inl err \<Rightarrow> State_Monad.return (Inl err)
               | Inr caKey \<Rightarrow> do {
                   c \<leftarrow> newClientCert K caCert privKey caKey;
                   State_Monad.return (case c of
                     Inl err \<Rightarrow> Inl err
                   | Inr x509Cert \<Rightarrow> X509KeyPair K (EncodeCertPEM K x509Cert) (EncodePrivateKeyPEM K privKey)) })) }"

section \<open>The workload cluster\<close>

definition getControlPlaneNodes :: "'w remote \<Rightarrow> Workload \<Rightarrow> ('w, action, goerror + Node list) io" where
  "getControlPlaneNodes R w =
     call (ListNodes (wl_Client w)) (listNodes R (wl_Client w) [(''node-role.kubernetes.io/master'', [])])"

type_synonym HealthCheckResult = "(string, goerror option) gomap"

definition staticPodName :: "string \<Rightarrow> string \<Rightarrow> string" where
  "staticPodName component nodeName = component @ ''-'' @ nodeName"

fun ready_loop :: "lib \<Rightarrow> Pod \<Rightarrow> bool \<Rightarrow> Condition list \<Rightarrow> goerror option" where
  "ready_loop L pod found [] =
     (if \<not> found then Some (NewError (''pod does not have ready condition: '' @ Name (pod_meta pod))) else None)"
| "ready_loop L pod found (condition # conditions) =
     (let found = (if cond_Type condition = PodReady L then True else found)
      in if cond_Type condition = PodReady L \<and> cond_Status condition \<noteq> ConditionTrue L
         then Some (NewError (''static pod '' @ Namespace (pod_meta pod) @ ''/'' @ Name (pod_meta pod) @ '' is not ready''))
         else ready_loop L pod found conditions)"

definition checkStaticPodReadyCondition :: "lib \<Rightarrow> Pod \<Rightarrow> goerror option" where
  "checkStaticPodReadyCondition L pod = ready_loop L pod False (pod_Conditions pod)"

fun taint_loop :: "lib \<Rightarrow> Node \<Rightarrow> Taint list \<Rightarrow> goerror option" where
  "taint_loop L node [] = None"
| "taint_loop L node (taint # taints) =
     (if taint_Key taint = TaintNodeUnreachable L \<and> taint_Effect taint = TaintEffectNoExecute L
      then Some (NewError (''node has NoExecute taint: '' @ Name (node_meta node)))
      else taint_loop L node taints)"

definition checkNodeNoExecuteCondition :: "lib \<Rightarrow> Node \<Rightarrow> goerror option" where
  "checkNodeNoExecuteCondition L node = taint_loop L node (node_Taints node)"

text \<open>One turn of the loop over the nodes, writing to the response map as the code does.\<close>

definition check_node ::
  "lib \<Rightarrow> 'w remote \<Rightarrow> Workload \<Rightarrow> Node \<Rightarrow> HealthCheckResult \<Rightarrow> ('w, action, HealthCheckResult) io" where
  "check_node L R w node response = (
     let name = Name (node_meta node);
         response = gm_put name None response
     in case checkNodeNoExecuteCondition L node of
          Some err \<Rightarrow> State_Monad.return (gm_put name (Some err) response)
        | None \<Rightarrow> do {
            let apiServerPodKey = \<lparr>key_Namespace = NamespaceSystem L, key_Name = staticPodName ''kube-apiserver'' name\<rparr>;
            r \<leftarrow> call (GetPod (wl_Client w) apiServerPodKey) (getPod R (wl_Client w) apiServerPodKey);
            case r of
              Inl err \<Rightarrow> State_Monad.return (gm_put name (Some err) response)
            | Inr apiServerPod \<Rightarrow> do {
                let response = gm_put name (checkStaticPodReadyCondition L apiServerPod) response;
                let controllerManagerPodKey = \<lparr>key_Namespace = NamespaceSystem L,
                  key_Name = staticPodName ''kube-controller-manager'' name\<rparr>;
                r \<leftarrow> call (GetPod (wl_Client w) controllerManagerPodKey) (getPod R (wl_Client w) controllerManagerPodKey);
                State_Monad.return (case r of
                  Inl err \<Rightarrow> gm_put name (Some err) response
                | Inr controllerManagerPod \<Rightarrow>
                    gm_put name (checkStaticPodReadyCondition L controllerManagerPod) response) } })"

fun check_nodes ::
  "lib \<Rightarrow> 'w remote \<Rightarrow> Workload \<Rightarrow> Node list \<Rightarrow> HealthCheckResult \<Rightarrow> ('w, action, HealthCheckResult) io" where
  "check_nodes L R w [] response = State_Monad.return response"
| "check_nodes L R w (node # nodes) response = do {
     response \<leftarrow> check_node L R w node response;
     check_nodes L R w nodes response }"

definition ControlPlaneIsHealthy ::
  "lib \<Rightarrow> 'w remote \<Rightarrow> Workload \<Rightarrow> ('w, action, HealthCheckResult \<times> goerror option) io" where
  "ControlPlaneIsHealthy L R w = do {
     r \<leftarrow> getControlPlaneNodes R w;
     case r of
       Inl err \<Rightarrow> State_Monad.return ([], Some err)
     | Inr controlPlaneNodes \<Rightarrow> do {
         response \<leftarrow> check_nodes L R w controlPlaneNodes [];
         State_Monad.return (response, None) } }"

record ClusterStatus =
  Nodes :: "32 word"
  ReadyNodes :: "32 word"

fun count_nodes :: "lib \<Rightarrow> ClusterStatus \<Rightarrow> Node list \<Rightarrow> ClusterStatus" where
  "count_nodes L status [] = status"
| "count_nodes L status (node # nodes) =
     (let status = status\<lparr>Nodes := Nodes status + 1\<rparr>
      in count_nodes L (if IsNodeReady L node then status\<lparr>ReadyNodes := ReadyNodes status + 1\<rparr> else status) nodes)"

definition cluster_status ::
  "lib \<Rightarrow> 'w remote \<Rightarrow> Workload \<Rightarrow> ('w, action, goerror + ClusterStatus) io" where
  "cluster_status L R w = do {
     r \<leftarrow> getControlPlaneNodes R w;
     State_Monad.return (case r of
       Inl err \<Rightarrow> Inl err
     | Inr nodes \<Rightarrow> Inr (count_nodes L \<lparr>Nodes = 0, ReadyNodes = 0\<rparr> nodes)) }"

section \<open>The management cluster\<close>

definition GetMachinesForCluster ::
  "lib \<Rightarrow> 'w client \<Rightarrow> ObjectKey \<Rightarrow> Func list \<Rightarrow> ('w, action, goerror + FilterableMachineCollection) io" where
  "GetMachinesForCluster L C cluster filters = do {
     let selector = [(ClusterLabelName L, key_Name cluster)];
     r \<leftarrow> call (ListMachines (key_Namespace cluster) selector) (listMachines C (key_Namespace cluster) selector);
     State_Monad.return (case r of
       Inl err \<Rightarrow> Inl (WrapError ''failed to list machines'' err)
     | Inr ml \<Rightarrow>
         (case NewFilterableMachineCollectionFromMachineList (Some ml) of
            Inl p \<Rightarrow> Inl p
          | Inr machines \<Rightarrow> Inr (Filter machines filters))) }"

definition GetWorkloadCluster ::
  "'w client \<Rightarrow> 'w remote \<Rightarrow> 'w crypto \<Rightarrow> ObjectKey \<Rightarrow> ('w, action, goerror + Workload) io" where
  "GetWorkloadCluster C R K clusterKey = do {
     r \<leftarrow> RESTConfig R clusterKey;
     case r of
       Inl err \<Rightarrow> State_Monad.return (Inl err)
     | Inr restConfig \<Rightarrow> do {
         let restConfig = restConfig\<lparr>rc_Timeout := seconds 30\<rparr>;
         r \<leftarrow> call (NewRemoteClient restConfig) (newClient R restConfig);
         case r of
           Inl err \<Rightarrow> State_Monad.return (Inl (WrapError ''failed to create client for workload cluster'' err))
         | Inr c \<Rightarrow> do {
             let key = \<lparr>key_Namespace = key_Namespace clusterKey, key_Name = key_Name clusterKey @ ''-etcd''\<rparr>;
             r \<leftarrow> call (GetSecret key) (getSecret C key);
             case r of
               Inl err \<Rightarrow> State_Monad.return (Inl (WrapError ''failed to get secret; etcd CA bundle'' err))
             | Inr secret \<Rightarrow> do {
                 let data = (case s_Data secret of None \<Rightarrow> [] | Some d \<Rightarrow> d);
                 case map_of data TLSCrtDataName of
                   None \<Rightarrow> State_Monad.return (Inl (NewError ''etcd tls crt does not exist for cluster''))
                 | Some caCertData \<Rightarrow>
                     (case map_of data TLSKeyDataName of
                        None \<Rightarrow> State_Monad.return (Inl (NewError ''etcd tls key does not exist for cluster''))
                      | Some caKeyData \<Rightarrow> do {
                          r \<leftarrow> generateClientCert K caCertData caKeyData;
                          State_Monad.return (case r of
                            Inl err \<Rightarrow> Inl err
                          | Inr clientCert \<Rightarrow> Inr \<lparr>wl_Client = c,
                              wl_etcd = \<lparr>tls_RootCAs = caCertData, tls_Certificates = [clientCert]\<rparr>\<rparr>) }) } } } }"

fun node_errors :: "HealthCheckResult \<Rightarrow> goerror list" where
  "node_errors [] = []"
| "node_errors ((nodeName, err) # nodeChecks) = (case err of
     Some _ \<Rightarrow> NewError (''node '' @ nodeName) # node_errors nodeChecks
   | None \<Rightarrow> node_errors nodeChecks)"

fun match_nodes :: "HealthCheckResult \<Rightarrow> FilterableMachineCollection \<Rightarrow> goerror option" where
  "match_nodes nodeChecks [] = None"
| "match_nodes nodeChecks ((k, machine) # machines) = (case m_NodeRef machine of
     None \<Rightarrow> Some (NewError (''control plane machine '' @ Namespace (m_meta machine) @ ''/'' @
       Name (m_meta machine) @ '' has no status.nodeRef''))
   | Some ref \<Rightarrow>
       if map_of nodeChecks (ref_Name ref) = None
       then Some (NewError (''node '' @ ref_Name ref @ '' was not checked''))
       else match_nodes nodeChecks machines)"

definition healthCheck ::
  "lib \<Rightarrow> 'w client \<Rightarrow> ('w, action, HealthCheckResult \<times> goerror option) io \<Rightarrow> ObjectKey \<Rightarrow> string \<Rightarrow>
   ('w, action, goerror option) io" where
  "healthCheck L C check clusterKey controlPlaneName = do {
     (nodeChecks, err) \<leftarrow> check;
     let errorList = (case err of Some e \<Rightarrow> [e] | None \<Rightarrow> []);
     let errorList = errorList @ node_errors nodeChecks;
     if length errorList \<noteq> 0 then State_Monad.return (NewAggregate L (map Some errorList))
     else do {
       r \<leftarrow> GetMachinesForCluster L C clusterKey [OwnedControlPlaneMachines L controlPlaneName];
       State_Monad.return (case r of
         Inl err \<Rightarrow> Some err
       | Inr machines \<Rightarrow>
           (case match_nodes nodeChecks machines of
              Some err \<Rightarrow> Some err
            | None \<Rightarrow>
                if length nodeChecks \<noteq> length machines
                then Some (NewError ''number of nodes and machines did not match'')
                else None)) } }"

definition TargetClusterControlPlaneIsHealthy ::
  "lib \<Rightarrow> 'w client \<Rightarrow> 'w remote \<Rightarrow> 'w crypto \<Rightarrow> ObjectKey \<Rightarrow> string \<Rightarrow> ('w, action, goerror option) io" where
  "TargetClusterControlPlaneIsHealthy L C R K clusterKey controlPlaneName = do {
     r \<leftarrow> GetWorkloadCluster C R K clusterKey;
     case r of
       Inl err \<Rightarrow> State_Monad.return (Some err)
     | Inr cluster \<Rightarrow> healthCheck L C (ControlPlaneIsHealthy L R cluster) clusterKey controlPlaneName }"

section \<open>What the checks say\<close>

lemma ready_loop_None:
  "ready_loop L pod found cs = None \<longleftrightarrow>
     (found \<or> (\<exists>c \<in> set cs. cond_Type c = PodReady L)) \<and>
     (\<forall>c \<in> set cs. cond_Type c = PodReady L \<longrightarrow> cond_Status c = ConditionTrue L)"
  by (induction cs arbitrary: found) (auto simp: Let_def)

lemma taint_loop_None:
  "taint_loop L node ts = None \<longleftrightarrow>
     \<not> (\<exists>t \<in> set ts. taint_Key t = TaintNodeUnreachable L \<and> taint_Effect t = TaintEffectNoExecute L)"
  by (induction ts) auto

lemma node_errors_Nil: "node_errors checks = [] \<longleftrightarrow> (\<forall>e \<in> set checks. snd e = None)"
  by (induction checks) (auto split: option.splits)

lemma match_nodes_None:
  "match_nodes checks ms = None \<longleftrightarrow>
     (\<forall>m \<in> members ms. \<exists>ref. m_NodeRef m = Some ref \<and> ref_Name ref \<in> fst ` set checks)"
  by (induction checks ms rule: match_nodes.induct) (auto simp: map_of_eq_None_iff split: option.splits)

lemma count_nodes_eq:
  "count_nodes L st ns = \<lparr>Nodes = Nodes st + of_nat (length ns),
     ReadyNodes = ReadyNodes st + of_nat (length (filter (IsNodeReady L) ns))\<rparr>"
  by (induction L st ns rule: count_nodes.induct) (auto simp: Let_def algebra_simps)

text \<open>The result of one turn of the loop: what it puts under the node's name.\<close>

lemma check_node_put: "\<exists>e. fst (run_state (check_node L R w n resp) s) = gm_put (Name (node_meta n)) e resp"
proof -
  have "gm_put k a (gm_put k b m) = gm_put k a m" for k a b and m :: HealthCheckResult
    by (induction m) auto
  then show ?thesis
    by (auto simp: check_node_def Let_def run_simps case_prod_beta split: option.split sum.split)
qed

lemma check_nodes_keys:
  "gm_wf resp \<Longrightarrow> run_state (check_nodes L R w ns resp) s = (resp', s') \<Longrightarrow>
   gm_wf resp' \<and> fst ` set resp' = fst ` set resp \<union> (\<lambda>n. Name (node_meta n)) ` set ns"
proof (induction L R w ns resp arbitrary: s rule: check_nodes.induct)
  case (2 L R w n ns resp)
  obtain r1 s1 where r1: "run_state (check_node L R w n resp) s = (r1, s1)" by fastforce
  then obtain e where e: "r1 = gm_put (Name (node_meta n)) e resp"
    using check_node_put [of L R w n resp s] by auto
  have keys: "fst ` set r1 = insert (Name (node_meta n)) (fst ` set resp)"
    unfolding e by (metis dom_map_of_conv_image_fst dom_fun_upd map_of_gm_put option.distinct(1))
  have "gm_wf r1" using 2(2) unfolding e by simp
  with 2 r1 keys show ?case by (auto simp del: fun_upd_apply)
qed simp

lemma GetMachinesForCluster_wf:
  "run_state (GetMachinesForCluster L C k fs) s = (Inr ms, s') \<Longrightarrow> coll_wf ms"
  by (auto simp: GetMachinesForCluster_def NewFilterableMachineCollectionFromMachineList_def run_simps Let_def
      case_prod_beta split: sum.splits)

lemma emits_GetMachines [emits_intros]:
  "(\<And>ns sel. P (ListMachines ns sel)) \<Longrightarrow> emits P (GetMachinesForCluster L C k fs)"
  unfolding GetMachinesForCluster_def Let_def by (intro emits_intros)

lemma emits_RESTConfig [emits_intros]: "P (GetKubeconfig k) \<Longrightarrow> emits P (RESTConfig R k)"
  unfolding RESTConfig_def by (intro emits_intros)

lemma emits_generateClientCert [emits_intros]: "emits P (generateClientCert K cert key)"
  unfolding generateClientCert_def newClientCert_def Let_def by (intro emits_intros)

lemma emits_GetWorkloadCluster: "emits is_read (GetWorkloadCluster C R K k)"
  unfolding GetWorkloadCluster_def Let_def by (intro emits_intros) simp_all

lemma emits_cluster_status: "emits is_read (cluster_status L R w)"
  unfolding cluster_status_def getControlPlaneNodes_def by (intro emits_intros) simp

lemma emits_ControlPlaneIsHealthy: "emits is_read (ControlPlaneIsHealthy L R w)"
proof -
  have "emits is_read (check_nodes L R w ns resp)" for ns resp
    by (induction ns arbitrary: resp)
      (auto simp: check_node_def Let_def intro!: emits_intros)
  then show ?thesis
    unfolding ControlPlaneIsHealthy_def getControlPlaneNodes_def by (intro emits_intros) simp_all
qed

lemma emits_healthCheck:
  assumes "emits is_read check" shows "emits is_read (healthCheck L C check k n)"
  unfolding healthCheck_def Let_def by (intro emits_intros assms) simp

lemma emits_TargetClusterControlPlaneIsHealthy:
  "emits is_read (TargetClusterControlPlaneIsHealthy L C R K k n)"
  unfolding TargetClusterControlPlaneIsHealthy_def
  by (intro emits_intros emits_GetWorkloadCluster emits_healthCheck emits_ControlPlaneIsHealthy)

lemma healthCheck_None_iff:
  assumes "aggregates L" and "run_state check s = ((checks, err), s1)"
    and "run_state (GetMachinesForCluster L C k [OwnedControlPlaneMachines L n]) s1 = (r, s2)"
  shows "fst (run_state (healthCheck L C check k n) s) = None \<longleftrightarrow>
    err = None \<and> (\<forall>e \<in> set checks. snd e = None) \<and>
    (\<exists>ms. r = Inr ms \<and> length checks = length ms \<and>
      (\<forall>m \<in> members ms. \<exists>ref. m_NodeRef m = Some ref \<and> ref_Name ref \<in> fst ` set checks))"
proof -
  have agg: "NewAggregate L (map Some es) = None \<longleftrightarrow> es = []" for es
    using assms(1) by (cases es) (auto simp: aggregates_def)
  show ?thesis
  proof (cases "err = None \<and> node_errors checks = []")
    case True
    with assms(2,3) have run: "fst (run_state (healthCheck L C check k n) s) = (case r of
        Inl e \<Rightarrow> Some e
      | Inr ms \<Rightarrow> (case match_nodes checks ms of
            Some e \<Rightarrow> Some e
          | None \<Rightarrow> if length checks \<noteq> length ms
              then Some (NewError ''number of nodes and machines did not match'') else None))"
      by (simp add: healthCheck_def)
    show ?thesis
    proof (cases r)
      case (Inr ms)
      then show ?thesis
        using True match_nodes_None [of checks ms]
        unfolding run node_errors_Nil by (cases "match_nodes checks ms") auto
    qed (simp add: run)
  next
    case False
    then have "(case err of None \<Rightarrow> [] | Some e \<Rightarrow> [e]) @ node_errors checks \<noteq> []"
      by (auto split: option.splits)
    with False assms(2) show ?thesis
      unfolding healthCheck_def Let_def node_errors_Nil [symmetric]
      by (auto simp: agg simp del: append_is_Nil_conv map_append)
  qed
qed

section \<open>A concrete workload cluster\<close>

definition sample_owned :: "string \<Rightarrow> string \<Rightarrow> Machine" where
  "sample_owned n node = (sample_machine n None 1)\<lparr>
     m_meta := (sample_meta n)\<lparr>Labels := [(''cp'', ''k''), (''cn'', ''c'')]\<rparr>,
     m_NodeRef := Some (sample_ref\<lparr>ref_Name := node\<rparr>)\<rparr>"

definition sample_workload :: Workload where
  "sample_workload = \<lparr>wl_Client = ''kc'', wl_etcd = \<lparr>tls_RootCAs = ''C'', tls_Certificates = [''T'']\<rparr>\<rparr>"

lemma sample_GetMachines:
  "run_state (GetMachinesForCluster sample_lib sample_client sample_key [OwnedControlPlaneMachines sample_lib ''k''])
     \<lparr>world = [sample_owned ''m'' ''n''], trace = []\<rparr> =
   (Inr [(''m'', sample_owned ''m'' ''n'')],
    \<lparr>world = [sample_owned ''m'' ''n''], trace = [ListMachines ''ns'' [(''cn'', ''c'')]]\<rparr>)"
  by (simp add: GetMachinesForCluster_def run_simps Let_def sample_key_def sample_defs sample_owned_def
      NewFilterableMachineCollectionFromMachineList_def Filter_def newFilteredMachineCollection_def unsortedList_def
      OwnedControlPlaneMachines_def)

section \<open>Properties\<close>



text \<open>
  the health response has an entry for every control plane node and for nothing else.
\<close>

theorem every_node_checked:
  assumes "run_state (ControlPlaneIsHealthy L R w) s = ((response, None), s')"
  shows "\<exists>nodes s1. run_state (getControlPlaneNodes R w) s = (Inr nodes, s1) \<and>
    gm_wf response \<and> fst ` set response = (\<lambda>n. Name (node_meta n)) ` set nodes"
proof -
  obtain r s1 where r: "run_state (getControlPlaneNodes R w) s = (r, s1)" by fastforce
  with assms obtain nodes where "r = Inr nodes" "run_state (check_nodes L R w nodes []) s1 = (response, s')"
    by (auto simp: ControlPlaneIsHealthy_def split: sum.splits prod.splits)
  with r check_nodes_keys [of "[]" L R w nodes s1 response s'] show ?thesis by auto
qed

theorem every_node_checked_witness:
  "\<exists>response s'. run_state (ControlPlaneIsHealthy sample_lib (sample_remote [''a'', ''b'']) sample_workload)
       \<lparr>world = [], trace = []\<rparr> = ((response, None), s') \<and> fst ` set response = {''a'', ''b''}"
proof -
  obtain response s' where run: "run_state (ControlPlaneIsHealthy sample_lib (sample_remote [''a'', ''b'']) sample_workload)
       \<lparr>world = [], trace = []\<rparr> = ((response, None), s')"
    by (simp add: ControlPlaneIsHealthy_def getControlPlaneNodes_def run_simps case_prod_beta)
  from every_node_checked [OF run] have "fst ` set response = {''a'', ''b''}"
    by (auto simp: getControlPlaneNodes_def run_simps sample_node_def sample_meta_def)
  with run show ?thesis by blast
qed

text \<open>
  Once both static pods of a node could be fetched, the node's result is that of the
  controller manager alone: whatever the API server pod's conditions say is overwritten.
\<close>

theorem api_server_result_overwritten:
  assumes "checkNodeNoExecuteCondition L node = None"
    and "getPod R (wl_Client w) \<lparr>key_Namespace = NamespaceSystem L,
      key_Name = staticPodName ''kube-apiserver'' (Name (node_meta node))\<rparr> (world s) = (Inr apiServerPod, w1)"
    and "getPod R (wl_Client w) \<lparr>key_Namespace = NamespaceSystem L,
      key_Name = staticPodName ''kube-controller-manager'' (Name (node_meta node))\<rparr> w1 = (Inr cmPod, w2)"
  shows "map_of (fst (run_state (check_node L R w node response) s)) (Name (node_meta node)) =
    Some (checkStaticPodReadyCondition L cmPod)"
  using assms by (simp add: check_node_def Let_def run_simps)

theorem api_server_result_overwritten_witness:
  "\<exists>(R :: Machine list remote) s. checkStaticPodReadyCondition sample_lib (sample_pod ''p'' ''False'') \<noteq> None \<and>
     fst (getPod R ''kc'' \<lparr>key_Namespace = ''kube-system'', key_Name = ''kube-apiserver-a''\<rparr> (world s)) =
       Inr (sample_pod ''p'' ''False'') \<and>
     map_of (fst (run_state (check_node sample_lib R sample_workload (sample_node ''a'') []) s)) ''a'' = Some None"
proof -
  let ?R = "(sample_remote [''a''])\<lparr>getPod := (\<lambda>_ k w. (Inr (if key_Name k = ''kube-apiserver-a''
    then sample_pod ''p'' ''False'' else sample_pod ''q'' ''True''), w))\<rparr>"
  let ?s = "\<lparr>world = [], trace = []\<rparr> :: (Machine list, action) st"
  have "checkStaticPodReadyCondition sample_lib (sample_pod ''p'' ''False'') \<noteq> None"
    by (simp add: checkStaticPodReadyCondition_def sample_pod_def)
  moreover have "fst (getPod ?R ''kc'' \<lparr>key_Namespace = ''kube-system'', key_Name = ''kube-apiserver-a''\<rparr> (world ?s)) =
    Inr (sample_pod ''p'' ''False'')" by simp
  moreover have "map_of (fst (run_state (check_node sample_lib ?R sample_workload (sample_node ''a'') []) ?s)) ''a'' = Some None"
    using api_server_result_overwritten [of sample_lib "sample_node ''a''" ?R sample_workload ?s
        "sample_pod ''p'' ''False''" "[]" "sample_pod ''q'' ''True''" "[]" "[]"]
    by (simp add: checkNodeNoExecuteCondition_def checkStaticPodReadyCondition_def sample_node_def sample_pod_def
        sample_meta_def staticPodName_def)
  ultimately show ?thesis by (intro exI [of _ ?R] exI [of _ ?s] conjI)
qed

text \<open>
  the node counts of the cluster status are the numbers of control plane nodes and of ready
  ones, modulo \<open>2 ^ 32\<close>; below \<open>2 ^ 31\<close> nodes they are exact as signed numbers.
\<close>

theorem cluster_status_counts:
  assumes "run_state (getControlPlaneNodes R w) s = (Inr nodes, s1)" and "length nodes < 2 ^ 31"
  shows "\<exists>st. run_state (cluster_status L R w) s = (Inr st, s1) \<and>
    sint (Nodes st) = int (length nodes) \<and> sint (ReadyNodes st) = int (length (filter (IsNodeReady L) nodes))"
proof -
  have sint: "sint (of_nat k :: 32 word) = int k" if "k < 2 ^ 31" for k
    using that by (simp add: sint_uint signed_take_bit_int_eq_self unat_of_nat uint_nat take_bit_nat_eq_self)
  show ?thesis
    using assms sint [of "length nodes"] sint [of "length (filter (IsNodeReady L) nodes)"]
      length_filter_le [of "IsNodeReady L" nodes]
    by (simp add: cluster_status_def count_nodes_eq)
qed

theorem cluster_status_counts_witness:
  "\<exists>st s1. run_state (cluster_status sample_lib (sample_remote [''a'', ''b'']) sample_workload)
       \<lparr>world = [], trace = []\<rparr> = (Inr st, s1) \<and> sint (Nodes st) = 2 \<and> sint (ReadyNodes st) = 2"
  using cluster_status_counts [of "sample_remote [''a'', ''b'']" sample_workload
      "\<lparr>world = [], trace = []\<rparr>" "map sample_node [''a'', ''b'']" _ sample_lib]
  by (auto simp: getControlPlaneNodes_def run_simps sample_node_def)

end
