(* ===== verification/Ccp_Scaling.thy ===== *)
theory Ccp_Scaling
  imports Workload_Cluster
begin

text \<open>
  \<^verbatim>\<open>src/controllers/controlplane/helpers.go\<close> and \<^verbatim>\<open>upgrade.go\<close>: creating a control plane machine with
  its infrastructure and bootstrap objects, and the rolling upgrade that adds and removes one
  machine at a time behind a health check. \<open>reconciler\<close> is the receiver
  \<^verbatim>\<open>CritControlPlaneReconciler\<close>: its clients, and the packages they stand on. An
  operation that panics returns the error value \<open>Panic\<close>.
\<close>

section \<open>Requeue delays\<close>

definition DeleteRequeueAfter :: duration where "DeleteRequeueAfter = seconds 30"
definition HealthCheckFailedRequeueAfter :: duration where "HealthCheckFailedRequeueAfter = seconds 20"
definition DependentCertRequeueAfter :: duration where "DependentCertRequeueAfter = seconds 30"
definition deleteRequeueAfter :: duration where "deleteRequeueAfter = seconds 30"
definition healthCheckFailedRequeueAfter :: duration where "healthCheckFailedRequeueAfter = seconds 20"

record 'w reconciler =
  r_lib :: lib
  r_Client :: "'w client"
  r_remote :: "'w remote"
  r_crypto :: "'w crypto"
  r_codec :: codec

section \<open>Creating a machine\<close>

definition cleanup_ref :: "'w reconciler \<Rightarrow> ObjectReference option \<Rightarrow> ('w, action, goerror option) io" where
  "cleanup_ref r ref = (case ref of
     None \<Rightarrow> State_Monad.return None
   | Some ref \<Rightarrow> do {
       let config = ref\<lparr>ref_UID := []\<rparr>;
       e \<leftarrow> call (DeleteObject config) (deleteObject (r_Client r) config);
       State_Monad.return (case e of
         Some err \<Rightarrow>
           if IsNotFound (r_lib r) err then None
           else Some (WrapError ''failed to cleanup generated resources after error'' err)
       | None \<Rightarrow> None) })"

definition cleanupFromGeneration ::
  "'w reconciler \<Rightarrow> ObjectReference option list \<Rightarrow> ('w, action, goerror option) io" where
  "cleanupFromGeneration r remoteRefs = do {
     errs \<leftarrow> for_all (cleanup_ref r) remoteRefs;
     State_Monad.return (NewAggregate (r_lib r) (map Some errs)) }"

definition ccp_owner :: "lib \<Rightarrow> CritControlPlane \<Rightarrow> OwnerReference" where
  "ccp_owner L ccp = \<lparr>or_APIVersion = GroupVersion_String L controlplane_GroupVersion,
     or_Kind = ''CritControlPlane'', or_Name = Name (ccp_meta ccp), or_UID = UID (ccp_meta ccp),
     or_Controller = None\<rparr>"

definition generateCritConfig ::
  "'w reconciler \<Rightarrow> CritControlPlane \<Rightarrow> Cluster \<Rightarrow> CritConfigSpec \<Rightarrow> ('w, action, goerror + ObjectReference) io" where
  "generateCritConfig r ccp cluster spec = do {
     let L = r_lib r;
     name \<leftarrow> extern (generateName (r_Client r) (Name (ccp_meta ccp) @ ''-''));
     let bootstrapConfig = \<lparr>
       cfg_meta = new_meta name (Namespace (ccp_meta ccp))
         (ControlPlaneLabelsForClusterWithHash L (Name (cl_meta cluster)) (Name (ccp_meta ccp)) (Hash L (ccp_Spec ccp)))
         [ccp_owner L ccp],
       cfg_Spec = spec,
       cfg_Status = \<lparr>cfgst_Ready = False, cfgst_DataSecretName = None,
         cfgst_FailureReason = [], cfgst_FailureMessage = []\<rparr>\<rparr>;
     x \<leftarrow> call (CreateConfig bootstrapConfig) (createConfig (r_Client r) bootstrapConfig);
     State_Monad.return (case x of
       Inl err \<Rightarrow> Inl (WrapError ''Failed to create bootstrap configuration'' err)
     | Inr created \<Rightarrow> Inr \<lparr>ref_Kind = ''CritConfig'',
         ref_APIVersion = GroupVersion_String L bootstrap_GroupVersion,
         ref_Namespace = Namespace (cfg_meta created), ref_Name = Name (cfg_meta created),
         ref_UID = UID (cfg_meta created)\<rparr>) }"

definition generateMachine ::
  "'w reconciler \<Rightarrow> CritControlPlane \<Rightarrow> Cluster \<Rightarrow> ObjectReference \<Rightarrow> ObjectReference option \<Rightarrow> string option \<Rightarrow>
   ('w, action, goerror option) io" where
  "generateMachine r ccp cluster infraRef bootstrapRef failureDomain = do {
     let L = r_lib r;
     name \<leftarrow> extern (generateName (r_Client r) (Name (ccp_meta ccp) @ ''-''));
     let machine = \<lparr>
       m_meta = new_meta name (Namespace (ccp_meta ccp))
         (ControlPlaneLabelsForClusterWithHash L (Name (cl_meta cluster)) (Name (ccp_meta ccp)) (Hash L (ccp_Spec ccp)))
         [NewControllerRef L (ccp_meta ccp) controlplane_GroupVersion ''CritControlPlane''],
       m_ClusterName = Name (cl_meta cluster),
       m_Version = Some (ccps_Version (ccp_Spec ccp)),
       m_InfrastructureRef = infraRef,
       m_ConfigRef = bootstrapRef,
       m_FailureDomain = failureDomain,
       m_NodeRef = None\<rparr>;
     e \<leftarrow> call (CreateMachine machine) (createMachine (r_Client r) machine);
     State_Monad.return (case e of
       Some err \<Rightarrow> Some (WrapError ''Failed to create machine'' err)
     | None \<Rightarrow> None) }"

definition cloneConfigsAndGenerateMachine ::
  "'w reconciler \<Rightarrow> Cluster \<Rightarrow> CritControlPlane \<Rightarrow> CritConfigSpec \<Rightarrow> string option \<Rightarrow> ('w, action, goerror option) io" where
  "cloneConfigsAndGenerateMachine r cluster ccp bootstrapSpec failureDomain = do {
     let L = r_lib r;
     let input = \<lparr>cti_TemplateRef = ccps_InfrastructureTemplate (ccp_Spec ccp),
       cti_Namespace = Namespace (ccp_meta ccp), cti_OwnerRef = ccp_owner L ccp,
       cti_ClusterName = Name (cl_meta cluster),
       cti_Labels = ControlPlaneLabelsForClusterWithHash L (Name (cl_meta cluster)) (Name (ccp_meta ccp))
         (Hash L (ccp_Spec ccp))\<rparr>;
     x \<leftarrow> call (CloneTemplate input) (cloneTemplate (r_Client r) input);
     case x of
       Inl err \<Rightarrow> State_Monad.return (Some (WrapError ''failed to clone infrastructure template'' err))
     | Inr infraRef \<Rightarrow> do {
         b \<leftarrow> generateCritConfig r ccp cluster bootstrapSpec;
         let bootstrapRef = (case b of Inl _ \<Rightarrow> None | Inr ref \<Rightarrow> Some ref);
         let errs = (case b of Inl err \<Rightarrow> [WrapError ''failed to generate bootstrap config'' err] | Inr _ \<Rightarrow> []);
         errs \<leftarrow> (if length errs = 0 then do {
             e \<leftarrow> generateMachine r ccp cluster infraRef bootstrapRef failureDomain;
             State_Monad.return (case e of
               Some err \<Rightarrow> errs @ [WrapError ''failed to create Machine'' err]
             | None \<Rightarrow> errs) }
           else State_Monad.return errs);
         if length errs > 0 then do {
           e \<leftarrow> cleanupFromGeneration r [Some infraRef, bootstrapRef];
           let errs = (case e of
             Some err \<Rightarrow> errs @ [WrapError ''failed to cleanup generated resources'' err]
           | None \<Rightarrow> errs);
           State_Monad.return (NewAggregate L (map Some errs)) }
         else State_Monad.return None } }"

section \<open>Scaling\<close>

definition reconcileHealth ::
  "'w reconciler \<Rightarrow> Cluster \<Rightarrow> CritControlPlane \<Rightarrow> ControlPlane \<Rightarrow> ('w, action, goerror option) io" where
  "reconcileHealth r cluster ccp controlPlane = do {
     e \<leftarrow> TargetClusterControlPlaneIsHealthy (r_lib r) (r_Client r) (r_remote r) (r_crypto r)
       (ObjectKey_of (cl_meta cluster)) (Name (ccp_meta ccp));
     case e of
       Some err \<Rightarrow> do {
         note_event (RecordEvent ''ControlPlaneUnhealthy'');
         State_Monad.return (Some (RequeueAfterError healthCheckFailedRequeueAfter)) }
     | None \<Rightarrow>
         if HasDeletingMachine (r_lib r) controlPlane
         then State_Monad.return (Some (RequeueAfterError deleteRequeueAfter))
         else State_Monad.return None }"

definition selectMachineForScaleDown :: "lib \<Rightarrow> ControlPlane \<Rightarrow> goerror + Machine" where
  "selectMachineForScaleDown L controlPlane =
     (let machines = cp_Machines controlPlane;
          needingUpgrade = MachinesNeedingUpgrade L controlPlane;
          machines = (if Len needingUpgrade > 0 then needingUpgrade else machines)
      in MachineInFailureDomainWithMostMachines L controlPlane machines)"

definition scaleUpControlPlane ::
  "'w reconciler \<Rightarrow> Cluster \<Rightarrow> CritControlPlane \<Rightarrow> ControlPlane \<Rightarrow> ('w, action, Result \<times> goerror option) io" where
  "scaleUpControlPlane r cluster ccp controlPlane = do {
     h \<leftarrow> reconcileHealth r cluster ccp controlPlane;
     case h of
       Some _ \<Rightarrow> State_Monad.return (no_requeue, Some (RequeueAfterError healthCheckFailedRequeueAfter))
     | None \<Rightarrow> do {
         let bootstrapSpec = ccps_CritConfigSpec (ccp_Spec ccp);
         let fd = FailureDomainWithFewestMachines (r_lib r) controlPlane;
         e \<leftarrow> cloneConfigsAndGenerateMachine r cluster ccp bootstrapSpec fd;
         case e of
           Some err \<Rightarrow> do {
             note_event (RecordEvent ''FailedScaleUp'');
             State_Monad.return (no_requeue, Some err) }
         | None \<Rightarrow> State_Monad.return (requeue, None) } }"

definition scaleDownControlPlane ::
  "'w reconciler \<Rightarrow> Cluster \<Rightarrow> CritControlPlane \<Rightarrow> ControlPlane \<Rightarrow> ('w, action, Result \<times> goerror option) io" where
  "scaleDownControlPlane r cluster ccp controlPlane = do {
     h \<leftarrow> reconcileHealth r cluster ccp controlPlane;
     case h of
       Some _ \<Rightarrow> State_Monad.return (no_requeue, Some (RequeueAfterError healthCheckFailedRequeueAfter))
     | None \<Rightarrow>
         (case selectMachineForScaleDown (r_lib r) controlPlane of
            Inl err \<Rightarrow> State_Monad.return (no_requeue, Some (WrapError ''failed to select machine for scale down'' err))
          | Inr machineToDelete \<Rightarrow> do {
              e \<leftarrow> TargetClusterControlPlaneIsHealthy (r_lib r) (r_Client r) (r_remote r) (r_crypto r)
                (ObjectKey_of (cl_meta cluster)) (Name (ccp_meta ccp));
              case e of
                Some err \<Rightarrow> do {
                  note_event (RecordEvent ''ControlPlaneUnhealthy'');
                  State_Monad.return (no_requeue, Some (RequeueAfterError healthCheckFailedRequeueAfter)) }
              | None \<Rightarrow> do {
                  e \<leftarrow> call (DeleteMachine machineToDelete) (deleteMachine (r_Client r) machineToDelete);
                  case e of
                    Some err \<Rightarrow>
                      if IsNotFound (r_lib r) err then State_Monad.return (requeue, None)
                      else do {
                        note_event (RecordEvent ''FailedScaleDown'');
                        State_Monad.return (no_requeue, Some err) }
                  | None \<Rightarrow> State_Monad.return (requeue, None) } }) }"

definition upgradeControlPlane ::
  "'w reconciler \<Rightarrow> Cluster \<Rightarrow> CritControlPlane \<Rightarrow> ControlPlane \<Rightarrow> ('w, action, Result \<times> goerror option) io" where
  "upgradeControlPlane r cluster ccp controlPlane = do {
     w \<leftarrow> GetWorkloadCluster (r_Client r) (r_remote r) (r_crypto r) (ObjectKey_of (cl_meta cluster));
     case w of
       Inl err \<Rightarrow> State_Monad.return (no_requeue, Some err)
     | Inr workloadCluster \<Rightarrow> do {
         st \<leftarrow> cluster_status (r_lib r) (r_remote r) workloadCluster;
         case st of
           Inl err \<Rightarrow> State_Monad.return (no_requeue, Some err)
         | Inr status \<Rightarrow>
             if sint (Nodes status) \<le> ccps_Replicas (ccp_Spec ccp)
             then scaleUpControlPlane r cluster ccp controlPlane
             else scaleDownControlPlane r cluster ccp controlPlane } }"

section \<open>How the operations run\<close>

text \<open>A machine as the controller makes it: labelled with the current hash, controlled by the control plane.\<close>

definition current_machine :: "lib \<Rightarrow> Cluster \<Rightarrow> CritControlPlane \<Rightarrow> Machine \<Rightarrow> bool" where
  "current_machine L cluster ccp m \<longleftrightarrow>
     map_of (Labels (m_meta m)) CritControlPlaneHashLabelKey = Some (Hash L (ccp_Spec ccp)) \<and>
     map_of (Labels (m_meta m)) (MachineControlPlaneLabelName L) = Some (Name (ccp_meta ccp)) \<and>
     map_of (Labels (m_meta m)) (ClusterLabelName L) = Some (Name (cl_meta cluster)) \<and>
     OwnerReferences (m_meta m) = [NewControllerRef L (ccp_meta ccp) controlplane_GroupVersion ''CritControlPlane''] \<and>
     Namespace (m_meta m) = Namespace (ccp_meta ccp) \<and> m_ClusterName m = Name (cl_meta cluster) \<and>
     m_Version m = Some (ccps_Version (ccp_Spec ccp))"

lemma generateMachine_run:
  assumes "label_keys (r_lib r)"
    and "run_state (generateMachine r ccp cluster infraRef bootstrapRef fd) s = (e, s')"
  obtains m where "trace s' = trace s @ [CreateMachine m]" and "current_machine (r_lib r) cluster ccp m"
    and "m_InfrastructureRef m = infraRef" and "m_ConfigRef m = bootstrapRef" and "m_FailureDomain m = fd"
  using assms
  by (auto simp: generateMachine_def run_simps Let_def case_prod_beta current_machine_def new_meta_def labels_with_hash)

lemma generateCritConfig_run:
  assumes "run_state (generateCritConfig r ccp cluster spec) s = (x, s')"
  obtains cfg where "trace s' = trace s @ [CreateConfig cfg]" and "cfg_Spec cfg = spec"
    and "Labels (cfg_meta cfg) = ControlPlaneLabelsForClusterWithHash (r_lib r) (Name (cl_meta cluster))
      (Name (ccp_meta ccp)) (Hash (r_lib r) (ccp_Spec ccp))"
  using assms by (auto simp: generateCritConfig_def run_simps Let_def case_prod_beta new_meta_def)

lemma cleanup_ref_run:
  "run_state (cleanup_ref r ref) s = (e, s') \<Longrightarrow>
   trace s' = trace s @ (case ref of None \<Rightarrow> [] | Some x \<Rightarrow> [DeleteObject (x\<lparr>ref_UID := []\<rparr>)])"
  by (auto simp: cleanup_ref_def run_simps Let_def case_prod_beta split: option.splits)

lemma for_all_cleanup_run:
  "run_state (for_all (cleanup_ref r) refs) s = (es, s') \<Longrightarrow>
   trace s' = trace s @ map (\<lambda>x. DeleteObject (x\<lparr>ref_UID := []\<rparr>)) (List.map_filter (\<lambda>x. x) refs)"
  by (induction refs arbitrary: s es)
    (auto simp: map_filter_simps dest!: cleanup_ref_run split: prod.splits option.splits)

lemma cleanupFromGeneration_run:
  "run_state (cleanupFromGeneration r refs) s = (e, s') \<Longrightarrow>
   trace s' = trace s @ map (\<lambda>x. DeleteObject (x\<lparr>ref_UID := []\<rparr>)) (List.map_filter (\<lambda>x. x) refs)"
  by (auto simp: cleanupFromGeneration_def dest: for_all_cleanup_run split: prod.splits)

section \<open>Generating a machine: the protocol\<close>

definition clone_input :: "lib \<Rightarrow> Cluster \<Rightarrow> CritControlPlane \<Rightarrow> CloneTemplateInput" where
  "clone_input L cluster ccp = \<lparr>cti_TemplateRef = ccps_InfrastructureTemplate (ccp_Spec ccp),
     cti_Namespace = Namespace (ccp_meta ccp), cti_OwnerRef = ccp_owner L ccp,
     cti_ClusterName = Name (cl_meta cluster),
     cti_Labels = ControlPlaneLabelsForClusterWithHash L (Name (cl_meta cluster)) (Name (ccp_meta ccp))
       (Hash L (ccp_Spec ccp))\<rparr>"

definition discard :: "ObjectReference \<Rightarrow> action" where
  "discard ref = DeleteObject (ref\<lparr>ref_UID := []\<rparr>)"

text \<open>
  The sequences of calls that create one machine, given what cloning the infrastructure template
  returned: whether it succeeds, and the calls. Whatever was created before a failure is deleted.
\<close>

inductive generation ::
  "lib \<Rightarrow> Cluster \<Rightarrow> CritControlPlane \<Rightarrow> CritConfigSpec \<Rightarrow> string option \<Rightarrow> goerror + ObjectReference \<Rightarrow>
   bool \<Rightarrow> action list \<Rightarrow> bool"
  for L cluster ccp spec fd where
  clone_fails: "generation L cluster ccp spec fd (Inl err) False [CloneTemplate (clone_input L cluster ccp)]"
| config_fails: "cfg_Spec cfg = spec \<Longrightarrow>
    generation L cluster ccp spec fd (Inr infra) False
      [CloneTemplate (clone_input L cluster ccp), CreateConfig cfg, discard infra]"
| machine_fails: "cfg_Spec cfg = spec \<Longrightarrow> current_machine L cluster ccp m \<Longrightarrow> m_FailureDomain m = fd \<Longrightarrow>
    m_InfrastructureRef m = infra \<Longrightarrow> m_ConfigRef m = Some boot \<Longrightarrow>
    generation L cluster ccp spec fd (Inr infra) False
      [CloneTemplate (clone_input L cluster ccp), CreateConfig cfg, CreateMachine m, discard infra, discard boot]"
| succeeds: "cfg_Spec cfg = spec \<Longrightarrow> current_machine L cluster ccp m \<Longrightarrow> m_FailureDomain m = fd \<Longrightarrow>
    m_InfrastructureRef m = infra \<Longrightarrow> m_ConfigRef m = Some boot \<Longrightarrow>
    generation L cluster ccp spec fd (Inr infra) True
      [CloneTemplate (clone_input L cluster ccp), CreateConfig cfg, CreateMachine m]"

inductive_cases generation_TrueE: "generation L cluster ccp spec fd x True es"
inductive_cases generation_InlE: "generation L cluster ccp spec fd (Inl err) b es"

lemma generation_no_delete: "generation L cluster ccp spec fd x b es \<Longrightarrow> deletes es = []"
  by (induction rule: generation.induct) (auto simp: discard_def)

lemma generation_creates:
  "generation L cluster ccp spec fd x b es \<Longrightarrow>
   length (creates es) \<le> 1 \<and> (\<forall>m \<in> set (creates es). current_machine L cluster ccp m \<and> m_FailureDomain m = fd)"
  by (induction rule: generation.induct) (auto simp: discard_def)

lemma generation_True_creates:
  "generation L cluster ccp spec fd x True es \<Longrightarrow>
   \<exists>m. creates es = [m] \<and> current_machine L cluster ccp m \<and> m_FailureDomain m = fd"
  by (erule generation_TrueE) auto

lemma aggregate_Some: "aggregates L \<Longrightarrow> \<exists>e'. NewAggregate L (Some e # es) = Some e'"
  unfolding aggregates_def by (metis list.set_intros(1) not_None_eq)

lemma clone_run:
  assumes lk: "label_keys (r_lib r)" and ag: "aggregates (r_lib r)"
    and run: "run_state (cloneConfigsAndGenerateMachine r cluster ccp spec fd) s = (e, s')"
  shows "\<exists>es. trace s' = trace s @ es \<and>
    generation (r_lib r) cluster ccp spec fd
      (fst (cloneTemplate (r_Client r) (clone_input (r_lib r) cluster ccp) (world s))) (e = None) es"
proof -
  let ?i = "clone_input (r_lib r) cluster ccp"
  obtain x w where x: "cloneTemplate (r_Client r) ?i (world s) = (x, w)" by fastforce
  let ?s1 = "s\<lparr>world := w, trace := trace s @ [CloneTemplate ?i]\<rparr>"
  show ?thesis
  proof (cases x)
    case (Inl err)
    with run x have "e \<noteq> None" "s' = ?s1"
      by (auto simp: cloneConfigsAndGenerateMachine_def clone_input_def [symmetric] run_simps Let_def)
    with Inl x show ?thesis by (auto intro: clone_fails)
  next
    case (Inr infra)
    obtain b s2 where b: "run_state (generateCritConfig r ccp cluster spec) ?s1 = (b, s2)" by fastforce
    then obtain cfg where cfg: "trace s2 = trace s @ [CloneTemplate ?i, CreateConfig cfg]" "cfg_Spec cfg = spec"
      by (rule generateCritConfig_run) auto
    show ?thesis
    proof (cases b)
      case (Inl err)
      with run x Inr b obtain c where c: "run_state (cleanupFromGeneration r [Some infra, None]) s2 = (c, s')"
        and e: "e \<noteq> None"
        using aggregate_Some [OF ag]
        by (auto simp: cloneConfigsAndGenerateMachine_def clone_input_def [symmetric] run_simps Let_def
            split: prod.splits option.splits)
      have "trace s' = trace s @ [CloneTemplate ?i, CreateConfig cfg, discard infra]"
        using cleanupFromGeneration_run [OF c] cfg by (simp add: discard_def map_filter_simps)
      with cfg x Inr e show ?thesis by (auto intro: config_fails)
    next
      case (Inr boot)
      obtain g s3 where g: "run_state (generateMachine r ccp cluster infra (Some boot) fd) s2 = (g, s3)" by fastforce
      then obtain m where m: "trace s3 = trace s2 @ [CreateMachine m]" "current_machine (r_lib r) cluster ccp m"
        "m_InfrastructureRef m = infra" "m_ConfigRef m = Some boot" "m_FailureDomain m = fd"
        using generateMachine_run [OF lk] by metis
      show ?thesis
      proof (cases g)
        case None
        with run x \<open>x = Inr infra\<close> b Inr g have "e = None" "s' = s3"
          by (auto simp: cloneConfigsAndGenerateMachine_def clone_input_def [symmetric] run_simps Let_def)
        with m cfg x \<open>x = Inr infra\<close> show ?thesis by (auto intro: succeeds)
      next
        case (Some err)
        with run x \<open>x = Inr infra\<close> b Inr g
        obtain c where c: "run_state (cleanupFromGeneration r [Some infra, Some boot]) s3 = (c, s')"
          and e: "e \<noteq> None"
          using aggregate_Some [OF ag]
          by (auto simp: cloneConfigsAndGenerateMachine_def clone_input_def [symmetric] run_simps Let_def
              split: prod.splits option.splits)
        have "trace s' = trace s @ [CloneTemplate ?i, CreateConfig cfg, CreateMachine m, discard infra, discard boot]"
          using cleanupFromGeneration_run [OF c] cfg m by (simp add: discard_def map_filter_simps)
        with cfg m x \<open>x = Inr infra\<close> e show ?thesis by (auto intro: machine_fails)
      qed
    qed
  qed
qed

section \<open>The health gate\<close>

lemma no_machine_writes: "list_all is_read es \<Longrightarrow> filter is_machine_write es = []"
  by (auto simp: filter_empty_conv list_all_iff)

lemma emits_reconcileHealth: "emits is_read (reconcileHealth r cluster ccp cp)"
  unfolding reconcileHealth_def
  by (intro emits_intros emits_TargetClusterControlPlaneIsHealthy) simp

lemma reconcileHealth_None:
  "run_state (reconcileHealth r cluster ccp cp) s = (None, s') \<Longrightarrow>
   run_state (TargetClusterControlPlaneIsHealthy (r_lib r) (r_Client r) (r_remote r) (r_crypto r)
       (ObjectKey_of (cl_meta cluster)) (Name (ccp_meta ccp))) s = (None, s') \<and>
   \<not> HasDeletingMachine (r_lib r) cp"
  by (auto simp: reconcileHealth_def run_simps split: prod.splits option.splits if_splits)

text \<open>
  An operation behind the health gate: it changes nothing before the health check has passed,
  then does its work, which changes at most one machine.
\<close>

locale health_gated =
  fixes op work :: "'w reconciler \<Rightarrow> Cluster \<Rightarrow> CritControlPlane \<Rightarrow> ControlPlane \<Rightarrow> ('w, action, Result \<times> goerror option) io"
  assumes gate: "op r cluster ccp cp = do {
      h \<leftarrow> reconcileHealth r cluster ccp cp;
      case h of
        Some _ \<Rightarrow> State_Monad.return (no_requeue, Some (RequeueAfterError healthCheckFailedRequeueAfter))
      | None \<Rightarrow> work r cluster ccp cp }"
    and one_write: "label_keys (r_lib r) \<Longrightarrow> aggregates (r_lib r) \<Longrightarrow> at_most 1 is_machine_write (work r cluster ccp cp)"
begin

lemma run_cases:
  assumes "run_state (op r cluster ccp cp) s = (out, s')"
  obtains (closed) h where "run_state (reconcileHealth r cluster ccp cp) s = (Some h, s')"
      and "out = (no_requeue, Some (RequeueAfterError healthCheckFailedRequeueAfter))"
  | (opened) s1 where "run_state (reconcileHealth r cluster ccp cp) s = (None, s1)"
      and "run_state (work r cluster ccp cp) s1 = (out, s')"
  using assms by (auto simp: gate split: prod.splits option.splits)

lemma writes_need_health:
  assumes "run_state (op r cluster ccp cp) s = (out, s')" and "trace s' = trace s @ es"
    and "\<not> list_all is_read es"
  shows "\<not> HasDeletingMachine (r_lib r) cp \<and>
    fst (run_state (TargetClusterControlPlaneIsHealthy (r_lib r) (r_Client r) (r_remote r) (r_crypto r)
       (ObjectKey_of (cl_meta cluster)) (Name (ccp_meta ccp))) s) = None"
  using assms(1)
proof (cases rule: run_cases)
  case (closed h)
  with emits_trace [OF emits_reconcileHealth] assms(2,3) show ?thesis by blast
next
  case (opened s1)
  with reconcileHealth_None show ?thesis by fastforce
qed

lemma one_machine:
  assumes "label_keys (r_lib r)" and "aggregates (r_lib r)"
  shows "at_most 1 is_machine_write (op r cluster ccp cp)"
  unfolding gate
proof (rule at_most_bind [where a = 0 and b = 1])
  show "at_most 0 is_machine_write (reconcileHealth r cluster ccp cp)"
    by (intro emits_at_most emits_weaken [OF emits_reconcileHealth] reads_write_nothing)
  show "at_most 1 is_machine_write (case h of
      None \<Rightarrow> work r cluster ccp cp
    | Some _ \<Rightarrow> State_Monad.return (no_requeue, Some (RequeueAfterError healthCheckFailedRequeueAfter)))" for h
    using one_write [OF assms] emits_at_most [OF emits_return] by (auto split: option.split)
qed simp

end

definition scale_up_work ::
  "'w reconciler \<Rightarrow> Cluster \<Rightarrow> CritControlPlane \<Rightarrow> ControlPlane \<Rightarrow> ('w, action, Result \<times> goerror option) io" where
  "scale_up_work r cluster ccp cp = do {
     e \<leftarrow> cloneConfigsAndGenerateMachine r cluster ccp (ccps_CritConfigSpec (ccp_Spec ccp))
       (FailureDomainWithFewestMachines (r_lib r) cp);
     case e of
       Some err \<Rightarrow> do {
         note_event (RecordEvent ''FailedScaleUp'');
         State_Monad.return (no_requeue, Some err) }
     | None \<Rightarrow> State_Monad.return (requeue, None) }"

definition scale_down_work ::
  "'w reconciler \<Rightarrow> Cluster \<Rightarrow> CritControlPlane \<Rightarrow> ControlPlane \<Rightarrow> ('w, action, Result \<times> goerror option) io" where
  "scale_down_work r cluster ccp cp = (case selectMachineForScaleDown (r_lib r) cp of
     Inl err \<Rightarrow> State_Monad.return (no_requeue, Some (WrapError ''failed to select machine for scale down'' err))
   | Inr machineToDelete \<Rightarrow> do {
       e \<leftarrow> TargetClusterControlPlaneIsHealthy (r_lib r) (r_Client r) (r_remote r) (r_crypto r)
         (ObjectKey_of (cl_meta cluster)) (Name (ccp_meta ccp));
       case e of
         Some err \<Rightarrow> do {
           note_event (RecordEvent ''ControlPlaneUnhealthy'');
           State_Monad.return (no_requeue, Some (RequeueAfterError healthCheckFailedRequeueAfter)) }
       | None \<Rightarrow> do {
           e \<leftarrow> call (DeleteMachine machineToDelete) (deleteMachine (r_Client r) machineToDelete);
           case e of
             Some err \<Rightarrow>
               if IsNotFound (r_lib r) err then State_Monad.return (requeue, None)
               else do {
                 note_event (RecordEvent ''FailedScaleDown'');
                 State_Monad.return (no_requeue, Some err) }
           | None \<Rightarrow> State_Monad.return (requeue, None) } })"

lemma at_most_clone:
  assumes "label_keys (r_lib r)" and "aggregates (r_lib r)"
  shows "at_most 1 is_machine_write (cloneConfigsAndGenerateMachine r cluster ccp spec fd)"
  unfolding at_most_def
proof
  fix s
  obtain e s' where run: "run_state (cloneConfigsAndGenerateMachine r cluster ccp spec fd) s = (e, s')" by fastforce
  then obtain es x where "trace s' = trace s @ es" and g: "generation (r_lib r) cluster ccp spec fd x (e = None) es"
    using clone_run [OF assms run] by blast
  moreover from g have "length (filter is_machine_write es) \<le> 1"
    by (induction rule: generation.induct) (auto simp: discard_def)
  ultimately show "\<exists>es. trace (snd (run_state (cloneConfigsAndGenerateMachine r cluster ccp spec fd) s)) = trace s @ es \<and>
      length (filter is_machine_write es) \<le> 1"
    using run by auto
qed

interpretation up: health_gated scaleUpControlPlane scale_up_work
proof
  show "scaleUpControlPlane r cluster ccp cp = do {
      h \<leftarrow> reconcileHealth r cluster ccp cp;
      case h of
        Some _ \<Rightarrow> State_Monad.return (no_requeue, Some (RequeueAfterError healthCheckFailedRequeueAfter))
      | None \<Rightarrow> scale_up_work r cluster ccp cp }" for r :: "'w reconciler" and cluster ccp cp
    unfolding scaleUpControlPlane_def scale_up_work_def Let_def by (rule refl)
  show "at_most 1 is_machine_write (scale_up_work r cluster ccp cp)"
    if "label_keys (r_lib r)" "aggregates (r_lib r)" for r :: "'w reconciler" and cluster ccp cp
    unfolding scale_up_work_def
    by (rule at_most_bind [OF at_most_clone [OF that], where b = 0])
      (auto intro!: emits_at_most emits_intros)
qed

interpretation down: health_gated scaleDownControlPlane scale_down_work
proof
  show "scaleDownControlPlane r cluster ccp cp = do {
      h \<leftarrow> reconcileHealth r cluster ccp cp;
      case h of
        Some _ \<Rightarrow> State_Monad.return (no_requeue, Some (RequeueAfterError healthCheckFailedRequeueAfter))
      | None \<Rightarrow> scale_down_work r cluster ccp cp }" for r :: "'w reconciler" and cluster ccp cp
    unfolding scaleDownControlPlane_def scale_down_work_def by (rule refl)
  show "at_most 1 is_machine_write (scale_down_work r cluster ccp cp)"
    for r :: "'w reconciler" and cluster ccp cp
  proof (cases "selectMachineForScaleDown (r_lib r) cp")
    case (Inr m)
    show ?thesis
      unfolding scale_down_work_def Inr sum.case
    proof (rule at_most_bind [where a = 0 and b = 1])
      show "at_most 0 is_machine_write (TargetClusterControlPlaneIsHealthy (r_lib r) (r_Client r) (r_remote r)
          (r_crypto r) (ObjectKey_of (cl_meta cluster)) (Name (ccp_meta ccp)))"
        by (intro emits_at_most emits_weaken [OF emits_TargetClusterControlPlaneIsHealthy] reads_write_nothing)
      have "at_most 1 is_machine_write (do {
           e \<leftarrow> call (DeleteMachine m) (deleteMachine (r_Client r) m);
           case e of
             Some err \<Rightarrow>
               if IsNotFound (r_lib r) err then State_Monad.return (requeue, None)
               else do {
                 note_event (RecordEvent ''FailedScaleDown'');
                 State_Monad.return (no_requeue, Some err) }
           | None \<Rightarrow> State_Monad.return (requeue, None) })"
        by (rule at_most_bind [OF at_most_call, where b = 0]) (auto intro!: emits_at_most emits_intros)
      then show "at_most 1 is_machine_write (case e of
         Some err \<Rightarrow> do {
           note_event (RecordEvent ''ControlPlaneUnhealthy'');
           State_Monad.return (no_requeue, Some (RequeueAfterError healthCheckFailedRequeueAfter)) }
       | None \<Rightarrow> do {
           e \<leftarrow> call (DeleteMachine m) (deleteMachine (r_Client r) m);
           case e of
             Some err \<Rightarrow>
               if IsNotFound (r_lib r) err then State_Monad.return (requeue, None)
               else do {
                 note_event (RecordEvent ''FailedScaleDown'');
                 State_Monad.return (no_requeue, Some err) }
           | None \<Rightarrow> State_Monad.return (requeue, None) })" for e
        by (cases e) (auto intro!: emits_at_most emits_intros)
    qed simp
  qed (simp add: scale_down_work_def emits_at_most emits_return)
qed

section \<open>One reconciliation of an upgrade\<close>

text \<open>What \<^verbatim>\<open>upgradeControlPlane\<close> learns of the workload cluster before it decides.\<close>

definition upgrade_status :: "'w reconciler \<Rightarrow> Cluster \<Rightarrow> ('w, action, goerror + ClusterStatus) io" where
  "upgrade_status r cluster = do {
     w \<leftarrow> GetWorkloadCluster (r_Client r) (r_remote r) (r_crypto r) (ObjectKey_of (cl_meta cluster));
     case w of
       Inl err \<Rightarrow> State_Monad.return (Inl err)
     | Inr workloadCluster \<Rightarrow> cluster_status (r_lib r) (r_remote r) workloadCluster }"

lemma emits_upgrade_status: "emits is_read (upgrade_status r cluster)"
  unfolding upgrade_status_def by (intro emits_intros emits_GetWorkloadCluster emits_cluster_status)

lemma upgrade_cases:
  assumes "run_state (upgradeControlPlane r cluster ccp cp) s = (out, s')"
  obtains (stopped) err where "run_state (upgrade_status r cluster) s = (Inl err, s')"
      and "out = (no_requeue, Some err)"
  | (goes_up) st s1 where "run_state (upgrade_status r cluster) s = (Inr st, s1)"
      and "sint (Nodes st) \<le> ccps_Replicas (ccp_Spec ccp)"
      and "run_state (scaleUpControlPlane r cluster ccp cp) s1 = (out, s')"
  | (goes_down) st s1 where "run_state (upgrade_status r cluster) s = (Inr st, s1)"
      and "ccps_Replicas (ccp_Spec ccp) < sint (Nodes st)"
      and "run_state (scaleDownControlPlane r cluster ccp cp) s1 = (out, s')"
  using assms
  by (auto simp: upgradeControlPlane_def upgrade_status_def split: prod.splits sum.splits if_splits)

lemma select_outdated:
  assumes "MachinesNeedingUpgrade L cp \<noteq> []"
  shows "selectMachineForScaleDown L cp = MachineInFailureDomainWithMostMachines L cp (MachinesNeedingUpgrade L cp)"
  using assms by (simp add: selectMachineForScaleDown_def Len_def)

lemma scale_down_run:
  assumes "run_state (scaleDownControlPlane r cluster ccp cp) s = (out, s')"
  shows "\<exists>es. trace s' = trace s @ es \<and> creates es = [] \<and>
    (deletes es = [] \<or> (\<exists>m. selectMachineForScaleDown (r_lib r) cp = Inr m \<and> deletes es = [m])) \<and>
    (out = (requeue, None) \<longrightarrow> deletes es \<noteq> [])"
  using assms
proof (cases rule: down.run_cases)
  case (closed h)
  then obtain es where "trace s' = trace s @ es" "creates es = []" "deletes es = []"
    using reads_only [OF emits_reconcileHealth closed(1)] by blast
  with closed show ?thesis by (auto simp: no_requeue_def requeue_def)
next
  case (opened s1)
  then obtain es1 where es1: "trace s1 = trace s @ es1" and no: "creates es1 = []" "deletes es1 = []"
    using reads_only [OF emits_reconcileHealth opened(1)] by blast
  show ?thesis
  proof (cases "selectMachineForScaleDown (r_lib r) cp")
    case (Inl err)
    with opened(2) es1 no show ?thesis by (auto simp: scale_down_work_def requeue_def no_requeue_def)
  next
    case (Inr m)
    let ?h = "TargetClusterControlPlaneIsHealthy (r_lib r) (r_Client r) (r_remote r) (r_crypto r)
      (ObjectKey_of (cl_meta cluster)) (Name (ccp_meta ccp))"
    obtain h s2 where h: "run_state ?h s1 = (h, s2)" by fastforce
    then obtain es2 where es2: "trace s2 = trace s1 @ es2" and no2: "creates es2 = []" "deletes es2 = []"
      using reads_only [OF emits_TargetClusterControlPlaneIsHealthy h] by blast
    show ?thesis
      using opened(2) h Inr es1 es2 no no2
      by (auto simp: scale_down_work_def run_simps requeue_def no_requeue_def split: option.splits if_splits prod.splits)
  qed
qed

lemma scale_up_run:
  assumes "label_keys (r_lib r)" and "aggregates (r_lib r)"
    and "run_state (scaleUpControlPlane r cluster ccp cp) s = (out, s')"
  shows "\<exists>es. trace s' = trace s @ es \<and> deletes es = [] \<and> length (creates es) \<le> 1 \<and>
    (\<forall>m \<in> set (creates es). current_machine (r_lib r) cluster ccp m \<and>
       m_FailureDomain m = FailureDomainWithFewestMachines (r_lib r) cp) \<and>
    (out = (requeue, None) \<longrightarrow> creates es \<noteq> [])"
  using assms(3)
proof (cases rule: up.run_cases)
  case (closed h)
  then obtain es where "trace s' = trace s @ es" "creates es = []" "deletes es = []"
    using reads_only [OF emits_reconcileHealth closed(1)] by blast
  then show ?thesis using closed by (auto simp: requeue_def no_requeue_def)
next
  case (opened s1)
  then obtain es1 where es1: "trace s1 = trace s @ es1" and no: "creates es1 = []" "deletes es1 = []"
    using reads_only [OF emits_reconcileHealth opened(1)] by blast
  let ?g = "cloneConfigsAndGenerateMachine r cluster ccp (ccps_CritConfigSpec (ccp_Spec ccp))
    (FailureDomainWithFewestMachines (r_lib r) cp)"
  obtain e s2 where g: "run_state ?g s1 = (e, s2)" by fastforce
  then obtain es2 x where es2: "trace s2 = trace s1 @ es2"
    and gen: "generation (r_lib r) cluster ccp (ccps_CritConfigSpec (ccp_Spec ccp))
      (FailureDomainWithFewestMachines (r_lib r) cp) x (e = None) es2"
    using clone_run [OF assms(1,2) g] by blast
  have out: "\<exists>es3. trace s' = trace s2 @ es3 \<and> creates es3 = [] \<and> deletes es3 = []"
    "out = (requeue, None) \<Longrightarrow> e = None"
    using opened(2) g
    by (auto simp: scale_up_work_def run_simps requeue_def no_requeue_def split: option.splits)
  have "out = (requeue, None) \<Longrightarrow> creates es2 \<noteq> []"
    using gen out(2) generation_True_creates by (metis (full_types) list.distinct(1))
  then show ?thesis
    using out(1) es1 es2 no generation_no_delete [OF gen] generation_creates [OF gen]
    by auto
qed

section \<open>The rolling upgrade\<close>

text \<open>
  The abstract upgrade, on the numbers of out-of-date and of current machines: while a machine is
  out of date, add a current one if there are no more than the wanted number, else remove one that
  is out of date.
\<close>

inductive roll :: "int \<Rightarrow> nat \<times> nat \<Rightarrow> nat \<times> nat \<Rightarrow> bool" for n where
  surge: "0 < old \<Longrightarrow> int (old + cur) \<le> n \<Longrightarrow> roll n (old, cur) (old, Suc cur)"
| retire: "n < int (Suc old + cur) \<Longrightarrow> roll n (Suc old, cur) (old, cur)"

inductive_cases rollE: "roll n a b"

text \<open>From the wanted number of machines on, every state of the upgrade and the steps taken to it.\<close>

definition roll_inv :: "int \<Rightarrow> nat \<Rightarrow> nat \<Rightarrow> nat \<times> nat \<Rightarrow> bool" where
  "roll_inv n old0 k a \<longleftrightarrow> (case a of (old, cur) \<Rightarrow>
     (int (old + cur) = n \<and> 2 * old + k = 2 * old0) \<or>
     (int (old + cur) = n + 1 \<and> 0 < old \<and> 2 * old + k = 2 * old0 + 1))"

lemma roll_inv_step: "roll n a b \<Longrightarrow> roll_inv n old0 k a \<Longrightarrow> roll_inv n old0 (Suc k) b"
  by (erule rollE) (auto simp: roll_inv_def)

text \<open>The machines after a sequence of calls.\<close>

fun machines_after :: "action list \<Rightarrow> FilterableMachineCollection \<Rightarrow> FilterableMachineCollection" where
  "machines_after [] ms = ms"
| "machines_after (CreateMachine m # es) ms = machines_after es (gm_put (Name (m_meta m)) m ms)"
| "machines_after (DeleteMachine m # es) ms = machines_after es (gm_del (Name (m_meta m)) ms)"
| "machines_after (_ # es) ms = machines_after es ms"

lemma machines_after_none: "creates es = [] \<Longrightarrow> deletes es = [] \<Longrightarrow> machines_after es ms = ms"
  by (induction es ms rule: machines_after.induct) auto

lemma machines_after_create:
  "creates es = [m] \<Longrightarrow> deletes es = [] \<Longrightarrow> machines_after es ms = gm_put (Name (m_meta m)) m ms"
  by (induction es ms rule: machines_after.induct) (auto simp: machines_after_none)

lemma machines_after_delete:
  "creates es = [] \<Longrightarrow> deletes es = [m] \<Longrightarrow> machines_after es ms = gm_del (Name (m_meta m)) ms"
  by (induction es ms rule: machines_after.induct) (auto simp: machines_after_none)

definition outdated :: "lib \<Rightarrow> CritControlPlane \<Rightarrow> FilterableMachineCollection \<Rightarrow> nat" where
  "outdated L ccp ms = length (filter (\<lambda>e. map_of (Labels (m_meta (snd e))) CritControlPlaneHashLabelKey
     \<noteq> Some (Hash L (ccp_Spec ccp))) ms)"

definition upgrade_view :: "lib \<Rightarrow> CritControlPlane \<Rightarrow> FilterableMachineCollection \<Rightarrow> nat \<times> nat" where
  "upgrade_view L ccp ms = (outdated L ccp ms, length ms - outdated L ccp ms)"

lemma outdated_le: "outdated L ccp ms \<le> length ms"
  by (simp add: outdated_def)

lemma outdated_MachinesNeedingUpgrade:
  "coll_wf ms \<Longrightarrow> length (MachinesNeedingUpgrade L (NewControlPlane cluster ccp ms)) = outdated L ccp ms"
  by (auto simp: MachinesNeedingUpgrade_def NewControlPlane_def Filter_eq outdated_def SpecHash_def filter_simps
      intro!: arg_cong [where f = length] filter_cong)

lemma view_create:
  assumes "current_machine L cluster ccp m" and "Name (m_meta m) \<notin> fst ` set ms"
  shows "upgrade_view L ccp (gm_put (Name (m_meta m)) m ms) =
    (outdated L ccp ms, Suc (length ms - outdated L ccp ms))"
  using assms by (simp add: upgrade_view_def gm_put_fresh outdated_def current_machine_def Suc_diff_le)

lemma view_delete:
  assumes "coll_wf ms" and "m \<in> members ms"
    and "map_of (Labels (m_meta m)) CritControlPlaneHashLabelKey \<noteq> Some (Hash L (ccp_Spec ccp))"
  shows "outdated L ccp ms = Suc (outdated L ccp (gm_del (Name (m_meta m)) ms)) \<and>
    length ms = Suc (length (gm_del (Name (m_meta m)) ms))"
proof -
  from assms(1,2) have "(Name (m_meta m), m) \<in> set ms" by (auto simp: coll_wf_def)
  then obtain as bs where ms: "ms = as @ (Name (m_meta m), m) # bs" by (meson split_list)
  with assms(1) have "Name (m_meta m) \<notin> fst ` set as" "Name (m_meta m) \<notin> fst ` set bs"
    by (auto simp: coll_wf_def gm_wf_def)
  then have "gm_del (Name (m_meta m)) ms = as @ bs"
    unfolding ms gm_del_def by (force intro!: arg_cong2 [where f = "(@)"] filter_True)
  with ms assms(3) show ?thesis by (simp add: outdated_def)
qed

text \<open>
  One successful reconciliation of an upgrade, as a step from the control plane machines before to
  the machines after, when the node count agrees with the machines (which the health check
  enforces) and the generated name is not taken.
\<close>

inductive upgrade_step ::
  "'w reconciler \<Rightarrow> Cluster \<Rightarrow> CritControlPlane \<Rightarrow> FilterableMachineCollection \<Rightarrow> FilterableMachineCollection \<Rightarrow> bool"
  for r cluster ccp where
  "MachinesNeedingUpgrade (r_lib r) (NewControlPlane cluster ccp ms) \<noteq> [] \<Longrightarrow>
   run_state (upgradeControlPlane r cluster ccp (NewControlPlane cluster ccp ms)) s = ((requeue, None), s') \<Longrightarrow>
   trace s' = trace s @ es \<Longrightarrow>
   fst (run_state (upgrade_status r cluster) s) = Inr st \<Longrightarrow> sint (Nodes st) = int (length ms) \<Longrightarrow>
   \<forall>m \<in> set (creates es). Name (m_meta m) \<notin> fst ` set ms \<Longrightarrow>
   upgrade_step r cluster ccp ms (machines_after es ms)"

definition upgrade_laws :: "lib \<Rightarrow> Cluster \<Rightarrow> bool" where
  "upgrade_laws L cluster \<longleftrightarrow> label_keys L \<and> aggregates L \<and> domain_filter L \<and> machine_order L \<and>
     gm_wf (cl_FailureDomains cluster)"

lemma upgrade_up_step:
  assumes laws: "upgrade_laws (r_lib r) cluster" and wf: "coll_wf ms"
    and ne: "MachinesNeedingUpgrade (r_lib r) (NewControlPlane cluster ccp ms) \<noteq> []"
    and le: "int (length ms) \<le> ccps_Replicas (ccp_Spec ccp)"
    and run: "run_state (scaleUpControlPlane r cluster ccp (NewControlPlane cluster ccp ms)) s1 = ((requeue, None), s')"
    and tr: "trace s' = trace s @ es" "trace s1 = trace s @ es1" "creates es1 = []" "deletes es1 = []"
    and fresh: "\<forall>m \<in> set (creates es). Name (m_meta m) \<notin> fst ` set ms"
  shows "coll_wf (machines_after es ms) \<and>
    roll (ccps_Replicas (ccp_Spec ccp)) (upgrade_view (r_lib r) ccp ms) (upgrade_view (r_lib r) ccp (machines_after es ms))"
proof -
  obtain es2 m where m: "creates es = [m]" "deletes es = []" "current_machine (r_lib r) cluster ccp m"
    using scale_up_run [OF _ _ run] laws tr
    by (auto simp: upgrade_laws_def le_Suc_eq length_Suc_conv)
  have pos: "0 < outdated (r_lib r) ccp ms"
    using ne outdated_MachinesNeedingUpgrade [OF wf] by (metis length_greater_0_conv)
  have "roll (ccps_Replicas (ccp_Spec ccp)) (outdated (r_lib r) ccp ms, length ms - outdated (r_lib r) ccp ms)
      (outdated (r_lib r) ccp ms, Suc (length ms - outdated (r_lib r) ccp ms))"
    using pos le outdated_le [of "r_lib r" ccp ms] by (intro surge) simp_all
  then show ?thesis
    using view_create [OF m(3)] fresh m wf
    by (auto simp: machines_after_create) (simp add: upgrade_view_def)
qed

lemma upgrade_down_step:
  assumes laws: "upgrade_laws (r_lib r) cluster" and wf: "coll_wf ms"
    and ne: "MachinesNeedingUpgrade (r_lib r) (NewControlPlane cluster ccp ms) \<noteq> []"
    and gt: "ccps_Replicas (ccp_Spec ccp) < int (length ms)"
    and run: "run_state (scaleDownControlPlane r cluster ccp (NewControlPlane cluster ccp ms)) s1 = ((requeue, None), s')"
    and tr: "trace s' = trace s @ es" "trace s1 = trace s @ es1" "creates es1 = []" "deletes es1 = []"
  shows "coll_wf (machines_after es ms) \<and>
    roll (ccps_Replicas (ccp_Spec ccp)) (upgrade_view (r_lib r) ccp ms) (upgrade_view (r_lib r) ccp (machines_after es ms))"
proof -
  let ?cp = "NewControlPlane cluster ccp ms" and ?L = "r_lib r"
  obtain m where sel: "selectMachineForScaleDown ?L ?cp = Inr m" and m: "creates es = []" "deletes es = [m]"
    using scale_down_run [OF run] tr by auto
  have "coll_wf (MachinesNeedingUpgrade ?L ?cp)"
    using wf by (auto simp: NewControlPlane_def)
  then have "m \<in> members (MachinesNeedingUpgrade ?L ?cp)"
    using MachineInFailureDomain_oldest(1) sel laws by (auto simp: select_outdated [OF ne] upgrade_laws_def)
  then have "m \<in> members ms" "map_of (Labels (m_meta m)) CritControlPlaneHashLabelKey \<noteq> Some (Hash ?L (ccp_Spec ccp))"
    using wf by (auto simp: members_MachinesNeedingUpgrade NewControlPlane_def SpecHash_def)
  from view_delete [OF wf this]
  have d: "outdated ?L ccp ms = Suc (outdated ?L ccp (gm_del (Name (m_meta m)) ms))"
    "length ms = Suc (length (gm_del (Name (m_meta m)) ms))" by auto
  have "coll_wf (gm_del (Name (m_meta m)) ms)"
    using wf by (auto simp: gm_del_def intro: coll_wf_filter)
  moreover have "roll (ccps_Replicas (ccp_Spec ccp)) (upgrade_view ?L ccp ms)
      (upgrade_view ?L ccp (gm_del (Name (m_meta m)) ms))"
    unfolding upgrade_view_def d diff_Suc_Suc
    by (rule retire) (use gt d outdated_le [of ?L ccp "gm_del (Name (m_meta m)) ms"] in simp)
  ultimately show ?thesis by (simp add: machines_after_delete [OF m])
qed

lemma upgrade_step_roll:
  assumes "upgrade_laws (r_lib r) cluster" and "upgrade_step r cluster ccp ms ms'" and wf: "coll_wf ms"
  shows "coll_wf ms' \<and> roll (ccps_Replicas (ccp_Spec ccp)) (upgrade_view (r_lib r) ccp ms) (upgrade_view (r_lib r) ccp ms')"
  using assms(2)
proof cases
  case (1 s s' es st)
  from 1(3) show ?thesis
  proof (cases rule: upgrade_cases)
    case (goes_up st' s1)
    obtain es1 where es1: "trace s1 = trace s @ es1" "creates es1 = []" "deletes es1 = []"
      using reads_only [OF emits_upgrade_status goes_up(1)] .
    have "int (length ms) \<le> ccps_Replicas (ccp_Spec ccp)" using goes_up 1 by simp
    from upgrade_up_step [OF assms(1) wf 1(2) this goes_up(3) 1(4) es1 1(7)] 1(1) show ?thesis by simp
  next
    case (goes_down st' s1)
    obtain es1 where es1: "trace s1 = trace s @ es1" "creates es1 = []" "deletes es1 = []"
      using reads_only [OF emits_upgrade_status goes_down(1)] .
    have "ccps_Replicas (ccp_Spec ccp) < int (length ms)" using goes_down 1 by simp
    from upgrade_down_step [OF assms(1) wf 1(2) this goes_down(3) 1(4) es1] 1(1) show ?thesis by simp
  qed (auto simp: requeue_def no_requeue_def)
qed

lemma upgrade_steps_inv:
  assumes "upgrade_laws (r_lib r) cluster" and "coll_wf ms0" and "int (length ms0) = ccps_Replicas (ccp_Spec ccp)"
    and "(upgrade_step r cluster ccp ^^ k) ms0 ms"
  shows "coll_wf ms \<and> roll_inv (ccps_Replicas (ccp_Spec ccp)) (outdated (r_lib r) ccp ms0) k (upgrade_view (r_lib r) ccp ms)"
  using assms(4)
proof (induction k arbitrary: ms)
  case 0
  with assms outdated_le [of "r_lib r" ccp ms0] show ?case by (auto simp: roll_inv_def upgrade_view_def)
next
  case (Suc k)
  then obtain ms1 where "(upgrade_step r cluster ccp ^^ k) ms0 ms1" "upgrade_step r cluster ccp ms1 ms" by auto
  with Suc.IH upgrade_step_roll [OF assms(1)] roll_inv_step show ?case by blast
qed

section \<open>A concrete upgrade\<close>

definition sample_codec :: codec where
  "sample_codec = \<lparr>
     Unmarshal = (\<lambda>_. Inr (ControlPlaneObj \<lparr>cpc_ClusterName = [], cpc_ControlPlaneEndpoint = \<lparr>ep_Host = [], ep_Port = 0\<rparr>,
       cpc_ExtraSANs = [], cpc_ServiceSubnet = [], cpc_PodSubnet = [],
       cpc_NodeConfiguration = \<lparr>nc_KubeDir = ''/k'', nc_KubernetesVersion = [], nc_ClusterDomain = [], nc_rest = []\<rparr>\<rparr>)),
     Marshal = (\<lambda>_. Inr ''config'')\<rparr>"

definition sample_reconciler :: "string list \<Rightarrow> Machine list reconciler" where
  "sample_reconciler nodes = \<lparr>r_lib = sample_lib, r_Client = sample_client, r_remote = sample_remote nodes,
     r_crypto = sample_crypto, r_codec = sample_codec\<rparr>"

lemma sample_reconciler_sel [simp]:
  "r_lib (sample_reconciler nodes) = sample_lib" "r_Client (sample_reconciler nodes) = sample_client"
  "r_remote (sample_reconciler nodes) = sample_remote nodes" "r_crypto (sample_reconciler nodes) = sample_crypto"
  "r_codec (sample_reconciler nodes) = sample_codec"
  by (simp_all add: sample_reconciler_def)

lemma sample_upgrade_laws: "upgrade_laws sample_lib sample_cluster"
  by (simp add: upgrade_laws_def sample_label_keys sample_aggregates sample_domain_filter sample_machine_order
      sample_cluster_def sample_domains_wf)

lemma sample_meta_sel [simp]:
  "Name (sample_meta n) = n" "Namespace (sample_meta n) = ''ns''" "Labels (sample_meta n) = []"
  "DeletionTimestamp (sample_meta n) = None" "OwnerReferences (sample_meta n) = []" "UID (sample_meta n) = n"
  by (simp_all add: sample_meta_def)

lemma sample_GetWorkloadCluster:
  "run_state (GetWorkloadCluster sample_client (sample_remote nodes) sample_crypto k) s =
     (Inr \<lparr>wl_Client = ''kc'', wl_etcd = \<lparr>tls_RootCAs = ''C'', tls_Certificates = [''pub-privpriv'']\<rparr>\<rparr>,
      s\<lparr>trace := trace s @ [GetKubeconfig k, NewRemoteClient \<lparr>rc_Config = ''kc'', rc_Timeout = seconds 30\<rparr>,
        GetSecret \<lparr>key_Namespace = key_Namespace k, key_Name = key_Name k @ ''-etcd''\<rparr>]\<rparr>)"
  by (simp add: GetWorkloadCluster_def RESTConfig_def generateClientCert_def newClientCert_def run_simps Let_def
      TLSCrtDataName_def TLSKeyDataName_def)

lemma sample_upgrade_status:
  "fst (run_state (upgrade_status (sample_reconciler nodes) cluster) s) =
   Inr \<lparr>Nodes = of_nat (length nodes), ReadyNodes = of_nat (length nodes)\<rparr>"
  by (simp add: upgrade_status_def sample_GetWorkloadCluster cluster_status_def getControlPlaneNodes_def run_simps
      count_nodes_eq comp_def sample_node_def)

text \<open>One machine without a hash label, with its node: the workload cluster is healthy.\<close>

abbreviation sample_start :: "(Machine list, action) st" where
  "sample_start \<equiv> \<lparr>world = [sample_owned ''m'' ''n''], trace = []\<rparr>"

lemmas sample_run = upgradeControlPlane_def scaleUpControlPlane_def reconcileHealth_def
  TargetClusterControlPlaneIsHealthy_def sample_GetWorkloadCluster healthCheck_def run_simps Let_def
  ControlPlaneIsHealthy_def getControlPlaneNodes_def check_node_def checkNodeNoExecuteCondition_def sample_node_def
  checkStaticPodReadyCondition_def sample_pod_def GetMachinesForCluster_def NewFilterableMachineCollectionFromMachineList_def
  Filter_def newFilteredMachineCollection_def unsortedList_def OwnedControlPlaneMachines_def sample_owned_def
  sample_machine_def cluster_status_def count_nodes_eq HasDeletingMachine_def NewControlPlane_def HasDeletionTimestamp_def
  cloneConfigsAndGenerateMachine_def generateCritConfig_def generateMachine_def new_meta_def

lemma sample_surge:
  "\<exists>s' m. run_state (upgradeControlPlane (sample_reconciler [''n'']) sample_cluster (sample_ccp 1)
       (NewControlPlane sample_cluster (sample_ccp 1) [(''m'', sample_owned ''m'' ''n'')])) sample_start = ((requeue, None), s')
     \<and> creates (trace s') = [m] \<and> Name (m_meta m) = ''k-'' @ decimal 1"
  by (simp add: sample_run sample_ccp_def sample_spec_def)

lemma sample_upgrade_step:
  "\<exists>ms. upgrade_step (sample_reconciler [''n'']) sample_cluster (sample_ccp 1) [(''m'', sample_owned ''m'' ''n'')] ms"
proof -
  let ?ms = "[(''m'', sample_owned ''m'' ''n'')]"
  obtain s' m where run: "run_state (upgradeControlPlane (sample_reconciler [''n'']) sample_cluster (sample_ccp 1)
       (NewControlPlane sample_cluster (sample_ccp 1) ?ms)) sample_start = ((requeue, None), s')"
    and m: "creates (trace s') = [m]" "Name (m_meta m) = ''k-'' @ decimal 1"
    using sample_surge by blast
  have "MachinesNeedingUpgrade sample_lib (NewControlPlane sample_cluster (sample_ccp 1) ?ms) \<noteq> []"
    by (simp add: MachinesNeedingUpgrade_def NewControlPlane_def Filter_def newFilteredMachineCollection_def
        unsortedList_def Not_def MatchesConfigurationHash_def sample_owned_def sample_machine_def
        CritControlPlaneHashLabelKey_def)
  then have "upgrade_step (sample_reconciler [''n'']) sample_cluster (sample_ccp 1) ?ms (machines_after (trace s') ?ms)"
    by (intro upgrade_step.intros [OF _ run _ sample_upgrade_status]) (simp_all add: m)
  then show ?thesis by blast
qed

section \<open>Properties\<close>

text \<open>
  C1: the rolling upgrade. From the wanted number of machines on, after any number \<open>k\<close> of
  successful upgrade reconciliations there are either exactly as many machines as wanted, or one
  more and still an out-of-date one; every two reconciliations replace one out-of-date machine, so
  the upgrade takes exactly twice as many reconciliations as there were out-of-date machines, and
  ends with the wanted number of machines, all current.
\<close>

theorem rolling_upgrade:
  assumes "upgrade_laws (r_lib r) cluster" and "coll_wf ms0" and "int (length ms0) = ccps_Replicas (ccp_Spec ccp)"
    and "(upgrade_step r cluster ccp ^^ k) ms0 ms"
  shows "(int (length ms) = ccps_Replicas (ccp_Spec ccp) \<and>
      2 * outdated (r_lib r) ccp ms + k = 2 * outdated (r_lib r) ccp ms0) \<or>
    (int (length ms) = ccps_Replicas (ccp_Spec ccp) + 1 \<and> 0 < outdated (r_lib r) ccp ms \<and>
      2 * outdated (r_lib r) ccp ms + k = 2 * outdated (r_lib r) ccp ms0 + 1)"
  using upgrade_steps_inv [OF assms] outdated_le [of "r_lib r" ccp ms]
  by (auto simp: roll_inv_def upgrade_view_def)

theorem rolling_upgrade_witness:
  "\<exists>ms. upgrade_step (sample_reconciler [''n'']) sample_cluster (sample_ccp 1) [(''m'', sample_owned ''m'' ''n'')] ms \<and>
     length ms = 2 \<and> outdated sample_lib (sample_ccp 1) ms = 1"
proof -
  let ?ms0 = "[(''m'', sample_owned ''m'' ''n'')]" and ?r = "sample_reconciler [''n'']"
  obtain ms where st: "upgrade_step ?r sample_cluster (sample_ccp 1) ?ms0 ms"
    using sample_upgrade_step by blast
  then have k: "(upgrade_step ?r sample_cluster (sample_ccp 1) ^^ 1) ?ms0 ms" by (metis relpowp_1)
  have o1: "outdated sample_lib (sample_ccp 1) ?ms0 = 1"
    by (simp add: outdated_def sample_owned_def sample_machine_def CritControlPlaneHashLabelKey_def)
  have "length ms = 2 \<and> outdated sample_lib (sample_ccp 1) ms = 1"
    using rolling_upgrade [OF _ _ _ k] sample_upgrade_laws o1
    by (auto simp: coll_wf_def gm_wf_def sample_owned_def sample_machine_def sample_ccp_def)
  with st show ?thesis by blast
qed

text \<open>
  C2: the health gate. One upgrade reconciliation changes at most one machine, and does nothing but
  read unless the node count was read, the control plane then passed its health check, and no
  control plane machine is being deleted.
\<close>

theorem upgrade_gated:
  assumes "label_keys (r_lib r)" and "aggregates (r_lib r)"
    and "run_state (upgradeControlPlane r cluster ccp cp) s = (out, s')"
  shows "\<exists>es. trace s' = trace s @ es \<and> length (filter is_machine_write es) \<le> 1 \<and>
    (list_all is_read es \<or>
     (\<not> HasDeletingMachine (r_lib r) cp \<and>
      (\<exists>st s1. run_state (upgrade_status r cluster) s = (Inr st, s1) \<and>
         fst (run_state (TargetClusterControlPlaneIsHealthy (r_lib r) (r_Client r) (r_remote r) (r_crypto r)
           (ObjectKey_of (cl_meta cluster)) (Name (ccp_meta ccp))) s1) = None)))"
  using assms(3)
proof (cases rule: upgrade_cases)
  case (stopped err)
  then obtain es where "trace s' = trace s @ es" "list_all is_read es"
    using reads_only [OF emits_upgrade_status stopped(1)] by blast
  then show ?thesis by (auto simp: filter_empty_conv list_all_iff intro!: exI)
next
  case (goes_up st s1)
  obtain es1 where es1: "trace s1 = trace s @ es1" "list_all is_read es1"
    using reads_only [OF emits_upgrade_status goes_up(1)] by blast
  obtain es2 where es2: "trace s' = trace s1 @ es2" "length (filter is_machine_write es2) \<le> 1"
    using at_mostD [OF up.one_machine [OF assms(1,2)] goes_up(3)] by blast
  from up.writes_need_health [OF goes_up(3) es2(1)] goes_up(1) es1 es2 no_machine_writes [OF es1(2)]
  show ?thesis by (intro exI [of _ "es1 @ es2"]) auto
next
  case (goes_down st s1)
  obtain es1 where es1: "trace s1 = trace s @ es1" "list_all is_read es1"
    using reads_only [OF emits_upgrade_status goes_down(1)] by blast
  obtain es2 where es2: "trace s' = trace s1 @ es2" "length (filter is_machine_write es2) \<le> 1"
    using at_mostD [OF down.one_machine [OF assms(1,2)] goes_down(3)] by blast
  from down.writes_need_health [OF goes_down(3) es2(1)] goes_down(1) es1 es2 no_machine_writes [OF es1(2)]
  show ?thesis by (intro exI [of _ "es1 @ es2"]) auto
qed

theorem upgrade_gated_witness:
  "\<exists>s' es. snd (run_state (upgradeControlPlane (sample_reconciler [''n'']) sample_cluster (sample_ccp 1)
       (NewControlPlane sample_cluster (sample_ccp 1) [(''m'', sample_owned ''m'' ''n'')])) sample_start) = s' \<and>
     trace s' = es \<and> length (filter is_machine_write es) \<le> 1"
  using upgrade_gated [of "sample_reconciler [''n'']" sample_cluster "sample_ccp 1"
      "NewControlPlane sample_cluster (sample_ccp 1) [(''m'', sample_owned ''m'' ''n'')]" sample_start]
    sample_label_keys sample_aggregates
  by (metis append_Nil prod.collapse sample_reconciler_sel(1) st.select_convs(2))

text \<open>
  C14: what an upgrade reconciliation may create and delete while some machine is out of date. It
  deletes only an out-of-date machine, the oldest such one in its failure domain, and only when
  there are more nodes than wanted; it creates only a current machine, in the failure domain with
  the fewest machines, and only when there are no more nodes than wanted.
\<close>

theorem upgrade_targets:
  assumes "upgrade_laws (r_lib r) cluster" and "coll_wf (cp_Machines cp)"
    and "MachinesNeedingUpgrade (r_lib r) cp \<noteq> []"
    and "run_state (upgradeControlPlane r cluster ccp cp) s = (out, s')" and "trace s' = trace s @ es"
  shows "(\<forall>m \<in> set (deletes es). m \<in> members (MachinesNeedingUpgrade (r_lib r) cp) \<and>
      (\<forall>m' \<in> members (MachinesNeedingUpgrade (r_lib r) cp). m_FailureDomain m' = m_FailureDomain m \<longrightarrow>
         CreationTimestamp (m_meta m) \<le> CreationTimestamp (m_meta m')) \<and>
      (\<exists>st. fst (run_state (upgrade_status r cluster) s) = Inr st \<and> ccps_Replicas (ccp_Spec ccp) < sint (Nodes st))) \<and>
    (\<forall>m \<in> set (creates es). current_machine (r_lib r) cluster ccp m \<and>
      m_FailureDomain m = FailureDomainWithFewestMachines (r_lib r) cp \<and>
      (\<exists>st. fst (run_state (upgrade_status r cluster) s) = Inr st \<and> sint (Nodes st) \<le> ccps_Replicas (ccp_Spec ccp)))"
  using assms(4)
proof (cases rule: upgrade_cases)
  case (stopped err)
  then obtain es' where "trace s' = trace s @ es'" "creates es' = []" "deletes es' = []"
    using reads_only [OF emits_upgrade_status stopped(1)] by blast
  with assms(5) show ?thesis by simp
next
  case (goes_up st s1)
  obtain es1 where es1: "trace s1 = trace s @ es1" "creates es1 = []" "deletes es1 = []"
    using reads_only [OF emits_upgrade_status goes_up(1)] by blast
  obtain es2 where "trace s' = trace s1 @ es2" "deletes es2 = []"
    "\<forall>m \<in> set (creates es2). current_machine (r_lib r) cluster ccp m \<and>
       m_FailureDomain m = FailureDomainWithFewestMachines (r_lib r) cp"
    using scale_up_run [OF _ _ goes_up(3)] assms(1) unfolding upgrade_laws_def by blast
  with es1 assms(5) goes_up show ?thesis by auto
next
  case (goes_down st s1)
  obtain es1 where es1: "trace s1 = trace s @ es1" "creates es1 = []" "deletes es1 = []"
    using reads_only [OF emits_upgrade_status goes_down(1)] by blast
  obtain es2 where es2: "trace s' = trace s1 @ es2" "creates es2 = []"
    "deletes es2 = [] \<or> (\<exists>m. selectMachineForScaleDown (r_lib r) cp = Inr m \<and> deletes es2 = [m])"
    using scale_down_run [OF goes_down(3)] by blast
  note oldest = MachineInFailureDomain_oldest [where L = "r_lib r" and c = cp and ms = "MachinesNeedingUpgrade (r_lib r) cp"]
  have sel: "m \<in> members (MachinesNeedingUpgrade (r_lib r) cp) \<and>
      (\<forall>m' \<in> members (MachinesNeedingUpgrade (r_lib r) cp). m_FailureDomain m' = m_FailureDomain m \<longrightarrow>
         CreationTimestamp (m_meta m) \<le> CreationTimestamp (m_meta m'))"
    if "selectMachineForScaleDown (r_lib r) cp = Inr m" for m
    using oldest assms(1,2) that MachinesNeedingUpgrade_wf [OF assms(2)]
    unfolding select_outdated [OF assms(3)] upgrade_laws_def by blast
  have "creates es = []" "deletes es = [] \<or> (\<exists>m. selectMachineForScaleDown (r_lib r) cp = Inr m \<and> deletes es = [m])"
    using es1 es2 assms(5) by auto
  then show ?thesis
    using sel goes_down(1,2) by (elim disjE exE conjE) simp_all
qed

theorem upgrade_targets_witness:
  "\<exists>es m. trace (snd (run_state (upgradeControlPlane (sample_reconciler [''n'']) sample_cluster (sample_ccp 1)
       (NewControlPlane sample_cluster (sample_ccp 1) [(''m'', sample_owned ''m'' ''n'')])) sample_start)) = es \<and>
     creates es = [m] \<and> current_machine sample_lib sample_cluster (sample_ccp 1) m"
proof -
  let ?cp = "NewControlPlane sample_cluster (sample_ccp 1) [(''m'', sample_owned ''m'' ''n'')]"
  obtain s' m where run: "run_state (upgradeControlPlane (sample_reconciler [''n'']) sample_cluster (sample_ccp 1) ?cp)
       sample_start = ((requeue, None), s')" and m: "creates (trace s') = [m]"
    using sample_surge by blast
  have wf: "coll_wf (cp_Machines ?cp)"
    by (simp add: NewControlPlane_def coll_wf_def gm_wf_def sample_owned_def sample_machine_def)
  have "MachinesNeedingUpgrade sample_lib ?cp \<noteq> []"
    by (simp add: MachinesNeedingUpgrade_def NewControlPlane_def Filter_def newFilteredMachineCollection_def
        unsortedList_def Not_def MatchesConfigurationHash_def sample_owned_def sample_machine_def
        CritControlPlaneHashLabelKey_def)
  with upgrade_targets [OF _ wf _ run, of "trace s'"] sample_upgrade_laws m
  have "current_machine sample_lib sample_cluster (sample_ccp 1) m" by simp
  with run m show ?thesis by simp
qed

text \<open>
  C18: creating a machine follows the protocol. The infrastructure template is cloned, then the
  bootstrap configuration created, then the machine, current and referring to both; at the first
  failure the rest is skipped, the objects already created are deleted, and an error is returned.
  An error is returned in no other case.
\<close>

theorem machine_generation:
  assumes "label_keys (r_lib r)" and "aggregates (r_lib r)"
    and "run_state (cloneConfigsAndGenerateMachine r cluster ccp spec fd) s = (e, s')"
  shows "\<exists>es. trace s' = trace s @ es \<and>
    generation (r_lib r) cluster ccp spec fd
      (fst (cloneTemplate (r_Client r) (clone_input (r_lib r) cluster ccp) (world s))) (e = None) es"
  by (rule clone_run [OF assms])

theorem machine_generation_witness:
  "\<exists>es. trace (snd (run_state (cloneConfigsAndGenerateMachine (sample_reconciler []) sample_cluster (sample_ccp 1)
       sample_spec None) \<lparr>world = [], trace = []\<rparr>)) = es \<and> length es = 3 \<and>
     generation sample_lib sample_cluster (sample_ccp 1) sample_spec None (Inr sample_ref) True es"
proof -
  obtain e s' where run: "run_state (cloneConfigsAndGenerateMachine (sample_reconciler []) sample_cluster (sample_ccp 1)
      sample_spec None) \<lparr>world = [], trace = []\<rparr> = (e, s')" and e: "e = None" "length (trace s') = 3"
    by (simp add: sample_run)
  from machine_generation [OF _ _ run] sample_label_keys sample_aggregates e
  have "generation sample_lib sample_cluster (sample_ccp 1) sample_spec None (Inr sample_ref) True (trace s')"
    by (simp add: clone_input_def sample_ccp_def)
  with run e show ?thesis by simp
qed

end
