(* ===== verification/Ccp_Controller.thy ===== *)
theory Ccp_Controller
  imports Ccp_Scaling
begin

text \<open>
  \<^verbatim>\<open>src/controllers/controlplane/\<close>: \<^verbatim>\<open>Reconcile\<close> of the \<^verbatim>\<open>CritControlPlane\<close> with its deferred
  function, the reconciliation of an existing control plane, its deletion and its status. The code
  changes the \<^verbatim>\<open>CritControlPlane\<close> it was given in place; the model returns the changed object beside
  the result. A panic is an error value \<open>Panic\<close>: the deferred function runs, with no error, and the
  panic goes on.
\<close>

section \<open>Deletion\<close>

definition delete_owned :: "'w reconciler \<Rightarrow> Machine \<Rightarrow> ('w, action, goerror option) io" where
  "delete_owned r m = do {
     e \<leftarrow> call (DeleteMachine m) (deleteMachine (r_Client r) m);
     State_Monad.return (case e of
       Some err \<Rightarrow> if IsNotFound (r_lib r) err then None else Some err
     | None \<Rightarrow> None) }"

definition reconcileDelete ::
  "'w reconciler \<Rightarrow> Cluster \<Rightarrow> CritControlPlane \<Rightarrow> ('w, action, (Result \<times> goerror option) \<times> CritControlPlane) io" where
  "reconcileDelete r cluster ccp = do {
     let L = r_lib r;
     x \<leftarrow> GetMachinesForCluster L (r_Client r) (ObjectKey_of (cl_meta cluster)) [];
     case x of
       Inl err \<Rightarrow> State_Monad.return ((no_requeue, Some err), ccp)
     | Inr allMachines \<Rightarrow>
         let ownedMachines = Filter allMachines [OwnedControlPlaneMachines L (Name (ccp_meta ccp))]
         in if length ownedMachines = 0
            then State_Monad.return ((no_requeue, None),
              ccp\<lparr>ccp_meta := RemoveFinalizer L (ccp_meta ccp) CritControlPlaneFinalizer\<rparr>)
            else if length allMachines \<noteq> length ownedMachines
            then State_Monad.return ((no_requeue, Some (RequeueAfterError deleteRequeueAfter)), ccp)
            else do {
              let machinesToDelete = Filter ownedMachines [Not (HasDeletionTimestamp L)];
              errs \<leftarrow> for_all (delete_owned r) (map snd machinesToDelete);
              if length errs > 0 then do {
                let err = NewAggregate L (map Some errs);
                note_event (RecordEvent ''FailedDelete'');
                State_Monad.return ((no_requeue, err), ccp) }
              else State_Monad.return ((no_requeue, Some (RequeueAfterError deleteRequeueAfter)), ccp) } }"

section \<open>Status\<close>

fun ready_machines :: "lib \<Rightarrow> 32 word \<Rightarrow> Node list \<Rightarrow> 32 word" where
  "ready_machines L readyMachines [] = readyMachines"
| "ready_machines L readyMachines (node # nodes) =
     ready_machines L (if IsNodeReady L node then readyMachines + 1 else readyMachines) nodes"

definition updateStatus ::
  "'w reconciler \<Rightarrow> CritControlPlane \<Rightarrow> Cluster \<Rightarrow> ('w, action, goerror option \<times> CritControlPlane) io" where
  "updateStatus r ccp cluster = do {
     let L = r_lib r;
     let labelSelector = ControlPlaneSelectorForCluster L (Name (cl_meta cluster)) (Name (ccp_meta ccp));
     case LabelSelectorAsSelector L labelSelector of
       Inl err \<Rightarrow> State_Monad.return (Some (WrapError ''failed to parse label selector'' err), ccp)
     | Inr selector \<Rightarrow> do {
         let ccp = ccp\<lparr>ccp_Status := (ccp_Status ccp)\<lparr>ccpst_Selector := selector\<rparr>\<rparr>;
         x \<leftarrow> GetMachinesForCluster L (r_Client r) (ObjectKey_of (cl_meta cluster))
           [OwnedControlPlaneMachines L (Name (ccp_meta ccp))];
         case x of
           Inl err \<Rightarrow> State_Monad.return (Some (WrapError ''failed to get list of owned machines'' err), ccp)
         | Inr ownedMachines \<Rightarrow> do {
             let currentMachines = Filter ownedMachines [MatchesConfigurationHash (Hash L (ccp_Spec ccp))];
             let replicas = (of_nat (length ownedMachines) :: 32 word);
             let ccp = ccp\<lparr>ccp_Status := (ccp_Status ccp)\<lparr>
               ccpst_UpdatedReplicas := of_nat (length currentMachines),
               ccpst_Replicas := replicas, ccpst_ReadyReplicas := 0, ccpst_UnavailableReplicas := replicas\<rparr>\<rparr>;
             if \<not> IsZero L (DeletionTimestamp (ccp_meta ccp)) then State_Monad.return (None, ccp)
             else do {
               x \<leftarrow> NewClusterClient (r_remote r) (ObjectKey_of (cl_meta cluster));
               case x of
                 Inl err \<Rightarrow> State_Monad.return (Some (WrapError ''failed to create remote cluster client'' err), ccp)
               | Inr remoteClient \<Rightarrow> do {
                   x \<leftarrow> call (ListNodes remoteClient)
                     (listNodes (r_remote r) remoteClient [(''node-role.kubernetes.io/master'', [])]);
                   case x of
                     Inl err \<Rightarrow> State_Monad.return (Some err, ccp)
                   | Inr nodes \<Rightarrow> do {
                       let readyMachines = ready_machines L 0 nodes;
                       let ccp = ccp\<lparr>ccp_Status := (ccp_Status ccp)\<lparr>
                         ccpst_ReadyReplicas := readyMachines,
                         ccpst_UnavailableReplicas := replicas - readyMachines\<rparr>\<rparr>;
                       ccp \<leftarrow> (if \<not> ccpst_Initialized (ccp_Status ccp) then do {
                           let key = \<lparr>key_Namespace = NamespaceSystem L, key_Name = ''crit-config''\<rparr>;
                           e \<leftarrow> call (GetConfigMap remoteClient key) (getConfigMap (r_remote r) remoteClient key);
                           State_Monad.return (case e of
                             None \<Rightarrow> ccp\<lparr>ccp_Status := (ccp_Status ccp)\<lparr>ccpst_Initialized := True\<rparr>\<rparr>
                           | Some _ \<Rightarrow> ccp) }
                         else State_Monad.return ccp);
                       State_Monad.return (None, ccp\<lparr>ccp_Status := (ccp_Status ccp)\<lparr>
                         ccpst_Ready := (if ccpst_ReadyReplicas (ccp_Status ccp) = 0 then False else True)\<rparr>\<rparr>) } } } } } }"

section \<open>An existing control plane\<close>

definition reconcileExternalReference ::
  "'w reconciler \<Rightarrow> Cluster \<Rightarrow> ObjectReference \<Rightarrow> ('w, action, goerror option) io" where
  "reconcileExternalReference r cluster ref =
     (if \<not> has_suffix (ref_Kind ref) (TemplateSuffix (r_lib r)) then State_Monad.return None
      else do {
        x \<leftarrow> call (GetExternal ref (Namespace (cl_meta cluster)))
          (getExternal (r_Client r) ref (Namespace (cl_meta cluster)));
        case x of
          Inl err \<Rightarrow> State_Monad.return (Some err)
        | Inr obj \<Rightarrow> do {
            p \<leftarrow> extern (newPatchHelper (r_Client r) (u_meta obj));
            case p of
              Some err \<Rightarrow> State_Monad.return (Some err)
            | None \<Rightarrow> do {
                let obj' = obj\<lparr>u_meta := (u_meta obj)\<lparr>OwnerReferences :=
                  EnsureOwnerRef (r_lib r) (OwnerReferences (u_meta obj))
                    \<lparr>or_APIVersion = GroupVersion_String (r_lib r) (cluster_GroupVersion (r_lib r)),
                     or_Kind = ''Cluster'', or_Name = Name (cl_meta cluster), or_UID = UID (cl_meta cluster),
                     or_Controller = None\<rparr>\<rparr>\<rparr>;
                call (PatchExternal obj') (patchExternal (r_Client r) obj obj') } } })"

definition reconcileControlPlaneKubeconfig ::
  "'w reconciler \<Rightarrow> Cluster \<Rightarrow> CritControlPlane \<Rightarrow> ('w, action, goerror option) io" where
  "reconcileControlPlaneKubeconfig r cluster ccp = do {
     let L = r_lib r;
     let failed = WrapError ''failed to retrieve Kubeconfig Secret for Cluster'';
     x \<leftarrow> GetFromNamespacedName (r_Client r) (ObjectKey_of (cl_meta cluster)) Kubeconfig;
     case x of
       Inl err \<Rightarrow>
         if IsNotFound L err then do {
           let endpoint = EndpointString L (cl_ControlPlaneEndpoint cluster);
           let owner = NewControllerRef L (ccp_meta ccp) controlplane_GroupVersion ''CritControlPlane'';
           e \<leftarrow> call (CreateKubeconfig (ObjectKey_of (cl_meta cluster)) endpoint owner)
             (createKubeconfig (r_remote r) (ObjectKey_of (cl_meta cluster)) endpoint owner);
           State_Monad.return (case e of
             Some err' \<Rightarrow>
               if err' = ErrDependentCertificateNotFound (r_remote r)
               then Some (WrapError ''could not find secret, requeuing'' (RequeueAfterError DependentCertRequeueAfter))
               else Some err'
           | None \<Rightarrow> Some (failed err)) }
         else State_Monad.return (Some (failed err))
     | Inr _ \<Rightarrow> State_Monad.return None }"

fun initialize_machines ::
  "'w reconciler \<Rightarrow> Cluster \<Rightarrow> CritControlPlane \<Rightarrow> CritConfigSpec \<Rightarrow> string option list \<Rightarrow> nat list \<Rightarrow>
   ('w, action, goerror option) io" where
  "initialize_machines r cluster ccp bootstrapSpec fds [] = State_Monad.return None"
| "initialize_machines r cluster ccp bootstrapSpec fds (i # is) =
     (if i < length fds then do {
        e \<leftarrow> cloneConfigsAndGenerateMachine r cluster ccp bootstrapSpec (fds ! i);
        case e of
          Some err \<Rightarrow> do {
            note_event (RecordEvent ''FailedInitialization'');
            State_Monad.return (Some err) }
        | None \<Rightarrow> initialize_machines r cluster ccp bootstrapSpec fds is }
      else State_Monad.return (Some (Panic ''index out of range'')))"

definition reconcile_machines ::
  "'w reconciler \<Rightarrow> Cluster \<Rightarrow> CritControlPlane \<Rightarrow> ControlPlane \<Rightarrow> ('w, action, Result \<times> goerror option) io" where
  "reconcile_machines r cluster ccp controlPlane =
     (if length (MachinesNeedingUpgrade (r_lib r) controlPlane) > 0
      then upgradeControlPlane r cluster ccp controlPlane
      else if int (length (cp_Machines controlPlane)) = ccps_Replicas (ccp_Spec ccp)
      then State_Monad.return (no_requeue, None)
      else if length (cp_Machines controlPlane) = 0
      then (case NFailureDomainsWithFewestMachines (r_lib r) controlPlane (ccps_Replicas (ccp_Spec ccp)) of
              Inl p \<Rightarrow> State_Monad.return (no_requeue, Some p)
            | Inr fds \<Rightarrow> do {
                e \<leftarrow> initialize_machines r cluster ccp (ccps_CritConfigSpec (ccp_Spec ccp)) fds
                  [0..<nat (ccps_Replicas (ccp_Spec ccp))];
                State_Monad.return (case e of
                  Some err \<Rightarrow> (no_requeue, Some err)
                | None \<Rightarrow> (requeue, None)) })
      else State_Monad.return (no_requeue, None))"

definition reconcileControlPlane ::
  "'w reconciler \<Rightarrow> Cluster \<Rightarrow> CritControlPlane \<Rightarrow> ControlPlaneConfiguration \<Rightarrow>
   ('w, action, (Result \<times> goerror option) \<times> CritControlPlane) io" where
  "reconcileControlPlane r cluster ccp cfg = do {
     let L = r_lib r;
     let ccp = ccp\<lparr>ccp_meta := AddFinalizer L (ccp_meta ccp) CritControlPlaneFinalizer\<rparr>;
     e \<leftarrow> reconcileExternalReference r cluster (ccps_InfrastructureTemplate (ccp_Spec ccp));
     case e of
       Some err \<Rightarrow> State_Monad.return ((no_requeue, Some err), ccp)
     | None \<Rightarrow> do {
         (e, _) \<leftarrow> LookupOrGenerate L (r_Client r) (r_crypto r) (ObjectKey_of (cl_meta cluster))
           (NewControllerRef L (ccp_meta ccp) controlplane_GroupVersion ''CritControlPlane'')
           (NewCertificatesForControlPlane (path_Join [nc_KubeDir (cpc_NodeConfiguration cfg), ''pki'']));
         case e of
           Some err \<Rightarrow> State_Monad.return ((no_requeue, Some err), ccp)
         | None \<Rightarrow>
             if EndpointIsZero L (cl_ControlPlaneEndpoint cluster)
             then State_Monad.return ((no_requeue, None), ccp)
             else do {
               e \<leftarrow> reconcileControlPlaneKubeconfig r cluster ccp;
               case e of
                 Some err \<Rightarrow> State_Monad.return ((no_requeue, Some err), ccp)
               | None \<Rightarrow> do {
                   x \<leftarrow> GetMachinesForCluster L (r_Client r) (ObjectKey_of (cl_meta cluster))
                     [OwnedControlPlaneMachines L (Name (ccp_meta ccp))];
                   case x of
                     Inl err \<Rightarrow> State_Monad.return ((no_requeue, Some err), ccp)
                   | Inr ownedMachines \<Rightarrow> do {
                       (e, controlPlane) \<leftarrow> EnsureOwnership L (r_Client r) (NewControlPlane cluster ccp ownedMachines);
                       case e of
                         Some err \<Rightarrow> State_Monad.return ((no_requeue, Some err), ccp)
                       | None \<Rightarrow> do {
                           out \<leftarrow> reconcile_machines r cluster ccp controlPlane;
                           State_Monad.return (out, ccp) } } } } } }"

section \<open>Reconcile\<close>

definition requeue_error :: "lib \<Rightarrow> Result \<Rightarrow> goerror option \<Rightarrow> Result \<times> goerror option" where
  "requeue_error L res reterr = (case reterr of
     None \<Rightarrow> (res, None)
   | Some err \<Rightarrow>
       (case Cause L err of
          RequeueAfterError d \<Rightarrow>
            if RequeueAfter res = 0 then (res\<lparr>RequeueAfter := d\<rparr>, None) else (res, reterr)
        | _ \<Rightarrow> (res, reterr)))"

definition reconcile_deferred ::
  "'w reconciler \<Rightarrow> Cluster \<Rightarrow> CritControlPlane \<Rightarrow> CritControlPlane \<Rightarrow> Result \<times> goerror option \<Rightarrow>
   ('w, action, Result \<times> goerror option) io" where
  "reconcile_deferred r cluster before ccp out = do {
     let L = r_lib r;
     let panic = (case snd out of Some (Panic p) \<Rightarrow> Some (Panic p) | _ \<Rightarrow> None);
     let (res, reterr) = (if panic \<noteq> None then (no_requeue, None) else requeue_error L (fst out) (snd out));
     (e, ccp) \<leftarrow> updateStatus r ccp cluster;
     let reterr = (case e of Some err \<Rightarrow> NewAggregate L [reterr, Some err] | None \<Rightarrow> reterr);
     e \<leftarrow> call (PatchCCP ccp) (patchCCP (r_Client r) before ccp);
     let reterr = (case e of Some err \<Rightarrow> NewAggregate L [reterr, Some err] | None \<Rightarrow> reterr);
     let res = (if reterr = None \<and> \<not> Requeue res \<and> \<not> (RequeueAfter res > 0) \<and>
                   IsZero L (DeletionTimestamp (ccp_meta ccp)) \<and> \<not> ccpst_Ready (ccp_Status ccp)
                then \<lparr>Requeue = False, RequeueAfter = seconds 20\<rparr> else res);
     State_Monad.return (res, if panic \<noteq> None then panic else reterr) }"

definition reconcile_body ::
  "'w reconciler \<Rightarrow> Cluster \<Rightarrow> CritControlPlane \<Rightarrow> ('w, action, (Result \<times> goerror option) \<times> CritControlPlane) io" where
  "reconcile_body r cluster ccp =
     (if \<not> IsZero (r_lib r) (DeletionTimestamp (ccp_meta ccp)) then reconcileDelete r cluster ccp
      else case Unmarshal (r_codec r) (spec_Config (ccps_CritConfigSpec (ccp_Spec ccp))) of
             Inl err \<Rightarrow> State_Monad.return ((no_requeue, Some err), ccp)
           | Inr (ControlPlaneObj cfg) \<Rightarrow> reconcileControlPlane r cluster ccp cfg
           | Inr _ \<Rightarrow> State_Monad.return
               ((no_requeue, Some (NewError ''expected ControlPlaneConfiguration'')), ccp))"

definition Reconcile :: "'w reconciler \<Rightarrow> ObjectKey \<Rightarrow> ('w, action, Result \<times> goerror option) io" where
  "Reconcile r req = do {
     let L = r_lib r;
     x \<leftarrow> call (GetCCP req) (getCCP (r_Client r) req);
     case x of
       Inl err \<Rightarrow> State_Monad.return (if IsNotFound L err then (no_requeue, None) else (requeue, None))
     | Inr ccp \<Rightarrow> do {
         x \<leftarrow> call (GetOwnerCluster (Name (ccp_meta ccp))) (getOwnerCluster (r_Client r) (ccp_meta ccp));
         case x of
           Inl err \<Rightarrow> State_Monad.return (no_requeue, Some err)
         | Inr None \<Rightarrow> State_Monad.return (no_requeue, None)
         | Inr (Some cluster) \<Rightarrow>
             if IsPaused L cluster (ccp_meta ccp) then State_Monad.return (no_requeue, None)
             else if \<not> cl_InfrastructureReady cluster then State_Monad.return (no_requeue, None)
             else do {
               p \<leftarrow> extern (newPatchHelper (r_Client r) (ccp_meta ccp));
               case p of
                 Some err \<Rightarrow> State_Monad.return (requeue, None)
               | None \<Rightarrow> do {
                   (out, ccp') \<leftarrow> reconcile_body r cluster ccp;
                   reconcile_deferred r cluster ccp ccp' out } } } }"

definition ClusterToCritControlPlane :: "Cluster option \<Rightarrow> ObjectKey list" where
  "ClusterToCritControlPlane o' = (case o' of
     None \<Rightarrow> []
   | Some c \<Rightarrow>
       (case cl_ControlPlaneRef c of
          Some controlPlaneRef \<Rightarrow>
            if ref_Kind controlPlaneRef = ''CritControlPlane''
            then [\<lparr>key_Namespace = ref_Namespace controlPlaneRef, key_Name = ref_Name controlPlaneRef\<rparr>]
            else []
        | None \<Rightarrow> []))"

section \<open>Which calls are made\<close>

lemma emits_EnsureOwnership:
  assumes "\<And>m. P (UpdateMachine m)"
  shows "emits P (EnsureOwnership L C c)"
  unfolding EnsureOwnership_def
  by (intro emits_intros emits_case_prod emits_weaken [OF EnsureOwnership_loop_updates]) (use assms in auto)

lemma emits_clone_not:
  assumes "\<And>i. P (CloneTemplate i)" and "\<And>c. P (CreateConfig c)" and "\<And>m. P (CreateMachine m)"
    and "\<And>o'. P (DeleteObject o')"
  shows "emits P (cloneConfigsAndGenerateMachine r cluster ccp spec fd)"
  unfolding cloneConfigsAndGenerateMachine_def generateCritConfig_def generateMachine_def
    cleanupFromGeneration_def cleanup_ref_def Let_def
  by (intro emits_intros assms)

lemma emits_initialize:
  "emits (\<lambda>a. \<not> is_delete a) (initialize_machines r cluster ccp spec fds is)"
  by (induction r cluster ccp spec fds "is" rule: initialize_machines.induct)
    (auto intro!: emits_intros emits_clone_not)

lemma emits_updateStatus: "emits is_read (updateStatus r ccp cluster)"
  unfolding updateStatus_def NewClusterClient_def Let_def by (intro emits_intros) simp_all

lemma at_most_upgrade:
  assumes "label_keys (r_lib r)" and "aggregates (r_lib r)"
  shows "at_most 1 is_machine_write (upgradeControlPlane r cluster ccp cp)"
  unfolding at_most_def
proof
  fix s
  obtain out s' where run: "run_state (upgradeControlPlane r cluster ccp cp) s = (out, s')" by fastforce
  then have "\<exists>es. trace s' = trace s @ es \<and> length (filter is_machine_write es) \<le> 1"
  proof (cases rule: upgrade_cases)
    case (stopped err)
    with reads_only [OF emits_upgrade_status stopped(1)] no_machine_writes show ?thesis
      by (metis list.size(3) zero_le_one)
  next
    case (goes_up st s1)
    with reads_only [OF emits_upgrade_status goes_up(1)] no_machine_writes
      at_mostD [OF up.one_machine [OF assms] goes_up(3)] show ?thesis
      by (metis append.assoc append_Nil filter_append)
  next
    case (goes_down st s1)
    with reads_only [OF emits_upgrade_status goes_down(1)] no_machine_writes
      at_mostD [OF down.one_machine [OF assms] goes_down(3)] show ?thesis
      by (metis append.assoc append_Nil filter_append)
  qed
  with run show "\<exists>es. trace (snd (run_state (upgradeControlPlane r cluster ccp cp) s)) = trace s @ es \<and>
      length (filter is_machine_write es) \<le> 1" by simp
qed

lemma delete_is_write: "is_delete a \<Longrightarrow> is_machine_write a"
  by (cases a) auto

lemma at_most_reconcile_machines:
  assumes "label_keys (r_lib r)" and "aggregates (r_lib r)"
  shows "at_most 1 is_delete (reconcile_machines r cluster ccp cp)"
  using at_most_pred [OF at_most_upgrade [OF assms] delete_is_write]
  unfolding reconcile_machines_def
  by (auto intro!: emits_at_most emits_intros emits_initialize split: sum.split)

lemma at_most_reconcileControlPlane:
  assumes "label_keys (r_lib r)" and "aggregates (r_lib r)"
  shows "at_most 1 is_delete (reconcileControlPlane r cluster ccp cfg)"
proof -
  have ext: "at_most 0 is_delete (reconcileExternalReference r cluster ref)" for ref
    unfolding reconcileExternalReference_def Let_def by (intro emits_at_most emits_intros) simp_all
  have kc: "at_most 0 is_delete (reconcileControlPlaneKubeconfig r cluster c)" for c
    unfolding reconcileControlPlaneKubeconfig_def GetFromNamespacedName_def Let_def
    by (intro emits_at_most emits_intros) simp_all
  have crt: "at_most 0 is_delete (LookupOrGenerate L C K cn owner c)" for L C K cn owner c
    by (intro emits_at_most emits_intros) simp_all
  have get: "at_most 0 is_delete (GetMachinesForCluster L C k fs)" for L C k fs
    by (intro emits_at_most emits_intros) simp_all
  have own: "at_most 0 is_delete (EnsureOwnership L C c)" for L C c
    by (intro emits_at_most emits_EnsureOwnership) simp
  have mach: "at_most 1 is_delete (do { out \<leftarrow> reconcile_machines r cluster c cp; State_Monad.return (out, c) })" for c cp
    by (rule at_most_bind [OF at_most_reconcile_machines [OF assms], where b = 0]) (auto intro: at_most_intros)
  show ?thesis
    unfolding reconcileControlPlane_def Let_def
    by (intro at_most_then [OF ext] at_most_then [OF crt] at_most_then [OF kc] at_most_then [OF get] at_most_then [OF own] mach
        at_most_return at_most_if at_most_case_option at_most_case_sum at_most_case_prod)
qed

section \<open>How the operations run\<close>

lemma delete_all_run:
  "run_state (for_all (delete_owned r) ms) s = (errs, s') \<Longrightarrow> trace s' = trace s @ map DeleteMachine ms"
  by (induction ms arbitrary: s errs)
    (auto simp: delete_owned_def run_simps split: prod.splits option.splits if_splits)

lemma deletes_map [simp]: "deletes (map DeleteMachine ms) = ms" "creates (map DeleteMachine ms) = []"
  by (induction ms) auto

lemma deletes_map_snd [simp]:
  "deletes (map (DeleteMachine \<circ> snd) ms) = map snd ms" "creates (map (DeleteMachine \<circ> snd) ms) = []"
  by (induction ms) auto

lemma ready_machines_eq: "ready_machines L k ns = k + of_nat (length (filter (IsNodeReady L) ns))"
  by (induction L k ns rule: ready_machines.induct) (auto simp: algebra_simps)

text \<open>What \<^verbatim>\<open>updateStatus\<close> never changes, on any path.\<close>

lemma updateStatus_keeps:
  assumes "run_state (updateStatus r ccp cluster) s = ((e, ccp'), s')"
  shows "ccp_meta ccp' = ccp_meta ccp \<and> ccp_Spec ccp' = ccp_Spec ccp"
  using assms
  by (auto simp: updateStatus_def Let_def split: prod.splits sum.splits if_splits option.splits)

lemma updateStatus_initialized:
  assumes "run_state (updateStatus r ccp cluster) s = ((e, ccp'), s')" and "ccpst_Initialized (ccp_Status ccp)"
  shows "ccpst_Initialized (ccp_Status ccp')"
  using assms
  by (auto simp: updateStatus_def Let_def split: prod.splits sum.splits if_splits option.splits)

lemma initialize_run:
  assumes "label_keys (r_lib r)" and "aggregates (r_lib r)"
    and "run_state (initialize_machines r cluster ccp spec fds is) s = (None, s')"
  shows "\<exists>es. trace s' = trace s @ es \<and> deletes es = [] \<and>
    map m_FailureDomain (creates es) = map ((!) fds) is \<and>
    list_all (current_machine (r_lib r) cluster ccp) (creates es)"
  using assms
proof (induction r cluster ccp spec fds "is" arbitrary: s rule: initialize_machines.induct)
  case (2 r cluster ccp spec fds i "is")
  from 2(4) have i: "i < length fds" by (auto split: if_splits)
  obtain e s1 where g: "run_state (cloneConfigsAndGenerateMachine r cluster ccp spec (fds ! i)) s = (e, s1)" by fastforce
  with 2(4) i have e: "e = None" and rest: "run_state (initialize_machines r cluster ccp spec fds is) s1 = (None, s')"
    by (auto simp: run_simps split: option.splits)
  obtain es1 x where es1: "trace s1 = trace s @ es1"
    and gen: "generation (r_lib r) cluster ccp spec (fds ! i) x True es1"
    using clone_run [OF 2(2,3) g] e by auto
  obtain m where "creates es1 = [m]" "current_machine (r_lib r) cluster ccp m" "m_FailureDomain m = fds ! i"
    using generation_True_creates [OF gen] by blast
  moreover obtain es2 where "trace s' = trace s1 @ es2" "deletes es2 = []"
    "map m_FailureDomain (creates es2) = map ((!) fds) is" "list_all (current_machine (r_lib r) cluster ccp) (creates es2)"
    using 2(1) [OF i 2(2,3) rest] by blast
  ultimately show ?case
    using es1 generation_no_delete [OF gen] by (intro exI [of _ "es1 @ es2"]) simp
qed simp

lemma PickNFewest_length: "PickNFewest fds s n = Inr ds \<Longrightarrow> length ds = nat n \<and> 0 \<le> n"
  by (auto simp: PickNFewest_def Let_def split: if_splits)

text \<open>The state in which the deferred function ends: the object is patched last.\<close>

lemma reconcile_deferred_run:
  assumes "run_state (reconcile_deferred r cluster before ccp out) s = (out', s')"
  obtains e ccp' s1 where "run_state (updateStatus r ccp cluster) s = ((e, ccp'), s1)"
    and "trace s' = trace s1 @ [PatchCCP ccp']"
  using assms by (auto simp: reconcile_deferred_def Let_def run_simps split: prod.splits)

lemma reconcileDelete_keeps:
  "run_state (reconcileDelete r cluster ccp) s = ((out, ccp'), s') \<Longrightarrow> ccp_Spec ccp' = ccp_Spec ccp"
  by (auto simp: reconcileDelete_def Let_def split: prod.splits sum.splits if_splits)

lemma reconcileControlPlane_keeps:
  "run_state (reconcileControlPlane r cluster ccp cfg) s = ((out, ccp'), s') \<Longrightarrow>
   ccp' = ccp\<lparr>ccp_meta := AddFinalizer (r_lib r) (ccp_meta ccp) CritControlPlaneFinalizer\<rparr>"
  by (auto simp: reconcileControlPlane_def Let_def split: prod.splits sum.splits option.splits if_splits)

lemma reconcile_body_keeps:
  "run_state (reconcile_body r cluster ccp) s = ((out, ccp'), s') \<Longrightarrow> ccp_Spec ccp' = ccp_Spec ccp"
  by (auto simp: reconcile_body_def dest: reconcileDelete_keeps reconcileControlPlane_keeps
      split: if_splits sum.splits crit_object.splits)

fun is_patch :: "action \<Rightarrow> bool" where
  "is_patch (PatchCCP _) = True"
| "is_patch _ = False"

lemma read_no_patch: "is_read a \<Longrightarrow> \<not> is_patch a"
  by (cases a) auto

lemma emits_reads_no_patch: "emits is_read m \<Longrightarrow> emits (\<lambda>a. \<not> is_patch a) m"
  using emits_weaken [of is_read m "\<lambda>a. \<not> is_patch a"] read_no_patch by blast

lemma emits_upgrade_no_patch: "emits (\<lambda>a. \<not> is_patch a) (upgradeControlPlane r cluster ccp cp)"
  unfolding upgradeControlPlane_def scaleUpControlPlane_def scaleDownControlPlane_def Let_def
  by (intro emits_intros emits_clone_not emits_reads_no_patch [OF emits_GetWorkloadCluster]
      emits_reads_no_patch [OF emits_cluster_status] emits_reads_no_patch [OF emits_reconcileHealth]
      emits_reads_no_patch [OF emits_TargetClusterControlPlaneIsHealthy]) simp_all

lemma emits_initialize_no_patch: "emits (\<lambda>a. \<not> is_patch a) (initialize_machines r cluster ccp spec fds is)"
  by (induction r cluster ccp spec fds "is" rule: initialize_machines.induct)
    (auto intro!: emits_intros emits_clone_not)

lemma emits_body_no_patch: "emits (\<lambda>a. \<not> is_patch a) (reconcile_body r cluster ccp)"
proof -
  have ext: "emits (\<lambda>a. \<not> is_patch a) (reconcileExternalReference r cluster ref)" for ref
    unfolding reconcileExternalReference_def Let_def by (intro emits_intros) simp_all
  have kc: "emits (\<lambda>a. \<not> is_patch a) (reconcileControlPlaneKubeconfig r cluster c)" for c
    unfolding reconcileControlPlaneKubeconfig_def GetFromNamespacedName_def Let_def
    by (intro emits_intros) simp_all
  have mach: "emits (\<lambda>a. \<not> is_patch a) (reconcile_machines r cluster c cp)" for c cp
    unfolding reconcile_machines_def by (intro emits_intros emits_upgrade_no_patch emits_initialize_no_patch)
  have "emits (\<lambda>a. \<not> is_patch a) (reconcileControlPlane r cluster ccp cfg)" for cfg
    unfolding reconcileControlPlane_def Let_def
    by (intro emits_intros ext kc mach emits_EnsureOwnership) simp_all
  moreover have "emits (\<lambda>a. \<not> is_patch a) (reconcileDelete r cluster ccp)"
    unfolding reconcileDelete_def delete_owned_def Let_def by (intro emits_intros) simp_all
  ultimately show ?thesis
    unfolding reconcile_body_def by (auto intro!: emits_intros split: crit_object.split)
qed

definition sample_cpc :: ControlPlaneConfiguration where
  "sample_cpc = \<lparr>cpc_ClusterName = [], cpc_ControlPlaneEndpoint = \<lparr>ep_Host = [], ep_Port = 0\<rparr>,
     cpc_ExtraSANs = [], cpc_ServiceSubnet = [], cpc_PodSubnet = [],
     cpc_NodeConfiguration = \<lparr>nc_KubeDir = ''/k'', nc_KubernetesVersion = [], nc_ClusterDomain = [], nc_rest = []\<rparr>\<rparr>"

section \<open>Properties\<close>

text \<open>
  C4: deleting a control plane. With the machines of the cluster listed, nothing is ever created.
  The finalizer is removed exactly when no control plane machine of this control plane is left, and
  then without an error; otherwise the object is unchanged and an error makes the request come
  back. As long as other machines of the cluster are left, nothing is deleted; after that, exactly
  the control plane machines that are not being deleted yet.
\<close>

theorem delete_control_plane:
  assumes "aggregates (r_lib r)"
    and "run_state (GetMachinesForCluster (r_lib r) (r_Client r) (ObjectKey_of (cl_meta cluster)) []) s = (Inr all, s1)"
    and "run_state (reconcileDelete r cluster ccp) s = (((res, err), ccp'), s')"
  shows "\<exists>es. trace s' = trace s1 @ es \<and> creates es = [] \<and>
    (let owned = Filter all [OwnedControlPlaneMachines (r_lib r) (Name (ccp_meta ccp))]
     in if owned = []
        then es = [] \<and> err = None \<and>
          ccp' = ccp\<lparr>ccp_meta := RemoveFinalizer (r_lib r) (ccp_meta ccp) CritControlPlaneFinalizer\<rparr>
        else ccp' = ccp \<and> err \<noteq> None \<and>
          (if length all \<noteq> length owned then es = []
           else deletes es = map snd (Filter owned [Not (HasDeletionTimestamp (r_lib r))])))"
proof -
  let ?owned = "Filter all [OwnedControlPlaneMachines (r_lib r) (Name (ccp_meta ccp))]"
  let ?ms = "map snd (Filter ?owned [Not (HasDeletionTimestamp (r_lib r))])"
  obtain errs s2 where d: "run_state (for_all (delete_owned r) ?ms) s1 = (errs, s2)" by fastforce
  note tr = delete_all_run [OF d]
  show ?thesis
    using assms(2,3) d tr aggregate_Some [OF assms(1), of "hd errs" "map Some (tl errs)"]
    by (cases errs) (auto simp: reconcileDelete_def Let_def run_simps dest: sym split: if_splits)
qed

theorem delete_control_plane_witness:
  "\<exists>es. trace (snd (run_state (reconcileDelete (sample_reconciler []) sample_cluster (sample_ccp 1)) sample_start)) =
     ListMachines ''ns'' [(''cn'', ''c'')] # es \<and> deletes es = [sample_owned ''m'' ''n'']"
proof -
  have all: "run_state (GetMachinesForCluster sample_lib sample_client (ObjectKey_of (cl_meta sample_cluster)) [])
      sample_start = (Inr [(''m'', sample_owned ''m'' ''n'')],
        \<lparr>world = [sample_owned ''m'' ''n''], trace = [ListMachines ''ns'' [(''cn'', ''c'')]]\<rparr>)"
    by (simp add: sample_run sample_cluster_def ObjectKey_of_def)
  obtain res err ccp' s' where run: "run_state (reconcileDelete (sample_reconciler []) sample_cluster (sample_ccp 1))
      sample_start = (((res, err), ccp'), s')"
    by (metis prod.exhaust)
  have f: "Filter [(''m'', sample_owned ''m'' ''n'')] [OwnedControlPlaneMachines sample_lib (Name (ccp_meta (sample_ccp 1)))] =
      [(''m'', sample_owned ''m'' ''n'')]"
    "Filter [(''m'', sample_owned ''m'' ''n'')] [Not (HasDeletionTimestamp sample_lib)] = [(''m'', sample_owned ''m'' ''n'')]"
    by (simp_all add: sample_run sample_ccp_def Not_def)
  from delete_control_plane [OF _ _ run] sample_aggregates all f show ?thesis
    using run by (auto simp: Let_def)
qed

text \<open>
  C38: a live control plane loses at most one machine per reconciliation, whatever the state of the
  cluster.
\<close>

theorem one_deletion_per_reconcile:
  assumes "label_keys (r_lib r)" and "aggregates (r_lib r)"
    and "run_state (reconcileControlPlane r cluster ccp cfg) s = (out, s')"
  shows "\<exists>es. trace s' = trace s @ es \<and> length (filter is_delete es) \<le> 1"
  by (rule at_mostD [OF at_most_reconcileControlPlane [OF assms(1,2)] assms(3)])

theorem one_deletion_per_reconcile_witness:
  "\<exists>es. trace (snd (run_state (reconcileControlPlane (sample_reconciler [''n'']) sample_cluster (sample_ccp 1) sample_cpc)
      sample_start)) = es \<and> length (filter is_delete es) \<le> 1"
proof -
  obtain out s' where run: "run_state (reconcileControlPlane (sample_reconciler [''n'']) sample_cluster (sample_ccp 1)
      sample_cpc) sample_start = (out, s')" by fastforce
  from one_deletion_per_reconcile [OF _ _ run] sample_label_keys sample_aggregates run show ?thesis by simp
qed

text \<open>
  C15: initialization. When a control plane without machines is initialized without an error,
  exactly the wanted number of machines is created, all current, in the failure domains that
  \<^verbatim>\<open>PickNFewest\<close> chose, in its order; nothing is deleted, and the control plane is requeued.
\<close>

theorem initialization_complete:
  assumes "label_keys (r_lib r)" and "aggregates (r_lib r)"
    and "cp_Machines cp = []" and "ccps_Replicas (ccp_Spec ccp) \<noteq> 0"
    and "run_state (reconcile_machines r cluster ccp cp) s = ((res, None), s')"
  shows "res = requeue \<and> (\<exists>es ds. trace s' = trace s @ es \<and> deletes es = [] \<and>
    NFailureDomainsWithFewestMachines (r_lib r) cp (ccps_Replicas (ccp_Spec ccp)) = Inr ds \<and>
    map m_FailureDomain (creates es) = ds \<and>
    int (length (creates es)) = ccps_Replicas (ccp_Spec ccp) \<and>
    list_all (current_machine (r_lib r) cluster ccp) (creates es))"
proof -
  have "MachinesNeedingUpgrade (r_lib r) cp = []"
    by (simp add: MachinesNeedingUpgrade_def assms(3) Filter_eq)
  with assms(3-5) obtain ds where ds: "NFailureDomainsWithFewestMachines (r_lib r) cp (ccps_Replicas (ccp_Spec ccp)) = Inr ds"
    and res: "res = requeue"
    and run: "run_state (initialize_machines r cluster ccp (ccps_CritConfigSpec (ccp_Spec ccp)) ds
      [0..<nat (ccps_Replicas (ccp_Spec ccp))]) s = (None, s')"
    by (auto simp: reconcile_machines_def split: sum.splits prod.splits option.splits)
  from ds have len: "length ds = nat (ccps_Replicas (ccp_Spec ccp))" "0 \<le> ccps_Replicas (ccp_Spec ccp)"
    by (auto simp: NFailureDomainsWithFewestMachines_def dest: PickNFewest_length)
  obtain es where es: "trace s' = trace s @ es" "deletes es = []" "map m_FailureDomain (creates es) = ds"
    "list_all (current_machine (r_lib r) cluster ccp) (creates es)"
    using initialize_run [OF assms(1,2) run] len by (metis map_nth)
  then have "length (creates es) = length ds" by (metis length_map)
  with res ds es len show ?thesis by auto
qed

theorem initialization_complete_witness:
  "\<exists>es m. trace (snd (run_state (reconcile_machines (sample_reconciler []) sample_cluster (sample_ccp 1)
       (NewControlPlane sample_cluster (sample_ccp 1) [])) \<lparr>world = [], trace = []\<rparr>)) = es \<and>
     creates es = [m] \<and> current_machine sample_lib sample_cluster (sample_ccp 1) m"
proof -
  let ?cp = "NewControlPlane sample_cluster (sample_ccp 1) []"
  have "\<exists>res s'. run_state (reconcile_machines (sample_reconciler []) sample_cluster (sample_ccp 1) ?cp)
      \<lparr>world = [], trace = []\<rparr> = ((res, None), s')"
    by (simp add: reconcile_machines_def sample_run MachinesNeedingUpgrade_def NFailureDomainsWithFewestMachines_def
        PickNFewest_def sample_ccp_def split: sum.split)
  then obtain res s' where run: "run_state (reconcile_machines (sample_reconciler []) sample_cluster (sample_ccp 1) ?cp)
      \<lparr>world = [], trace = []\<rparr> = ((res, None), s')" by blast
  from initialization_complete [OF _ _ _ _ run] sample_label_keys sample_aggregates
  have "length (creates (trace s')) = 1" "list_all (current_machine sample_lib sample_cluster (sample_ccp 1)) (creates (trace s'))"
    by (auto simp: NewControlPlane_def sample_ccp_def)
  with run show ?thesis by (auto simp: length_Suc_conv)
qed



text \<open>
  C16: the status is always saved. Once the object and its cluster were read, the cluster is not
  paused, its infrastructure is ready and a patch helper was made, the reconciliation ends with one
  patch of the object, and makes no other, whether it succeeded, failed or panicked; the patch does
  not change the specification.
\<close>

theorem status_always_patched:
  assumes "getCCP (r_Client r) req (world s) = (Inr ccp, w1)"
    and "getOwnerCluster (r_Client r) (ccp_meta ccp) w1 = (Inr (Some cluster), w2)"
    and "\<not> IsPaused (r_lib r) cluster (ccp_meta ccp)" and "cl_InfrastructureReady cluster"
    and "newPatchHelper (r_Client r) (ccp_meta ccp) w2 = (None, w3)"
    and "run_state (Reconcile r req) s = (out, s')"
  shows "\<exists>es ccp'. trace s' = trace s @ es @ [PatchCCP ccp'] \<and> list_all (\<lambda>a. \<not> is_patch a) es \<and>
    ccp_Spec ccp' = ccp_Spec ccp"
proof -
  let ?s = "s\<lparr>trace := trace s @ [GetCCP req, GetOwnerCluster (Name (ccp_meta ccp))], world := w3\<rparr>"
  obtain o1 ccp1 s1 where b: "run_state (reconcile_body r cluster ccp) ?s = ((o1, ccp1), s1)"
    by (metis prod.exhaust)
  with assms have d: "run_state (reconcile_deferred r cluster ccp ccp1 o1) s1 = (out, s')"
    by (simp add: Reconcile_def run_simps Let_def)
  obtain e ccp2 s2 where u: "run_state (updateStatus r ccp1 cluster) s1 = ((e, ccp2), s2)"
    and p: "trace s' = trace s2 @ [PatchCCP ccp2]"
    using reconcile_deferred_run [OF d] .
  obtain es1 where es1: "trace s1 = trace ?s @ es1" "list_all (\<lambda>a. \<not> is_patch a) es1"
    using emitsD [OF emits_body_no_patch b] by blast
  obtain es2 where es2: "trace s2 = trace s1 @ es2" "list_all (\<lambda>a. \<not> is_patch a) es2"
    using emitsD [OF emits_reads_no_patch [OF emits_updateStatus] u] by blast
  have "ccp_Spec ccp2 = ccp_Spec ccp"
    using reconcile_body_keeps [OF b] updateStatus_keeps [OF u] by simp
  with es1 es2 p show ?thesis
    by (intro exI [of _ "GetCCP req # GetOwnerCluster (Name (ccp_meta ccp)) # es1 @ es2"] exI [of _ ccp2]) simp
qed

theorem status_always_patched_witness:
  "\<exists>es ccp'. trace (snd (run_state (Reconcile (sample_reconciler [''n'']) sample_key) sample_start)) = es @ [PatchCCP ccp']"
proof -
  obtain out s' where run: "run_state (Reconcile (sample_reconciler [''n'']) sample_key) sample_start = (out, s')" by fastforce
  have "cl_InfrastructureReady sample_cluster" by (simp add: sample_cluster_def)
  with status_always_patched [OF _ _ _ _ _ run] run show ?thesis by fastforce
qed

text \<open>
  a control plane that is not ready is never forgotten. If the deferred function ends without
  an error for an object that is not being deleted and not ready, the request is requeued, at once
  or after a positive delay.
\<close>

theorem unready_requeued:
  assumes "run_state (reconcile_deferred r cluster before ccp out) s = ((res, None), s')"
    and "run_state (updateStatus r ccp cluster) s = ((e, ccp'), s1)"
    and "IsZero (r_lib r) (DeletionTimestamp (ccp_meta ccp))" and "\<not> ccpst_Ready (ccp_Status ccp')"
  shows "Requeue res \<or> 0 < RequeueAfter res"
proof -
  have "ccp_meta ccp' = ccp_meta ccp" using updateStatus_keeps [OF assms(2)] by simp
  with assms show ?thesis
    by (auto simp: reconcile_deferred_def Let_def run_simps split: prod.splits if_splits)
qed

theorem unready_requeued_witness:
  "\<exists>res. fst (run_state (reconcile_deferred (sample_reconciler []) sample_cluster (sample_ccp 1) (sample_ccp 1)
      (no_requeue, None)) sample_start) = (res, None) \<and> (Requeue res \<or> 0 < RequeueAfter res)"
proof -
  have "\<exists>ccp' s1. run_state (updateStatus (sample_reconciler []) (sample_ccp 1) sample_cluster) sample_start =
      ((None, ccp'), s1) \<and> \<not> ccpst_Ready (ccp_Status ccp')"
    by (simp add: updateStatus_def sample_run NewClusterClient_def RESTConfig_def sample_ccp_def)
  then obtain ccp' s1 where u: "run_state (updateStatus (sample_reconciler []) (sample_ccp 1) sample_cluster) sample_start =
      ((None, ccp'), s1)" and nr: "\<not> ccpst_Ready (ccp_Status ccp')" by blast
  have "\<exists>res s'. run_state (reconcile_deferred (sample_reconciler []) sample_cluster (sample_ccp 1) (sample_ccp 1)
      (no_requeue, None)) sample_start = ((res, None), s')"
    using u by (simp add: reconcile_deferred_def Let_def run_simps requeue_error_def)
  then obtain res s' where d: "run_state (reconcile_deferred (sample_reconciler []) sample_cluster (sample_ccp 1) (sample_ccp 1)
      (no_requeue, None)) sample_start = ((res, None), s')" by blast
  have "IsZero sample_lib (DeletionTimestamp (ccp_meta (sample_ccp 1)))" by (simp add: sample_ccp_def)
  with unready_requeued [OF d u] nr d show ?thesis by simp
qed

text \<open>
  Creating the kubeconfig fails the reconciliation. When the kubeconfig secret is not found and
  is then created without an error, the function returns the not-found error all the same, wrapped.
\<close>

theorem kubeconfig_created_still_fails:
  assumes "getSecret (r_Client r) (secret_key (ObjectKey_of (cl_meta cluster)) Kubeconfig) (world s) = (Inl err, w1)"
    and "IsNotFound (r_lib r) err"
    and "createKubeconfig (r_remote r) (ObjectKey_of (cl_meta cluster))
      (EndpointString (r_lib r) (cl_ControlPlaneEndpoint cluster))
      (NewControllerRef (r_lib r) (ccp_meta ccp) controlplane_GroupVersion ''CritControlPlane'') w1 = (None, w2)"
  shows "fst (run_state (reconcileControlPlaneKubeconfig r cluster ccp) s) =
    Some (WrapError ''failed to retrieve Kubeconfig Secret for Cluster'' err)"
  using assms by (simp add: reconcileControlPlaneKubeconfig_def GetFromNamespacedName_def run_simps Let_def)

theorem kubeconfig_created_still_fails_witness:
  "\<exists>(r :: Machine list reconciler) err. fst (run_state (reconcileControlPlaneKubeconfig r sample_cluster (sample_ccp 1)) sample_start) =
     Some (WrapError ''failed to retrieve Kubeconfig Secret for Cluster'' err)"
proof -
  let ?r = "(sample_reconciler [])\<lparr>r_Client := sample_client\<lparr>getSecret := (\<lambda>_ w. (Inl (ExtError ''NotFound''), w))\<rparr>\<rparr>"
  have "fst (run_state (reconcileControlPlaneKubeconfig ?r sample_cluster (sample_ccp 1)) sample_start) =
     Some (WrapError ''failed to retrieve Kubeconfig Secret for Cluster'' (ExtError ''NotFound''))"
    by (rule kubeconfig_created_still_fails) simp_all
  then show ?thesis by blast
qed

text \<open>
  A control plane that has some machines, none of them out of date, but not the wanted number,
  is left as it is: neither an interrupted initialization nor a change of the number of replicas
  is acted on, and the result asks for no other reconciliation.
\<close>

theorem wrong_size_ignored:
  assumes "MachinesNeedingUpgrade (r_lib r) cp = []" and "cp_Machines cp \<noteq> []"
    and "int (length (cp_Machines cp)) \<noteq> ccps_Replicas (ccp_Spec ccp)"
  shows "run_state (reconcile_machines r cluster ccp cp) s = ((no_requeue, None), s)"
  using assms by (simp add: reconcile_machines_def)

theorem wrong_size_ignored_witness:
  "\<exists>m. run_state (reconcile_machines (sample_reconciler [''n'']) sample_cluster (sample_ccp 3)
     (NewControlPlane sample_cluster (sample_ccp 3) [(''m'', m)])) sample_start = ((no_requeue, None), sample_start)"
proof -
  let ?m = "(sample_machine ''m'' None 1)\<lparr>m_meta := (sample_meta ''m'')\<lparr>
    Labels := [(CritControlPlaneHashLabelKey, Hash sample_lib (ccp_Spec (sample_ccp 3)))]\<rparr>\<rparr>"
  let ?cp = "NewControlPlane sample_cluster (sample_ccp 3) [(''m'', ?m)]"
  have "MachinesNeedingUpgrade sample_lib ?cp = []"
    by (simp add: MachinesNeedingUpgrade_def NewControlPlane_def Filter_def newFilteredMachineCollection_def
        unsortedList_def Not_def MatchesConfigurationHash_def SpecHash_def)
  with wrong_size_ignored [of "sample_reconciler [''n'']" ?cp "sample_ccp 3" sample_cluster sample_start]
  show ?thesis by (intro exI [of _ ?m]) (simp add: NewControlPlane_def sample_ccp_def)
qed

text \<open>
  A control plane without machines whose specification asks for a negative number of replicas
  makes the reconciliation panic, before any machine is created.
\<close>

theorem negative_replicas_panic:
  assumes "cp_Machines cp = []" and "ccps_Replicas (ccp_Spec ccp) < 0"
  shows "\<exists>p. run_state (reconcile_machines r cluster ccp cp) s = ((no_requeue, Some (Panic p)), s)"
  using assms
  by (auto simp: reconcile_machines_def MachinesNeedingUpgrade_def Filter_eq NFailureDomainsWithFewestMachines_def PickNFewest_def)

theorem negative_replicas_panic_witness:
  "\<exists>p. run_state (reconcile_machines (sample_reconciler []) sample_cluster (sample_ccp (-1))
     (NewControlPlane sample_cluster (sample_ccp (-1)) [])) sample_start = ((no_requeue, Some (Panic p)), sample_start)"
  by (rule negative_replicas_panic) (simp_all add: NewControlPlane_def sample_ccp_def)

end
