(* ===== verification/Ccp_Lifecycle.thy ===== *)
theory Ccp_Lifecycle
  imports Ccp_Controller
begin

text \<open>
  The life of a control plane under \<^verbatim>\<open>reconcileControlPlane\<close>: successive reconciliations of its machines, from none
  or from the wanted number with any of them out of date, as a refinement of an abstract manager that counts
  machines; and what a reconciliation does once everything is as wanted.
\<close>

section \<open>Counting down\<close>

text \<open>A process with a number of steps to go: every step takes one of them, and none is left to take in the end.\<close>

locale countdown =
  fixes advance :: "'a \<Rightarrow> 'a \<Rightarrow> bool" and on_track :: "'a \<Rightarrow> bool" and to_go :: "'a \<Rightarrow> nat"
  assumes keeps: "advance a b \<Longrightarrow> on_track a \<Longrightarrow> on_track b"
    and counts: "advance a b \<Longrightarrow> on_track a \<Longrightarrow> to_go b = to_go a - 1"
begin

lemma after_steps: "(advance ^^ k) a b \<Longrightarrow> on_track a \<Longrightarrow> on_track b \<and> to_go b = to_go a - k"
proof (induction k arbitrary: b)
  case (Suc k)
  then obtain c where "(advance ^^ k) a c" "advance c b" by auto
  with Suc keeps counts show ?case by fastforce
qed simp

lemma done_iff: "(advance ^^ k) a b \<Longrightarrow> on_track a \<Longrightarrow> to_go b = 0 \<longleftrightarrow> to_go a \<le> k"
  using after_steps by simp

end

section \<open>The abstract manager\<close>

text \<open>
  On the numbers of out-of-date and of current machines: from no machine, create all at once; upgrade while machines
  are out of date; otherwise rest.
\<close>

inductive manage :: "int \<Rightarrow> nat \<times> nat \<Rightarrow> nat \<times> nat \<Rightarrow> bool" for n where
  populate: "0 < n \<Longrightarrow> manage n (0, 0) (0, nat n)"
| replace: "roll n a b \<Longrightarrow> manage n a b"
| rest: "0 < cur \<or> n = 0 \<Longrightarrow> manage n (0, cur) (0, cur)"

inductive_cases manageE: "manage n a b"

definition managed :: "int \<Rightarrow> nat \<times> nat \<Rightarrow> bool" where
  "managed n a \<longleftrightarrow> (case a of (old, cur) \<Rightarrow>
     0 \<le> n \<and> (old + cur = 0 \<or> int (old + cur) = n \<or> int (old + cur) = n + 1 \<and> 0 < old))"

definition steps_to_go :: "int \<Rightarrow> nat \<times> nat \<Rightarrow> nat" where
  "steps_to_go n a = (case a of (old, cur) \<Rightarrow>
     if old = 0 \<and> cur = 0 \<and> 0 < n then 1 else if int (old + cur) = n + 1 then 2 * old - 1 else 2 * old)"

interpretation manager: countdown "manage n" "managed n" "steps_to_go n" for n
proof
  fix a b assume "manage n a b" "managed n a"
  then show "managed n b" by (auto elim!: manageE rollE simp: managed_def)
next
  fix a b assume "manage n a b" "managed n a"
  then show "steps_to_go n b = steps_to_go n a - 1"
    by (auto elim!: manageE rollE simp: managed_def steps_to_go_def split: if_splits)
qed

lemma manager_done: "managed n (old, cur) \<Longrightarrow> steps_to_go n (old, cur) = 0 \<longleftrightarrow> old = 0 \<and> int cur = n"
  by (auto simp: managed_def steps_to_go_def)

section \<open>Reconciling the machines refines it\<close>

text \<open>
  A reconciliation of the machines without an error, as a step from the machines before to the machines after; when
  machines are out of date the node count agrees with the machines, and generated names are new.
\<close>

inductive manage_step ::
  "'w reconciler \<Rightarrow> Cluster \<Rightarrow> CritControlPlane \<Rightarrow> FilterableMachineCollection \<Rightarrow> FilterableMachineCollection \<Rightarrow> bool"
  for r cluster ccp where
  "run_state (reconcile_machines r cluster ccp (NewControlPlane cluster ccp ms)) s = ((res, None), s') \<Longrightarrow>
   trace s' = trace s @ es \<Longrightarrow>
   MachinesNeedingUpgrade (r_lib r) (NewControlPlane cluster ccp ms) \<noteq> [] \<longrightarrow>
     (\<exists>st. fst (run_state (upgrade_status r cluster) s) = Inr st \<and> sint (Nodes st) = int (length ms)) \<Longrightarrow>
   distinct (map (\<lambda>m. Name (m_meta m)) (creates es)) \<Longrightarrow>
   \<forall>m \<in> set (creates es). Name (m_meta m) \<notin> fst ` set ms \<Longrightarrow>
   manage_step r cluster ccp ms (machines_after es ms)"

lemma machines_after_creates:
  "deletes es = [] \<Longrightarrow> machines_after es ms = fold (\<lambda>m. gm_put (Name (m_meta m)) m) (creates es) ms"
  by (induction es ms rule: machines_after.induct) auto

lemma view_creates:
  assumes "list_all (current_machine L cluster ccp) ns" and "distinct (map (\<lambda>m. Name (m_meta m)) ns)"
    and "\<forall>m \<in> set ns. Name (m_meta m) \<notin> fst ` set ms" and "coll_wf ms"
  shows "coll_wf (fold (\<lambda>m. gm_put (Name (m_meta m)) m) ns ms) \<and>
    upgrade_view L ccp (fold (\<lambda>m. gm_put (Name (m_meta m)) m) ns ms) =
      (outdated L ccp ms, length ms - outdated L ccp ms + length ns)"
  using assms
proof (induction ns arbitrary: ms)
  case Nil
  then show ?case by (simp add: upgrade_view_def)
next
  case (Cons m ns)
  let ?ms = "gm_put (Name (m_meta m)) m ms"
  have m: "current_machine L cluster ccp m" "Name (m_meta m) \<notin> fst ` set ms" using Cons.prems by simp_all
  have "fst ` set ?ms = insert (Name (m_meta m)) (fst ` set ms)" using m(2) by (simp add: gm_put_fresh)
  with Cons.prems have "\<forall>k \<in> set ns. Name (m_meta k) \<notin> fst ` set ?ms" by (auto simp: image_iff)
  moreover have "coll_wf ?ms" using Cons.prems(4) by auto
  ultimately have IH: "coll_wf (fold (\<lambda>m. gm_put (Name (m_meta m)) m) ns ?ms) \<and>
    upgrade_view L ccp (fold (\<lambda>m. gm_put (Name (m_meta m)) m) ns ?ms) =
      (outdated L ccp ?ms, length ?ms - outdated L ccp ?ms + length ns)"
    using Cons.IH Cons.prems(1,2) by simp
  have "outdated L ccp ?ms = outdated L ccp ms" "length ?ms - outdated L ccp ?ms = Suc (length ms - outdated L ccp ms)"
    using view_create [OF m] unfolding upgrade_view_def prod.inject by blast+
  with IH show ?case by simp
qed

lemma upgrade_without_error:
  assumes "run_state (upgradeControlPlane r cluster ccp cp) s = ((res, None), s')"
  shows "res = requeue"
  using assms
proof (cases rule: upgrade_cases)
  case (goes_up st s1)
  from goes_up(3) show ?thesis
    by (auto simp: scaleUpControlPlane_def run_simps split: prod.splits option.splits)
next
  case (goes_down st s1)
  from goes_down(3) show ?thesis
    by (auto simp: scaleDownControlPlane_def run_simps split: prod.splits option.splits sum.splits if_splits)
qed simp

text \<open>The two ways in which a reconciliation leaves the machines alone.\<close>

lemma reconcile_machines_rests:
  assumes "MachinesNeedingUpgrade (r_lib r) cp = []"
    and "cp_Machines cp \<noteq> [] \<or> ccps_Replicas (ccp_Spec ccp) = 0"
  shows "run_state (reconcile_machines r cluster ccp cp) s = ((no_requeue, None), s)"
  using assms by (auto simp: reconcile_machines_def)

lemma manage_step_refines:
  assumes laws: "upgrade_laws (r_lib r) cluster" and wf: "coll_wf ms" and st: "manage_step r cluster ccp ms ms'"
  shows "coll_wf ms' \<and> manage (ccps_Replicas (ccp_Spec ccp)) (upgrade_view (r_lib r) ccp ms) (upgrade_view (r_lib r) ccp ms')"
  using st
proof cases
  case (1 s res s' es)
  let ?cp = "NewControlPlane cluster ccp ms" and ?n = "ccps_Replicas (ccp_Spec ccp)" and ?L = "r_lib r"
  have cp: "cp_Machines ?cp = ms" by (simp add: NewControlPlane_def)
  consider (upgrade) "MachinesNeedingUpgrade ?L ?cp \<noteq> []"
    | (rests) "MachinesNeedingUpgrade ?L ?cp = []" "ms \<noteq> [] \<or> ?n = 0"
    | (empty) "ms = []" "?n \<noteq> 0" by blast
  then show ?thesis
  proof cases
    case upgrade
    with 1(2) have run: "run_state (upgradeControlPlane r cluster ccp ?cp) s = ((res, None), s')"
      by (simp add: reconcile_machines_def)
    with upgrade_without_error have "res = requeue" by blast
    with run upgrade 1 have "upgrade_step r cluster ccp ms ms'" by (auto intro: upgrade_step.intros)
    from upgrade_step_roll [OF laws this wf] show ?thesis by (blast intro: replace)
  next
    case rests
    with 1 reconcile_machines_rests [OF rests(1)] cp have "ms' = ms" by auto
    moreover have "outdated ?L ccp ms = 0"
      using rests(1) outdated_MachinesNeedingUpgrade [OF wf] by (metis list.size(3))
    ultimately show ?thesis using wf rests(2) by (auto simp: upgrade_view_def intro: rest)
  next
    case empty
    with 1(2) cp obtain ds where
      ds: "NFailureDomainsWithFewestMachines ?L ?cp ?n = Inr ds"
      and run: "run_state (initialize_machines r cluster ccp (ccps_CritConfigSpec (ccp_Spec ccp)) ds [0..<nat ?n]) s = (None, s')"
      by (auto simp: reconcile_machines_def MachinesNeedingUpgrade_def Filter_eq split: sum.splits prod.splits option.splits)
    have n: "0 < ?n" using ds empty(2) by (auto simp: NFailureDomainsWithFewestMachines_def dest!: PickNFewest_length)
    obtain es' where es: "trace s' = trace s @ es'" "deletes es' = []" "map m_FailureDomain (creates es') = map ((!) ds) [0..<nat ?n]"
      "list_all (current_machine ?L cluster ccp) (creates es')"
      using initialize_run [OF _ _ run] laws by (auto simp: upgrade_laws_def)
    with 1(3) have "es' = es" by simp
    moreover from es(3) have "length (creates es') = nat ?n" by (metis length_map length_upt minus_nat.diff_0)
    ultimately show ?thesis
      using view_creates [OF es(4), of ms] es(2) 1 empty(1) n
      by (auto simp: machines_after_creates upgrade_view_def outdated_def intro: populate)
  qed
qed

lemma manage_steps_refine:
  assumes "upgrade_laws (r_lib r) cluster" and "coll_wf ms0" and "(manage_step r cluster ccp ^^ k) ms0 ms"
  shows "coll_wf ms \<and> (manage (ccps_Replicas (ccp_Spec ccp)) ^^ k) (upgrade_view (r_lib r) ccp ms0) (upgrade_view (r_lib r) ccp ms)"
  using assms(3)
proof (induction k arbitrary: ms)
  case (Suc k)
  then obtain ms1 where "(manage_step r cluster ccp ^^ k) ms0 ms1" "manage_step r cluster ccp ms1 ms" by auto
  with Suc.IH manage_step_refines [OF assms(1)] show ?case by (metis relpowp_Suc_I)
qed (use assms(2) in simp)

text \<open>The number of reconciliations until a control plane is as wanted.\<close>

definition reconciliations :: "lib \<Rightarrow> CritControlPlane \<Rightarrow> FilterableMachineCollection \<Rightarrow> nat" where
  "reconciliations L ccp ms =
     (if ms = [] \<and> 0 < ccps_Replicas (ccp_Spec ccp) then 1 else 2 * outdated L ccp ms)"

lemma manage_starts:
  assumes "ms = [] \<and> 0 \<le> n \<or> int (length ms) = n" and "n = ccps_Replicas (ccp_Spec ccp)"
  shows "managed n (upgrade_view L ccp ms)" "steps_to_go n (upgrade_view L ccp ms) = reconciliations L ccp ms"
proof -
  have "ms \<noteq> [] \<Longrightarrow> length ms - outdated L ccp ms = 0 \<Longrightarrow> 0 < outdated L ccp ms"
    using outdated_le [of L ccp ms] by (metis diff_is_0_eq le_zero_eq length_0_conv neq0_conv)
  then show "managed n (upgrade_view L ccp ms)" "steps_to_go n (upgrade_view L ccp ms) = reconciliations L ccp ms"
    using assms outdated_le [of L ccp ms]
    by (auto simp: managed_def steps_to_go_def reconciliations_def upgrade_view_def outdated_def)
qed

section \<open>Convergence\<close>

text \<open>
  C3: a control plane converges and stays. From no machine, or from the wanted number of machines of which any may be
  out of date, successive reconciliations of the machines without an error reach the wanted number of machines,
  all current, after exactly one reconciliation in the first case and twice as many as there were out-of-date
  machines in the second; there is never more than one machine too many; and from then on a reconciliation
  succeeds, asks for no other one and makes no call at all.
\<close>

theorem control_plane_converges:
  assumes "upgrade_laws (r_lib r) cluster" and "coll_wf ms0"
    and "ms0 = [] \<and> 0 \<le> ccps_Replicas (ccp_Spec ccp) \<or> int (length ms0) = ccps_Replicas (ccp_Spec ccp)"
    and "(manage_step r cluster ccp ^^ k) ms0 ms"
  shows "(int (length ms) = ccps_Replicas (ccp_Spec ccp) \<and> outdated (r_lib r) ccp ms = 0 \<longleftrightarrow>
      reconciliations (r_lib r) ccp ms0 \<le> k) \<and>
    int (length ms) \<le> ccps_Replicas (ccp_Spec ccp) + 1 \<and>
    (reconciliations (r_lib r) ccp ms0 \<le> k \<longrightarrow>
      (\<forall>s. run_state (reconcile_machines r cluster ccp (NewControlPlane cluster ccp ms)) s = ((no_requeue, None), s)))"
proof -
  let ?n = "ccps_Replicas (ccp_Spec ccp)" and ?v = "upgrade_view (r_lib r) ccp"
  have wf: "coll_wf ms" and run: "(manage ?n ^^ k) (?v ms0) (?v ms)"
    using manage_steps_refine [OF assms(1,2,4)] by simp_all
  note start = manage_starts [OF assms(3) refl, of "r_lib r"]
  have m: "managed ?n (?v ms)" using manager.after_steps [OF run start(1)] by simp
  have len: "length ms = outdated (r_lib r) ccp ms + (length ms - outdated (r_lib r) ccp ms)"
    using outdated_le [of "r_lib r" ccp ms] by simp
  have fin: "int (length ms) = ?n \<and> outdated (r_lib r) ccp ms = 0 \<longleftrightarrow> reconciliations (r_lib r) ccp ms0 \<le> k"
    using manager.done_iff [OF run start(1)] start(2) manager_done [of ?n "outdated (r_lib r) ccp ms"] m len
    by (auto simp: upgrade_view_def)
  moreover have "int (length ms) \<le> ?n + 1" using m len by (auto simp: managed_def upgrade_view_def)
  moreover have "run_state (reconcile_machines r cluster ccp (NewControlPlane cluster ccp ms)) s = ((no_requeue, None), s)"
    if "reconciliations (r_lib r) ccp ms0 \<le> k" for s
  proof (rule reconcile_machines_rests)
    have "outdated (r_lib r) ccp ms = 0" "int (length ms) = ?n" using fin that by simp_all
    then show "MachinesNeedingUpgrade (r_lib r) (NewControlPlane cluster ccp ms) = []"
      "cp_Machines (NewControlPlane cluster ccp ms) \<noteq> [] \<or> ?n = 0"
      using outdated_MachinesNeedingUpgrade [OF wf, of "r_lib r" cluster ccp] by (auto simp: NewControlPlane_def)
  qed
  ultimately show ?thesis by blast
qed

theorem control_plane_converges_witness:
  "\<exists>ms. manage_step (sample_reconciler []) sample_cluster (sample_ccp 1) [] ms \<and> length ms = 1 \<and>
     outdated sample_lib (sample_ccp 1) ms = 0 \<and>
     (\<forall>s. run_state (reconcile_machines (sample_reconciler []) sample_cluster (sample_ccp 1)
        (NewControlPlane sample_cluster (sample_ccp 1) ms)) s = ((no_requeue, None), s))"
proof -
  let ?r = "sample_reconciler []" and ?cp = "NewControlPlane sample_cluster (sample_ccp 1) []"
  have "\<exists>res s'. run_state (reconcile_machines ?r sample_cluster (sample_ccp 1) ?cp) \<lparr>world = [], trace = []\<rparr> = ((res, None), s') \<and>
      length (creates (trace s')) = 1"
    by (simp add: reconcile_machines_def sample_run MachinesNeedingUpgrade_def NFailureDomainsWithFewestMachines_def
        PickNFewest_def sample_ccp_def split: sum.split)
  then obtain res s' where run: "run_state (reconcile_machines ?r sample_cluster (sample_ccp 1) ?cp) \<lparr>world = [], trace = []\<rparr> = ((res, None), s')"
    and one: "length (creates (trace s')) = 1" by blast
  have "MachinesNeedingUpgrade sample_lib ?cp = []" by (simp add: MachinesNeedingUpgrade_def NewControlPlane_def Filter_eq)
  then have st: "manage_step ?r sample_cluster (sample_ccp 1) [] (machines_after (trace s') [])"
    using one by (intro manage_step.intros [OF run]) (auto simp: length_Suc_conv)
  then have k: "(manage_step ?r sample_cluster (sample_ccp 1) ^^ 1) [] (machines_after (trace s') [])" by (metis relpowp_1)
  have "ccps_Replicas (ccp_Spec (sample_ccp 1)) = 1" by (simp add: sample_ccp_def)
  then show ?thesis
    using st control_plane_converges [OF _ _ _ k] sample_upgrade_laws
    by (intro exI [of _ "machines_after (trace s') []"]) (simp add: reconciliations_def)
qed

section \<open>Nothing to do\<close>

text \<open>What a client promises while a secret is there: it never says that there is none.\<close>

definition present :: "lib \<Rightarrow> 'w client \<Rightarrow> ObjectKey \<Rightarrow> bool" where
  "present L C key \<longleftrightarrow> (\<forall>w err. fst (getSecret C key w) = Inl err \<longrightarrow> \<not> IsNotFound L err)"

lemma present_answer:
  "present L C key \<Longrightarrow>
   yields (\<lambda>x es. list_all is_read es \<and> (\<forall>err. x = Inl err \<longrightarrow> \<not> IsNotFound L err)) (call (GetSecret key) (getSecret C key))"
  unfolding present_def by (rule yields_call) auto

lemma Lookup_present:
  assumes "list_all (\<lambda>x. present L C (secret_key cn (cert_Purpose x)) \<and> \<not> cert_Generated x) c"
  shows "yields (\<lambda>(e, c') es. list_all is_read es \<and>
    (e = None \<longrightarrow> list_all (\<lambda>y. cert_KeyPair y \<noteq> None \<and> \<not> cert_Generated y) c')) (Lookup L C cn c)"
  using assms
proof (induction c)
  case Nil
  then show ?case by (simp add: yields_return)
next
  case (Cons x c)
  then have IH: "yields (\<lambda>(e, c') es. list_all is_read es \<and>
    (e = None \<longrightarrow> list_all (\<lambda>y. cert_KeyPair y \<noteq> None \<and> \<not> cert_Generated y) c')) (Lookup L C cn c)"
    and x: "present L C (secret_key cn (cert_Purpose x))" "\<not> cert_Generated x" by simp_all
  show ?case
    unfolding Lookup.simps Let_def
    by (rule yields_bind [OF present_answer [OF x(1)]])
      (auto simp: x(2) split: sum.split intro!: yields_return yields_bind [OF IH])
qed

lemma Generate_nothing: "list_all (\<lambda>y. cert_KeyPair y \<noteq> None) c \<Longrightarrow> Generate K c = State_Monad.return (None, c)"
  by (induction c) auto

lemma SaveGenerated_nothing:
  "list_all (\<lambda>y. \<not> cert_Generated y) c \<Longrightarrow> SaveGenerated L C cn owner c = State_Monad.return None"
  unfolding SaveGenerated_def by (induction c) (auto simp: save_one_def)

lemma certificates_read_only:
  assumes "list_all (\<lambda>x. present L C (secret_key cn (cert_Purpose x)) \<and> \<not> cert_Generated x) c"
  shows "emits is_read (LookupOrGenerate L C K cn owner c)"
  unfolding LookupOrGenerate_def
  by (rule emits_after [OF Lookup_present [OF assms]])
    (auto simp: Generate_nothing SaveGenerated_nothing list_all_iff intro!: emits_return split: option.split)

lemma ownership_complete_already:
  "\<forall>e \<in> set ms. GetControllerOf L (m_meta (snd e)) \<noteq> None \<Longrightarrow>
   yields (\<lambda>(e, ms') es. es = [] \<and> ms' = seen @ ms) (EnsureOwnership_loop L C meta seen ms errs)"
  by (induction L C meta seen ms errs rule: EnsureOwnership_loop.induct)
    (auto intro!: yields_return split: option.splits)

text \<open>The machines of a control plane as wanted, and a management cluster in which everything is there.\<close>

definition as_wanted :: "lib \<Rightarrow> CritControlPlane \<Rightarrow> FilterableMachineCollection \<Rightarrow> bool" where
  "as_wanted L ccp ms \<longleftrightarrow> int (length ms) = ccps_Replicas (ccp_Spec ccp) \<and> outdated L ccp ms = 0 \<and>
     (\<forall>e \<in> set ms. GetControllerOf L (m_meta (snd e)) \<noteq> None)"

definition settled :: "'w reconciler \<Rightarrow> Cluster \<Rightarrow> CritControlPlane \<Rightarrow> bool" where
  "settled r cluster ccp \<longleftrightarrow>
     list_all (\<lambda>p. present (r_lib r) (r_Client r) (secret_key (ObjectKey_of (cl_meta cluster)) p))
       [ClusterCA, ServiceAccount, FrontProxyCA, AuthProxyCA, EtcdCA, Kubeconfig] \<and>
     (\<forall>s ms. fst (run_state (GetMachinesForCluster (r_lib r) (r_Client r) (ObjectKey_of (cl_meta cluster))
        [OwnedControlPlaneMachines (r_lib r) (Name (ccp_meta ccp))]) s) = Inr ms \<longrightarrow> as_wanted (r_lib r) ccp ms)"

text \<open>\<^verbatim>\<open>controllerutil.AddFinalizer\<close> changes the finalizers only.\<close>

definition finalizer_keeps_name :: "lib \<Rightarrow> bool" where
  "finalizer_keeps_name L \<longleftrightarrow> (\<forall>m f. Name (AddFinalizer L m f) = Name m)"

fun is_quiet :: "action \<Rightarrow> bool" where
  "is_quiet (PatchCCP _) = True"
| "is_quiet (PatchExternal _) = True"
| "is_quiet a = is_read a"

lemma read_is_quiet: "is_read a \<Longrightarrow> is_quiet a"
  by (cases a) simp_all

lemmas emits_quiet = emits_weaken [OF _ read_is_quiet]

lemma yields_of_emits:
  "emits P m \<Longrightarrow> (\<And>s. Q (fst (run_state m s))) \<Longrightarrow> yields (\<lambda>x es. list_all P es \<and> Q x) m"
  unfolding emits_def yields_def by blast

lemma external_reference_quiet: "emits is_quiet (reconcileExternalReference r cluster ref)"
  unfolding reconcileExternalReference_def Let_def by (intro emits_intros) simp_all

lemma kubeconfig_read_only:
  assumes "present (r_lib r) (r_Client r) (secret_key (ObjectKey_of (cl_meta cluster)) Kubeconfig)"
  shows "emits is_read (reconcileControlPlaneKubeconfig r cluster ccp)"
  unfolding reconcileControlPlaneKubeconfig_def GetFromNamespacedName_def Let_def
  by (rule emits_after [OF present_answer [OF assms]]) (auto intro: emits_return split: sum.split)

lemma settled_certificates:
  "settled r cluster ccp \<Longrightarrow>
   emits is_read (LookupOrGenerate (r_lib r) (r_Client r) (r_crypto r) (ObjectKey_of (cl_meta cluster)) owner
     (NewCertificatesForControlPlane dir))"
  by (rule certificates_read_only) (simp add: settled_def NewCertificatesForControlPlane_def new_cert_def)

lemma settled_machines:
  assumes "settled r cluster ccp"
  shows "yields (\<lambda>x es. list_all is_read es \<and> (\<forall>ms. x = Inr ms \<longrightarrow> coll_wf ms \<and> as_wanted (r_lib r) ccp ms))
    (GetMachinesForCluster (r_lib r) (r_Client r) (ObjectKey_of (cl_meta cluster))
      [OwnedControlPlaneMachines (r_lib r) (Name (ccp_meta ccp))])"
proof (rule yields_of_emits)
  show "emits is_read (GetMachinesForCluster (r_lib r) (r_Client r) (ObjectKey_of (cl_meta cluster))
      [OwnedControlPlaneMachines (r_lib r) (Name (ccp_meta ccp))])"
    by (intro emits_intros) simp_all
next
  fix s
  let ?x = "run_state (GetMachinesForCluster (r_lib r) (r_Client r) (ObjectKey_of (cl_meta cluster))
      [OwnedControlPlaneMachines (r_lib r) (Name (ccp_meta ccp))]) s"
  show "\<forall>ms. fst ?x = Inr ms \<longrightarrow> coll_wf ms \<and> as_wanted (r_lib r) ccp ms"
    using assms GetMachinesForCluster_wf unfolding settled_def by (metis prod.collapse)
qed

lemma settled_ownership:
  assumes "as_wanted L ccp ms"
  shows "yields (\<lambda>(e, cp) es. es = [] \<and> cp = NewControlPlane cluster ccp' ms) (EnsureOwnership L C (NewControlPlane cluster ccp' ms))"
  unfolding EnsureOwnership_def
  by (rule yields_bind [OF ownership_complete_already])
    (use assms in \<open>auto simp: as_wanted_def NewControlPlane_def intro!: yields_return\<close>)

lemma settled_rests:
  assumes "coll_wf ms" and "as_wanted (r_lib r) ccp ms" and "ccp_Spec ccp' = ccp_Spec ccp"
  shows "emits is_quiet (reconcile_machines r cluster ccp' (NewControlPlane cluster ccp' ms))"
proof -
  have "outdated (r_lib r) ccp' ms = 0" "int (length ms) = ccps_Replicas (ccp_Spec ccp')"
    using assms(2,3) by (simp_all add: as_wanted_def outdated_def)
  then have "MachinesNeedingUpgrade (r_lib r) (NewControlPlane cluster ccp' ms) = []"
    "cp_Machines (NewControlPlane cluster ccp' ms) \<noteq> [] \<or> ccps_Replicas (ccp_Spec ccp') = 0"
    using outdated_MachinesNeedingUpgrade [OF assms(1), of "r_lib r" cluster ccp'] by (auto simp: NewControlPlane_def)
  from reconcile_machines_rests [OF this] show ?thesis by (simp add: emits_def)
qed

lemma settled_control_plane:
  assumes "settled r cluster ccp" and "finalizer_keeps_name (r_lib r)"
  shows "emits is_quiet (reconcileControlPlane r cluster ccp cfg)"
proof -
  let ?ccp = "ccp\<lparr>ccp_meta := AddFinalizer (r_lib r) (ccp_meta ccp) CritControlPlaneFinalizer\<rparr>"
  have name: "Name (ccp_meta ?ccp) = Name (ccp_meta ccp)" using assms(2) by (simp add: finalizer_keeps_name_def)
  have kc: "emits is_quiet (reconcileControlPlaneKubeconfig r cluster c)" for c
    by (rule emits_quiet, rule kubeconfig_read_only) (use assms(1) in \<open>simp add: settled_def\<close>)
  note certs = emits_quiet [OF settled_certificates [OF assms(1)]]
  have own: "emits is_quiet (do {
      (e, cp) \<leftarrow> EnsureOwnership (r_lib r) (r_Client r) (NewControlPlane cluster ?ccp ms);
      case e of
        Some err \<Rightarrow> State_Monad.return ((no_requeue, Some err), ?ccp)
      | None \<Rightarrow> do { out \<leftarrow> reconcile_machines r cluster ?ccp cp; State_Monad.return (out, ?ccp) } })"
    if "coll_wf ms" "as_wanted (r_lib r) ccp ms" for ms
    by (rule emits_after [OF settled_ownership [OF that(2)]])
      (auto intro!: emits_intros settled_rests [OF that] split: option.split)
  have machines: "emits is_quiet (do {
      x \<leftarrow> GetMachinesForCluster (r_lib r) (r_Client r) (ObjectKey_of (cl_meta cluster))
        [OwnedControlPlaneMachines (r_lib r) (Name (ccp_meta ?ccp))];
      case x of
        Inl err \<Rightarrow> State_Monad.return ((no_requeue, Some err), ?ccp)
      | Inr ms \<Rightarrow> do {
          (e, cp) \<leftarrow> EnsureOwnership (r_lib r) (r_Client r) (NewControlPlane cluster ?ccp ms);
          case e of
            Some err \<Rightarrow> State_Monad.return ((no_requeue, Some err), ?ccp)
          | None \<Rightarrow> do { out \<leftarrow> reconcile_machines r cluster ?ccp cp; State_Monad.return (out, ?ccp) } } })"
    unfolding name
    by (rule emits_after [OF settled_machines [OF assms(1)]])
      (auto simp: list_all_iff read_is_quiet intro!: emits_return own split: sum.split)
  show ?thesis
    unfolding reconcileControlPlane_def Let_def
    by (intro emits_intros external_reference_quiet certs kc machines)
qed

text \<open>
  C17: a settled control plane is left alone. While the management cluster has the certificates and the kubeconfig, and
  the machines of a live control plane are of the wanted number, current and owned, a reconciliation only reads
  and patches the two objects it always patches, the control plane and the infrastructure template: it creates,
  updates and deletes nothing, from whatever state and whatever else the calls answer.
\<close>

theorem settled_left_alone:
  assumes "finalizer_keeps_name (r_lib r)" and "settled r cluster ccp" and "IsZero (r_lib r) (DeletionTimestamp (ccp_meta ccp))"
    and "\<forall>w c. fst (getCCP (r_Client r) req w) = Inr c \<longrightarrow> c = ccp"
    and "\<forall>w c. fst (getOwnerCluster (r_Client r) (ccp_meta ccp) w) = Inr (Some c) \<longrightarrow> c = cluster"
  shows "\<exists>es. trace (snd (run_state (Reconcile r req) s)) = trace s @ es \<and> list_all is_quiet es"
proof -
  have body: "emits is_quiet (reconcile_body r cluster ccp)"
    unfolding reconcile_body_def using assms(3)
    by (auto intro!: emits_intros settled_control_plane assms(1,2) split: crit_object.split)
  have fetched: "emits is_quiet (reconcile_body r cl c)"
    if "fst (getCCP (r_Client r) req w) = Inr c" "fst (getOwnerCluster (r_Client r) (ccp_meta c) w') = Inr (Some cl)" for w w' c cl
    using that assms(4,5) body by blast
  have deferred: "emits is_quiet (reconcile_deferred r cl before c out)" for cl before c out
    unfolding reconcile_deferred_def Let_def
    by (intro emits_intros emits_quiet [OF emits_updateStatus]) simp_all
  have "emits is_quiet (Reconcile r req)"
    unfolding Reconcile_def Let_def
    by (rule emits_after [OF yields_answer])
      (auto intro!: emits_intros emits_after [OF yields_answer] deferred intro: fetched split: sum.split option.split)
  then show ?thesis by (simp add: emits_def)
qed

definition settled_machine :: Machine where
  "settled_machine = (sample_owned ''m'' ''n'')\<lparr>m_meta := (sample_meta ''m'')\<lparr>
     Labels := [(''cp'', ''k''), (''cn'', ''c''), (CritControlPlaneHashLabelKey, Hash sample_lib (ccp_Spec (sample_ccp 1)))],
     OwnerReferences := [NewControllerRef sample_lib (sample_meta ''k'') controlplane_GroupVersion ''CritControlPlane'']\<rparr>\<rparr>"

definition settled_reconciler :: "Machine list reconciler" where
  "settled_reconciler = (sample_reconciler [''n''])\<lparr>
     r_Client := sample_client\<lparr>listMachines := (\<lambda>_ _ w. (Inr [settled_machine], w))\<rparr>\<rparr>"

lemma sample_settled: "settled settled_reconciler sample_cluster (sample_ccp 1)"
  by (simp add: settled_def settled_reconciler_def present_def as_wanted_def outdated_def settled_machine_def sample_run
      sample_ccp_def CritControlPlaneHashLabelKey_def)

theorem settled_left_alone_witness:
  "\<exists>es. trace (snd (run_state (Reconcile settled_reconciler sample_key) \<lparr>world = [], trace = []\<rparr>)) = es \<and> list_all is_quiet es"
proof -
  have "finalizer_keeps_name (r_lib settled_reconciler)"
    by (simp add: finalizer_keeps_name_def settled_reconciler_def)
  from settled_left_alone [OF this sample_settled, of sample_key "\<lparr>world = [], trace = []\<rparr>"] show ?thesis
    by (simp add: settled_reconciler_def sample_ccp_def)
qed

end
