(* ===== verification/Cloud_Init.thy ===== *)
theory Cloud_Init
  imports Api_Types
begin

text \<open>
  \<^verbatim>\<open>src/internal/cloudinit/cloudinit.go\<close>: the cloud-config document of a node. The five templates are
  written out as the text they produce, with the white space that the trim markers leave. In a
  template, \<^verbatim>\<open>if\<close> on a pointer tests that it is not nil, and a pointer is printed as what it points to.
  \<^verbatim>\<open>printf "%q"\<close> is modelled for ASCII; what it makes of a run of other bytes depends on the
  Unicode tables of the \<^verbatim>\<open>strconv\<close> package and is the parameter \<open>Q\<close>.
\<close>

section \<open>Functions of the templates\<close>

definition newline :: char where "newline = CHR 0x0A"

definition spaces :: "nat \<Rightarrow> string" where
  "spaces n = replicate n (CHR '' '')"

definition Indent :: "nat \<Rightarrow> string \<Rightarrow> string" where
  "Indent i input =
     (let split = split_on newline input;
          ident = newline # spaces i
      in spaces i @ join_with ident split)"

definition is_ascii :: "char \<Rightarrow> bool" where
  "is_ascii c \<longleftrightarrow> (of_char c :: nat) < 128"

definition hex_digit :: "nat \<Rightarrow> char" where
  "hex_digit n = ''0123456789abcdef'' ! n"

text \<open>\<^verbatim>\<open>strconv.Quote\<close> on one ASCII character.\<close>

definition quote_char :: "char \<Rightarrow> string" where
  "quote_char c = (let n = (of_char c :: nat) in
     if n = 34 \<or> n = 92 then [CHR 0x5C, c]
     else if 32 \<le> n \<and> n < 127 then [c]
     else if n = 7 then [CHR 0x5C, CHR ''a'']
     else if n = 8 then [CHR 0x5C, CHR ''b'']
     else if n = 12 then [CHR 0x5C, CHR ''f'']
     else if n = 10 then [CHR 0x5C, CHR ''n'']
     else if n = 13 then [CHR 0x5C, CHR ''r'']
     else if n = 9 then [CHR 0x5C, CHR ''t'']
     else if n = 11 then [CHR 0x5C, CHR ''v'']
     else [CHR 0x5C, CHR ''x'', hex_digit (n div 16), hex_digit (n mod 16)])"

function quote_body :: "(string \<Rightarrow> string) \<Rightarrow> string \<Rightarrow> string" where
  "quote_body Q [] = []"
| "quote_body Q (c # cs) =
     (if is_ascii c then quote_char c @ quote_body Q cs
      else Q (c # takeWhile (\<lambda>x. \<not> is_ascii x) cs) @ quote_body Q (dropWhile (\<lambda>x. \<not> is_ascii x) cs))"
  by pat_completeness auto
termination
  by (relation "measure (\<lambda>(Q, s). length s)") (auto simp: le_imp_less_Suc length_dropWhile_le)

definition Quote :: "(string \<Rightarrow> string) \<Rightarrow> string \<Rightarrow> string" where
  "Quote Q s = CHR 0x22 # quote_body Q s @ [CHR 0x22]"

section \<open>The templates\<close>

definition commandsTemplate :: "(string \<Rightarrow> string) \<Rightarrow> string list \<Rightarrow> string" where
  "commandsTemplate Q cmds = concat (map (\<lambda>c. newline # ''  - '' @ Quote Q c) cmds)"

definition file_entry :: "File \<Rightarrow> string" where
  "file_entry f =
     newline # ''-   path: '' @ file_Path f @ newline # spaces 4 @
     (if file_Encoding f \<noteq> [] then ''encoding: '' @ CHR 0x22 # file_Encoding f @ CHR 0x22 # newline # spaces 4 else []) @
     (if file_Owner f \<noteq> [] then ''owner: '' @ file_Owner f @ newline # spaces 4 else []) @
     (if file_Permissions f \<noteq> [] then ''permissions: '' @ CHR 0x27 # file_Permissions f @ CHR 0x27 # newline # spaces 4 else []) @
     ''content: |'' @ newline # Indent 6 (file_Content f)"

definition filesTemplate :: "File list \<Rightarrow> string" where
  "filesTemplate files = ''write_files:'' @ concat (map file_entry files)"

definition ntpTemplate :: "NTP option \<Rightarrow> string" where
  "ntpTemplate ntp = (case ntp of
     None \<Rightarrow> []
   | Some n \<Rightarrow> newline # ''ntp:'' @ newline # ''  '' @
       (case ntp_Enabled n of None \<Rightarrow> [] | Some _ \<Rightarrow> ''enabled: true'' @ newline # ''  '') @
       ''servers:'' @ concat (map (\<lambda>s. newline # ''    - '' @ s) (ntp_Servers n)))"

definition if_set :: "string \<Rightarrow> string option \<Rightarrow> string" where
  "if_set key v = (case v of None \<Rightarrow> [] | Some x \<Rightarrow> newline # ''    '' @ key @ '': '' @ x)"

definition user_entry :: "User \<Rightarrow> string" where
  "user_entry u =
     newline # ''  - name: '' @ user_Name u @
     if_set ''passwd'' (user_Passwd u) @
     if_set ''gecos'' (user_Gecos u) @
     if_set ''groups'' (user_Groups u) @
     if_set ''homedir'' (user_HomeDir u) @
     (case user_Inactive u of None \<Rightarrow> [] | Some _ \<Rightarrow> newline # ''    inactive: true'') @
     if_set ''lock_passwd'' (map_option (\<lambda>b. if b then ''true'' else ''false'') (user_LockPassword u)) @
     if_set ''shell'' (user_Shell u) @
     if_set ''primary_group'' (user_PrimaryGroup u) @
     if_set ''sudo'' (user_Sudo u) @
     (if user_SSHAuthorizedKeys u \<noteq> []
      then newline # ''    ssh_authorized_keys:'' @
        concat (map (\<lambda>k. newline # ''      - '' @ k) (user_SSHAuthorizedKeys u))
      else [])"

definition usersTemplate :: "User list \<Rightarrow> string" where
  "usersTemplate users = (if users \<noteq> [] then newline # ''users:'' @ concat (map user_entry users) else [])"

record Config =
  ci_Files :: "File list"
  ci_PreCritCommands :: "string list"
  ci_PostCritCommands :: "string list"
  ci_Users :: "User list"
  ci_NTP :: "NTP option"
  ci_Verbosity :: string

definition nodeCloudInit :: "(string \<Rightarrow> string) \<Rightarrow> Config \<Rightarrow> string" where
  "nodeCloudInit Q cfg =
     ''## template: jinja'' @ newline # ''#cloud-config'' @ newline #
     filesTemplate (ci_Files cfg) @ newline # ''runcmd:'' @
     commandsTemplate Q (ci_PreCritCommands cfg) @ newline #
     ''  - '' @ CHR 0x27 # ''crit up --config /var/lib/crit/config.yaml '' @ ci_Verbosity cfg @ CHR 0x27 #
     commandsTemplate Q (ci_PostCritCommands cfg) @
     ntpTemplate (ci_NTP cfg) @
     usersTemplate (ci_Users cfg) @ [newline]"

definition Write :: "(string \<Rightarrow> string) \<Rightarrow> Config \<Rightarrow> goerror + string" where
  "Write Q cfg = Inr (nodeCloudInit Q cfg)"

section \<open>Lines\<close>

lemma split_on_sep: "split_on sep (xs @ sep # ys) = split_on sep xs @ split_on sep ys"
  by (induction xs) (auto split: list.split)

lemma split_on_items:
  "split_on sep (xs @ concat (map (\<lambda>y. sep # f y) ys)) = split_on sep xs @ concat (map (\<lambda>y. split_on sep (f y)) ys)"
  by (induction ys arbitrary: xs) (simp_all add: split_on_sep)

lemma split_on_prefix:
  "sep \<notin> set p \<Longrightarrow> split_on sep (p @ s) = (p @ hd (split_on sep s)) # tl (split_on sep s)"
  by (induction p) (auto split: list.split)

lemma newline_free [simp]:
  "newline \<notin> set (spaces n)" "newline \<noteq> CHR 0x22" "newline \<noteq> CHR 0x27" "newline \<noteq> CHR 0x5C"
  by (auto simp: spaces_def newline_def)

lemma Indent_join: "Indent n s = join_with [newline] (map ((@) (spaces n)) (split_on newline s))"
proof -
  have "spaces n @ join_with (newline # spaces n) ws = join_with [newline] (map ((@) (spaces n)) ws)" if "ws \<noteq> []" for ws
    using that by (induction ws rule: induct_list012) simp_all
  then show ?thesis by (simp add: Indent_def)
qed

lemma lines_Indent: "split_on newline (Indent n s) = map ((@) (spaces n)) (split_on newline s)"
  unfolding Indent_join
  by (rule split_join) (auto dest: split_on_free)

section \<open>Quoting\<close>

lemma hex_digit_free: "k < 16 \<Longrightarrow> hex_digit k \<in> set ''0123456789abcdef''"
  unfolding hex_digit_def by (rule nth_mem) simp

lemma quote_char_free: "is_ascii c \<Longrightarrow> newline \<notin> set (quote_char c)"
proof -
  assume a: "is_ascii c"
  let ?n = "of_char c :: nat"
  have nl: "c = newline \<Longrightarrow> ?n = 10" by (simp add: newline_def)
  have "newline \<noteq> hex_digit k" if "k < 16" for k
    using hex_digit_free [OF that] by (auto simp: newline_def)
  moreover have "?n div 16 < 16" "?n mod 16 < 16" using a by (auto simp: is_ascii_def)
  ultimately show ?thesis
    using nl unfolding quote_char_def Let_def by (auto simp: newline_def)
qed

lemma Quote_free:
  assumes "\<And>s. newline \<notin> set (Q s)"
  shows "newline \<notin> set (Quote Q s)"
proof -
  have "newline \<notin> set (quote_body Q s)"
    using assms by (induction Q s rule: quote_body.induct) (auto simp: quote_char_free)
  then show ?thesis by (simp add: Quote_def)
qed

text \<open>Reading a quoted ASCII string back.\<close>

definition hex_value :: "char \<Rightarrow> nat" where
  "hex_value c = (let n = of_char c in if n < 58 then n - 48 else n - 87)"

definition unescape :: "char \<Rightarrow> char" where
  "unescape c = (if c = CHR ''a'' then CHR 0x07 else if c = CHR ''b'' then CHR 0x08
     else if c = CHR ''f'' then CHR 0x0C else if c = CHR ''n'' then CHR 0x0A
     else if c = CHR ''r'' then CHR 0x0D else if c = CHR ''t'' then CHR 0x09
     else if c = CHR ''v'' then CHR 0x0B else c)"

fun unquote_body :: "string \<Rightarrow> string option" where
  "unquote_body [] = Some []"
| "unquote_body [c] = (if c = CHR 0x5C then None else Some [c])"
| "unquote_body (c # e # cs) =
     (if c \<noteq> CHR 0x5C then map_option (Cons c) (unquote_body (e # cs))
      else if e = CHR ''x''
      then (case cs of
              h # l # rest \<Rightarrow> map_option (Cons (char_of (16 * hex_value h + hex_value l))) (unquote_body rest)
            | _ \<Rightarrow> None)
      else map_option (Cons (unescape e)) (unquote_body cs))"

lemma unquote_plain: "c \<noteq> CHR 0x5C \<Longrightarrow> unquote_body (c # s) = map_option (Cons c) (unquote_body s)"
  by (cases s) auto

lemma hex_value_digit: "k < 16 \<Longrightarrow> hex_value (hex_digit k) = k"
proof -
  assume "k < 16"
  then have "k = 0 \<or> k = 1 \<or> k = 2 \<or> k = 3 \<or> k = 4 \<or> k = 5 \<or> k = 6 \<or> k = 7 \<or>
      k = 8 \<or> k = 9 \<or> k = 10 \<or> k = 11 \<or> k = 12 \<or> k = 13 \<or> k = 14 \<or> k = 15" by arith
  then show ?thesis by (elim disjE) (simp_all add: hex_digit_def hex_value_def)
qed

lemma unquote_quote_char:
  assumes "is_ascii c"
  shows "unquote_body (quote_char c @ s) = map_option (Cons c) (unquote_body s)"
proof -
  let ?n = "of_char c :: nat"
  have n: "?n < 128" using assms by (simp add: is_ascii_def)
  consider (escaped) "?n = 34 \<or> ?n = 92" | (plain) "?n \<noteq> 34" "?n \<noteq> 92" "32 \<le> ?n" "?n < 127"
    | (special) "?n \<in> {7, 8, 9, 10, 11, 12, 13}" | (hex) "\<not> (32 \<le> ?n \<and> ?n < 127)" "?n \<notin> {7, 8, 9, 10, 11, 12, 13}"
    by auto
  then show ?thesis
  proof cases
    case escaped
    then have "?n = of_char (CHR 0x22) \<or> ?n = of_char (CHR 0x5C)" by simp
    then have "c = CHR 0x22 \<or> c = CHR 0x5C" by (simp only: of_char_eq_iff)
    then show ?thesis by (elim disjE) (simp_all add: quote_char_def unescape_def)
  next
    case plain
    then have "c \<noteq> CHR 0x5C" by auto
    with plain show ?thesis by (simp add: quote_char_def unquote_plain)
  next
    case special
    then have "?n = of_char (CHR 0x07) \<or> ?n = of_char (CHR 0x08) \<or> ?n = of_char (CHR 0x09) \<or> ?n = of_char (CHR 0x0A) \<or>
        ?n = of_char (CHR 0x0B) \<or> ?n = of_char (CHR 0x0C) \<or> ?n = of_char (CHR 0x0D)" by simp
    then have "c = CHR 0x07 \<or> c = CHR 0x08 \<or> c = CHR 0x09 \<or> c = CHR 0x0A \<or> c = CHR 0x0B \<or> c = CHR 0x0C \<or> c = CHR 0x0D"
      by (simp only: of_char_eq_iff)
    then show ?thesis by (elim disjE) (simp_all add: quote_char_def unescape_def)
  next
    case hex
    have "quote_char c = [CHR 0x5C, CHR ''x'', hex_digit (?n div 16), hex_digit (?n mod 16)]"
      using hex by (auto simp: quote_char_def Let_def)
    moreover have "16 * hex_value (hex_digit (?n div 16)) + hex_value (hex_digit (?n mod 16)) = ?n"
      using n by (simp add: hex_value_digit)
    ultimately show ?thesis by simp
  qed
qed

lemma unquote_quote_body: "list_all is_ascii s \<Longrightarrow> unquote_body (quote_body Q s) = Some s"
  by (induction s) (simp_all add: unquote_quote_char)

section \<open>Lines of the document\<close>

text \<open>The fields of a file that are set, in order, one line each.\<close>

definition file_fields :: "File \<Rightarrow> string list" where
  "file_fields f =
     (if file_Encoding f \<noteq> [] then [''encoding: '' @ CHR 0x22 # file_Encoding f @ [CHR 0x22]] else []) @
     (if file_Owner f \<noteq> [] then [''owner: '' @ file_Owner f] else []) @
     (if file_Permissions f \<noteq> [] then [''permissions: '' @ CHR 0x27 # file_Permissions f @ [CHR 0x27]] else [])"

definition file_lines :: "File \<Rightarrow> string list" where
  "file_lines f =
     (''-   path: '' @ file_Path f) # map ((@) (spaces 4)) (file_fields f @ [''content: |'']) @
     map ((@) (spaces 6)) (split_on newline (file_Content f))"

definition one_line_fields :: "File \<Rightarrow> bool" where
  "one_line_fields f \<longleftrightarrow> newline \<notin> set (file_Path f) \<and> newline \<notin> set (file_Encoding f) \<and>
     newline \<notin> set (file_Owner f) \<and> newline \<notin> set (file_Permissions f)"

lemma literals_one_line [simp]:
  "newline \<notin> set ''encoding: ''" "newline \<notin> set ''owner: ''" "newline \<notin> set ''permissions: ''"
  "newline \<notin> set ''content: |''" "newline \<notin> set ''-   path: ''" "newline \<notin> set ''write_files:''"
  "newline \<notin> set ''runcmd:''" "newline \<notin> set ''  - ''" "newline \<notin> set ''## template: jinja''"
  "newline \<notin> set ''#cloud-config''" "newline \<notin> set ''crit up --config /var/lib/crit/config.yaml ''"
  by (simp_all add: newline_def)

lemma file_entry_fields:
  "file_entry f = newline # (''-   path: '' @ file_Path f) @ newline # spaces 4 @
     concat (map (\<lambda>l. l @ newline # spaces 4) (file_fields f)) @ ''content: |'' @ newline # Indent 6 (file_Content f)"
  by (simp add: file_entry_def file_fields_def)

lemma lines_fields:
  assumes "\<forall>l \<in> set ls. newline \<notin> set l" and "newline \<notin> set y"
  shows "split_on newline (spaces 4 @ concat (map (\<lambda>l. l @ newline # spaces 4) ls) @ y @ newline # z) =
    map ((@) (spaces 4)) (ls @ [y]) @ split_on newline z"
  using assms(1)
proof (induction ls)
  case Nil
  with assms(2) show ?case using split_on_append [of newline "spaces 4 @ y" z] by simp
next
  case (Cons l ls)
  let ?rest = "spaces 4 @ concat (map (\<lambda>l. l @ newline # spaces 4) ls) @ y @ newline # z"
  have "split_on newline ((spaces 4 @ l) @ newline # ?rest) = (spaces 4 @ l) # split_on newline ?rest"
    using Cons.prems by (intro split_on_append) simp
  with Cons show ?case by simp
qed

lemma file_entry_lines:
  assumes "one_line_fields f"
  shows "\<exists>s. file_entry f = newline # s \<and> split_on newline s = file_lines f"
proof -
  have "\<forall>l \<in> set (file_fields f). newline \<notin> set l"
    using assms by (auto simp: file_fields_def one_line_fields_def newline_def)
  then have "split_on newline ((''-   path: '' @ file_Path f) @ newline # spaces 4 @
      concat (map (\<lambda>l. l @ newline # spaces 4) (file_fields f)) @ ''content: |'' @ newline # Indent 6 (file_Content f)) =
      file_lines f"
    using assms unfolding file_lines_def lines_Indent [symmetric]
    by (subst split_on_append) (simp_all add: lines_fields one_line_fields_def del: list.set append.simps)
  then show ?thesis unfolding file_entry_fields by blast
qed

lemma concat_file_entries:
  assumes "list_all one_line_fields files" and "newline \<notin> set p"
  shows "split_on newline (p @ concat (map file_entry files)) = p # concat (map file_lines files)"
proof -
  define g where "g f = (SOME s. file_entry f = newline # s \<and> split_on newline s = file_lines f)" for f
  have g: "file_entry f = newline # g f \<and> split_on newline (g f) = file_lines f" if "f \<in> set files" for f
    using file_entry_lines [of f] assms(1) that unfolding g_def by (metis (mono_tags, lifting) list_all_iff someI_ex)
  then have "map file_entry files = map (\<lambda>f. newline # g f) files" by simp
  then have "split_on newline (p @ concat (map file_entry files)) = split_on newline p @ concat (map (\<lambda>f. split_on newline (g f)) files)"
    by (simp only: split_on_items)
  also have "map (\<lambda>f. split_on newline (g f)) files = map file_lines files" using g by simp
  finally show ?thesis using assms(2) by (simp add: split_on_word)
qed

lemma commands_lines:
  assumes "\<And>s. newline \<notin> set (Q s)" and "newline \<notin> set p"
  shows "split_on newline (p @ commandsTemplate Q cmds) = p # map (\<lambda>c. ''  - '' @ Quote Q c) cmds"
proof -
  have "split_on newline (''  - '' @ Quote Q c) = [''  - '' @ Quote Q c]" for c
    using Quote_free [OF assms(1)] by (intro split_on_word) (auto simp: newline_def)
  then show ?thesis
    using split_on_items [of newline p "\<lambda>c. ''  - '' @ Quote Q c" cmds] assms(2)
    unfolding commandsTemplate_def by (simp add: split_on_word del: append.simps)
qed

lemma tail_newline: "\<exists>rest. ntpTemplate n @ usersTemplate us @ [newline] = newline # rest"
  by (cases n) (auto simp: ntpTemplate_def usersTemplate_def)

definition crit_up_line :: "string \<Rightarrow> string" where
  "crit_up_line v = ''  - '' @ CHR 0x27 # ''crit up --config /var/lib/crit/config.yaml '' @ v @ [CHR 0x27]"

text \<open>Reading a rendered command: the list marker, then the quoted text.\<close>

definition read_command :: "string \<Rightarrow> string option" where
  "read_command line = unquote_body (butlast (drop 5 line))"

lemma read_quoted: "list_all is_ascii c \<Longrightarrow> read_command (''  - '' @ Quote Q c) = Some c"
  by (simp add: read_command_def Quote_def unquote_quote_body)

lemma ascii_commands:
  assumes "list_all (list_all is_ascii) cmds"
  shows "commandsTemplate Q cmds = commandsTemplate R cmds"
proof -
  have "list_all is_ascii c \<Longrightarrow> quote_body Q c = quote_body R c" for c by (induction c) simp_all
  with assms show ?thesis
    by (auto simp: commandsTemplate_def Quote_def list_all_iff intro!: arg_cong [where f = concat])
qed

section \<open>Properties\<close>

text \<open>
  the lines of the \<^verbatim>\<open>write_files\<close> section. Each file gives its path, the fields that are set and
  then its content, line by line, every line indented by six spaces: whatever a file contains, none
  of its lines ends the block or starts another entry. Only the content may have several lines.
\<close>

theorem write_files_lines:
  assumes "list_all one_line_fields files"
  shows "split_on newline (filesTemplate files) = ''write_files:'' # concat (map file_lines files)"
  unfolding filesTemplate_def by (rule concat_file_entries [OF assms literals_one_line(6)])

theorem write_files_lines_witness:
  "length (split_on newline (filesTemplate [\<lparr>file_Path = ''/p'', file_Owner = ''root'', file_Permissions = ''0600'',
     file_Encoding = [], file_Content = ''a'' @ newline # ''- b''\<rparr>])) = 7"
  using write_files_lines [of "[\<lparr>file_Path = ''/p'', file_Owner = ''root'', file_Permissions = ''0600'',
     file_Encoding = [], file_Content = ''a'' @ newline # ''- b''\<rparr>]"]
  by (simp add: one_line_fields_def file_lines_def file_fields_def newline_def)

text \<open>
  C33: the lines of the whole document. After the files come the commands: those to run before, each
  quoted on one line, then \<^verbatim>\<open>crit up\<close>, then those to run after, in the order given.
\<close>

theorem document_lines:
  assumes "\<And>s. newline \<notin> set (Q s)" and "newline \<notin> set (ci_Verbosity cfg)"
  shows "\<exists>doc rest. Write Q cfg = Inr doc \<and>
    ntpTemplate (ci_NTP cfg) @ usersTemplate (ci_Users cfg) @ [newline] = newline # rest \<and>
    split_on newline doc =
      [''## template: jinja'', ''#cloud-config''] @ split_on newline (filesTemplate (ci_Files cfg)) @ [''runcmd:''] @
      map (\<lambda>c. ''  - '' @ Quote Q c) (ci_PreCritCommands cfg) @ [crit_up_line (ci_Verbosity cfg)] @
      map (\<lambda>c. ''  - '' @ Quote Q c) (ci_PostCritCommands cfg) @ split_on newline rest"
proof -
  obtain rest where rest: "ntpTemplate (ci_NTP cfg) @ usersTemplate (ci_Users cfg) @ [newline] = newline # rest"
    using tail_newline by blast
  have up: "newline \<notin> set (crit_up_line (ci_Verbosity cfg))"
    using assms(2) by (auto simp: crit_up_line_def newline_def)
  have "nodeCloudInit Q cfg = ''## template: jinja'' @ newline # ''#cloud-config'' @ newline #
      filesTemplate (ci_Files cfg) @ newline # (''runcmd:'' @ commandsTemplate Q (ci_PreCritCommands cfg)) @ newline #
      (crit_up_line (ci_Verbosity cfg) @ commandsTemplate Q (ci_PostCritCommands cfg)) @ newline # rest"
    unfolding nodeCloudInit_def rest by (simp add: crit_up_line_def)
  then have "split_on newline (nodeCloudInit Q cfg) =
      split_on newline ''## template: jinja'' @ split_on newline ''#cloud-config'' @ split_on newline (filesTemplate (ci_Files cfg)) @
      split_on newline (''runcmd:'' @ commandsTemplate Q (ci_PreCritCommands cfg)) @
      split_on newline (crit_up_line (ci_Verbosity cfg) @ commandsTemplate Q (ci_PostCritCommands cfg)) @ split_on newline rest"
    by (simp only: split_on_sep)
  also have "split_on newline (''runcmd:'' @ commandsTemplate Q (ci_PreCritCommands cfg)) =
      ''runcmd:'' # map (\<lambda>c. ''  - '' @ Quote Q c) (ci_PreCritCommands cfg)"
    by (rule commands_lines [OF assms(1) literals_one_line(7)])
  also have "split_on newline (crit_up_line (ci_Verbosity cfg) @ commandsTemplate Q (ci_PostCritCommands cfg)) =
      crit_up_line (ci_Verbosity cfg) # map (\<lambda>c. ''  - '' @ Quote Q c) (ci_PostCritCommands cfg)"
    by (rule commands_lines [OF assms(1) up])
  also have "split_on newline ''## template: jinja'' = [''## template: jinja'']"
    by (rule split_on_word [OF literals_one_line(9)])
  also have "split_on newline ''#cloud-config'' = [''#cloud-config'']"
    by (rule split_on_word [OF literals_one_line(10)])
  finally have lines: "split_on newline (nodeCloudInit Q cfg) =
      [''## template: jinja'', ''#cloud-config''] @ split_on newline (filesTemplate (ci_Files cfg)) @ [''runcmd:''] @
      map (\<lambda>c. ''  - '' @ Quote Q c) (ci_PreCritCommands cfg) @ [crit_up_line (ci_Verbosity cfg)] @
      map (\<lambda>c. ''  - '' @ Quote Q c) (ci_PostCritCommands cfg) @ split_on newline rest" by simp
  show ?thesis
    by (intro exI conjI) (rule Write_def rest lines)+
qed

definition sample_ci :: Config where
  "sample_ci = \<lparr>ci_Files = [], ci_PreCritCommands = [''a''], ci_PostCritCommands = [''b'', ''c''], ci_Users = [],
     ci_NTP = None, ci_Verbosity = ''-v''\<rparr>"

theorem document_lines_witness:
  "\<exists>doc. Write (\<lambda>_. []) sample_ci = Inr doc \<and> length (split_on newline doc) = 9"
  using document_lines [of "\<lambda>_. []" sample_ci]
  by (auto simp: sample_ci_def newline_def filesTemplate_def ntpTemplate_def usersTemplate_def)

text \<open>
  the commands read back. Each line of the rendered list of commands, without its list marker and
  the quotes and escapes that \<^verbatim>\<open>%q\<close> put, is the command, for commands in ASCII.
\<close>

theorem commands_roundtrip:
  assumes "list_all (list_all is_ascii) cmds"
  shows "map read_command (tl (split_on newline (commandsTemplate Q cmds))) = map Some cmds"
proof -
  have "split_on newline (commandsTemplate Q cmds) = [] # map (\<lambda>c. ''  - '' @ Quote (\<lambda>_. []) c) cmds"
    using commands_lines [of "\<lambda>_. []" "[]" cmds] ascii_commands [OF assms, of Q "\<lambda>_. []"] by simp
  moreover have "map read_command (map (\<lambda>c. ''  - '' @ Quote (\<lambda>_. []) c) cmds) = map Some cmds"
    using assms read_quoted by (simp add: list_all_iff)
  ultimately show ?thesis by simp
qed

theorem commands_roundtrip_witness:
  "map read_command (tl (split_on newline (commandsTemplate (\<lambda>_. []) [''a'' @ newline # [CHR 0x22], ''b'']))) =
     [Some (''a'' @ newline # [CHR 0x22]), Some ''b'']"
  using commands_roundtrip [of "[''a'' @ newline # [CHR 0x22], ''b'']" "\<lambda>_. []"] by (simp add: is_ascii_def newline_def)

text \<open>
  A flag that is set to false renders as set to true: the templates test whether the pointer is
  nil, not what it points to, for \<^verbatim>\<open>enabled\<close> of the time servers and \<^verbatim>\<open>inactive\<close> of a user.
\<close>

theorem false_flags_render_true:
  "ntpTemplate (Some (n\<lparr>ntp_Enabled := Some False\<rparr>)) = ntpTemplate (Some (n\<lparr>ntp_Enabled := Some True\<rparr>)) \<and>
   user_entry (u\<lparr>user_Inactive := Some False\<rparr>) = user_entry (u\<lparr>user_Inactive := Some True\<rparr>) \<and>
   ntpTemplate (Some (n\<lparr>ntp_Enabled := Some False\<rparr>)) \<noteq> ntpTemplate (Some (n\<lparr>ntp_Enabled := None\<rparr>))"
  by (simp add: ntpTemplate_def user_entry_def)

end
