(* ===== verification/Base64.thy ===== *)
theory Base64
  imports Crit_Prelude
begin

text \<open>
  \<^verbatim>\<open>base64.StdEncoding\<close> of the Go library, in which the bootstrap controller puts the node
  configuration into the cloud-config, and the proof that it reads back.
\<close>

section \<open>Encoding\<close>

text \<open>\<^verbatim>\<open>base64.StdEncoding\<close>: three bytes give four digits, an incomplete group is padded. The digits are
  the letters, the small letters, the numerals, plus and slash.\<close>

definition b64_digit :: "nat \<Rightarrow> char" where
  "b64_digit n =
     (if n < 26 then char_of (65 + n)
      else if n < 52 then char_of (97 + (n - 26))
      else if n < 62 then char_of (48 + (n - 52))
      else if n = 62 then CHR ''+'' else CHR ''/'')"

fun EncodeToString :: "string \<Rightarrow> string" where
  "EncodeToString [] = []"
| "EncodeToString [a] = (let n = of_char a * 65536 :: nat in
     [b64_digit (n div 262144), b64_digit (n div 4096 mod 64), CHR ''='', CHR ''=''])"
| "EncodeToString [a, b] = (let n = of_char a * 65536 + of_char b * 256 :: nat in
     [b64_digit (n div 262144), b64_digit (n div 4096 mod 64), b64_digit (n div 64 mod 64), CHR ''=''])"
| "EncodeToString (a # b # c # s) = (let n = of_char a * 65536 + of_char b * 256 + of_char c :: nat in
     [b64_digit (n div 262144), b64_digit (n div 4096 mod 64), b64_digit (n div 64 mod 64), b64_digit (n mod 64)] @
     EncodeToString s)"

section \<open>Decoding\<close>

definition b64_value :: "char \<Rightarrow> nat" where
  "b64_value c = (let n = of_char c in
     if n = 43 then 62 else if n = 47 then 63 else if n < 58 then n + 4 else if n < 91 then n - 65 else n - 71)"

fun DecodeString :: "string \<Rightarrow> string option" where
  "DecodeString [] = Some []"
| "DecodeString (w # x # y # z # s) =
     (let n = b64_value w * 262144 + b64_value x * 4096 +
            (if y = CHR ''='' then 0 else b64_value y * 64) + (if z = CHR ''='' then 0 else b64_value z);
          bytes = [char_of (n div 65536), char_of (n div 256 mod 256), char_of (n mod 256)]
      in if y = CHR ''='' then (if s = [] then Some (take 1 bytes) else None)
         else if z = CHR ''='' then (if s = [] then Some (take 2 bytes) else None)
         else map_option ((@) bytes) (DecodeString s))"
| "DecodeString _ = None"

lemma b64_digits [simp]:
  assumes "k < 64"
  shows "b64_value (b64_digit k) = k" and "b64_digit k \<noteq> CHR ''=''"
proof -
  have "char_of n \<noteq> CHR ''=''" if "n mod 256 \<noteq> 61" for n :: nat
  proof
    assume "char_of n = CHR ''=''"
    from arg_cong [OF this, of "of_char :: char \<Rightarrow> nat"] that show False by simp
  qed
  then show "b64_digit k \<noteq> CHR ''=''" using assms by (auto simp: b64_digit_def)
  show "b64_value (b64_digit k) = k" using assms by (auto simp: b64_digit_def b64_value_def Let_def)
qed

lemma b64_recompose:
  "n div 262144 * 262144 + n div 4096 mod 64 * 4096 + n div 64 mod 64 * 64 + n mod 64 = n" for n :: nat
proof -
  have d: "n div 4096 = n div 64 div 64" "n div 262144 = n div 64 div 64 div 64"
    by (simp_all add: div_mult2_eq [symmetric])
  have "n = n div 64 * 64 + n mod 64" "n div 64 = n div 64 div 64 * 64 + n div 64 mod 64"
    "n div 64 div 64 = n div 64 div 64 div 64 * 64 + n div 64 div 64 mod 64"
    by simp_all
  then show ?thesis unfolding d by linarith
qed

lemma of_char_less [simp]: "(of_char c :: nat) < 256"
  by (metis char_of_char mod_less_divisor of_char_of zero_less_numeral)

lemma char_of_mod: "char_of (n mod 256) = (char_of n :: char)" for n :: nat
  by (metis char_of_char of_char_of)

lemma b64_bytes:
  assumes "(a :: nat) < 256" and "b < 256" and "c < 256" and "n = a * 65536 + b * 256 + c"
  shows "n div 65536 = a" and "n div 256 mod 256 = b" and "n mod 256 = c" and "n div 262144 < 64"
proof -
  have "n div 256 = a * 256 + b" using assms by simp
  moreover have "n div 65536 = n div 256 div 256" by (simp add: div_mult2_eq [symmetric])
  ultimately show "n div 65536 = a" "n div 256 mod 256 = b" using assms(2) by simp_all
  have "n = c + 256 * (a * 256 + b)" using assms by simp
  then show "n mod 256 = c" using assms(3) by (simp only: mod_mult_self2 mod_less)
  have "n < 64 * 262144" using assms by linarith
  then show "n div 262144 < 64" by (rule less_mult_imp_div_less)
qed

lemma decode_encode: "DecodeString (EncodeToString s) = Some s"
proof (induction s rule: EncodeToString.induct)
  case (2 a)
  obtain n :: nat where n: "n = of_char a * 65536 + 0 * 256 + 0" by blast
  have z: "n div 64 mod 64 = 0" "n mod 64 = 0" unfolding n by simp_all
  note bytes = b64_bytes [OF _ _ _ n, simplified]
  have "EncodeToString [a] = [b64_digit (n div 262144), b64_digit (n div 4096 mod 64), CHR ''='', CHR ''='']"
    by (simp add: n Let_def)
  then show ?case using z bytes b64_recompose [of n] by (simp add: Let_def)
next
  case (3 a b)
  obtain n :: nat where n: "n = of_char a * 65536 + of_char b * 256 + 0" by blast
  have z: "n mod 64 = 0" unfolding n by presburger
  note bytes = b64_bytes [OF _ _ _ n, simplified]
  have "EncodeToString [a, b] =
      [b64_digit (n div 262144), b64_digit (n div 4096 mod 64), b64_digit (n div 64 mod 64), CHR ''='']"
    by (simp add: n Let_def)
  moreover have "char_of (n div 256) = b" using bytes(2) by (metis char_of_char char_of_mod)
  ultimately show ?case using z bytes b64_recompose [of n] by (simp add: Let_def)
next
  case (4 a b c s)
  obtain n :: nat where n: "n = of_char a * 65536 + of_char b * 256 + of_char c" by blast
  note bytes = b64_bytes [OF _ _ _ n, simplified]
  have "EncodeToString (a # b # c # s) =
      [b64_digit (n div 262144), b64_digit (n div 4096 mod 64), b64_digit (n div 64 mod 64), b64_digit (n mod 64)] @ EncodeToString s"
    by (simp add: n Let_def)
  moreover have "char_of (n div 256) = b" "char_of n = c" using bytes(2,3) by (metis char_of_char char_of_mod)+
  ultimately show ?case using 4 bytes b64_recompose [of n] by (simp add: Let_def)
qed simp

end
