(* ===== verification/Bootstrap_Controller.thy ===== *)
theory Bootstrap_Controller
  imports Certificates Workload_Cluster Cloud_Init Base64
begin

text \<open>
  \<^verbatim>\<open>src/controllers/bootstrap/\<close>: \<^verbatim>\<open>Reconcile\<close> of a \<^verbatim>\<open>CritConfig\<close>. It completes the node
  configuration from the cluster and the owner of the config, looks up or makes the certificates,
  gets a bootstrap token for a worker, renders the cloud-config and stores it in a secret. As for the
  control plane, the changed \<^verbatim>\<open>CritConfig\<close> is returned beside the result, and a panic is the error
  value \<open>Panic\<close>. \<open>bootstrapper\<close> is the receiver \<^verbatim>\<open>CritConfigReconciler\<close> with the packages it calls.
\<close>

section \<open>What the reconciler calls\<close>

text \<open>
  The owner of a config (\<^verbatim>\<open>bsutil.ConfigOwner\<close>): the answers of its methods; \<open>co_convert kind\<close> is the
  Kubernetes version in the owner, converted to an object of that kind.
\<close>

record ConfigOwner =
  co_Kind :: string
  co_Namespace :: string
  co_ClusterName :: string
  co_DataSecretName :: "string option"
  co_IsControlPlaneMachine :: bool
  co_IsInfrastructureReady :: bool
  co_convert :: "string \<Rightarrow> goerror + string option"

record 'w bootstrapper =
  b_lib :: lib
  b_Client :: "'w client"
  b_remote :: "'w remote"
  b_crypto :: "'w crypto"
  b_codec :: codec
  b_quote :: "string \<Rightarrow> string"
  getConfig :: "ObjectKey \<Rightarrow> 'w \<Rightarrow> (goerror + CritConfig) \<times> 'w"
  getConfigOwner :: "CritConfig \<Rightarrow> 'w \<Rightarrow> (goerror + ConfigOwner option) \<times> 'w"
  getClusterByName :: "string \<Rightarrow> string \<Rightarrow> 'w \<Rightarrow> (goerror + Cluster) \<times> 'w"
  ErrNoCluster :: goerror
  newConfigPatchHelper :: "CritConfig \<Rightarrow> 'w \<Rightarrow> goerror option \<times> 'w"
  patchConfig :: "CritConfig \<Rightarrow> CritConfig \<Rightarrow> 'w \<Rightarrow> goerror option \<times> 'w"
  remoteGetSecret :: "string \<Rightarrow> ObjectKey \<Rightarrow> 'w \<Rightarrow> (goerror + Secret) \<times> 'w"
  remoteCreateSecret :: "string \<Rightarrow> Secret \<Rightarrow> 'w \<Rightarrow> goerror option \<times> 'w"
  remoteUpdateSecret :: "string \<Rightarrow> Secret \<Rightarrow> 'w \<Rightarrow> goerror option \<times> 'w"
  GenerateBootstrapToken :: "'w \<Rightarrow> (goerror + string) \<times> 'w"
  FindStringSubmatch :: "string \<Rightarrow> string list"
  BootstrapTokenSecretName :: "string \<Rightarrow> string"
  SecretTypeBootstrapToken :: string
  BootstrapTokenIDKey :: string
  BootstrapTokenSecretKey :: string
  BootstrapTokenExpirationKey :: string
  BootstrapTokenUsageSigningKey :: string
  BootstrapTokenUsageAuthentication :: string
  BootstrapTokenExtraGroupsKey :: string
  BootstrapTokenDescriptionKey :: string
  formatRFC3339 :: "time \<Rightarrow> string"
  CritEndpointIsZero :: "APIEndpoint \<Rightarrow> bool"

section \<open>Tokens\<close>

definition DefaultTokenTTL :: int where
  "DefaultTokenTTL = 15 * minute"

definition createToken :: "'w bootstrapper \<Rightarrow> string \<Rightarrow> ('w, action, goerror + string) io" where
  "createToken r c = do {
     x \<leftarrow> extern (GenerateBootstrapToken r);
     case x of
       Inl err \<Rightarrow> State_Monad.return (Inl (WrapError ''unable to generate bootstrap token'' err))
     | Inr token \<Rightarrow>
         (let substrs = FindStringSubmatch r token
          in if length substrs \<noteq> 3
             then State_Monad.return (Inl (NewError ''the bootstrap token was not of the form''))
             else do {
               let tokenID = substrs ! 1;
               let tokenSecret = substrs ! 2;
               now \<leftarrow> extern (time_Now (b_crypto r));
               let s = \<lparr>s_meta = \<lparr>Name = BootstrapTokenSecretName r tokenID, Namespace = NamespaceSystem (b_lib r), UID = [],
                   Labels = [], Annotations = None, OwnerReferences = [], Finalizers = [], CreationTimestamp = 0,
                   DeletionTimestamp = None\<rparr>,
                 s_Type = SecretTypeBootstrapToken r,
                 s_Data = Some [(BootstrapTokenIDKey r, tokenID), (BootstrapTokenSecretKey r, tokenSecret),
                   (BootstrapTokenExpirationKey r, formatRFC3339 r (now + DefaultTokenTTL)),
                   (BootstrapTokenUsageSigningKey r, ''true''), (BootstrapTokenUsageAuthentication r, ''true''),
                   (BootstrapTokenExtraGroupsKey r, ''system:bootstrappers:crit:default-node-token''),
                   (BootstrapTokenDescriptionKey r, ''token generated by cluster-api-bootstrap-provider-crit'')]\<rparr>;
               e \<leftarrow> call (RemoteCreateSecret c s) (remoteCreateSecret r c s);
               State_Monad.return (case e of Some err \<Rightarrow> Inl err | None \<Rightarrow> Inr token) }) }"

definition refreshToken :: "'w bootstrapper \<Rightarrow> string \<Rightarrow> string \<Rightarrow> ('w, action, goerror option) io" where
  "refreshToken r c token =
     (let substrs = FindStringSubmatch r token
      in if length substrs \<noteq> 3
         then State_Monad.return (Some (NewError ''the bootstrap token was not of the form''))
         else do {
           let tokenID = substrs ! 1;
           let key = \<lparr>key_Namespace = NamespaceSystem (b_lib r), key_Name = BootstrapTokenSecretName r tokenID\<rparr>;
           x \<leftarrow> call (RemoteGetSecret c key) (remoteGetSecret r c key);
           case x of
             Inl err \<Rightarrow> State_Monad.return (Some err)
           | Inr secret \<Rightarrow>
               (case s_Data secret of
                  None \<Rightarrow> State_Monad.return (Some (NewError ''Invalid bootstrap secret''))
                | Some data \<Rightarrow> do {
                    now \<leftarrow> extern (time_Now (b_crypto r));
                    let secret = secret\<lparr>s_Data := Some (gm_put (BootstrapTokenExpirationKey r)
                      (formatRFC3339 r (now + DefaultTokenTTL)) data)\<rparr>;
                    call (RemoteUpdateSecret c secret) (remoteUpdateSecret r c secret) }) })"

section \<open>Bootstrap data\<close>

definition storeBootstrapData ::
  "'w bootstrapper \<Rightarrow> CritConfig \<Rightarrow> Cluster \<Rightarrow> string \<Rightarrow> ('w, action, goerror option \<times> CritConfig) io" where
  "storeBootstrapData r config cluster data = do {
     let L = b_lib r;
     let secret = \<lparr>s_meta = \<lparr>Name = Name (cfg_meta config), Namespace = Namespace (cfg_meta config), UID = [],
         Labels = [(ClusterLabelName L, Name (cl_meta cluster))], Annotations = None,
         OwnerReferences = [\<lparr>or_APIVersion = GroupVersion_String L bootstrap_GroupVersion, or_Kind = ''CritConfig'',
           or_Name = Name (cfg_meta config), or_UID = UID (cfg_meta config), or_Controller = Some True\<rparr>],
         Finalizers = [], CreationTimestamp = 0, DeletionTimestamp = None\<rparr>,
       s_Type = [], s_Data = Some [(''value'', data)]\<rparr>;
     e \<leftarrow> call (CreateSecret secret) (createSecret (b_Client r) secret);
     State_Monad.return (case e of
       Some err \<Rightarrow>
         if IsAlreadyExists L err then (None, config)
         else (Some (WrapError ''failed to create kubeconfig secret for CritConfig'' err), config)
     | None \<Rightarrow> (None, config\<lparr>cfg_Status := (cfg_Status config)\<lparr>
         cfgst_DataSecretName := Some (Name (s_meta secret)), cfgst_Ready := True\<rparr>\<rparr>)) }"

definition set_config :: "'w bootstrapper \<Rightarrow> crit_object \<Rightarrow> CritConfig \<Rightarrow> goerror option \<times> CritConfig" where
  "set_config r obj config = (case SetConfig (Marshal (b_codec r) obj) (cfg_Spec config) of
     Inl err \<Rightarrow> (Some err, config)
   | Inr spec \<Rightarrow> (None, config\<lparr>cfg_Spec := spec\<rparr>))"

definition cloud_config :: "CritConfig \<Rightarrow> string \<Rightarrow> File list \<Rightarrow> Config" where
  "cloud_config config data files = \<lparr>
     ci_Files = spec_Files (cfg_Spec config) @ [\<lparr>file_Path = ''/var/lib/crit/config.yaml'', file_Owner = ''root:root'',
       file_Permissions = ''0640'', file_Encoding = ''base64'', file_Content = EncodeToString data\<rparr>] @ files,
     ci_PreCritCommands = spec_PreCritCommands (cfg_Spec config),
     ci_PostCritCommands = spec_PostCritCommands (cfg_Spec config),
     ci_Users = spec_Users (cfg_Spec config), ci_NTP = spec_NTP (cfg_Spec config),
     ci_Verbosity = (if spec_Verbosity (cfg_Spec config) then ''-v'' else [])\<rparr>"

section \<open>Control plane nodes\<close>

fun contains :: "string list \<Rightarrow> string \<Rightarrow> bool" where
  "contains [] match = False"
| "contains (s # ss) match = (if s = match then True else contains ss match)"

definition fill_cluster_domain :: "Cluster \<Rightarrow> NodeConfiguration \<Rightarrow> NodeConfiguration" where
  "fill_cluster_domain cluster nc = (case cl_ClusterNetwork cluster of
     None \<Rightarrow> nc
   | Some net \<Rightarrow>
       if nc_ClusterDomain nc = [] \<and> cn_ServiceDomain net \<noteq> []
       then nc\<lparr>nc_ClusterDomain := cn_ServiceDomain net\<rparr> else nc)"

definition fill_version :: "string option \<Rightarrow> NodeConfiguration \<Rightarrow> NodeConfiguration" where
  "fill_version v nc = (case v of
     Some version \<Rightarrow> if nc_KubernetesVersion nc = [] then nc\<lparr>nc_KubernetesVersion := version\<rparr> else nc
   | None \<Rightarrow> nc)"

definition fill_subnet :: "string \<Rightarrow> string list option \<Rightarrow> string" where
  "fill_subnet subnet blocks = (case blocks of
     Some cidrs \<Rightarrow> if subnet = [] \<and> length cidrs > 0 then concat cidrs else subnet
   | None \<Rightarrow> subnet)"

definition complete_control_plane ::
  "'w bootstrapper \<Rightarrow> Cluster \<Rightarrow> string option \<Rightarrow> ControlPlaneConfiguration \<Rightarrow> ControlPlaneConfiguration" where
  "complete_control_plane r cluster version cfg = (
     let ep = cl_ControlPlaneEndpoint cluster;
         cfg = (if \<not> EndpointIsZero (b_lib r) ep then
             let cfg = (if \<not> contains (cpc_ExtraSANs cfg) (ep_Host ep)
                        then cfg\<lparr>cpc_ExtraSANs := cpc_ExtraSANs cfg @ [ep_Host ep]\<rparr> else cfg)
             in if CritEndpointIsZero r (cpc_ControlPlaneEndpoint cfg)
                then cfg\<lparr>cpc_ControlPlaneEndpoint := \<lparr>ep_Host = ep_Host ep, ep_Port = ep_Port ep\<rparr>\<rparr> else cfg
           else cfg);
         cfg = (if cpc_ClusterName cfg = [] then cfg\<lparr>cpc_ClusterName := Name (cl_meta cluster)\<rparr> else cfg);
         cfg = cfg\<lparr>cpc_NodeConfiguration := fill_cluster_domain cluster (cpc_NodeConfiguration cfg)\<rparr>;
         cfg = (case cl_ClusterNetwork cluster of
             None \<Rightarrow> cfg
           | Some net \<Rightarrow> cfg\<lparr>cpc_ServiceSubnet := fill_subnet (cpc_ServiceSubnet cfg) (cn_Services net),
               cpc_PodSubnet := fill_subnet (cpc_PodSubnet cfg) (cn_Pods net)\<rparr>)
     in cfg\<lparr>cpc_NodeConfiguration := fill_version version (cpc_NodeConfiguration cfg)\<rparr>)"

definition reconcileControlPlaneClusterConfiguration ::
  "'w bootstrapper \<Rightarrow> CritConfig \<Rightarrow> ConfigOwner \<Rightarrow> Cluster \<Rightarrow> ControlPlaneConfiguration \<Rightarrow>
   goerror option \<times> CritConfig \<times> ControlPlaneConfiguration" where
  "reconcileControlPlaneClusterConfiguration r config configOwner cluster cfg =
     (case co_convert configOwner ''Machine'' of
        Inl err \<Rightarrow> (Some (WrapError ''cannot convert to Machine'' err), config, cfg)
      | Inr version \<Rightarrow>
          let cfg = complete_control_plane r cluster version cfg;
              (e, config) = set_config r (ControlPlaneObj cfg) config
          in (e, config, cfg))"

definition reconcileControlPlaneCertificates ::
  "'w bootstrapper \<Rightarrow> CritConfig \<Rightarrow> Cluster \<Rightarrow> ControlPlaneConfiguration \<Rightarrow> ('w, action, goerror + Certificates) io" where
  "reconcileControlPlaneCertificates r config cluster cfg = do {
     (e, certificates) \<leftarrow> LookupOrGenerate (b_lib r) (b_Client r) (b_crypto r)
       \<lparr>key_Namespace = Namespace (cl_meta cluster), key_Name = Name (cl_meta cluster)\<rparr>
       (NewControllerRef (b_lib r) (cfg_meta config) bootstrap_GroupVersion ''CritConfig'')
       (NewCertificatesForControlPlane (path_Join [nc_KubeDir (cpc_NodeConfiguration cfg), ''pki'']));
     State_Monad.return (case e of
       Some (Panic p) \<Rightarrow> Inl (Panic p)
     | Some err \<Rightarrow> Inl (WrapError ''unable to lookup or create cluster certificates'' err)
     | None \<Rightarrow> Inr certificates) }"

definition reconcileControlPlaneCloudConfig ::
  "'w bootstrapper \<Rightarrow> CritConfig \<Rightarrow> ControlPlaneConfiguration \<Rightarrow> Certificates \<Rightarrow> goerror + string" where
  "reconcileControlPlaneCloudConfig r config cfg certificates =
     (case Marshal (b_codec r) (ControlPlaneObj cfg) of
        Inl err \<Rightarrow> Inl err
      | Inr data \<Rightarrow>
          (case AsFiles certificates of
             Inl p \<Rightarrow> Inl p
           | Inr files \<Rightarrow> Write (b_quote r) (cloud_config config data files)))"

definition wrap_unless_panic :: "string \<Rightarrow> goerror \<Rightarrow> goerror" where
  "wrap_unless_panic msg err = (case err of Panic p \<Rightarrow> Panic p | _ \<Rightarrow> WrapError msg err)"

definition bootstrap_reconcileControlPlane ::
  "'w bootstrapper \<Rightarrow> CritConfig \<Rightarrow> ConfigOwner \<Rightarrow> Cluster \<Rightarrow> ControlPlaneConfiguration \<Rightarrow>
   ('w, action, (Result \<times> goerror option) \<times> CritConfig) io" where
  "bootstrap_reconcileControlPlane r config configOwner cluster cfg =
     (case reconcileControlPlaneClusterConfiguration r config configOwner cluster cfg of
        (Some err, config, cfg) \<Rightarrow> State_Monad.return ((no_requeue, Some err), config)
      | (None, config, cfg) \<Rightarrow> do {
          x \<leftarrow> reconcileControlPlaneCertificates r config cluster cfg;
          case x of
            Inl err \<Rightarrow> State_Monad.return ((no_requeue,
              Some (wrap_unless_panic ''unable to lookup or create cluster certificates'' err)), config)
          | Inr certificates \<Rightarrow>
              (case reconcileControlPlaneCloudConfig r config cfg certificates of
                 Inl err \<Rightarrow> State_Monad.return ((no_requeue, Some err), config)
               | Inr data \<Rightarrow> do {
                   (e, config) \<leftarrow> storeBootstrapData r config cluster data;
                   State_Monad.return ((no_requeue, e), config) }) })"

section \<open>Workers\<close>

definition complete_worker ::
  "Cluster \<Rightarrow> WorkerConfiguration \<Rightarrow> WorkerConfiguration" where
  "complete_worker cluster cfg = (
     let cfg = (if wc_ClusterName cfg = [] then cfg\<lparr>wc_ClusterName := Name (cl_meta cluster)\<rparr> else cfg)
     in cfg\<lparr>wc_NodeConfiguration := fill_cluster_domain cluster (wc_NodeConfiguration cfg)\<rparr>)"

definition reconcileWorkerClusterConfiguration ::
  "'w bootstrapper \<Rightarrow> CritConfig \<Rightarrow> ConfigOwner \<Rightarrow> Cluster \<Rightarrow> WorkerConfiguration \<Rightarrow>
   goerror option \<times> CritConfig \<times> WorkerConfiguration" where
  "reconcileWorkerClusterConfiguration r config configOwner cluster cfg = (
     let ep = cl_ControlPlaneEndpoint cluster
     in if CritEndpointIsZero r (wc_ControlPlaneEndpoint cfg) \<and> EndpointIsZero (b_lib r) ep
        then (Some (WrapError ''waiting for cluster controller to set Cluster.Spec.ControlPlaneEndpoint''
               (RequeueAfterError (seconds 10))), config, cfg)
        else
          let cfg = (if CritEndpointIsZero r (wc_ControlPlaneEndpoint cfg)
                then cfg\<lparr>wc_ControlPlaneEndpoint := \<lparr>ep_Host = ep_Host ep, ep_Port = ep_Port ep\<rparr>\<rparr> else cfg);
              cfg = complete_worker cluster cfg;
              kind = co_Kind configOwner;
              converted = (if kind = ''Machine'' \<or> kind = ''MachineSet'' \<or> kind = ''MachineDeployment''
                then co_convert configOwner kind else Inr None)
          in case converted of
               Inl err \<Rightarrow> (Some (WrapError (''cannot convert to '' @ kind) err), config, cfg)
             | Inr version \<Rightarrow>
                 let cfg = cfg\<lparr>wc_NodeConfiguration := fill_version version (wc_NodeConfiguration cfg)\<rparr>;
                     (e, config) = set_config r (WorkerObj cfg) config
                 in (e, config, cfg))"

definition reconcileWorkerBootstrapToken ::
  "'w bootstrapper \<Rightarrow> CritConfig \<Rightarrow> ConfigOwner \<Rightarrow> Cluster \<Rightarrow> WorkerConfiguration \<Rightarrow>
   ('w, action, goerror option \<times> CritConfig \<times> WorkerConfiguration) io" where
  "reconcileWorkerBootstrapToken r config configOwner cluster cfg =
     (if cfgst_Ready (cfg_Status config) then
        (if wc_BootstrapToken cfg \<noteq> [] \<and> \<not> co_IsInfrastructureReady configOwner then do {
           x \<leftarrow> NewClusterClient (b_remote r) (ObjectKey_of (cl_meta cluster));
           case x of
             Inl err \<Rightarrow> State_Monad.return (Some err, config, cfg)
           | Inr remoteClient \<Rightarrow> do {
               e \<leftarrow> refreshToken r remoteClient (wc_BootstrapToken cfg);
               case e of
                 Some err \<Rightarrow> State_Monad.return (Some (WrapError ''failed to refresh bootstrap token'' err), config, cfg)
               | None \<Rightarrow>
                   (case set_config r (WorkerObj cfg) config of
                      (Some err, config) \<Rightarrow> State_Monad.return (Some err, config, cfg)
                    | (None, config) \<Rightarrow> State_Monad.return (Some (WrapError ''requeue until token is consumed''
                        (RequeueAfterError (Duration (DefaultTokenTTL div 2)))), config, cfg)) } }
         else State_Monad.return (None, config, cfg))
      else if wc_BootstrapToken cfg = [] then do {
        x \<leftarrow> NewClusterClient (b_remote r) (ObjectKey_of (cl_meta cluster));
        case x of
          Inl err \<Rightarrow> State_Monad.return (Some err, config, cfg)
        | Inr remoteClient \<Rightarrow> do {
            x \<leftarrow> createToken r remoteClient;
            case x of
              Inl err \<Rightarrow> State_Monad.return (Some (WrapError ''failed to create new bootstrap token'' err), config, cfg)
            | Inr token \<Rightarrow>
                let cfg = cfg\<lparr>wc_BootstrapToken := token\<rparr>;
                    (e, config) = set_config r (WorkerObj cfg) config
                in State_Monad.return (e, config, cfg) } }
      else
        let (e, config) = set_config r (WorkerObj cfg) config
        in State_Monad.return (e, config, cfg))"

definition reconcileWorkerCertificates ::
  "'w bootstrapper \<Rightarrow> Cluster \<Rightarrow> WorkerConfiguration \<Rightarrow> ('w, action, goerror + Certificates) io" where
  "reconcileWorkerCertificates r cluster cfg = do {
     (e, certificates) \<leftarrow> Lookup (b_lib r) (b_Client r)
       \<lparr>key_Namespace = Namespace (cl_meta cluster), key_Name = Name (cl_meta cluster)\<rparr>
       (NewCertificatesForWorker (path_Join [nc_KubeDir (wc_NodeConfiguration cfg), ''pki'']));
     State_Monad.return (case e of
       Some err \<Rightarrow> Inl (WrapError ''unable to lookup cluster certificates'' err)
     | None \<Rightarrow>
         (case EnsureAllExist certificates of
            Some err \<Rightarrow> Inl (WrapError ''missing certificates'' err)
          | None \<Rightarrow> Inr certificates)) }"

definition reconcileWorkerCloudConfig ::
  "'w bootstrapper \<Rightarrow> CritConfig \<Rightarrow> WorkerConfiguration \<Rightarrow> Certificates \<Rightarrow> goerror + string" where
  "reconcileWorkerCloudConfig r config cfg certificates =
     (case Marshal (b_codec r) (WorkerObj cfg) of
        Inl err \<Rightarrow> Inl err
      | Inr data \<Rightarrow>
          (case GetByPurpose certificates ClusterCA of
             None \<Rightarrow> Inl (Panic ''nil pointer dereference'')
           | Some cert \<Rightarrow>
               (case cert_AsFiles cert of
                  Inl p \<Rightarrow> Inl p
                | Inr files \<Rightarrow> Write (b_quote r)
                    (cloud_config config data (filter (\<lambda>f. has_suffix (file_Path f) ''crt'') files)))))"

definition requeue_or_fail :: "lib \<Rightarrow> goerror \<Rightarrow> Result \<times> goerror option" where
  "requeue_or_fail L err = (case Cause L err of
     RequeueAfterError d \<Rightarrow> (\<lparr>Requeue = False, RequeueAfter = d\<rparr>, None)
   | _ \<Rightarrow> (no_requeue, Some err))"

definition reconcileWorker ::
  "'w bootstrapper \<Rightarrow> CritConfig \<Rightarrow> ConfigOwner \<Rightarrow> Cluster \<Rightarrow> WorkerConfiguration \<Rightarrow>
   ('w, action, (Result \<times> goerror option) \<times> CritConfig) io" where
  "reconcileWorker r config configOwner cluster cfg =
     (if \<not> cl_ControlPlaneInitialized cluster
      then State_Monad.return ((\<lparr>Requeue = False, RequeueAfter = seconds 30\<rparr>, None), config)
      else case reconcileWorkerClusterConfiguration r config configOwner cluster cfg of
        (Some err, config, cfg) \<Rightarrow> State_Monad.return (requeue_or_fail (b_lib r) err, config)
      | (None, config, cfg) \<Rightarrow> do {
          x \<leftarrow> reconcileWorkerBootstrapToken r config configOwner cluster cfg;
          case x of
            (Some err, config, cfg) \<Rightarrow> State_Monad.return (requeue_or_fail (b_lib r) err, config)
          | (None, config, cfg) \<Rightarrow> do {
              x \<leftarrow> reconcileWorkerCertificates r cluster cfg;
              case x of
                Inl err \<Rightarrow> State_Monad.return ((no_requeue, Some (WrapError ''unable to lookup cluster certificates'' err)), config)
              | Inr certificates \<Rightarrow>
                  (case reconcileWorkerCloudConfig r config cfg certificates of
                     Inl err \<Rightarrow> State_Monad.return ((no_requeue, Some err), config)
                   | Inr data \<Rightarrow> do {
                       (e, config) \<leftarrow> storeBootstrapData r config cluster data;
                       State_Monad.return ((no_requeue, e), config) }) } })"

section \<open>Reconcile\<close>

definition bootstrap_body ::
  "'w bootstrapper \<Rightarrow> CritConfig \<Rightarrow> ConfigOwner \<Rightarrow> Cluster \<Rightarrow> ('w, action, (Result \<times> goerror option) \<times> CritConfig) io" where
  "bootstrap_body r config configOwner cluster =
     (case Unmarshal (b_codec r) (spec_Config (cfg_Spec config)) of
        Inl err \<Rightarrow> State_Monad.return ((no_requeue, Some err), config)
      | Inr (ControlPlaneObj cfg) \<Rightarrow>
          if \<not> co_IsControlPlaneMachine configOwner
          then State_Monad.return ((no_requeue,
            Some (NewError ''config owner is for a worker Machine, but received a ControlPlaneConfiguration'')), config)
          else bootstrap_reconcileControlPlane r config configOwner cluster cfg
      | Inr (WorkerObj cfg) \<Rightarrow>
          if co_IsControlPlaneMachine configOwner
          then State_Monad.return ((no_requeue,
            Some (NewError ''config owner is for a control plane Machine, but received a WorkerConfiguration'')), config)
          else reconcileWorker r config configOwner cluster cfg
      | Inr (OtherObj kind) \<Rightarrow>
          State_Monad.return ((no_requeue, Some (NewError ''Config contained invalid configuration kind'')), config))"

definition bootstrap_deferred ::
  "'w bootstrapper \<Rightarrow> CritConfig \<Rightarrow> CritConfig \<Rightarrow> Result \<times> goerror option \<Rightarrow> ('w, action, Result \<times> goerror option) io" where
  "bootstrap_deferred r before config out = (case snd out of
     None \<Rightarrow> do {
       e \<leftarrow> call (PatchConfig config) (patchConfig r before config);
       State_Monad.return (fst out, e) }
   | Some (Panic p) \<Rightarrow> do {
       e \<leftarrow> call (PatchConfig config) (patchConfig r before config);
       State_Monad.return (no_requeue, Some (Panic p)) }
   | Some err \<Rightarrow> State_Monad.return out)"

definition bootstrap_Reconcile :: "'w bootstrapper \<Rightarrow> ObjectKey \<Rightarrow> ('w, action, Result \<times> goerror option) io" where
  "bootstrap_Reconcile r req = do {
     let L = b_lib r;
     x \<leftarrow> call (GetConfig req) (getConfig r req);
     case x of
       Inl err \<Rightarrow> State_Monad.return (if IsNotFound L err then (no_requeue, None) else (no_requeue, Some err))
     | Inr config \<Rightarrow> do {
         x \<leftarrow> call (GetConfigOwner (Name (cfg_meta config))) (getConfigOwner r config);
         case x of
           Inl err \<Rightarrow> State_Monad.return (if IsNotFound L err then (no_requeue, None) else (no_requeue, Some err))
         | Inr None \<Rightarrow> State_Monad.return (no_requeue, None)
         | Inr (Some configOwner) \<Rightarrow> do {
             x \<leftarrow> call (GetClusterByName (co_Namespace configOwner) (co_ClusterName configOwner))
               (getClusterByName r (co_Namespace configOwner) (co_ClusterName configOwner));
             case x of
               Inl err \<Rightarrow>
                 if Cause L err = ErrNoCluster r \<or> IsNotFound L err then State_Monad.return (no_requeue, None)
                 else State_Monad.return (no_requeue, Some err)
             | Inr cluster \<Rightarrow>
                 if \<not> cl_InfrastructureReady cluster then State_Monad.return (no_requeue, None)
                 else do {
                   p \<leftarrow> extern (newConfigPatchHelper r config);
                   case p of
                     Some err \<Rightarrow> State_Monad.return (no_requeue, Some err)
                   | None \<Rightarrow>
                       if co_DataSecretName configOwner \<noteq> None \<and>
                          (\<not> cfgst_Ready (cfg_Status config) \<or> cfgst_DataSecretName (cfg_Status config) = None)
                       then do {
                         let config' = config\<lparr>cfg_Status := (cfg_Status config)\<lparr>cfgst_Ready := True,
                           cfgst_DataSecretName := co_DataSecretName configOwner\<rparr>\<rparr>;
                         e \<leftarrow> call (PatchConfig config') (patchConfig r config config');
                         State_Monad.return (no_requeue, e) }
                       else do {
                         (out, config') \<leftarrow> bootstrap_body r config configOwner cluster;
                         bootstrap_deferred r config config' out } } } } }"

section \<open>Which configs an event concerns\<close>

definition MachineToBootstrapMapFunc ::
  "(ObjectReference \<Rightarrow> string \<times> string \<times> string) \<Rightarrow> Machine option \<Rightarrow> ObjectKey list" where
  "MachineToBootstrapMapFunc gvk o' = (case o' of
     None \<Rightarrow> []
   | Some m \<Rightarrow>
       (case m_ConfigRef m of
          Some ref \<Rightarrow>
            if gvk ref = (fst bootstrap_GroupVersion, snd bootstrap_GroupVersion, ''CritConfig'')
            then [\<lparr>key_Namespace = Namespace (m_meta m), key_Name = ref_Name ref\<rparr>] else []
        | None \<Rightarrow> []))"

record MachinePool =
  mp_meta :: ObjectMeta
  mp_ConfigRef :: "ObjectReference option"

definition is_crit_config :: "(ObjectReference \<Rightarrow> string \<times> string \<times> string) \<Rightarrow> ObjectReference \<Rightarrow> bool" where
  "is_crit_config gvk ref \<longleftrightarrow>
     (case gvk ref of (g, v, k) \<Rightarrow> (g, k) = (fst bootstrap_GroupVersion, ''CritConfig''))"

definition MachinePoolToBootstrapMapFunc ::
  "(ObjectReference \<Rightarrow> string \<times> string \<times> string) \<Rightarrow> MachinePool option \<Rightarrow> ObjectKey list" where
  "MachinePoolToBootstrapMapFunc gvk o' = (case o' of
     None \<Rightarrow> []
   | Some m \<Rightarrow>
       (case mp_ConfigRef m of
          Some configRef \<Rightarrow>
            if is_crit_config gvk configRef
            then [\<lparr>key_Namespace = Namespace (mp_meta m), key_Name = ref_Name configRef\<rparr>] else []
        | None \<Rightarrow> []))"

fun config_requests :: "(ObjectReference \<Rightarrow> string \<times> string \<times> string) \<Rightarrow> Machine list \<Rightarrow> ObjectKey list" where
  "config_requests gvk [] = []"
| "config_requests gvk (m # ms) =
     (case m_ConfigRef m of
        Some ref \<Rightarrow>
          if is_crit_config gvk ref
          then \<lparr>key_Namespace = Namespace (m_meta m), key_Name = ref_Name ref\<rparr> # config_requests gvk ms
          else config_requests gvk ms
      | None \<Rightarrow> config_requests gvk ms)"

definition ClusterToCritConfigs ::
  "'w bootstrapper \<Rightarrow> (ObjectReference \<Rightarrow> string \<times> string \<times> string) \<Rightarrow> Cluster option \<Rightarrow>
   ('w, action, ObjectKey list) io" where
  "ClusterToCritConfigs r gvk o' = (case o' of
     None \<Rightarrow> State_Monad.return []
   | Some c \<Rightarrow> do {
       let selector = [(ClusterLabelName (b_lib r), Name (cl_meta c))];
       x \<leftarrow> call (ListMachines (Namespace (cl_meta c)) selector)
         (listMachines (b_Client r) (Namespace (cl_meta c)) selector);
       State_Monad.return (case x of
         Inl err \<Rightarrow> []
       | Inr ms \<Rightarrow> config_requests gvk ms) })"

section \<open>Lemmas\<close>

lemma contains_iff [simp]: "contains ss x \<longleftrightarrow> x \<in> set ss"
  by (induction ss) auto

text \<open>A path joined with a plain file name ends in that name.\<close>

lemma clean_stack_last:
  "w \<noteq> [] \<Longrightarrow> w \<noteq> ''.'' \<Longrightarrow> w \<noteq> ''..'' \<Longrightarrow> \<exists>ys. clean_stack rooted st (ws @ [w]) = ys @ [w]"
  by (induction rooted st ws rule: clean_stack.induct) (auto split: list.split)

lemma join_with_last: "\<exists>p. join_with sep (ws @ [w]) = p @ w"
proof (induction ws)
  case (Cons x ws)
  then obtain p where "join_with sep (ws @ [w]) = p @ w" by blast
  then have "join_with sep ((x # ws) @ [w]) = (x @ sep @ p) @ w" by (simp add: join_with_Cons)
  then show ?case by blast
qed simp

lemma path_Clean_suffix:
  assumes "w \<noteq> []" and "w \<noteq> ''.''" and "w \<noteq> ''..''" and "CHR ''/'' \<notin> set w"
  shows "has_suffix (path_Clean (p @ CHR ''/'' # w)) w"
proof -
  let ?r = "p @ CHR ''/'' # w \<noteq> [] \<and> hd (p @ CHR ''/'' # w) = CHR ''/''"
  have "split_on CHR ''/'' (p @ CHR ''/'' # w) = split_on CHR ''/'' p @ [w]"
    using assms(4) by (simp add: split_on_sep split_on_word)
  then obtain ys where ys: "clean_stack ?r [] (split_on CHR ''/'' (p @ CHR ''/'' # w)) = ys @ [w]"
    using clean_stack_last [OF assms(1-3)] by metis
  obtain q where q: "join_with ''/'' (ys @ [w]) = q @ w" using join_with_last by blast
  show ?thesis
    unfolding path_Clean_def Let_def ys q by (auto simp: has_suffix_iff)
qed

lemma ca_crt_suffix: "has_suffix (path_Join [dir, ''ca.crt'']) ''crt''"
proof (cases "dir = []")
  case True
  then show ?thesis by (simp add: path_Join_def path_Clean_def has_suffix_def)
next
  case False
  then have "path_Join [dir, ''ca.crt''] = path_Clean (dir @ CHR ''/'' # ''ca.crt'')"
    by (simp add: path_Join_def)
  then have "has_suffix (path_Join [dir, ''ca.crt'']) ''ca.crt''"
    using path_Clean_suffix [of "''ca.crt''" dir] by simp
  then obtain q where "path_Join [dir, ''ca.crt''] = (q @ ''ca.'') @ ''crt''" by (auto simp: has_suffix_iff)
  then show ?thesis unfolding has_suffix_iff by blast
qed

lemma no_key_file: "\<not> has_suffix [] ''crt''"
  by (simp add: has_suffix_def)

lemma reconcileWorkerCertificates_run:
  assumes "run_state (reconcileWorkerCertificates r cluster cfg) s = (Inr certs, s')"
  obtains kp where "kp_Cert kp \<noteq> []" and "kp_Key kp \<noteq> []"
    and "certs = [(new_cert ClusterCA (path_Join [path_Join [nc_KubeDir (wc_NodeConfiguration cfg), ''pki''], ''ca.crt'']) [])
      \<lparr>cert_KeyPair := Some kp\<rparr>]"
proof -
  let ?k = "\<lparr>key_Namespace = Namespace (cl_meta cluster), key_Name = Name (cl_meta cluster)\<rparr>"
  let ?c = "NewCertificatesForWorker (path_Join [nc_KubeDir (wc_NodeConfiguration cfg), ''pki''])"
  obtain e cs s1 where l: "run_state (Lookup (b_lib r) (b_Client r) ?k ?c) s = ((e, cs), s1)" by (metis prod.exhaust)
  with assms have "e = None" "certs = cs" "EnsureAllExist cs = None"
    by (auto simp: reconcileWorkerCertificates_def split: option.splits)
  with Lookup_trace [of "b_lib r" "b_Client r" ?k ?c s cs s1] l that show thesis
    by (auto simp: NewCertificatesForWorker_def EnsureAllExist_iff list_all2_Cons1 new_cert_def)
qed

lemma fill_idem [simp]:
  "fill_cluster_domain cluster (fill_cluster_domain cluster nc) = fill_cluster_domain cluster nc"
  "fill_version v (fill_version v nc) = fill_version v nc"
  "fill_subnet (fill_subnet s b) b = fill_subnet s b"
  by (auto simp: fill_cluster_domain_def fill_version_def fill_subnet_def split: option.split)

lemma fill_commute:
  "fill_cluster_domain cluster (fill_version v nc) = fill_version v (fill_cluster_domain cluster nc)"
  by (auto simp: fill_cluster_domain_def fill_version_def split: option.split)

text \<open>The fields of a completed control plane configuration.\<close>

lemma complete_control_plane_fields:
  fixes r cluster v cfg
  defines "ep \<equiv> cl_ControlPlaneEndpoint cluster" and "c \<equiv> complete_control_plane r cluster v cfg"
  shows "cpc_ClusterName c = (if cpc_ClusterName cfg = [] then Name (cl_meta cluster) else cpc_ClusterName cfg)"
    and "cpc_ControlPlaneEndpoint c = (if \<not> EndpointIsZero (b_lib r) ep \<and> CritEndpointIsZero r (cpc_ControlPlaneEndpoint cfg)
      then ep else cpc_ControlPlaneEndpoint cfg)"
    and "cpc_ExtraSANs c = (if \<not> EndpointIsZero (b_lib r) ep \<and> ep_Host ep \<notin> set (cpc_ExtraSANs cfg)
      then cpc_ExtraSANs cfg @ [ep_Host ep] else cpc_ExtraSANs cfg)"
    and "cpc_ServiceSubnet c = (case cl_ClusterNetwork cluster of None \<Rightarrow> cpc_ServiceSubnet cfg
      | Some net \<Rightarrow> fill_subnet (cpc_ServiceSubnet cfg) (cn_Services net))"
    and "cpc_PodSubnet c = (case cl_ClusterNetwork cluster of None \<Rightarrow> cpc_PodSubnet cfg
      | Some net \<Rightarrow> fill_subnet (cpc_PodSubnet cfg) (cn_Pods net))"
    and "cpc_NodeConfiguration c = fill_version v (fill_cluster_domain cluster (cpc_NodeConfiguration cfg))"
  unfolding ep_def c_def complete_control_plane_def Let_def
  by (auto split: option.split)

text \<open>
  What the body leaves: it never saves the config itself, and it changes the status only after it
  has created the secret that the status then names.
\<close>

fun saves_config :: "action \<Rightarrow> bool" where
  "saves_config (PatchConfig _) = True"
| "saves_config _ = False"

definition data_secret :: "'w bootstrapper \<Rightarrow> CritConfig \<Rightarrow> CritConfig \<Rightarrow> action list \<Rightarrow> bool" where
  "data_secret r config config' es \<longleftrightarrow> (\<exists>sec w. CreateSecret sec \<in> set es \<and> fst (createSecret (b_Client r) sec w) = None \<and>
     Namespace (s_meta sec) = Namespace (cfg_meta config) \<and>
     cfgst_DataSecretName (cfg_Status config') = Some (Name (s_meta sec)))"

definition body_outcome :: "'w bootstrapper \<Rightarrow> CritConfig \<Rightarrow> CritConfig \<Rightarrow> action list \<Rightarrow> bool" where
  "body_outcome r config config' es \<longleftrightarrow> list_all (\<lambda>e. \<not> saves_config e) es \<and> cfg_meta config' = cfg_meta config \<and>
     (cfg_Status config' = cfg_Status config \<or> data_secret r config config' es)"

lemma body_outcome_prefix:
  "body_outcome r config' c es' \<Longrightarrow> list_all (\<lambda>e. \<not> saves_config e) es \<Longrightarrow> cfg_meta config' = cfg_meta config \<Longrightarrow>
   cfg_Status config' = cfg_Status config \<Longrightarrow> body_outcome r config c (es @ es')"
  unfolding body_outcome_def data_secret_def by auto

lemma outcome_unchanged: "cfg_meta c = cfg_meta config \<Longrightarrow> cfg_Status c = cfg_Status config \<Longrightarrow> body_outcome r config c []"
  by (simp add: body_outcome_def)

lemma set_config_keeps:
  assumes "set_config r obj config = (e, c)"
  shows "cfg_meta c = cfg_meta config" and "cfg_Status c = cfg_Status config"
  using assms by (auto simp: set_config_def split: sum.splits)

lemma storeBootstrapData_outcome: "yields (\<lambda>(e, c). body_outcome r config c) (storeBootstrapData r config cluster data)"
  unfolding storeBootstrapData_def Let_def
proof (rule yields_bind)
  let ?sec = "\<lparr>s_meta = \<lparr>Name = Name (cfg_meta config), Namespace = Namespace (cfg_meta config), UID = [],
         Labels = [(ClusterLabelName (b_lib r), Name (cl_meta cluster))], Annotations = None,
         OwnerReferences = [\<lparr>or_APIVersion = GroupVersion_String (b_lib r) bootstrap_GroupVersion, or_Kind = ''CritConfig'',
           or_Name = Name (cfg_meta config), or_UID = UID (cfg_meta config), or_Controller = Some True\<rparr>],
         Finalizers = [], CreationTimestamp = 0, DeletionTimestamp = None\<rparr>,
       s_Type = [], s_Data = Some [(''value'', data)]\<rparr>"
  show "yields (\<lambda>e es. es = [CreateSecret ?sec] \<and> (\<exists>w. e = fst (createSecret (b_Client r) ?sec w)))
      (call (CreateSecret ?sec) (createSecret (b_Client r) ?sec))"
    by (rule yields_call) blast
qed (auto intro!: yields_return simp: body_outcome_def data_secret_def split: option.split)

lemma token_calls:
  "emits (\<lambda>e. \<not> saves_config e) (createToken r c)" "emits (\<lambda>e. \<not> saves_config e) (refreshToken r c t)"
  "emits (\<lambda>e. \<not> saves_config e) (NewClusterClient R k)"
  unfolding createToken_def refreshToken_def NewClusterClient_def Let_def
  by (intro emits_intros; simp)+

lemma emits_Lookup: "(\<And>k. P (GetSecret k)) \<Longrightarrow> emits P (Lookup L C cn c)"
  by (induction c) (auto simp: Let_def intro!: emits_intros)

lemma certificate_calls:
  "emits (\<lambda>e. \<not> saves_config e) (reconcileControlPlaneCertificates r config cluster cfg)"
  "emits (\<lambda>e. \<not> saves_config e) (reconcileWorkerCertificates r cluster wc)"
  unfolding reconcileControlPlaneCertificates_def reconcileWorkerCertificates_def
  by (intro emits_intros emits_Lookup; simp)+

lemma outcome_after:
  assumes "emits (\<lambda>e. \<not> saves_config e) m" and "\<And>x. yields (\<lambda>(out, c). body_outcome r config c) (f x)"
  shows "yields (\<lambda>(out, c). body_outcome r config c) (State_Monad.bind m f)"
proof (rule yields_bind [OF assms(1) [unfolded yields_emits]])
  fix x es
  assume "list_all (\<lambda>e. \<not> saves_config e) es"
  then show "yields (\<lambda>y es'. (case y of (out, c) \<Rightarrow> body_outcome r config c) (es @ es')) (f x)"
    by (intro yields_weaken [OF assms(2)]) (auto intro: body_outcome_prefix)
qed

lemma outcome_of: 
  assumes "yields (\<lambda>(out, c). body_outcome r config' c) m" and "cfg_meta config' = cfg_meta config"
    and "cfg_Status config' = cfg_Status config"
  shows "yields (\<lambda>(out, c). body_outcome r config c) m"
  by (rule yields_weaken [OF assms(1)]) (use assms(2-3) in \<open>auto simp: body_outcome_def data_secret_def\<close>)

lemma store_step: 
  "yields (\<lambda>(out, c). body_outcome r config c)
     (do { (e, config) \<leftarrow> storeBootstrapData r config cluster data; State_Monad.return ((no_requeue, e), config) })"
  by (rule yields_bind [OF storeBootstrapData_outcome]) (auto intro!: yields_return)

lemma token_outcome:
  "yields (\<lambda>(e, c, cfg') es. list_all (\<lambda>e. \<not> saves_config e) es \<and> cfg_meta c = cfg_meta config \<and> cfg_Status c = cfg_Status config)
     (reconcileWorkerBootstrapToken r config owner cluster cfg)"
proof -
  have seq: "yields (\<lambda>(e, c, cfg') es. list_all (\<lambda>e. \<not> saves_config e) es \<and> cfg_meta c = cfg_meta config \<and> cfg_Status c = cfg_Status config)
      (State_Monad.bind m f)"
    if "emits (\<lambda>e. \<not> saves_config e) m"
      and "\<And>x. yields (\<lambda>(e, c, cfg') es. list_all (\<lambda>e. \<not> saves_config e) es \<and> cfg_meta c = cfg_meta config \<and> cfg_Status c = cfg_Status config) (f x)"
    for m :: "('a, action, 'b) io" and f
    by (rule yields_bind [OF that(1) [unfolded yields_emits]]) (auto intro: yields_weaken [OF that(2)])
  show ?thesis
    unfolding reconcileWorkerBootstrapToken_def
    by (auto intro!: seq yields_return token_calls simp: Let_def set_config_def split: sum.split option.split)
qed

lemma bootstrap_body_outcome: "yields (\<lambda>(out, c). body_outcome r config c) (bootstrap_body r config owner cluster)"
proof -
  have cp: "yields (\<lambda>(out, c). body_outcome r config c) (bootstrap_reconcileControlPlane r config owner cluster cfg)" for cfg
  proof -
    have keeps: "cfg_meta c = cfg_meta config" "cfg_Status c = cfg_Status config"
      if "reconcileControlPlaneClusterConfiguration r config owner cluster cfg = (e, c, cfg')" for e c cfg'
      using that by (auto simp: reconcileControlPlaneClusterConfiguration_def Let_def intro: set_config_keeps split: sum.splits prod.splits)
    show ?thesis
      unfolding bootstrap_reconcileControlPlane_def
      by (auto intro!: yields_return outcome_unchanged outcome_after certificate_calls outcome_of [OF store_step]
          intro: keeps split: sum.split option.split prod.split)
  qed
  have worker: "yields (\<lambda>(out, c). body_outcome r config c) (reconcileWorker r config owner cluster cfg)" for cfg
  proof -
    have keeps: "cfg_meta c = cfg_meta config" "cfg_Status c = cfg_Status config"
      if "reconcileWorkerClusterConfiguration r config owner cluster cfg = (e, c, cfg')" for e c cfg'
      using that by (auto simp: reconcileWorkerClusterConfiguration_def Let_def
          intro: set_config_keeps split: sum.splits prod.splits if_splits)
    have rest: "yields (\<lambda>(out, c). body_outcome r c0 c) (do {
        x \<leftarrow> reconcileWorkerCertificates r cluster cfg;
        case x of
          Inl err \<Rightarrow> State_Monad.return ((no_requeue, Some (WrapError ''unable to lookup cluster certificates'' err)), c0)
        | Inr certificates \<Rightarrow>
            (case reconcileWorkerCloudConfig r c0 cfg certificates of
               Inl err \<Rightarrow> State_Monad.return ((no_requeue, Some err), c0)
             | Inr data \<Rightarrow> do {
                 (e, config) \<leftarrow> storeBootstrapData r c0 cluster data;
                 State_Monad.return ((no_requeue, e), config) }) })" for c0 cfg
      by (auto intro!: outcome_after certificate_calls yields_return outcome_unchanged store_step split: sum.split)
    obtain e c0 cfg0 where rc: "reconcileWorkerClusterConfiguration r config owner cluster cfg = (e, c0, cfg0)"
      by (metis prod.exhaust)
    note same = keeps [OF rc]
    have "yields (\<lambda>(out, c). body_outcome r c0 c) (reconcileWorker r config owner cluster cfg)"
    proof (cases e)
      case None
      show ?thesis
        unfolding reconcileWorker_def rc None prod.case option.case
        using same by (intro yields_if yields_return yields_bind [OF token_outcome])
          (auto intro!: yields_return yields_weaken [OF rest] simp: body_outcome_def data_secret_def split: option.split,
            metis option.distinct(1))
    next
      case (Some err)
      with same show ?thesis
        unfolding reconcileWorker_def rc by (auto intro!: yields_return outcome_unchanged)
    qed
    then show ?thesis using same by (rule outcome_of)
  qed
  show ?thesis
    unfolding bootstrap_body_def
    by (auto intro!: yields_return outcome_unchanged cp worker split: sum.split crit_object.split)
qed

text \<open>What a whole reconciliation saves.\<close>

definition saved_config :: "'w bootstrapper \<Rightarrow> CritConfig \<Rightarrow> CritConfig \<Rightarrow> action list \<Rightarrow> bool" where
  "saved_config r config c es \<longleftrightarrow> cfg_meta c = cfg_meta config \<and>
     (cfg_Status c = cfg_Status config \<or>
      (\<exists>owner w. fst (getConfigOwner r config w) = Inr (Some owner) \<and> co_DataSecretName owner \<noteq> None \<and>
        cfgst_DataSecretName (cfg_Status c) = co_DataSecretName owner) \<or>
      data_secret r config c es)"

definition saves_only :: "'w bootstrapper \<Rightarrow> CritConfig \<Rightarrow> action list \<Rightarrow> bool" where
  "saves_only r config es \<longleftrightarrow> (\<forall>c. PatchConfig c \<in> set es \<longrightarrow> saved_config r config c es)"

lemma bootstrap_deferred_saves:
  "yields (\<lambda>_. saves_only r config) (do { (out, config') \<leftarrow> bootstrap_body r config owner cluster; bootstrap_deferred r before config' out })"
proof (rule yields_bind [OF bootstrap_body_outcome], clarify)
  fix out c es
  assume out: "body_outcome r config c es"
  have "yields (\<lambda>_ es'. es' = [] \<or> es' = [PatchConfig c]) (bootstrap_deferred r before c out)"
    unfolding yields_def bootstrap_deferred_def
    by (simp add: run_simps split: option.split goerror.split prod.split)
  then show "yields (\<lambda>_ es'. saves_only r config (es @ es')) (bootstrap_deferred r before c out)"
  proof (rule yields_weaken)
    fix x es'
    assume "es' = [] \<or> es' = [PatchConfig c]"
    moreover have "\<forall>c'. PatchConfig c' \<notin> set es"
      using out by (fastforce simp: body_outcome_def list_all_iff)
    ultimately show "saves_only r config (es @ es')"
      using out by (auto simp: saves_only_def saved_config_def body_outcome_def data_secret_def)
  qed
qed

lemma saved_config_prefix: "saved_config r config c es' \<Longrightarrow> saved_config r config c (es @ es')"
  by (auto simp: saved_config_def data_secret_def)

definition saves_fetched :: "'w bootstrapper \<Rightarrow> ObjectKey \<Rightarrow> action list \<Rightarrow> bool" where
  "saves_fetched r req es \<longleftrightarrow> (\<forall>c. PatchConfig c \<in> set es \<longrightarrow>
     (\<exists>config w. fst (getConfig r req w) = Inr config \<and> saved_config r config c es))"

lemma saves_fetched_none: "list_all (\<lambda>e. \<not> saves_config e) es \<Longrightarrow> saves_fetched r req es"
  by (fastforce simp: saves_fetched_def list_all_iff)

lemma saves_fetched_body:
  assumes "fst (getConfig r req w) = Inr config" and "saves_only r config es'" and "list_all (\<lambda>e. \<not> saves_config e) es"
  shows "saves_fetched r req (es @ es')"
  unfolding saves_fetched_def
proof (intro allI impI)
  fix c
  assume "PatchConfig c \<in> set (es @ es')"
  with assms(3) have "PatchConfig c \<in> set es'" by (auto simp: list_all_iff)
  with assms(2) have "saved_config r config c (es @ es')"
    by (auto simp: saves_only_def intro: saved_config_prefix)
  with assms(1) show "\<exists>config w. fst (getConfig r req w) = Inr config \<and> saved_config r config c (es @ es')"
    by metis
qed

lemma saves_fetched_owner:
  assumes "fst (getConfig r req w) = Inr config" and "fst (getConfigOwner r config w') = Inr (Some owner)"
    and "co_DataSecretName owner = Some n" and "list_all (\<lambda>e. \<not> saves_config e) es"
    and "cfg_meta c = cfg_meta config" and "cfgst_DataSecretName (cfg_Status c) = Some n"
  shows "saves_fetched r req (es @ [PatchConfig c])"
proof -
  have "saves_only r config [PatchConfig c]"
    unfolding saves_only_def saved_config_def using assms(2,3,5,6) by auto
  from saves_fetched_body [OF assms(1) this assms(4)] show ?thesis .
qed

lemmas reconcile_intros =
  yields_return yields_if yields_bind [OF yields_answer] yields_bind [OF yields_extern]
  yields_weaken [OF bootstrap_deferred_saves]

lemma bootstrap_Reconcile_saves: "yields (\<lambda>_. saves_fetched r req) (bootstrap_Reconcile r req)"
proof -
  have body: "saves_fetched r req (GetConfig req # GetConfigOwner n # GetClusterByName ns cn # es)"
    if "fst (getConfig r req w) = Inr config" "saves_only r config es" for config w es n ns cn
    using saves_fetched_body [OF that, of "[GetConfig req, GetConfigOwner n, GetClusterByName ns cn]"] by simp
  have none: "saves_fetched r req [GetConfig req]" "saves_fetched r req [GetConfig req, GetConfigOwner n]"
    "saves_fetched r req [GetConfig req, GetConfigOwner n, GetClusterByName ns cn]" for n ns cn
    by (auto intro: saves_fetched_none)
  have pivot: "saves_fetched r req [GetConfig req, GetConfigOwner n, GetClusterByName ns cn, PatchConfig c]"
    if "fst (getConfig r req w) = Inr config" "fst (getConfigOwner r config w') = Inr (Some owner)"
      "co_DataSecretName owner = Some m" "cfg_meta c = cfg_meta config" "cfgst_DataSecretName (cfg_Status c) = Some m"
    for config w owner w' m c n ns cn
    using saves_fetched_owner [OF that(1-3), of "[GetConfig req, GetConfigOwner n, GetClusterByName ns cn]" c] that(4-) by simp
  show ?thesis
    unfolding bootstrap_Reconcile_def Let_def
    by (auto intro!: reconcile_intros simp: none split: sum.split option.split)
      ((erule (1) body | (rule pivot, assumption, assumption, assumption, simp, simp))+)
qed

section \<open>A concrete reconciler\<close>

definition sample_bootstrapper :: "Machine list bootstrapper" where
  "sample_bootstrapper = \<lparr>
     b_lib = sample_lib, b_Client = sample_client, b_remote = sample_remote [], b_crypto = sample_crypto,
     b_codec = \<lparr>Unmarshal = (\<lambda>_. Inr (OtherObj [])), Marshal = (\<lambda>_. Inr ''cfg'')\<rparr>, b_quote = (\<lambda>_. []),
     getConfig = (\<lambda>_ w. (Inl (ExtError ''NotFound''), w)),
     getConfigOwner = (\<lambda>_ w. (Inr None, w)),
     getClusterByName = (\<lambda>_ _ w. (Inr sample_cluster, w)),
     ErrNoCluster = ExtError ''NoCluster'',
     newConfigPatchHelper = (\<lambda>_ w. (None, w)), patchConfig = (\<lambda>_ _ w. (None, w)),
     remoteGetSecret = (\<lambda>_ _ w. (Inr \<lparr>s_meta = sample_meta ''s'', s_Type = [], s_Data = Some [(''x'', ''old''), (''t'', ''id'')]\<rparr>, w)),
     remoteCreateSecret = (\<lambda>_ _ w. (None, w)), remoteUpdateSecret = (\<lambda>_ _ w. (None, w)),
     GenerateBootstrapToken = (\<lambda>w. (Inr ''a.b'', w)), FindStringSubmatch = (\<lambda>t. [t, ''a'', ''b'']),
     BootstrapTokenSecretName = (\<lambda>t. ''bootstrap-token-'' @ t), SecretTypeBootstrapToken = ''T'',
     BootstrapTokenIDKey = ''i'', BootstrapTokenSecretKey = ''s'', BootstrapTokenExpirationKey = ''x'',
     BootstrapTokenUsageSigningKey = ''u'', BootstrapTokenUsageAuthentication = ''a'',
     BootstrapTokenExtraGroupsKey = ''g'', BootstrapTokenDescriptionKey = ''d'',
     formatRFC3339 = (\<lambda>_. ''new''), CritEndpointIsZero = (\<lambda>e. ep_Host e = [] \<and> ep_Port e = 0)\<rparr>"

definition sample_config :: CritConfig where
  "sample_config = \<lparr>cfg_meta = sample_meta ''cfg'', cfg_Spec = sample_spec,
     cfg_Status = \<lparr>cfgst_Ready = False, cfgst_DataSecretName = None, cfgst_FailureReason = [], cfgst_FailureMessage = []\<rparr>\<rparr>"

definition sample_wc :: WorkerConfiguration where
  "sample_wc = \<lparr>wc_ClusterName = [], wc_ControlPlaneEndpoint = \<lparr>ep_Host = [], ep_Port = 0\<rparr>, wc_BootstrapToken = [],
     wc_NodeConfiguration = \<lparr>nc_KubeDir = ''/k'', nc_KubernetesVersion = [], nc_ClusterDomain = [], nc_rest = []\<rparr>\<rparr>"

definition sample_cfg :: ControlPlaneConfiguration where
  "sample_cfg = \<lparr>cpc_ClusterName = [], cpc_ControlPlaneEndpoint = \<lparr>ep_Host = [], ep_Port = 0\<rparr>, cpc_ExtraSANs = [],
     cpc_ServiceSubnet = [], cpc_PodSubnet = [],
     cpc_NodeConfiguration = \<lparr>nc_KubeDir = ''/k'', nc_KubernetesVersion = [], nc_ClusterDomain = [], nc_rest = []\<rparr>\<rparr>"

section \<open>Properties\<close>


definition sample_config_owner :: ConfigOwner where
  "sample_config_owner = \<lparr>co_Kind = ''Machine'', co_Namespace = ''ns'', co_ClusterName = ''c'', co_DataSecretName = None,
     co_IsControlPlaneMachine = False, co_IsInfrastructureReady = False, co_convert = (\<lambda>_. Inr None)\<rparr>"

definition ready_bootstrapper :: "Machine list bootstrapper" where
  "ready_bootstrapper = sample_bootstrapper\<lparr>
     b_codec := \<lparr>Unmarshal = (\<lambda>_. Inr (WorkerObj (sample_wc\<lparr>wc_BootstrapToken := ''a.b'',
        wc_ControlPlaneEndpoint := \<lparr>ep_Host = ''h'', ep_Port = 1\<rparr>\<rparr>))), Marshal = (\<lambda>_. Inr ''cfg'')\<rparr>,
     getConfig := (\<lambda>_ w. (Inr sample_config, w)),
     getConfigOwner := (\<lambda>_ w. (Inr (Some sample_config_owner), w)),
     getClusterByName := (\<lambda>_ _ w. (Inr (sample_cluster\<lparr>cl_InfrastructureReady := True, cl_ControlPlaneInitialized := True\<rparr>), w))\<rparr>"


text \<open>
  C32: a worker gets the certificate of the cluster's authority and never its key. With the
  certificates the reconciler looks up, the cloud-config of a worker is rendered from its own files,
  the node configuration, and one more file: the authority's certificate.
\<close>

theorem worker_gets_no_key:
  assumes "run_state (reconcileWorkerCertificates r cluster cfg) s = (Inr certs, s')"
    and "Marshal (b_codec r) (WorkerObj cfg) = Inr data"
  shows "\<exists>kp. map cert_KeyPair certs = [Some kp] \<and> kp_Key kp \<noteq> [] \<and>
    reconcileWorkerCloudConfig r config cfg certs = Write (b_quote r) (cloud_config config data
      [\<lparr>file_Path = path_Join [path_Join [nc_KubeDir (wc_NodeConfiguration cfg), ''pki''], ''ca.crt''],
        file_Owner = ''root:root'', file_Permissions = ''0640'', file_Encoding = [], file_Content = kp_Cert kp\<rparr>])"
proof -
  obtain kp where kp: "kp_Cert kp \<noteq> []" "kp_Key kp \<noteq> []"
    "certs = [(new_cert ClusterCA (path_Join [path_Join [nc_KubeDir (wc_NodeConfiguration cfg), ''pki''], ''ca.crt'']) [])
      \<lparr>cert_KeyPair := Some kp\<rparr>]"
    using reconcileWorkerCertificates_run [OF assms(1)] .
  with assms(2) show ?thesis
    by (simp add: reconcileWorkerCloudConfig_def new_cert_def cert_AsFiles_def ca_crt_suffix no_key_file)
qed

theorem worker_gets_no_key_witness:
  "\<exists>certs kp. map cert_KeyPair certs = [Some kp] \<and> kp_Key kp = ''K'' \<and>
     reconcileWorkerCloudConfig sample_bootstrapper sample_config sample_wc certs =
       Write (\<lambda>_. []) (cloud_config sample_config ''cfg'' [\<lparr>file_Path = path_Join [path_Join [''/k'', ''pki''], ''ca.crt''],
        file_Owner = ''root:root'', file_Permissions = ''0640'', file_Encoding = [], file_Content = ''C''\<rparr>])"
proof -
  obtain certs s' where run: "run_state (reconcileWorkerCertificates sample_bootstrapper sample_cluster sample_wc)
      \<lparr>world = [], trace = []\<rparr> = (Inr certs, s')" and c: "map cert_KeyPair certs = [Some \<lparr>kp_Cert = ''C'', kp_Key = ''K''\<rparr>]"
    by (simp add: reconcileWorkerCertificates_def sample_bootstrapper_def run_simps Let_def NewCertificatesForWorker_def
        new_cert_def secretToKeyPair_def TLSCrtDataName_def TLSKeyDataName_def)
  have m: "Marshal (b_codec sample_bootstrapper) (WorkerObj sample_wc) = Inr ''cfg''"
    and q: "b_quote sample_bootstrapper = (\<lambda>_. [])" by (simp_all add: sample_bootstrapper_def)
  have d: "nc_KubeDir (wc_NodeConfiguration sample_wc) = ''/k''" by (simp add: sample_wc_def)
  from worker_gets_no_key [OF run m, of sample_config] c show ?thesis
    unfolding q d by (intro exI [of _ certs] exI [of _ "\<lparr>kp_Cert = ''C'', kp_Key = ''K''\<rparr>"]) auto
qed

text \<open>
  C35: the node configuration arrives. The cloud-config of a control plane node is rendered from a
  set of files that holds the serialized node configuration at the path \<^verbatim>\<open>crit up\<close> is given, in an
  encoding that reads back to it.
\<close>

theorem node_configuration_arrives:
  assumes "reconcileControlPlaneCloudConfig r config cfg certs = Inr doc"
  shows "\<exists>data files f. Marshal (b_codec r) (ControlPlaneObj cfg) = Inr data \<and> AsFiles certs = Inr files \<and>
    Write (b_quote r) (cloud_config config data files) = Inr doc \<and> f \<in> set (ci_Files (cloud_config config data files)) \<and>
    file_Path f = ''/var/lib/crit/config.yaml'' \<and> file_Encoding f = ''base64'' \<and> DecodeString (file_Content f) = Some data"
proof -
  obtain data files where df: "Marshal (b_codec r) (ControlPlaneObj cfg) = Inr data" "AsFiles certs = Inr files"
    "Write (b_quote r) (cloud_config config data files) = Inr doc"
    using assms by (auto simp: reconcileControlPlaneCloudConfig_def split: sum.splits)
  let ?f = "\<lparr>file_Path = ''/var/lib/crit/config.yaml'', file_Owner = ''root:root'',
       file_Permissions = ''0640'', file_Encoding = ''base64'', file_Content = EncodeToString data\<rparr>"
  have "?f \<in> set (ci_Files (cloud_config config data files))" by (simp add: cloud_config_def)
  with df show ?thesis
    by (intro exI [of _ data] exI [of _ files] exI [of _ ?f]) (simp add: decode_encode)
qed

theorem node_configuration_arrives_witness:
  "\<exists>doc (f :: File). reconcileControlPlaneCloudConfig sample_bootstrapper sample_config sample_cfg [] = Inr doc \<and>
     DecodeString (file_Content f) = Some ''cfg''"
proof -
  obtain doc where doc: "reconcileControlPlaneCloudConfig sample_bootstrapper sample_config sample_cfg [] = Inr doc"
    by (simp add: reconcileControlPlaneCloudConfig_def sample_bootstrapper_def AsFiles_def Write_def)
  have "Marshal (b_codec sample_bootstrapper) x = Inr ''cfg''" for x by (simp add: sample_bootstrapper_def)
  with node_configuration_arrives [OF doc] have "\<exists>f :: File. DecodeString (file_Content f) = Some ''cfg''"
    by auto
  with doc show ?thesis by blast
qed

text \<open>
  Completing a control plane configuration only fills gaps, and once is enough. A name, subnet
  or version that is set is kept, no alternative name is dropped, and completing the result again
  changes nothing, provided that the two packages agree on when an endpoint is unset.
\<close>

theorem completion_fills_gaps:
  assumes "\<forall>e. CritEndpointIsZero r e = EndpointIsZero (b_lib r) e"
  shows "complete_control_plane r cluster v (complete_control_plane r cluster v cfg) = complete_control_plane r cluster v cfg \<and>
    (cpc_ClusterName cfg \<noteq> [] \<longrightarrow> cpc_ClusterName (complete_control_plane r cluster v cfg) = cpc_ClusterName cfg) \<and>
    (cpc_ServiceSubnet cfg \<noteq> [] \<longrightarrow> cpc_ServiceSubnet (complete_control_plane r cluster v cfg) = cpc_ServiceSubnet cfg) \<and>
    (cpc_PodSubnet cfg \<noteq> [] \<longrightarrow> cpc_PodSubnet (complete_control_plane r cluster v cfg) = cpc_PodSubnet cfg) \<and>
    set (cpc_ExtraSANs cfg) \<subseteq> set (cpc_ExtraSANs (complete_control_plane r cluster v cfg))"
proof -
  note f = complete_control_plane_fields [of r cluster v]
  have "complete_control_plane r cluster v (complete_control_plane r cluster v cfg) = complete_control_plane r cluster v cfg"
    by (rule ControlPlaneConfiguration.equality)
      (auto simp: f assms fill_commute [symmetric] split: option.split)
  then show ?thesis by (auto simp: f fill_subnet_def split: option.split)
qed

theorem completion_fills_gaps_witness:
  "complete_control_plane sample_bootstrapper sample_cluster None
     (complete_control_plane sample_bootstrapper sample_cluster None sample_cfg) =
   complete_control_plane sample_bootstrapper sample_cluster None sample_cfg"
proof -
  have "\<forall>e. CritEndpointIsZero sample_bootstrapper e = EndpointIsZero (b_lib sample_bootstrapper) e"
    by (simp add: sample_bootstrapper_def)
  from completion_fills_gaps [OF this] show ?thesis by blast
qed

text \<open>
  Refreshing a token changes its expiration and nothing else: when it returns no error it has
  read the token's secret and updated it with the same metadata, type and data under every other
  key.
\<close>

theorem refresh_only_expiration:
  assumes "run_state (refreshToken r c token) s = (None, s')"
  shows "\<exists>key old new. trace s' = trace s @ [RemoteGetSecret c key, RemoteUpdateSecret c new] \<and>
    fst (remoteGetSecret r c key (world s)) = Inr old \<and>
    s_meta new = s_meta old \<and> s_Type new = s_Type old \<and>
    (\<forall>k. k \<noteq> BootstrapTokenExpirationKey r \<longrightarrow> map_of (the (s_Data new)) k = map_of (the (s_Data old)) k)"
  using assms
  by (auto simp: refreshToken_def Let_def run_simps split: if_splits sum.splits option.splits prod.splits)

theorem refresh_only_expiration_witness:
  "\<exists>key new. trace (snd (run_state (refreshToken sample_bootstrapper ''kc'' ''a.b'') \<lparr>world = [], trace = []\<rparr>)) =
     [RemoteGetSecret ''kc'' key, RemoteUpdateSecret ''kc'' new] \<and> map_of (the (s_Data new)) ''t'' = Some ''id''"
proof -
  obtain s' where run: "run_state (refreshToken sample_bootstrapper ''kc'' ''a.b'') \<lparr>world = [], trace = []\<rparr> = (None, s')"
    by (simp add: refreshToken_def run_simps Let_def sample_bootstrapper_def)
  have "remoteGetSecret sample_bootstrapper = (\<lambda>_ _ w. (Inr \<lparr>s_meta = sample_meta ''s'', s_Type = [],
      s_Data = Some [(''x'', ''old''), (''t'', ''id'')]\<rparr>, w))" "BootstrapTokenExpirationKey sample_bootstrapper = ''x''"
    by (simp_all add: sample_bootstrapper_def)
  with refresh_only_expiration [OF run] run show ?thesis by auto
qed

text \<open>
  What is saved. A reconciliation that reaches its body saves the config exactly when the body
  returns no error (or panics): after an error nothing is patched, so a bootstrap token made before
  the error is not recorded.
\<close>

theorem config_saved_on_success:
  assumes "run_state (bootstrap_body r config owner cluster) s = (((res, err), config'), s1)"
  shows "trace (snd (run_state (do { (out, config') \<leftarrow> bootstrap_body r config owner cluster;
      bootstrap_deferred r config config' out }) s)) =
    trace s1 @ (case err of None \<Rightarrow> [PatchConfig config'] | Some (Panic _) \<Rightarrow> [PatchConfig config'] | Some _ \<Rightarrow> [])"
  using assms by (auto simp: bootstrap_deferred_def run_simps split: option.split goerror.split prod.split)

theorem config_saved_on_success_witness:
  "trace (snd (run_state (do { (out, config') \<leftarrow> bootstrap_body sample_bootstrapper sample_config
      \<lparr>co_Kind = ''Machine'', co_Namespace = [], co_ClusterName = [], co_DataSecretName = None, co_IsControlPlaneMachine = True,
        co_IsInfrastructureReady = False, co_convert = (\<lambda>_. Inr None)\<rparr> sample_cluster;
      bootstrap_deferred sample_bootstrapper sample_config config' out }) \<lparr>world = [], trace = []\<rparr>)) = []"
proof -
  let ?o = "\<lparr>co_Kind = ''Machine'', co_Namespace = [], co_ClusterName = [], co_DataSecretName = None, co_IsControlPlaneMachine = True,
        co_IsInfrastructureReady = False, co_convert = (\<lambda>_. Inr None)\<rparr>"
  have "run_state (bootstrap_body sample_bootstrapper sample_config ?o sample_cluster) \<lparr>world = [], trace = []\<rparr> =
      (((no_requeue, Some (NewError ''Config contained invalid configuration kind'')), sample_config), \<lparr>world = [], trace = []\<rparr>)"
    by (simp add: bootstrap_body_def sample_bootstrapper_def)
  from config_saved_on_success [OF this] show ?thesis by simp
qed

text \<open>
  If the secret with the bootstrap data exists already, storing it returns no error and leaves
  the config as it was: not ready, and without the name of the secret.
\<close>

theorem existing_secret_leaves_unready:
  assumes "\<And>sec w. fst (createSecret (b_Client r) sec w) = Some err" and "IsAlreadyExists (b_lib r) err"
  shows "fst (run_state (storeBootstrapData r config cluster data) s) = (None, config)"
  using assms(1) assms(2)
  by (simp add: storeBootstrapData_def Let_def run_simps case_prod_beta)

theorem existing_secret_leaves_unready_witness:
  "\<exists>(r :: Machine list bootstrapper). fst (run_state (storeBootstrapData r sample_config sample_cluster ''d'') \<lparr>world = [], trace = []\<rparr>) =
     (None, sample_config) \<and> \<not> cfgst_Ready (cfg_Status sample_config)"
proof -
  let ?r = "sample_bootstrapper\<lparr>b_Client := sample_client\<lparr>createSecret := (\<lambda>_ w. (Some (ExtError ''AlreadyExists''), w))\<rparr>\<rparr>"
  have "fst (run_state (storeBootstrapData ?r sample_config sample_cluster ''d'') \<lparr>world = [], trace = []\<rparr>) = (None, sample_config)"
    by (rule existing_secret_leaves_unready) (simp_all add: sample_bootstrapper_def)
  then show ?thesis by (auto simp: sample_config_def)
qed

text \<open>
  An event of a machine whose config reference names the right group and kind in another version
  of the API is dropped, while the events of its cluster reach the same config.
\<close>

theorem machine_event_version_sensitive:
  assumes "m_ConfigRef m = Some ref" and "gvk ref = (fst bootstrap_GroupVersion, v, ''CritConfig'')"
    and "v \<noteq> snd bootstrap_GroupVersion"
  shows "MachineToBootstrapMapFunc gvk (Some m) = [] \<and>
    config_requests gvk [m] = [\<lparr>key_Namespace = Namespace (m_meta m), key_Name = ref_Name ref\<rparr>]"
  using assms by (simp add: MachineToBootstrapMapFunc_def is_crit_config_def)

theorem machine_event_version_sensitive_witness:
  "\<exists>gvk. MachineToBootstrapMapFunc gvk (Some ((sample_machine ''m'' None 1)\<lparr>m_ConfigRef := Some sample_ref\<rparr>)) = []"
proof -
  have "MachineToBootstrapMapFunc (\<lambda>_. (fst bootstrap_GroupVersion, ''v1alpha1'', ''CritConfig''))
      (Some ((sample_machine ''m'' None 1)\<lparr>m_ConfigRef := Some sample_ref\<rparr>)) = []"
    using machine_event_version_sensitive [of "(sample_machine ''m'' None 1)\<lparr>m_ConfigRef := Some sample_ref\<rparr>" sample_ref
        "\<lambda>_. (fst bootstrap_GroupVersion, ''v1alpha1'', ''CritConfig'')" "''v1alpha1''"]
    by (simp add: bootstrap_GroupVersion_def)
  then show ?thesis by blast
qed

end
