(* ===== verification/Secrets_Kept.thy ===== *)
theory Secrets_Kept
  imports Ccp_Controller Bootstrap_Controller
begin

text \<open>
  The secrets of the management cluster under both controllers. Certificates, kubeconfigs and bootstrap data are kept
  in secrets that other parties rely on; neither controller may replace one that is there. The model of the
  effects says which functions of the API client a program calls, so this is a property of the programs: they create
  secrets and never update them.
\<close>

section \<open>Programs that keep what is stored\<close>

text \<open>\<open>keeps sel m\<close>: every secret there before a run of \<open>m\<close> is there unchanged afterwards, from every state.\<close>

definition keeps :: "('w \<Rightarrow> 'k \<Rightarrow> 'v option) \<Rightarrow> ('w, 'e, 'a) io \<Rightarrow> bool" where
  "keeps sel m \<longleftrightarrow> (\<forall>s. sel (world s) \<subseteq>\<^sub>m sel (world (snd (run_state m s))))"

named_theorems keeps_intros

lemma keeps_return [keeps_intros]: "keeps sel (State_Monad.return x)"
  by (simp add: keeps_def)

lemma keeps_bind [keeps_intros]:
  assumes "keeps sel m" and "\<And>x. keeps sel (f x)"
  shows "keeps sel (State_Monad.bind m f)"
  unfolding keeps_def
proof
  fix s
  obtain x s' where m: "run_state m s = (x, s')" by fastforce
  then have "sel (world s) \<subseteq>\<^sub>m sel (world s')" using assms(1) unfolding keeps_def by (metis snd_conv)
  also have "\<dots> \<subseteq>\<^sub>m sel (world (snd (run_state (f x) s')))" using assms(2) unfolding keeps_def by blast
  finally show "sel (world s) \<subseteq>\<^sub>m sel (world (snd (run_state (State_Monad.bind m f) s)))" using m by simp
qed

lemma keeps_extern [keeps_intros]: "(\<And>w. sel w \<subseteq>\<^sub>m sel (snd (f w))) \<Longrightarrow> keeps sel (extern f)"
  by (simp add: keeps_def run_extern case_prod_beta)

lemma keeps_call [keeps_intros]: "(\<And>w. sel w \<subseteq>\<^sub>m sel (snd (f w))) \<Longrightarrow> keeps sel (call e f)"
  by (simp add: keeps_def run_call case_prod_beta)

lemma keeps_note_event [keeps_intros]: "keeps sel (note_event e)"
  by (simp add: keeps_def run_note_event)

lemma keeps_if [keeps_intros]: "keeps sel m \<Longrightarrow> keeps sel n \<Longrightarrow> keeps sel (if b then m else n)"
  by simp

lemma keeps_case_sum [keeps_intros]:
  "(\<And>e. keeps sel (f e)) \<Longrightarrow> (\<And>x. keeps sel (g x)) \<Longrightarrow> keeps sel (case r of Inl e \<Rightarrow> f e | Inr x \<Rightarrow> g x)"
  by (cases r) auto

lemma keeps_case_option [keeps_intros]:
  "keeps sel m \<Longrightarrow> (\<And>x. keeps sel (f x)) \<Longrightarrow> keeps sel (case r of None \<Rightarrow> m | Some x \<Rightarrow> f x)"
  by (cases r) auto

lemma keeps_case_prod [keeps_intros]: "(\<And>x y. keeps sel (f x y)) \<Longrightarrow> keeps sel (case p of (x, y) \<Rightarrow> f x y)"
  by (cases p) auto

lemma keeps_case_object [keeps_intros]:
  "(\<And>c. keeps sel (f c)) \<Longrightarrow> (\<And>c. keeps sel (g c)) \<Longrightarrow> (\<And>k. keeps sel (h k)) \<Longrightarrow>
   keeps sel (case obj of ControlPlaneObj c \<Rightarrow> f c | WorkerObj c \<Rightarrow> g c | OtherObj k \<Rightarrow> h k)"
  by (cases obj) auto

lemma keeps_for_each [keeps_intros]: "(\<And>x. keeps sel (f x)) \<Longrightarrow> keeps sel (for_each f xs)"
  by (induction xs) (auto intro!: keeps_intros)

lemma keeps_for_all [keeps_intros]: "(\<And>x. keeps sel (f x)) \<Longrightarrow> keeps sel (for_all f xs)"
  by (induction xs) (auto intro!: keeps_intros)

section \<open>What the API server promises\<close>

text \<open>
  Reading changes nothing, creating an object does not replace another one, and calls about other kinds of
  objects do not touch secrets. Nothing is said about updating a secret.
\<close>

definition client_keeps :: "('w \<Rightarrow> ObjectKey \<Rightarrow> Secret option) \<Rightarrow> 'w client \<Rightarrow> bool" where
  "client_keeps sel C \<longleftrightarrow>
     (\<forall>k w. sel w \<subseteq>\<^sub>m sel (snd (getCCP C k w))) \<and> (\<forall>m w. sel w \<subseteq>\<^sub>m sel (snd (getOwnerCluster C m w))) \<and>
     (\<forall>m w. sel w \<subseteq>\<^sub>m sel (snd (newPatchHelper C m w))) \<and> (\<forall>a b w. sel w \<subseteq>\<^sub>m sel (snd (patchCCP C a b w))) \<and>
     (\<forall>n l w. sel w \<subseteq>\<^sub>m sel (snd (listMachines C n l w))) \<and> (\<forall>m w. sel w \<subseteq>\<^sub>m sel (snd (updateMachine C m w))) \<and>
     (\<forall>m w. sel w \<subseteq>\<^sub>m sel (snd (createMachine C m w))) \<and> (\<forall>m w. sel w \<subseteq>\<^sub>m sel (snd (deleteMachine C m w))) \<and>
     (\<forall>c w. sel w \<subseteq>\<^sub>m sel (snd (createConfig C c w))) \<and> (\<forall>i w. sel w \<subseteq>\<^sub>m sel (snd (cloneTemplate C i w))) \<and>
     (\<forall>x w. sel w \<subseteq>\<^sub>m sel (snd (deleteObject C x w))) \<and> (\<forall>n w. sel w \<subseteq>\<^sub>m sel (snd (generateName C n w))) \<and>
     (\<forall>x n w. sel w \<subseteq>\<^sub>m sel (snd (getExternal C x n w))) \<and> (\<forall>a b w. sel w \<subseteq>\<^sub>m sel (snd (patchExternal C a b w))) \<and>
     (\<forall>k w. sel w \<subseteq>\<^sub>m sel (snd (getSecret C k w))) \<and> (\<forall>x w. sel w \<subseteq>\<^sub>m sel (snd (createSecret C x w)))"

definition remote_keeps :: "('w \<Rightarrow> ObjectKey \<Rightarrow> Secret option) \<Rightarrow> 'w remote \<Rightarrow> bool" where
  "remote_keeps sel M \<longleftrightarrow>
     (\<forall>k w. sel w \<subseteq>\<^sub>m sel (snd (getKubeconfig M k w))) \<and>
     (\<forall>k e o' w. sel w \<subseteq>\<^sub>m sel (snd (createKubeconfig M k e o' w))) \<and>
     (\<forall>c w. sel w \<subseteq>\<^sub>m sel (snd (newClient M c w))) \<and> (\<forall>c l w. sel w \<subseteq>\<^sub>m sel (snd (listNodes M c l w))) \<and>
     (\<forall>c k w. sel w \<subseteq>\<^sub>m sel (snd (getPod M c k w))) \<and> (\<forall>c k w. sel w \<subseteq>\<^sub>m sel (snd (getConfigMap M c k w)))"

definition crypto_keeps :: "('w \<Rightarrow> ObjectKey \<Rightarrow> Secret option) \<Rightarrow> 'w crypto \<Rightarrow> bool" where
  "crypto_keeps sel K \<longleftrightarrow>
     (\<forall>w. sel w \<subseteq>\<^sub>m sel (snd (NewPrivateKey K w))) \<and> (\<forall>w. sel w \<subseteq>\<^sub>m sel (snd (time_Now K w))) \<and>
     (\<forall>t p pub key w. sel w \<subseteq>\<^sub>m sel (snd (CreateCertificate K t p pub key w)))"

definition reconciler_keeps :: "('w \<Rightarrow> ObjectKey \<Rightarrow> Secret option) \<Rightarrow> 'w reconciler \<Rightarrow> bool" where
  "reconciler_keeps sel r \<longleftrightarrow> client_keeps sel (r_Client r) \<and> remote_keeps sel (r_remote r) \<and> crypto_keeps sel (r_crypto r)"

definition bootstrapper_keeps :: "('w \<Rightarrow> ObjectKey \<Rightarrow> Secret option) \<Rightarrow> 'w bootstrapper \<Rightarrow> bool" where
  "bootstrapper_keeps sel r \<longleftrightarrow>
     client_keeps sel (b_Client r) \<and> remote_keeps sel (b_remote r) \<and> crypto_keeps sel (b_crypto r) \<and>
     (\<forall>k w. sel w \<subseteq>\<^sub>m sel (snd (getConfig r k w))) \<and> (\<forall>c w. sel w \<subseteq>\<^sub>m sel (snd (getConfigOwner r c w))) \<and>
     (\<forall>n m w. sel w \<subseteq>\<^sub>m sel (snd (getClusterByName r n m w))) \<and>
     (\<forall>c w. sel w \<subseteq>\<^sub>m sel (snd (newConfigPatchHelper r c w))) \<and> (\<forall>a b w. sel w \<subseteq>\<^sub>m sel (snd (patchConfig r a b w))) \<and>
     (\<forall>c k w. sel w \<subseteq>\<^sub>m sel (snd (remoteGetSecret r c k w))) \<and> (\<forall>c x w. sel w \<subseteq>\<^sub>m sel (snd (remoteCreateSecret r c x w))) \<and>
     (\<forall>c x w. sel w \<subseteq>\<^sub>m sel (snd (remoteUpdateSecret r c x w))) \<and> (\<forall>w. sel w \<subseteq>\<^sub>m sel (snd (GenerateBootstrapToken r w)))"

lemmas keeps_laws = client_keeps_def remote_keeps_def crypto_keeps_def reconciler_keeps_def bootstrapper_keeps_def

section \<open>Certificates\<close>

lemma keeps_Lookup: "client_keeps sel C \<Longrightarrow> keeps sel (Lookup L C cn c)"
  by (induction c) (auto simp: Let_def keeps_laws intro!: keeps_intros)

lemma keeps_LookupOrGenerate:
  assumes "client_keeps sel C" and "crypto_keeps sel K"
  shows "keeps sel (LookupOrGenerate L C K cn owner c)"
proof -
  have ca: "keeps sel (generateCACert K)" "keeps sel (generateServiceAccountKeys K)"
    unfolding generateCACert_def generateServiceAccountKeys_def newCertificateAuthority_def newSelfSignedCACert_def Let_def
    by (intro keeps_intros; use assms(2) in \<open>simp add: keeps_laws\<close>)+
  have gen: "keeps sel (Generate K c)" for c
    by (induction c) (auto intro!: keeps_intros ca)
  have sv: "keeps sel (SaveGenerated L C cn owner c)" for c
    unfolding SaveGenerated_def save_one_def
    by (intro keeps_intros; use assms(1) in \<open>simp add: keeps_laws\<close>)
  show "keeps sel (LookupOrGenerate L C K cn owner c)"
    unfolding LookupOrGenerate_def by (intro keeps_intros keeps_Lookup gen sv assms)
qed

section \<open>The workload cluster\<close>

lemma keeps_GetMachinesForCluster: "client_keeps sel C \<Longrightarrow> keeps sel (GetMachinesForCluster L C k fs)"
  unfolding GetMachinesForCluster_def Let_def by (intro keeps_intros) (simp add: keeps_laws)

lemma keeps_RESTConfig: "remote_keeps sel M \<Longrightarrow> keeps sel (RESTConfig M k)"
  unfolding RESTConfig_def by (intro keeps_intros) (simp add: keeps_laws)

lemma keeps_NewClusterClient: "remote_keeps sel M \<Longrightarrow> keeps sel (NewClusterClient M k)"
  unfolding NewClusterClient_def by (intro keeps_intros keeps_RESTConfig) (simp_all add: keeps_laws)

lemma keeps_cluster_status: "remote_keeps sel M \<Longrightarrow> keeps sel (cluster_status L M w)"
  unfolding cluster_status_def getControlPlaneNodes_def by (intro keeps_intros) (simp add: keeps_laws)

lemma keeps_GetWorkloadCluster:
  assumes "client_keeps sel C" and "remote_keeps sel M" and "crypto_keeps sel K"
  shows "keeps sel (GetWorkloadCluster C M K k)"
  unfolding GetWorkloadCluster_def generateClientCert_def newClientCert_def Let_def
  by (intro keeps_intros keeps_RESTConfig; use assms in \<open>simp add: keeps_laws\<close>)

lemma keeps_ControlPlaneIsHealthy:
  assumes "remote_keeps sel M"
  shows "keeps sel (ControlPlaneIsHealthy L M w)"
proof -
  have "keeps sel (check_node L M w n resp)" for n resp
    unfolding check_node_def Let_def by (intro keeps_intros; use assms in \<open>simp add: keeps_laws\<close>)
  then have "keeps sel (check_nodes L M w ns resp)" for ns resp
    by (induction ns arbitrary: resp) (auto intro!: keeps_intros)
  then show ?thesis
    unfolding ControlPlaneIsHealthy_def getControlPlaneNodes_def
    by (intro keeps_intros; use assms in \<open>simp add: keeps_laws\<close>)
qed

lemma keeps_TargetClusterControlPlaneIsHealthy:
  assumes "client_keeps sel C" and "remote_keeps sel M" and "crypto_keeps sel K"
  shows "keeps sel (TargetClusterControlPlaneIsHealthy L C M K k n)"
  unfolding TargetClusterControlPlaneIsHealthy_def healthCheck_def Let_def
  by (intro keeps_intros keeps_GetWorkloadCluster keeps_ControlPlaneIsHealthy keeps_GetMachinesForCluster assms)

section \<open>The control plane controller\<close>

lemma keeps_cloneConfigsAndGenerateMachine:
  assumes "client_keeps sel (r_Client r)"
  shows "keeps sel (cloneConfigsAndGenerateMachine r cluster ccp spec fd)"
  unfolding cloneConfigsAndGenerateMachine_def generateCritConfig_def generateMachine_def cleanupFromGeneration_def
    cleanup_ref_def Let_def
  by (intro keeps_intros; use assms in \<open>simp add: keeps_laws\<close>)

lemma keeps_reconcile_machines:
  assumes "reconciler_keeps sel r"
  shows "keeps sel (reconcile_machines r cluster ccp cp)"
proof -
  have laws: "client_keeps sel (r_Client r)" "remote_keeps sel (r_remote r)" "crypto_keeps sel (r_crypto r)"
    using assms by (simp_all add: reconciler_keeps_def)
  note clone = keeps_cloneConfigsAndGenerateMachine [OF laws(1)]
  have health: "keeps sel (reconcileHealth r cluster ccp cp)"
    unfolding reconcileHealth_def by (intro keeps_intros keeps_TargetClusterControlPlaneIsHealthy laws)
  have "keeps sel (scaleUpControlPlane r cluster ccp cp)"
    unfolding scaleUpControlPlane_def Let_def by (intro keeps_intros health clone)
  moreover have "keeps sel (scaleDownControlPlane r cluster ccp cp)"
    unfolding scaleDownControlPlane_def
    by (intro keeps_intros health keeps_TargetClusterControlPlaneIsHealthy laws)
      (use laws(1) in \<open>simp add: client_keeps_def\<close>)
  moreover have "keeps sel (initialize_machines r cluster ccp spec fds is)" for spec fds "is"
    by (induction "is") (auto intro!: keeps_intros clone)
  ultimately show ?thesis
    unfolding reconcile_machines_def upgradeControlPlane_def
    by (intro keeps_intros keeps_GetWorkloadCluster keeps_cluster_status laws)
qed

lemma keeps_EnsureOwnership: "client_keeps sel C \<Longrightarrow> keeps sel (EnsureOwnership L C cp)"
proof -
  assume "client_keeps sel C"
  then have "keeps sel (EnsureOwnership_loop L C ccp seen ms errs)" for ccp seen ms errs
    by (induction ms arbitrary: seen errs) (auto simp: Let_def client_keeps_def intro!: keeps_intros)
  then show ?thesis unfolding EnsureOwnership_def by (intro keeps_intros)
qed

lemma keeps_reconcileControlPlane:
  assumes "reconciler_keeps sel r"
  shows "keeps sel (reconcileControlPlane r cluster ccp cfg)"
proof -
  have laws: "client_keeps sel (r_Client r)" "remote_keeps sel (r_remote r)" "crypto_keeps sel (r_crypto r)"
    using assms by (simp_all add: reconciler_keeps_def)
  have "keeps sel (reconcileExternalReference r cluster ref)" for ref
    unfolding reconcileExternalReference_def Let_def
    by (intro keeps_intros; use laws in \<open>simp add: keeps_laws\<close>)
  moreover have "keeps sel (reconcileControlPlaneKubeconfig r cluster ccp)" for ccp
    unfolding reconcileControlPlaneKubeconfig_def GetFromNamespacedName_def Let_def
    by (intro keeps_intros; use laws in \<open>simp add: keeps_laws\<close>)
  ultimately show ?thesis
    unfolding reconcileControlPlane_def Let_def
    by (intro keeps_intros keeps_Lookup keeps_LookupOrGenerate keeps_GetMachinesForCluster keeps_EnsureOwnership
        keeps_reconcile_machines assms laws)
qed

lemma keeps_reconcileDelete:
  assumes "client_keeps sel (r_Client r)"
  shows "keeps sel (reconcileDelete r cluster ccp)"
  unfolding reconcileDelete_def delete_owned_def Let_def
  by (intro keeps_intros keeps_GetMachinesForCluster; use assms in \<open>simp add: keeps_laws\<close>)

lemma keeps_updateStatus:
  assumes "reconciler_keeps sel r"
  shows "keeps sel (updateStatus r ccp cluster)"
  unfolding updateStatus_def Let_def
  by (intro keeps_intros keeps_GetMachinesForCluster keeps_NewClusterClient; use assms in \<open>simp add: keeps_laws\<close>)

lemma keeps_Reconcile:
  assumes "reconciler_keeps sel r"
  shows "keeps sel (Reconcile r req)"
proof -
  have client: "client_keeps sel (r_Client r)" using assms by (simp add: reconciler_keeps_def)
  have "keeps sel (reconcile_deferred r cluster before ccp out)" for cluster before ccp out
    unfolding reconcile_deferred_def Let_def
    by (intro keeps_intros keeps_updateStatus assms) (use client in \<open>simp add: client_keeps_def\<close>)
  moreover have "keeps sel (reconcile_body r cluster ccp)" for cluster ccp
    unfolding reconcile_body_def
    by (intro keeps_intros keeps_reconcileControlPlane keeps_reconcileDelete assms client)
  ultimately show ?thesis
    unfolding Reconcile_def Let_def by (intro keeps_intros) (use client in \<open>simp_all add: client_keeps_def\<close>)
qed

section \<open>The bootstrap controller\<close>

lemma keeps_storeBootstrapData:
  "client_keeps sel (b_Client r) \<Longrightarrow> keeps sel (storeBootstrapData r config cluster data)"
  unfolding storeBootstrapData_def Let_def by (intro keeps_intros) (simp add: client_keeps_def)

lemma keeps_reconcileWorkerBootstrapToken:
  assumes "bootstrapper_keeps sel r"
  shows "keeps sel (reconcileWorkerBootstrapToken r config owner cluster cfg)"
  unfolding reconcileWorkerBootstrapToken_def createToken_def refreshToken_def Let_def
  by (intro keeps_intros keeps_NewClusterClient; use assms in \<open>simp add: keeps_laws\<close>)

lemma keeps_bootstrap_body:
  assumes "bootstrapper_keeps sel r"
  shows "keeps sel (bootstrap_body r config owner cluster)"
proof -
  have laws: "client_keeps sel (b_Client r)" "remote_keeps sel (b_remote r)" "crypto_keeps sel (b_crypto r)"
    using assms by (simp_all add: bootstrapper_keeps_def)
  note parts = keeps_Lookup keeps_LookupOrGenerate keeps_storeBootstrapData keeps_reconcileWorkerBootstrapToken laws assms
  have "keeps sel (bootstrap_reconcileControlPlane r config owner cluster cfg)" for cfg
    unfolding bootstrap_reconcileControlPlane_def reconcileControlPlaneCertificates_def
    by (intro keeps_intros parts)
  moreover have "keeps sel (reconcileWorker r config owner cluster cfg)" for cfg
    unfolding reconcileWorker_def reconcileWorkerCertificates_def by (intro keeps_intros parts)
  ultimately show ?thesis unfolding bootstrap_body_def by (intro keeps_intros)
qed

lemma keeps_bootstrap_deferred:
  assumes "bootstrapper_keeps sel r"
  shows "keeps sel (bootstrap_deferred r before config out)"
proof -
  have "keeps sel (call (PatchConfig config) (patchConfig r before config))"
    by (intro keeps_intros) (use assms in \<open>simp add: bootstrapper_keeps_def\<close>)
  then show ?thesis
    unfolding bootstrap_deferred_def by (auto intro!: keeps_intros split: option.split goerror.split)
qed

lemma keeps_bootstrap_Reconcile:
  assumes "bootstrapper_keeps sel r"
  shows "keeps sel (bootstrap_Reconcile r req)"
  unfolding bootstrap_Reconcile_def Let_def
  by (intro keeps_intros keeps_bootstrap_body keeps_bootstrap_deferred; use assms in \<open>simp add: bootstrapper_keeps_def\<close>)

section \<open>Both controllers\<close>

text \<open>A request either controller is given, and a run of both over a sequence of them, in any order.\<close>

datatype request = ControlPlaneRequest ObjectKey | ConfigRequest ObjectKey

fun serve :: "'w reconciler \<Rightarrow> 'w bootstrapper \<Rightarrow> request \<Rightarrow> ('w, action, Result \<times> goerror option) io" where
  "serve r b (ControlPlaneRequest req) = Reconcile r req"
| "serve r b (ConfigRequest req) = bootstrap_Reconcile b req"

fun serve_all ::
  "'w reconciler \<Rightarrow> 'w bootstrapper \<Rightarrow> request list \<Rightarrow> ('w, action, (Result \<times> goerror option) list) io" where
  "serve_all r b [] = State_Monad.return []"
| "serve_all r b (req # reqs) = do {
     out \<leftarrow> serve r b req;
     outs \<leftarrow> serve_all r b reqs;
     State_Monad.return (out # outs) }"

lemma keeps_serve_all:
  assumes "reconciler_keeps sel r" and "bootstrapper_keeps sel b"
  shows "keeps sel (serve_all r b reqs)"
proof (induction reqs)
  case (Cons req reqs)
  have "keeps sel (serve r b req)"
    by (cases req) (simp_all add: keeps_Reconcile keeps_bootstrap_Reconcile assms)
  with Cons show ?case by (auto intro!: keeps_intros)
qed (auto intro!: keeps_intros)

text \<open>A management cluster of which only the secrets are kept, and the two controllers on it.\<close>

definition store_remote :: "(ObjectKey \<Rightarrow> Secret option) remote" where
  "store_remote = \<lparr>
     getKubeconfig = (\<lambda>_ w. (Inr ''kc'', w)), createKubeconfig = (\<lambda>_ _ _ w. (None, w)),
     restConfigFromKubeConfig = (\<lambda>k. Inr \<lparr>rc_Config = k, rc_Timeout = 0\<rparr>), newClient = (\<lambda>r w. (Inr (rc_Config r), w)),
     listNodes = (\<lambda>_ _ w. (Inr [], w)), getPod = (\<lambda>_ k w. (Inl (ExtError ''NotFound''), w)),
     getConfigMap = (\<lambda>_ _ w. (None, w)),
     ErrDependentCertificateNotFound = ExtError ''DependentCertificateNotFound''\<rparr>"

definition store_client :: "(ObjectKey \<Rightarrow> Secret option) client" where
  "store_client = secret_client\<lparr>getCCP := (\<lambda>_ w. (Inr (sample_ccp 1), w)),
     getOwnerCluster := (\<lambda>_ w. (Inr (Some sample_cluster), w))\<rparr>"

definition store_reconciler :: "(ObjectKey \<Rightarrow> Secret option) reconciler" where
  "store_reconciler = \<lparr>r_lib = sample_lib, r_Client = store_client, r_remote = store_remote,
     r_crypto = sample_crypto, r_codec = sample_codec\<rparr>"

definition store_bootstrapper :: "(ObjectKey \<Rightarrow> Secret option) bootstrapper" where
  "store_bootstrapper = \<lparr>
     b_lib = sample_lib, b_Client = store_client, b_remote = store_remote, b_crypto = sample_crypto,
     b_codec = \<lparr>Unmarshal = (\<lambda>_. Inr (ControlPlaneObj sample_cfg)), Marshal = (\<lambda>_. Inr ''cfg'')\<rparr>, b_quote = (\<lambda>_. []),
     getConfig = (\<lambda>_ w. (Inr sample_config, w)),
     getConfigOwner = (\<lambda>_ w. (Inr (Some \<lparr>co_Kind = ''Machine'', co_Namespace = ''ns'', co_ClusterName = ''c'',
       co_DataSecretName = None, co_IsControlPlaneMachine = True, co_IsInfrastructureReady = False,
       co_convert = (\<lambda>_. Inr None)\<rparr>), w)),
     getClusterByName = (\<lambda>_ _ w. (Inr sample_cluster, w)), ErrNoCluster = ExtError ''NoCluster'',
     newConfigPatchHelper = (\<lambda>_ w. (None, w)), patchConfig = (\<lambda>_ _ w. (None, w)),
     remoteGetSecret = (\<lambda>_ _ w. (Inl (ExtError ''NotFound''), w)),
     remoteCreateSecret = (\<lambda>_ _ w. (None, w)), remoteUpdateSecret = (\<lambda>_ _ w. (None, w)),
     GenerateBootstrapToken = (\<lambda>w. (Inr ''a.b'', w)), FindStringSubmatch = (\<lambda>t. [t, ''a'', ''b'']),
     BootstrapTokenSecretName = (\<lambda>t. ''bootstrap-token-'' @ t), SecretTypeBootstrapToken = ''T'',
     BootstrapTokenIDKey = ''i'', BootstrapTokenSecretKey = ''s'', BootstrapTokenExpirationKey = ''x'',
     BootstrapTokenUsageSigningKey = ''u'', BootstrapTokenUsageAuthentication = ''a'',
     BootstrapTokenExtraGroupsKey = ''g'', BootstrapTokenDescriptionKey = ''d'',
     formatRFC3339 = (\<lambda>_. ''new''), CritEndpointIsZero = (\<lambda>e. ep_Host e = [] \<and> ep_Port e = 0)\<rparr>"

lemma store_client_keeps: "client_keeps (\<lambda>w. w) store_client"
  by (auto simp: client_keeps_def store_client_def secret_client_def blank_client_def map_le_def)

lemma store_remote_keeps: "remote_keeps (\<lambda>w. w) store_remote"
  by (simp add: remote_keeps_def store_remote_def)

lemma store_crypto_keeps: "crypto_keeps (\<lambda>w. w) sample_crypto"
  by (simp add: crypto_keeps_def)



end
