(* ===== verification/Config_Conversion.thy ===== *)
theory Config_Conversion
  imports Api_Types
begin

text \<open>
  \<^verbatim>\<open>src/apis/bootstrap/v1alpha1/\<close>: the types of the older API version and their conversion to and from
  the stored version, \<^verbatim>\<open>v1alpha2\<close>. A conversion function of the source writes through a pointer
  \<^verbatim>\<open>out\<close>, some fields of which it may leave as they are and which it may leave half written when it
  fails. Here it takes the old value of \<^verbatim>\<open>out\<close> and returns the error, if any, beside the new one.

  The older version holds the node configurations as typed objects of the \<^verbatim>\<open>crit\<close> package, the newer
  one as a string; those types, their serialization and their conversion are parameters.
\<close>

section \<open>The older types\<close>

record File_v1alpha1 =
  f1_Path :: string
  f1_Owner :: string
  f1_Permissions :: string
  f1_Encoding :: string
  f1_Content :: string

record User_v1alpha1 =
  u1_Name :: string
  u1_Gecos :: "string option"
  u1_Groups :: "string option"
  u1_HomeDir :: "string option"
  u1_Inactive :: "bool option"
  u1_Shell :: "string option"
  u1_Passwd :: "string option"
  u1_PrimaryGroup :: "string option"
  u1_LockPassword :: "bool option"
  u1_Sudo :: "string option"
  u1_SSHAuthorizedKeys :: "string list"

record NTP_v1alpha1 =
  n1_Servers :: "string list"
  n1_Enabled :: "bool option"

record ('c, 'k) CritConfigSpec_v1alpha1 =
  s1_ControlPlaneConfiguration :: "'c option"
  s1_WorkerConfiguration :: "'k option"
  s1_Files :: "File_v1alpha1 list"
  s1_PreCritCommands :: "string list"
  s1_PostCritCommands :: "string list"
  s1_Users :: "User_v1alpha1 list"
  s1_NTP :: "NTP_v1alpha1 option"
  s1_Format :: string
  s1_Verbosity :: bool

record CritConfigStatus_v1alpha1 =
  st1_Ready :: bool
  st1_DataSecretName :: "string option"
  st1_FailureReason :: string
  st1_FailureMessage :: string

record ('c, 'k) CritConfig_v1alpha1 =
  c1_meta :: ObjectMeta
  c1_Spec :: "('c, 'k) CritConfigSpec_v1alpha1"
  c1_Status :: CritConfigStatus_v1alpha1

text \<open>A list object: the metadata of the list, which the code only copies, and the items, a slice that may be nil.\<close>

record 'a ItemList =
  ListMeta :: string
  Items :: "'a list option"

text \<open>\<^verbatim>\<open>CritConfigTemplate\<close>: the wrappers \<^verbatim>\<open>CritConfigTemplateSpec\<close> and \<^verbatim>\<open>CritConfigTemplateResource\<close> have one field each.\<close>

record 's CritConfigTemplateResource = tr_Spec :: 's
record 's CritConfigTemplateSpec = ts_Template :: "'s CritConfigTemplateResource"
record 's CritConfigTemplate =
  t_meta :: ObjectMeta
  t_Spec :: "'s CritConfigTemplateSpec"

section \<open>What the conversion calls\<close>

record ('c, 'k) crit_yaml =
  MarshalToYaml :: "'c + 'k \<Rightarrow> goerror + string"
  UnmarshalFromYaml :: "string \<Rightarrow> goerror + crit_object"
  Convert_ControlPlaneConfiguration :: "ControlPlaneConfiguration \<Rightarrow> 'c \<Rightarrow> goerror option \<times> 'c"
  Convert_WorkerConfiguration :: "WorkerConfiguration \<Rightarrow> 'k \<Rightarrow> goerror option \<times> 'k"
  zero_ControlPlaneConfiguration :: 'c
  zero_WorkerConfiguration :: 'k

section \<open>Parts of a configuration\<close>

definition autoConvert_v1alpha1_File_To_v1alpha2_File :: "File_v1alpha1 \<Rightarrow> File \<Rightarrow> goerror option \<times> File" where
  "autoConvert_v1alpha1_File_To_v1alpha2_File in' out = (None, out\<lparr>
     file_Path := f1_Path in', file_Owner := f1_Owner in', file_Permissions := f1_Permissions in',
     file_Encoding := f1_Encoding in', file_Content := f1_Content in'\<rparr>)"

definition Convert_v1alpha1_File_To_v1alpha2_File ::
  "File_v1alpha1 \<Rightarrow> File \<Rightarrow> goerror option \<times> File" where
  "Convert_v1alpha1_File_To_v1alpha2_File = autoConvert_v1alpha1_File_To_v1alpha2_File"

definition autoConvert_v1alpha2_File_To_v1alpha1_File :: "File \<Rightarrow> File_v1alpha1 \<Rightarrow> goerror option \<times> File_v1alpha1" where
  "autoConvert_v1alpha2_File_To_v1alpha1_File in' out = (None, out\<lparr>
     f1_Path := file_Path in', f1_Owner := file_Owner in', f1_Permissions := file_Permissions in',
     f1_Encoding := file_Encoding in', f1_Content := file_Content in'\<rparr>)"

definition Convert_v1alpha2_File_To_v1alpha1_File ::
  "File \<Rightarrow> File_v1alpha1 \<Rightarrow> goerror option \<times> File_v1alpha1" where
  "Convert_v1alpha2_File_To_v1alpha1_File = autoConvert_v1alpha2_File_To_v1alpha1_File"

definition autoConvert_v1alpha1_NTP_To_v1alpha2_NTP :: "NTP_v1alpha1 \<Rightarrow> NTP \<Rightarrow> goerror option \<times> NTP" where
  "autoConvert_v1alpha1_NTP_To_v1alpha2_NTP in' out =
     (None, out\<lparr>ntp_Servers := n1_Servers in', ntp_Enabled := n1_Enabled in'\<rparr>)"

definition Convert_v1alpha1_NTP_To_v1alpha2_NTP ::
  "NTP_v1alpha1 \<Rightarrow> NTP \<Rightarrow> goerror option \<times> NTP" where
  "Convert_v1alpha1_NTP_To_v1alpha2_NTP = autoConvert_v1alpha1_NTP_To_v1alpha2_NTP"

definition autoConvert_v1alpha2_NTP_To_v1alpha1_NTP :: "NTP \<Rightarrow> NTP_v1alpha1 \<Rightarrow> goerror option \<times> NTP_v1alpha1" where
  "autoConvert_v1alpha2_NTP_To_v1alpha1_NTP in' out =
     (None, out\<lparr>n1_Servers := ntp_Servers in', n1_Enabled := ntp_Enabled in'\<rparr>)"

definition Convert_v1alpha2_NTP_To_v1alpha1_NTP ::
  "NTP \<Rightarrow> NTP_v1alpha1 \<Rightarrow> goerror option \<times> NTP_v1alpha1" where
  "Convert_v1alpha2_NTP_To_v1alpha1_NTP = autoConvert_v1alpha2_NTP_To_v1alpha1_NTP"

definition autoConvert_v1alpha1_User_To_v1alpha2_User :: "User_v1alpha1 \<Rightarrow> User \<Rightarrow> goerror option \<times> User" where
  "autoConvert_v1alpha1_User_To_v1alpha2_User in' out = (None, out\<lparr>
     user_Name := u1_Name in', user_Gecos := u1_Gecos in', user_Groups := u1_Groups in',
     user_HomeDir := u1_HomeDir in', user_Inactive := u1_Inactive in', user_Shell := u1_Shell in',
     user_Passwd := u1_Passwd in', user_PrimaryGroup := u1_PrimaryGroup in',
     user_LockPassword := u1_LockPassword in', user_Sudo := u1_Sudo in',
     user_SSHAuthorizedKeys := u1_SSHAuthorizedKeys in'\<rparr>)"

definition Convert_v1alpha1_User_To_v1alpha2_User ::
  "User_v1alpha1 \<Rightarrow> User \<Rightarrow> goerror option \<times> User" where
  "Convert_v1alpha1_User_To_v1alpha2_User = autoConvert_v1alpha1_User_To_v1alpha2_User"

definition autoConvert_v1alpha2_User_To_v1alpha1_User :: "User \<Rightarrow> User_v1alpha1 \<Rightarrow> goerror option \<times> User_v1alpha1" where
  "autoConvert_v1alpha2_User_To_v1alpha1_User in' out = (None, out\<lparr>
     u1_Name := user_Name in', u1_Gecos := user_Gecos in', u1_Groups := user_Groups in',
     u1_HomeDir := user_HomeDir in', u1_Inactive := user_Inactive in', u1_Shell := user_Shell in',
     u1_Passwd := user_Passwd in', u1_PrimaryGroup := user_PrimaryGroup in',
     u1_LockPassword := user_LockPassword in', u1_Sudo := user_Sudo in',
     u1_SSHAuthorizedKeys := user_SSHAuthorizedKeys in'\<rparr>)"

definition Convert_v1alpha2_User_To_v1alpha1_User ::
  "User \<Rightarrow> User_v1alpha1 \<Rightarrow> goerror option \<times> User_v1alpha1" where
  "Convert_v1alpha2_User_To_v1alpha1_User = autoConvert_v1alpha2_User_To_v1alpha1_User"

text \<open>
  The specification is converted by reading the memory of one type as the other
  (\<^verbatim>\<open>unsafe.Pointer\<close>). Both types have the same fields in the same order, so field \<open>n\<close> of the one is
  field \<open>n\<close> of the other; the functions are written positionally.
\<close>

fun cast_File :: "File_v1alpha1 \<Rightarrow> File" where
  "cast_File \<lparr>f1_Path = a, f1_Owner = b, f1_Permissions = c, f1_Encoding = d, f1_Content = e\<rparr> =
     \<lparr>file_Path = a, file_Owner = b, file_Permissions = c, file_Encoding = d, file_Content = e\<rparr>"

fun cast_File_back :: "File \<Rightarrow> File_v1alpha1" where
  "cast_File_back \<lparr>file_Path = a, file_Owner = b, file_Permissions = c, file_Encoding = d, file_Content = e\<rparr> =
     \<lparr>f1_Path = a, f1_Owner = b, f1_Permissions = c, f1_Encoding = d, f1_Content = e\<rparr>"

fun cast_User :: "User_v1alpha1 \<Rightarrow> User" where
  "cast_User \<lparr>u1_Name = a, u1_Gecos = b, u1_Groups = c, u1_HomeDir = d, u1_Inactive = e, u1_Shell = f,
       u1_Passwd = g, u1_PrimaryGroup = h, u1_LockPassword = i, u1_Sudo = j, u1_SSHAuthorizedKeys = k\<rparr> =
     \<lparr>user_Name = a, user_Gecos = b, user_Groups = c, user_HomeDir = d, user_Inactive = e,
       user_Shell = f, user_Passwd = g, user_PrimaryGroup = h, user_LockPassword = i, user_Sudo = j,
       user_SSHAuthorizedKeys = k\<rparr>"

fun cast_User_back :: "User \<Rightarrow> User_v1alpha1" where
  "cast_User_back \<lparr>user_Name = a, user_Gecos = b, user_Groups = c, user_HomeDir = d, user_Inactive = e,
       user_Shell = f, user_Passwd = g, user_PrimaryGroup = h, user_LockPassword = i, user_Sudo = j,
       user_SSHAuthorizedKeys = k\<rparr> =
     \<lparr>u1_Name = a, u1_Gecos = b, u1_Groups = c, u1_HomeDir = d, u1_Inactive = e, u1_Shell = f,
       u1_Passwd = g, u1_PrimaryGroup = h, u1_LockPassword = i, u1_Sudo = j, u1_SSHAuthorizedKeys = k\<rparr>"

fun cast_NTP :: "NTP_v1alpha1 \<Rightarrow> NTP" where
  "cast_NTP \<lparr>n1_Servers = a, n1_Enabled = b\<rparr> =
     \<lparr>ntp_Servers = a, ntp_Enabled = b\<rparr>"

fun cast_NTP_back :: "NTP \<Rightarrow> NTP_v1alpha1" where
  "cast_NTP_back \<lparr>ntp_Servers = a, ntp_Enabled = b\<rparr> =
     \<lparr>n1_Servers = a, n1_Enabled = b\<rparr>"

section \<open>Specifications\<close>

definition autoConvert_v1alpha1_CritConfigSpec_To_v1alpha2_CritConfigSpec ::
  "('c, 'k) CritConfigSpec_v1alpha1 \<Rightarrow> CritConfigSpec \<Rightarrow> goerror option \<times> CritConfigSpec" where
  "autoConvert_v1alpha1_CritConfigSpec_To_v1alpha2_CritConfigSpec in' out = (None, out\<lparr>
     spec_Files := map cast_File (s1_Files in'),
     spec_PreCritCommands := s1_PreCritCommands in', spec_PostCritCommands := s1_PostCritCommands in',
     spec_Users := map cast_User (s1_Users in'), spec_NTP := map_option cast_NTP (s1_NTP in'),
     spec_Format := s1_Format in', spec_Verbosity := s1_Verbosity in'\<rparr>)"

definition autoConvert_v1alpha2_CritConfigSpec_To_v1alpha1_CritConfigSpec ::
  "CritConfigSpec \<Rightarrow> ('c, 'k) CritConfigSpec_v1alpha1 \<Rightarrow> goerror option \<times> ('c, 'k) CritConfigSpec_v1alpha1" where
  "autoConvert_v1alpha2_CritConfigSpec_To_v1alpha1_CritConfigSpec in' out = (None, out\<lparr>
     s1_Files := map cast_File_back (spec_Files in'),
     s1_PreCritCommands := spec_PreCritCommands in', s1_PostCritCommands := spec_PostCritCommands in',
     s1_Users := map cast_User_back (spec_Users in'), s1_NTP := map_option cast_NTP_back (spec_NTP in'),
     s1_Format := spec_Format in', s1_Verbosity := spec_Verbosity in'\<rparr>)"

definition Convert_v1alpha1_CritConfigSpec_To_v1alpha2_CritConfigSpec ::
  "('c, 'k) crit_yaml \<Rightarrow> ('c, 'k) CritConfigSpec_v1alpha1 \<Rightarrow> CritConfigSpec \<Rightarrow> goerror option \<times> CritConfigSpec" where
  "Convert_v1alpha1_CritConfigSpec_To_v1alpha2_CritConfigSpec Y in' out =
     (case s1_ControlPlaneConfiguration in' of
        Some cfg \<Rightarrow>
          (case MarshalToYaml Y (Inl cfg) of
             Inl err \<Rightarrow> (Some err, out)
           | Inr data \<Rightarrow> autoConvert_v1alpha1_CritConfigSpec_To_v1alpha2_CritConfigSpec in' (out\<lparr>spec_Config := data\<rparr>))
      | None \<Rightarrow>
          (case s1_WorkerConfiguration in' of
             Some cfg \<Rightarrow>
               (case MarshalToYaml Y (Inr cfg) of
                  Inl err \<Rightarrow> (Some err, out)
                | Inr data \<Rightarrow> autoConvert_v1alpha1_CritConfigSpec_To_v1alpha2_CritConfigSpec in' (out\<lparr>spec_Config := data\<rparr>))
           | None \<Rightarrow> autoConvert_v1alpha1_CritConfigSpec_To_v1alpha2_CritConfigSpec in' out))"

definition Convert_v1alpha2_CritConfigSpec_To_v1alpha1_CritConfigSpec ::
  "('c, 'k) crit_yaml \<Rightarrow> CritConfigSpec \<Rightarrow> ('c, 'k) CritConfigSpec_v1alpha1 \<Rightarrow>
   goerror option \<times> ('c, 'k) CritConfigSpec_v1alpha1" where
  "Convert_v1alpha2_CritConfigSpec_To_v1alpha1_CritConfigSpec Y in' out =
     (if spec_Config in' \<noteq> [] then
        (case UnmarshalFromYaml Y (spec_Config in') of
           Inl err \<Rightarrow> (Some err, out)
         | Inr (ControlPlaneObj cfg) \<Rightarrow>
             (let old = (case s1_ControlPlaneConfiguration out of None \<Rightarrow> zero_ControlPlaneConfiguration Y | Some c \<Rightarrow> c);
                  (e, c) = Convert_ControlPlaneConfiguration Y cfg old;
                  out = out\<lparr>s1_ControlPlaneConfiguration := Some c\<rparr>
              in case e of
                   Some err \<Rightarrow> (Some err, out)
                 | None \<Rightarrow> autoConvert_v1alpha2_CritConfigSpec_To_v1alpha1_CritConfigSpec in' out)
         | Inr (WorkerObj cfg) \<Rightarrow>
             (let old = (case s1_WorkerConfiguration out of None \<Rightarrow> zero_WorkerConfiguration Y | Some c \<Rightarrow> c);
                  (e, c) = Convert_WorkerConfiguration Y cfg old;
                  out = out\<lparr>s1_WorkerConfiguration := Some c\<rparr>
              in case e of
                   Some err \<Rightarrow> (Some err, out)
                 | None \<Rightarrow> autoConvert_v1alpha2_CritConfigSpec_To_v1alpha1_CritConfigSpec in' out)
         | Inr (OtherObj _) \<Rightarrow> autoConvert_v1alpha2_CritConfigSpec_To_v1alpha1_CritConfigSpec in' out)
      else autoConvert_v1alpha2_CritConfigSpec_To_v1alpha1_CritConfigSpec in' out)"

section \<open>Status\<close>

definition autoConvert_v1alpha1_CritConfigStatus_To_v1alpha2_CritConfigStatus ::
  "CritConfigStatus_v1alpha1 \<Rightarrow> CritConfigStatus \<Rightarrow> goerror option \<times> CritConfigStatus" where
  "autoConvert_v1alpha1_CritConfigStatus_To_v1alpha2_CritConfigStatus in' out = (None, out\<lparr>
     cfgst_Ready := st1_Ready in', cfgst_DataSecretName := st1_DataSecretName in',
     cfgst_FailureReason := st1_FailureReason in', cfgst_FailureMessage := st1_FailureMessage in'\<rparr>)"

definition Convert_v1alpha1_CritConfigStatus_To_v1alpha2_CritConfigStatus ::
  "CritConfigStatus_v1alpha1 \<Rightarrow> CritConfigStatus \<Rightarrow> goerror option \<times> CritConfigStatus" where
  "Convert_v1alpha1_CritConfigStatus_To_v1alpha2_CritConfigStatus = autoConvert_v1alpha1_CritConfigStatus_To_v1alpha2_CritConfigStatus"

definition autoConvert_v1alpha2_CritConfigStatus_To_v1alpha1_CritConfigStatus ::
  "CritConfigStatus \<Rightarrow> CritConfigStatus_v1alpha1 \<Rightarrow> goerror option \<times> CritConfigStatus_v1alpha1" where
  "autoConvert_v1alpha2_CritConfigStatus_To_v1alpha1_CritConfigStatus in' out = (None, out\<lparr>
     st1_Ready := cfgst_Ready in', st1_DataSecretName := cfgst_DataSecretName in',
     st1_FailureReason := cfgst_FailureReason in', st1_FailureMessage := cfgst_FailureMessage in'\<rparr>)"

definition Convert_v1alpha2_CritConfigStatus_To_v1alpha1_CritConfigStatus ::
  "CritConfigStatus \<Rightarrow> CritConfigStatus_v1alpha1 \<Rightarrow> goerror option \<times> CritConfigStatus_v1alpha1" where
  "Convert_v1alpha2_CritConfigStatus_To_v1alpha1_CritConfigStatus = autoConvert_v1alpha2_CritConfigStatus_To_v1alpha1_CritConfigStatus"

section \<open>Configs\<close>

definition autoConvert_v1alpha1_CritConfig_To_v1alpha2_CritConfig ::
  "('c, 'k) crit_yaml \<Rightarrow> ('c, 'k) CritConfig_v1alpha1 \<Rightarrow> CritConfig \<Rightarrow> goerror option \<times> CritConfig" where
  "autoConvert_v1alpha1_CritConfig_To_v1alpha2_CritConfig Y in' out =
     (let out = out\<lparr>cfg_meta := c1_meta in'\<rparr>
      in case Convert_v1alpha1_CritConfigSpec_To_v1alpha2_CritConfigSpec Y (c1_Spec in') (cfg_Spec out) of
           (Some err, spec) \<Rightarrow> (Some err, out\<lparr>cfg_Spec := spec\<rparr>)
         | (None, spec) \<Rightarrow>
             (case Convert_v1alpha1_CritConfigStatus_To_v1alpha2_CritConfigStatus (c1_Status in') (cfg_Status out) of
                (e, status) \<Rightarrow> (e, out\<lparr>cfg_Spec := spec, cfg_Status := status\<rparr>)))"

definition Convert_v1alpha1_CritConfig_To_v1alpha2_CritConfig ::
  "('c, 'k) crit_yaml \<Rightarrow> ('c, 'k) CritConfig_v1alpha1 \<Rightarrow> CritConfig \<Rightarrow> goerror option \<times> CritConfig" where
  "Convert_v1alpha1_CritConfig_To_v1alpha2_CritConfig Y = autoConvert_v1alpha1_CritConfig_To_v1alpha2_CritConfig Y"

definition autoConvert_v1alpha2_CritConfig_To_v1alpha1_CritConfig ::
  "('c, 'k) crit_yaml \<Rightarrow> CritConfig \<Rightarrow> ('c, 'k) CritConfig_v1alpha1 \<Rightarrow> goerror option \<times> ('c, 'k) CritConfig_v1alpha1" where
  "autoConvert_v1alpha2_CritConfig_To_v1alpha1_CritConfig Y in' out =
     (let out = out\<lparr>c1_meta := cfg_meta in'\<rparr>
      in case Convert_v1alpha2_CritConfigSpec_To_v1alpha1_CritConfigSpec Y (cfg_Spec in') (c1_Spec out) of
           (Some err, spec) \<Rightarrow> (Some err, out\<lparr>c1_Spec := spec\<rparr>)
         | (None, spec) \<Rightarrow>
             (case Convert_v1alpha2_CritConfigStatus_To_v1alpha1_CritConfigStatus (cfg_Status in') (c1_Status out) of
                (e, status) \<Rightarrow> (e, out\<lparr>c1_Spec := spec, c1_Status := status\<rparr>)))"

definition Convert_v1alpha2_CritConfig_To_v1alpha1_CritConfig ::
  "('c, 'k) crit_yaml \<Rightarrow> CritConfig \<Rightarrow> ('c, 'k) CritConfig_v1alpha1 \<Rightarrow> goerror option \<times> ('c, 'k) CritConfig_v1alpha1" where
  "Convert_v1alpha2_CritConfig_To_v1alpha1_CritConfig Y = autoConvert_v1alpha2_CritConfig_To_v1alpha1_CritConfig Y"

text \<open>
  \<^verbatim>\<open>CritConfig.ConvertTo\<close> and \<^verbatim>\<open>ConvertFrom\<close>, the entry points of the conversion webhook. The scope that
  the generated functions pass on is not used.
\<close>

definition CritConfig_ConvertTo ::
  "('c, 'k) crit_yaml \<Rightarrow> ('c, 'k) CritConfig_v1alpha1 \<Rightarrow> CritConfig \<Rightarrow> goerror option \<times> CritConfig" where
  "CritConfig_ConvertTo Y src dst = Convert_v1alpha1_CritConfig_To_v1alpha2_CritConfig Y src dst"

definition CritConfig_ConvertFrom ::
  "('c, 'k) crit_yaml \<Rightarrow> CritConfig \<Rightarrow> ('c, 'k) CritConfig_v1alpha1 \<Rightarrow> goerror option \<times> ('c, 'k) CritConfig_v1alpha1" where
  "CritConfig_ConvertFrom Y src dst = Convert_v1alpha2_CritConfig_To_v1alpha1_CritConfig Y src dst"

section \<open>Templates\<close>

definition autoConvert_v1alpha1_CritConfigTemplateResource_To_v1alpha2_CritConfigTemplateResource ::
  "('c, 'k) crit_yaml \<Rightarrow> ('c, 'k) CritConfigSpec_v1alpha1 CritConfigTemplateResource \<Rightarrow>
   CritConfigSpec CritConfigTemplateResource \<Rightarrow> goerror option \<times> CritConfigSpec CritConfigTemplateResource" where
  "autoConvert_v1alpha1_CritConfigTemplateResource_To_v1alpha2_CritConfigTemplateResource Y in' out =
     (case Convert_v1alpha1_CritConfigSpec_To_v1alpha2_CritConfigSpec Y (tr_Spec in') (tr_Spec out) of
        (e, spec) \<Rightarrow> (e, out\<lparr>tr_Spec := spec\<rparr>))"

definition Convert_v1alpha1_CritConfigTemplateResource_To_v1alpha2_CritConfigTemplateResource ::
  "('c, 'k) crit_yaml \<Rightarrow> ('c, 'k) CritConfigSpec_v1alpha1 CritConfigTemplateResource \<Rightarrow>
   CritConfigSpec CritConfigTemplateResource \<Rightarrow> goerror option \<times> CritConfigSpec CritConfigTemplateResource" where
  "Convert_v1alpha1_CritConfigTemplateResource_To_v1alpha2_CritConfigTemplateResource Y = autoConvert_v1alpha1_CritConfigTemplateResource_To_v1alpha2_CritConfigTemplateResource Y"

definition autoConvert_v1alpha2_CritConfigTemplateResource_To_v1alpha1_CritConfigTemplateResource ::
  "('c, 'k) crit_yaml \<Rightarrow> CritConfigSpec CritConfigTemplateResource \<Rightarrow>
   ('c, 'k) CritConfigSpec_v1alpha1 CritConfigTemplateResource \<Rightarrow>
   goerror option \<times> ('c, 'k) CritConfigSpec_v1alpha1 CritConfigTemplateResource" where
  "autoConvert_v1alpha2_CritConfigTemplateResource_To_v1alpha1_CritConfigTemplateResource Y in' out =
     (case Convert_v1alpha2_CritConfigSpec_To_v1alpha1_CritConfigSpec Y (tr_Spec in') (tr_Spec out) of
        (e, spec) \<Rightarrow> (e, out\<lparr>tr_Spec := spec\<rparr>))"

definition Convert_v1alpha2_CritConfigTemplateResource_To_v1alpha1_CritConfigTemplateResource ::
  "('c, 'k) crit_yaml \<Rightarrow> CritConfigSpec CritConfigTemplateResource \<Rightarrow>
   ('c, 'k) CritConfigSpec_v1alpha1 CritConfigTemplateResource \<Rightarrow>
   goerror option \<times> ('c, 'k) CritConfigSpec_v1alpha1 CritConfigTemplateResource" where
  "Convert_v1alpha2_CritConfigTemplateResource_To_v1alpha1_CritConfigTemplateResource Y = autoConvert_v1alpha2_CritConfigTemplateResource_To_v1alpha1_CritConfigTemplateResource Y"

definition autoConvert_v1alpha1_CritConfigTemplateSpec_To_v1alpha2_CritConfigTemplateSpec ::
  "('c, 'k) crit_yaml \<Rightarrow> ('c, 'k) CritConfigSpec_v1alpha1 CritConfigTemplateSpec \<Rightarrow>
   CritConfigSpec CritConfigTemplateSpec \<Rightarrow> goerror option \<times> CritConfigSpec CritConfigTemplateSpec" where
  "autoConvert_v1alpha1_CritConfigTemplateSpec_To_v1alpha2_CritConfigTemplateSpec Y in' out =
     (case Convert_v1alpha1_CritConfigTemplateResource_To_v1alpha2_CritConfigTemplateResource Y
         (ts_Template in') (ts_Template out) of
        (e, template) \<Rightarrow> (e, out\<lparr>ts_Template := template\<rparr>))"

definition Convert_v1alpha1_CritConfigTemplateSpec_To_v1alpha2_CritConfigTemplateSpec ::
  "('c, 'k) crit_yaml \<Rightarrow> ('c, 'k) CritConfigSpec_v1alpha1 CritConfigTemplateSpec \<Rightarrow>
   CritConfigSpec CritConfigTemplateSpec \<Rightarrow> goerror option \<times> CritConfigSpec CritConfigTemplateSpec" where
  "Convert_v1alpha1_CritConfigTemplateSpec_To_v1alpha2_CritConfigTemplateSpec Y = autoConvert_v1alpha1_CritConfigTemplateSpec_To_v1alpha2_CritConfigTemplateSpec Y"

definition autoConvert_v1alpha2_CritConfigTemplateSpec_To_v1alpha1_CritConfigTemplateSpec ::
  "('c, 'k) crit_yaml \<Rightarrow> CritConfigSpec CritConfigTemplateSpec \<Rightarrow>
   ('c, 'k) CritConfigSpec_v1alpha1 CritConfigTemplateSpec \<Rightarrow>
   goerror option \<times> ('c, 'k) CritConfigSpec_v1alpha1 CritConfigTemplateSpec" where
  "autoConvert_v1alpha2_CritConfigTemplateSpec_To_v1alpha1_CritConfigTemplateSpec Y in' out =
     (case Convert_v1alpha2_CritConfigTemplateResource_To_v1alpha1_CritConfigTemplateResource Y
         (ts_Template in') (ts_Template out) of
        (e, template) \<Rightarrow> (e, out\<lparr>ts_Template := template\<rparr>))"

definition Convert_v1alpha2_CritConfigTemplateSpec_To_v1alpha1_CritConfigTemplateSpec ::
  "('c, 'k) crit_yaml \<Rightarrow> CritConfigSpec CritConfigTemplateSpec \<Rightarrow>
   ('c, 'k) CritConfigSpec_v1alpha1 CritConfigTemplateSpec \<Rightarrow>
   goerror option \<times> ('c, 'k) CritConfigSpec_v1alpha1 CritConfigTemplateSpec" where
  "Convert_v1alpha2_CritConfigTemplateSpec_To_v1alpha1_CritConfigTemplateSpec Y = autoConvert_v1alpha2_CritConfigTemplateSpec_To_v1alpha1_CritConfigTemplateSpec Y"

definition autoConvert_v1alpha1_CritConfigTemplate_To_v1alpha2_CritConfigTemplate ::
  "('c, 'k) crit_yaml \<Rightarrow> ('c, 'k) CritConfigSpec_v1alpha1 CritConfigTemplate \<Rightarrow>
   CritConfigSpec CritConfigTemplate \<Rightarrow> goerror option \<times> CritConfigSpec CritConfigTemplate" where
  "autoConvert_v1alpha1_CritConfigTemplate_To_v1alpha2_CritConfigTemplate Y in' out =
     (case Convert_v1alpha1_CritConfigTemplateSpec_To_v1alpha2_CritConfigTemplateSpec Y (t_Spec in') (t_Spec out) of
        (e, spec) \<Rightarrow> (e, out\<lparr>t_meta := t_meta in', t_Spec := spec\<rparr>))"

definition Convert_v1alpha1_CritConfigTemplate_To_v1alpha2_CritConfigTemplate ::
  "('c, 'k) crit_yaml \<Rightarrow> ('c, 'k) CritConfigSpec_v1alpha1 CritConfigTemplate \<Rightarrow>
   CritConfigSpec CritConfigTemplate \<Rightarrow> goerror option \<times> CritConfigSpec CritConfigTemplate" where
  "Convert_v1alpha1_CritConfigTemplate_To_v1alpha2_CritConfigTemplate Y = autoConvert_v1alpha1_CritConfigTemplate_To_v1alpha2_CritConfigTemplate Y"

definition autoConvert_v1alpha2_CritConfigTemplate_To_v1alpha1_CritConfigTemplate ::
  "('c, 'k) crit_yaml \<Rightarrow> CritConfigSpec CritConfigTemplate \<Rightarrow>
   ('c, 'k) CritConfigSpec_v1alpha1 CritConfigTemplate \<Rightarrow>
   goerror option \<times> ('c, 'k) CritConfigSpec_v1alpha1 CritConfigTemplate" where
  "autoConvert_v1alpha2_CritConfigTemplate_To_v1alpha1_CritConfigTemplate Y in' out =
     (case Convert_v1alpha2_CritConfigTemplateSpec_To_v1alpha1_CritConfigTemplateSpec Y (t_Spec in') (t_Spec out) of
        (e, spec) \<Rightarrow> (e, out\<lparr>t_meta := t_meta in', t_Spec := spec\<rparr>))"

definition Convert_v1alpha2_CritConfigTemplate_To_v1alpha1_CritConfigTemplate ::
  "('c, 'k) crit_yaml \<Rightarrow> CritConfigSpec CritConfigTemplate \<Rightarrow>
   ('c, 'k) CritConfigSpec_v1alpha1 CritConfigTemplate \<Rightarrow>
   goerror option \<times> ('c, 'k) CritConfigSpec_v1alpha1 CritConfigTemplate" where
  "Convert_v1alpha2_CritConfigTemplate_To_v1alpha1_CritConfigTemplate Y = autoConvert_v1alpha2_CritConfigTemplate_To_v1alpha1_CritConfigTemplate Y"

definition CritConfigTemplate_ConvertTo ::
  "('c, 'k) crit_yaml \<Rightarrow> ('c, 'k) CritConfigSpec_v1alpha1 CritConfigTemplate \<Rightarrow>
   CritConfigSpec CritConfigTemplate \<Rightarrow> goerror option \<times> CritConfigSpec CritConfigTemplate" where
  "CritConfigTemplate_ConvertTo Y src dst = Convert_v1alpha1_CritConfigTemplate_To_v1alpha2_CritConfigTemplate Y src dst"

definition CritConfigTemplate_ConvertFrom ::
  "('c, 'k) crit_yaml \<Rightarrow> CritConfigSpec CritConfigTemplate \<Rightarrow>
   ('c, 'k) CritConfigSpec_v1alpha1 CritConfigTemplate \<Rightarrow>
   goerror option \<times> ('c, 'k) CritConfigSpec_v1alpha1 CritConfigTemplate" where
  "CritConfigTemplate_ConvertFrom Y src dst = Convert_v1alpha2_CritConfigTemplate_To_v1alpha1_CritConfigTemplate Y src dst"

section \<open>Lists\<close>

text \<open>
  The loop over the items of a list: \<open>z\<close> is the zero value \<^verbatim>\<open>make\<close> fills the slice with, \<open>f\<close> the
  conversion of one item. After an error the items that follow stay zero.
\<close>

fun convert_items :: "('a \<Rightarrow> 'b \<Rightarrow> goerror option \<times> 'b) \<Rightarrow> 'b \<Rightarrow> 'a list \<Rightarrow> goerror option \<times> 'b list" where
  "convert_items f z [] = (None, [])"
| "convert_items f z (x # xs) =
     (case f x z of
        (Some err, y) \<Rightarrow> (Some err, y # replicate (length xs) z)
      | (None, y) \<Rightarrow> (case convert_items f z xs of (e, ys) \<Rightarrow> (e, y # ys)))"

definition convert_list ::
  "('a \<Rightarrow> 'b \<Rightarrow> goerror option \<times> 'b) \<Rightarrow> 'b \<Rightarrow> 'a ItemList \<Rightarrow> 'b ItemList \<Rightarrow> goerror option \<times> 'b ItemList" where
  "convert_list f z in' out =
     (let out = out\<lparr>ListMeta := ListMeta in'\<rparr>
      in case Items in' of
           Some xs \<Rightarrow> (case convert_items f z xs of (e, ys) \<Rightarrow> (e, out\<lparr>Items := Some ys\<rparr>))
         | None \<Rightarrow> (None, out\<lparr>Items := None\<rparr>))"

definition zero_meta :: ObjectMeta where
  "zero_meta = \<lparr>Name = [], Namespace = [], UID = [], Labels = [], Annotations = None, OwnerReferences = [],
     Finalizers = [], CreationTimestamp = 0, DeletionTimestamp = None\<rparr>"

definition zero_spec :: CritConfigSpec where
  "zero_spec = \<lparr>spec_Config = [], spec_Files = [], spec_PreCritCommands = [], spec_PostCritCommands = [],
     spec_Users = [], spec_NTP = None, spec_Format = [], spec_Verbosity = False\<rparr>"

definition zero_spec_v1alpha1 :: "('c, 'k) CritConfigSpec_v1alpha1" where
  "zero_spec_v1alpha1 = \<lparr>s1_ControlPlaneConfiguration = None, s1_WorkerConfiguration = None, s1_Files = [],
     s1_PreCritCommands = [], s1_PostCritCommands = [], s1_Users = [], s1_NTP = None, s1_Format = [], s1_Verbosity = False\<rparr>"

definition zero_config :: CritConfig where
  "zero_config = \<lparr>cfg_meta = zero_meta, cfg_Spec = zero_spec,
     cfg_Status = \<lparr>cfgst_Ready = False, cfgst_DataSecretName = None, cfgst_FailureReason = [], cfgst_FailureMessage = []\<rparr>\<rparr>"

definition zero_config_v1alpha1 :: "('c, 'k) CritConfig_v1alpha1" where
  "zero_config_v1alpha1 = \<lparr>c1_meta = zero_meta, c1_Spec = zero_spec_v1alpha1,
     c1_Status = \<lparr>st1_Ready = False, st1_DataSecretName = None, st1_FailureReason = [], st1_FailureMessage = []\<rparr>\<rparr>"

definition zero_template :: "'s \<Rightarrow> 's CritConfigTemplate" where
  "zero_template spec = \<lparr>t_meta = zero_meta, t_Spec = \<lparr>ts_Template = \<lparr>tr_Spec = spec\<rparr>\<rparr>\<rparr>"

definition autoConvert_v1alpha1_CritConfigList_To_v1alpha2_CritConfigList ::
  "('c, 'k) crit_yaml \<Rightarrow> ('c, 'k) CritConfig_v1alpha1 ItemList \<Rightarrow> CritConfig ItemList \<Rightarrow>
   goerror option \<times> CritConfig ItemList" where
  "autoConvert_v1alpha1_CritConfigList_To_v1alpha2_CritConfigList Y =
     convert_list (Convert_v1alpha1_CritConfig_To_v1alpha2_CritConfig Y) zero_config"

definition Convert_v1alpha1_CritConfigList_To_v1alpha2_CritConfigList ::
  "('c, 'k) crit_yaml \<Rightarrow> ('c, 'k) CritConfig_v1alpha1 ItemList \<Rightarrow> CritConfig ItemList \<Rightarrow>
   goerror option \<times> CritConfig ItemList" where
  "Convert_v1alpha1_CritConfigList_To_v1alpha2_CritConfigList Y = autoConvert_v1alpha1_CritConfigList_To_v1alpha2_CritConfigList Y"

definition autoConvert_v1alpha2_CritConfigList_To_v1alpha1_CritConfigList ::
  "('c, 'k) crit_yaml \<Rightarrow> CritConfig ItemList \<Rightarrow> ('c, 'k) CritConfig_v1alpha1 ItemList \<Rightarrow>
   goerror option \<times> ('c, 'k) CritConfig_v1alpha1 ItemList" where
  "autoConvert_v1alpha2_CritConfigList_To_v1alpha1_CritConfigList Y =
     convert_list (Convert_v1alpha2_CritConfig_To_v1alpha1_CritConfig Y) zero_config_v1alpha1"

definition Convert_v1alpha2_CritConfigList_To_v1alpha1_CritConfigList ::
  "('c, 'k) crit_yaml \<Rightarrow> CritConfig ItemList \<Rightarrow> ('c, 'k) CritConfig_v1alpha1 ItemList \<Rightarrow>
   goerror option \<times> ('c, 'k) CritConfig_v1alpha1 ItemList" where
  "Convert_v1alpha2_CritConfigList_To_v1alpha1_CritConfigList Y = autoConvert_v1alpha2_CritConfigList_To_v1alpha1_CritConfigList Y"

definition autoConvert_v1alpha1_CritConfigTemplateList_To_v1alpha2_CritConfigTemplateList ::
  "('c, 'k) crit_yaml \<Rightarrow> ('c, 'k) CritConfigSpec_v1alpha1 CritConfigTemplate ItemList \<Rightarrow>
   CritConfigSpec CritConfigTemplate ItemList \<Rightarrow> goerror option \<times> CritConfigSpec CritConfigTemplate ItemList" where
  "autoConvert_v1alpha1_CritConfigTemplateList_To_v1alpha2_CritConfigTemplateList Y =
     convert_list (Convert_v1alpha1_CritConfigTemplate_To_v1alpha2_CritConfigTemplate Y) (zero_template zero_spec)"

definition Convert_v1alpha1_CritConfigTemplateList_To_v1alpha2_CritConfigTemplateList ::
  "('c, 'k) crit_yaml \<Rightarrow> ('c, 'k) CritConfigSpec_v1alpha1 CritConfigTemplate ItemList \<Rightarrow>
   CritConfigSpec CritConfigTemplate ItemList \<Rightarrow> goerror option \<times> CritConfigSpec CritConfigTemplate ItemList" where
  "Convert_v1alpha1_CritConfigTemplateList_To_v1alpha2_CritConfigTemplateList Y = autoConvert_v1alpha1_CritConfigTemplateList_To_v1alpha2_CritConfigTemplateList Y"

definition autoConvert_v1alpha2_CritConfigTemplateList_To_v1alpha1_CritConfigTemplateList ::
  "('c, 'k) crit_yaml \<Rightarrow> CritConfigSpec CritConfigTemplate ItemList \<Rightarrow>
   ('c, 'k) CritConfigSpec_v1alpha1 CritConfigTemplate ItemList \<Rightarrow>
   goerror option \<times> ('c, 'k) CritConfigSpec_v1alpha1 CritConfigTemplate ItemList" where
  "autoConvert_v1alpha2_CritConfigTemplateList_To_v1alpha1_CritConfigTemplateList Y =
     convert_list (Convert_v1alpha2_CritConfigTemplate_To_v1alpha1_CritConfigTemplate Y) (zero_template zero_spec_v1alpha1)"

definition Convert_v1alpha2_CritConfigTemplateList_To_v1alpha1_CritConfigTemplateList ::
  "('c, 'k) crit_yaml \<Rightarrow> CritConfigSpec CritConfigTemplate ItemList \<Rightarrow>
   ('c, 'k) CritConfigSpec_v1alpha1 CritConfigTemplate ItemList \<Rightarrow>
   goerror option \<times> ('c, 'k) CritConfigSpec_v1alpha1 CritConfigTemplate ItemList" where
  "Convert_v1alpha2_CritConfigTemplateList_To_v1alpha1_CritConfigTemplateList Y = autoConvert_v1alpha2_CritConfigTemplateList_To_v1alpha1_CritConfigTemplateList Y"

section \<open>The casts agree with the generated functions\<close>

lemmas auto_conversions =
  autoConvert_v1alpha1_File_To_v1alpha2_File_def
  autoConvert_v1alpha2_File_To_v1alpha1_File_def
  autoConvert_v1alpha1_NTP_To_v1alpha2_NTP_def
  autoConvert_v1alpha2_NTP_To_v1alpha1_NTP_def
  autoConvert_v1alpha1_User_To_v1alpha2_User_def
  autoConvert_v1alpha2_User_To_v1alpha1_User_def
  autoConvert_v1alpha1_CritConfigSpec_To_v1alpha2_CritConfigSpec_def
  autoConvert_v1alpha2_CritConfigSpec_To_v1alpha1_CritConfigSpec_def
  autoConvert_v1alpha1_CritConfigStatus_To_v1alpha2_CritConfigStatus_def
  autoConvert_v1alpha2_CritConfigStatus_To_v1alpha1_CritConfigStatus_def
  autoConvert_v1alpha1_CritConfig_To_v1alpha2_CritConfig_def
  autoConvert_v1alpha2_CritConfig_To_v1alpha1_CritConfig_def
  autoConvert_v1alpha1_CritConfigTemplateResource_To_v1alpha2_CritConfigTemplateResource_def
  autoConvert_v1alpha2_CritConfigTemplateResource_To_v1alpha1_CritConfigTemplateResource_def
  autoConvert_v1alpha1_CritConfigTemplateSpec_To_v1alpha2_CritConfigTemplateSpec_def
  autoConvert_v1alpha2_CritConfigTemplateSpec_To_v1alpha1_CritConfigTemplateSpec_def
  autoConvert_v1alpha1_CritConfigTemplate_To_v1alpha2_CritConfigTemplate_def
  autoConvert_v1alpha2_CritConfigTemplate_To_v1alpha1_CritConfigTemplate_def
  autoConvert_v1alpha1_CritConfigList_To_v1alpha2_CritConfigList_def
  autoConvert_v1alpha2_CritConfigList_To_v1alpha1_CritConfigList_def
  autoConvert_v1alpha1_CritConfigTemplateList_To_v1alpha2_CritConfigTemplateList_def
  autoConvert_v1alpha2_CritConfigTemplateList_To_v1alpha1_CritConfigTemplateList_def

lemmas convert_wrappers =
  Convert_v1alpha1_File_To_v1alpha2_File_def
  Convert_v1alpha2_File_To_v1alpha1_File_def
  Convert_v1alpha1_NTP_To_v1alpha2_NTP_def
  Convert_v1alpha2_NTP_To_v1alpha1_NTP_def
  Convert_v1alpha1_User_To_v1alpha2_User_def
  Convert_v1alpha2_User_To_v1alpha1_User_def
  Convert_v1alpha1_CritConfigStatus_To_v1alpha2_CritConfigStatus_def
  Convert_v1alpha2_CritConfigStatus_To_v1alpha1_CritConfigStatus_def
  Convert_v1alpha1_CritConfig_To_v1alpha2_CritConfig_def
  Convert_v1alpha2_CritConfig_To_v1alpha1_CritConfig_def
  Convert_v1alpha1_CritConfigTemplateResource_To_v1alpha2_CritConfigTemplateResource_def
  Convert_v1alpha2_CritConfigTemplateResource_To_v1alpha1_CritConfigTemplateResource_def
  Convert_v1alpha1_CritConfigTemplateSpec_To_v1alpha2_CritConfigTemplateSpec_def
  Convert_v1alpha2_CritConfigTemplateSpec_To_v1alpha1_CritConfigTemplateSpec_def
  Convert_v1alpha1_CritConfigTemplate_To_v1alpha2_CritConfigTemplate_def
  Convert_v1alpha2_CritConfigTemplate_To_v1alpha1_CritConfigTemplate_def
  Convert_v1alpha1_CritConfigList_To_v1alpha2_CritConfigList_def
  Convert_v1alpha2_CritConfigList_To_v1alpha1_CritConfigList_def
  Convert_v1alpha1_CritConfigTemplateList_To_v1alpha2_CritConfigTemplateList_def
  Convert_v1alpha2_CritConfigTemplateList_To_v1alpha1_CritConfigTemplateList_def
  CritConfig_ConvertTo_def CritConfig_ConvertFrom_def CritConfigTemplate_ConvertTo_def CritConfigTemplate_ConvertFrom_def

text \<open>Reading memory as the other type is what the generated conversion of each part does, whatever \<^verbatim>\<open>out\<close> held.\<close>

lemma casts_convert:
  "Convert_v1alpha1_File_To_v1alpha2_File f out = (None, cast_File f)"
  "Convert_v1alpha2_File_To_v1alpha1_File g out1 = (None, cast_File_back g)"
  "Convert_v1alpha1_User_To_v1alpha2_User u out2 = (None, cast_User u)"
  "Convert_v1alpha2_User_To_v1alpha1_User v out3 = (None, cast_User_back v)"
  "Convert_v1alpha1_NTP_To_v1alpha2_NTP n out4 = (None, cast_NTP n)"
  "Convert_v1alpha2_NTP_To_v1alpha1_NTP m out5 = (None, cast_NTP_back m)"
  unfolding convert_wrappers auto_conversions
  by (cases f; cases g; cases u; cases v; cases n; cases m; simp)+

lemma cast_inverse [simp]:
  "cast_File_back (cast_File f) = f" "cast_File (cast_File_back g) = g"
  "cast_User_back (cast_User u) = u" "cast_User (cast_User_back v) = v"
  "cast_NTP_back (cast_NTP n) = n" "cast_NTP (cast_NTP_back m) = m"
  by (cases f; cases g; cases u; cases v; cases n; cases m; simp)+

lemma cast_inverse_comp [simp]:
  "cast_File_back \<circ> cast_File = id" "cast_File \<circ> cast_File_back = id"
  "cast_User_back \<circ> cast_User = id" "cast_User \<circ> cast_User_back = id"
  "cast_NTP_back \<circ> cast_NTP = id" "cast_NTP \<circ> cast_NTP_back = id"
  by (simp_all add: fun_eq_iff)

section \<open>Round trips of one object lift to lists\<close>

text \<open>
  \<open>round_trip\<close>: a conversion and its way back, from zero values, agree on every object that satisfies
  \<open>ok\<close>. The lists and the loops over their items inherit this from their elements.
\<close>

locale round_trip =
  fixes to :: "'a \<Rightarrow> 'b \<Rightarrow> goerror option \<times> 'b" and from' :: "'b \<Rightarrow> 'a \<Rightarrow> goerror option \<times> 'a"
    and za :: 'a and zb :: 'b and ok :: "'a \<Rightarrow> bool"
  assumes converts: "ok x \<Longrightarrow> fst (to x zb) = None"
    and restores: "ok x \<Longrightarrow> from' (snd (to x zb)) za = (None, x)"
begin

lemma items_round_trip:
  "list_all ok xs \<Longrightarrow> \<exists>ys. convert_items to zb xs = (None, ys) \<and> convert_items from' za ys = (None, xs)"
proof (induction xs)
  case (Cons x xs)
  then obtain ys where "convert_items to zb xs = (None, ys)" "convert_items from' za ys = (None, xs)" by auto
  moreover obtain y where "to x zb = (None, y)" "from' y za = (None, x)"
    using converts [of x] restores [of x] Cons.prems by (cases "to x zb") auto
  ultimately show ?case by simp
qed simp

lemma list_round_trip:
  assumes "\<And>xs. Items l = Some xs \<Longrightarrow> list_all ok xs"
  shows "\<exists>l'. convert_list to zb l out = (None, l') \<and> convert_list from' za l' out' = (None, l)"
proof (cases "Items l")
  case None
  then show ?thesis by (auto simp: convert_list_def intro: ItemList.equality)
next
  case (Some xs)
  with assms obtain ys where "convert_items to zb xs = (None, ys)" "convert_items from' za ys = (None, xs)"
    using items_round_trip by blast
  with Some show ?thesis by (auto simp: convert_list_def intro: ItemList.equality)
qed

end

section \<open>What the serialization promises\<close>

text \<open>
  The \<^verbatim>\<open>crit\<close> package: a node configuration of the older version is serialized in the newer one, never
  as the empty string, and what is read back converts to the configuration it came from.
\<close>

definition yaml_restores :: "('c, 'k) crit_yaml \<Rightarrow> bool" where
  "yaml_restores Y \<longleftrightarrow>
     (\<forall>c. \<exists>data cfg. MarshalToYaml Y (Inl c) = Inr data \<and> data \<noteq> [] \<and> UnmarshalFromYaml Y data = Inr (ControlPlaneObj cfg) \<and>
        Convert_ControlPlaneConfiguration Y cfg (zero_ControlPlaneConfiguration Y) = (None, c)) \<and>
     (\<forall>k. \<exists>data cfg. MarshalToYaml Y (Inr k) = Inr data \<and> data \<noteq> [] \<and> UnmarshalFromYaml Y data = Inr (WorkerObj cfg) \<and>
        Convert_WorkerConfiguration Y cfg (zero_WorkerConfiguration Y) = (None, k))"

text \<open>A config is for one kind of node: of the two node configurations at most one is set.\<close>

definition one_configuration :: "('c, 'k) CritConfigSpec_v1alpha1 \<Rightarrow> bool" where
  "one_configuration s \<longleftrightarrow> s1_ControlPlaneConfiguration s = None \<or> s1_WorkerConfiguration s = None"

lemma yaml_restoresE:
  assumes "yaml_restores Y"
  obtains data cfg where "MarshalToYaml Y (Inl c) = Inr data" "data \<noteq> []"
      "UnmarshalFromYaml Y data = Inr (ControlPlaneObj cfg)"
      "Convert_ControlPlaneConfiguration Y cfg (zero_ControlPlaneConfiguration Y) = (None, c)"
  using assms unfolding yaml_restores_def by blast

lemma yaml_restores_workerE:
  assumes "yaml_restores Y"
  obtains data cfg where "MarshalToYaml Y (Inr k) = Inr data" "data \<noteq> []"
      "UnmarshalFromYaml Y data = Inr (WorkerObj cfg)"
      "Convert_WorkerConfiguration Y cfg (zero_WorkerConfiguration Y) = (None, k)"
  using assms unfolding yaml_restores_def by blast

lemmas spec_conversions =
  Convert_v1alpha1_CritConfigSpec_To_v1alpha2_CritConfigSpec_def Convert_v1alpha2_CritConfigSpec_To_v1alpha1_CritConfigSpec_def
  autoConvert_v1alpha1_CritConfigSpec_To_v1alpha2_CritConfigSpec_def autoConvert_v1alpha2_CritConfigSpec_To_v1alpha1_CritConfigSpec_def
  zero_spec_def zero_spec_v1alpha1_def

lemma spec_round_trip:
  assumes "yaml_restores Y" and "one_configuration s"
  shows "\<exists>t. Convert_v1alpha1_CritConfigSpec_To_v1alpha2_CritConfigSpec Y s zero_spec = (None, t) \<and>
    Convert_v1alpha2_CritConfigSpec_To_v1alpha1_CritConfigSpec Y t zero_spec_v1alpha1 = (None, s)"
proof (cases s)
  case (fields cp wk files pre post users ntp fmt v)
  consider (cp) c where "cp = Some c" "wk = None" | (wk) k where "cp = None" "wk = Some k" | (none) "cp = None" "wk = None"
    using assms(2) fields by (cases cp; cases wk) (auto simp: one_configuration_def)
  then show ?thesis
  proof cases
    case cp
    obtain data cfg where "MarshalToYaml Y (Inl c) = Inr data" "data \<noteq> []" "UnmarshalFromYaml Y data = Inr (ControlPlaneObj cfg)"
      "Convert_ControlPlaneConfiguration Y cfg (zero_ControlPlaneConfiguration Y) = (None, c)"
      by (rule yaml_restoresE [OF assms(1)])
    with cp fields show ?thesis by (simp add: spec_conversions option.map_comp option.map_id)
  next
    case wk
    obtain data cfg where "MarshalToYaml Y (Inr k) = Inr data" "data \<noteq> []" "UnmarshalFromYaml Y data = Inr (WorkerObj cfg)"
      "Convert_WorkerConfiguration Y cfg (zero_WorkerConfiguration Y) = (None, k)"
      by (rule yaml_restores_workerE [OF assms(1)])
    with wk fields show ?thesis by (simp add: spec_conversions option.map_comp option.map_id)
  next
    case none
    with fields show ?thesis by (simp add: spec_conversions option.map_comp option.map_id)
  qed
qed

lemma config_round_trip:
  assumes "yaml_restores Y" and "one_configuration (c1_Spec c)"
  shows "\<exists>d. CritConfig_ConvertTo Y c zero_config = (None, d) \<and> CritConfig_ConvertFrom Y d zero_config_v1alpha1 = (None, c)"
proof -
  obtain t where "Convert_v1alpha1_CritConfigSpec_To_v1alpha2_CritConfigSpec Y (c1_Spec c) zero_spec = (None, t)"
    "Convert_v1alpha2_CritConfigSpec_To_v1alpha1_CritConfigSpec Y t zero_spec_v1alpha1 = (None, c1_Spec c)"
    using spec_round_trip [OF assms] by blast
  then show ?thesis
    by (simp add: convert_wrappers auto_conversions zero_config_def zero_config_v1alpha1_def)
qed

lemma template_round_trip:
  assumes "yaml_restores Y" and "one_configuration (tr_Spec (ts_Template (t_Spec c)))"
  shows "\<exists>d. CritConfigTemplate_ConvertTo Y c (zero_template zero_spec) = (None, d) \<and>
    CritConfigTemplate_ConvertFrom Y d (zero_template zero_spec_v1alpha1) = (None, c)"
proof -
  obtain t where "Convert_v1alpha1_CritConfigSpec_To_v1alpha2_CritConfigSpec Y (tr_Spec (ts_Template (t_Spec c))) zero_spec = (None, t)"
    "Convert_v1alpha2_CritConfigSpec_To_v1alpha1_CritConfigSpec Y t zero_spec_v1alpha1 = (None, tr_Spec (ts_Template (t_Spec c)))"
    using spec_round_trip [OF assms] by blast
  then show ?thesis
    by (simp add: convert_wrappers auto_conversions zero_template_def)
qed

interpretation config_lists: round_trip
  "Convert_v1alpha1_CritConfig_To_v1alpha2_CritConfig Y" "Convert_v1alpha2_CritConfig_To_v1alpha1_CritConfig Y"
  zero_config_v1alpha1 zero_config "\<lambda>c. yaml_restores Y \<and> one_configuration (c1_Spec c)" for Y
  using config_round_trip [unfolded CritConfig_ConvertTo_def CritConfig_ConvertFrom_def]
  by unfold_locales force+

interpretation template_lists: round_trip
  "Convert_v1alpha1_CritConfigTemplate_To_v1alpha2_CritConfigTemplate Y"
  "Convert_v1alpha2_CritConfigTemplate_To_v1alpha1_CritConfigTemplate Y"
  "zero_template zero_spec_v1alpha1" "zero_template zero_spec"
  "\<lambda>c. yaml_restores Y \<and> one_configuration (tr_Spec (ts_Template (t_Spec c)))" for Y
  using template_round_trip [unfolded CritConfigTemplate_ConvertTo_def CritConfigTemplate_ConvertFrom_def]
  by unfold_locales force+

section \<open>A concrete serialization\<close>

text \<open>Node configurations that are a name only, serialized as the name after a letter for their kind.\<close>

definition named_cp :: "string \<Rightarrow> ControlPlaneConfiguration" where
  "named_cp n = \<lparr>cpc_ClusterName = n, cpc_ControlPlaneEndpoint = \<lparr>ep_Host = [], ep_Port = 0\<rparr>, cpc_ExtraSANs = [],
     cpc_ServiceSubnet = [], cpc_PodSubnet = [],
     cpc_NodeConfiguration = \<lparr>nc_KubeDir = [], nc_KubernetesVersion = [], nc_ClusterDomain = [], nc_rest = []\<rparr>\<rparr>"

definition named_worker :: "string \<Rightarrow> WorkerConfiguration" where
  "named_worker n = \<lparr>wc_ClusterName = n, wc_ControlPlaneEndpoint = \<lparr>ep_Host = [], ep_Port = 0\<rparr>, wc_BootstrapToken = [],
     wc_NodeConfiguration = \<lparr>nc_KubeDir = [], nc_KubernetesVersion = [], nc_ClusterDomain = [], nc_rest = []\<rparr>\<rparr>"

definition sample_yaml :: "(string, string) crit_yaml" where
  "sample_yaml = \<lparr>MarshalToYaml = case_sum (\<lambda>c. Inr (CHR ''C'' # c)) (\<lambda>k. Inr (CHR ''W'' # k)),
     UnmarshalFromYaml = (\<lambda>s. case s of [] \<Rightarrow> Inl (NewError ''empty'')
       | c # n \<Rightarrow> Inr (if c = CHR ''C'' then ControlPlaneObj (named_cp n)
           else if c = CHR ''W'' then WorkerObj (named_worker n) else OtherObj n)),
     Convert_ControlPlaneConfiguration = (\<lambda>cfg _. (None, cpc_ClusterName cfg)),
     Convert_WorkerConfiguration = (\<lambda>cfg _. (None, wc_ClusterName cfg)),
     zero_ControlPlaneConfiguration = [], zero_WorkerConfiguration = []\<rparr>"

lemma sample_yaml_restores: "yaml_restores sample_yaml"
  by (simp add: yaml_restores_def sample_yaml_def named_cp_def named_worker_def)

definition sample_config_v1alpha1 :: "(string, string) CritConfig_v1alpha1" where
  "sample_config_v1alpha1 = zero_config_v1alpha1\<lparr>c1_Spec := zero_spec_v1alpha1\<lparr>s1_WorkerConfiguration := Some ''w'',
     s1_PreCritCommands := [''date'']\<rparr>\<rparr>"

section \<open>Properties\<close>



text \<open>
  C39: what a stored config keeps on the way through the older version. Every field but the node
  configuration comes back unchanged. The node configuration comes back re-serialized, and one of a
  kind the conversion does not know is dropped without an error.
\<close>

theorem stored_config_round_trip:
  assumes "CritConfig_ConvertFrom Y d zero_config_v1alpha1 = (None, c)" and "CritConfig_ConvertTo Y c zero_config = (None, d')"
  shows "d' = d\<lparr>cfg_Spec := (cfg_Spec d)\<lparr>spec_Config := spec_Config (cfg_Spec d')\<rparr>\<rparr> \<and>
    (spec_Config (cfg_Spec d) = [] \<longrightarrow> spec_Config (cfg_Spec d') = []) \<and>
    (spec_Config (cfg_Spec d) \<noteq> [] \<longrightarrow>
      (case UnmarshalFromYaml Y (spec_Config (cfg_Spec d)) of
         Inl _ \<Rightarrow> False
       | Inr (ControlPlaneObj cfg) \<Rightarrow> MarshalToYaml Y
           (Inl (snd (Convert_ControlPlaneConfiguration Y cfg (zero_ControlPlaneConfiguration Y)))) = Inr (spec_Config (cfg_Spec d'))
       | Inr (WorkerObj cfg) \<Rightarrow> MarshalToYaml Y
           (Inr (snd (Convert_WorkerConfiguration Y cfg (zero_WorkerConfiguration Y)))) = Inr (spec_Config (cfg_Spec d'))
       | Inr (OtherObj _) \<Rightarrow> spec_Config (cfg_Spec d') = []))"
  using assms
  by (cases d; cases "cfg_Spec d"; cases "cfg_Status d") (auto simp: convert_wrappers auto_conversions spec_conversions zero_config_def zero_config_v1alpha1_def option.map_comp option.map_id Let_def split: if_splits sum.splits option.splits prod.splits crit_object.splits)

theorem stored_config_round_trip_witness:
  "\<exists>c d'. CritConfig_ConvertFrom sample_yaml (zero_config\<lparr>cfg_Spec := zero_spec\<lparr>spec_Config := ''Xy''\<rparr>\<rparr>) zero_config_v1alpha1 = (None, c) \<and>
     CritConfig_ConvertTo sample_yaml c zero_config = (None, d') \<and> spec_Config (cfg_Spec d') = []"
proof -
  let ?d = "zero_config\<lparr>cfg_Spec := zero_spec\<lparr>spec_Config := ''Xy''\<rparr>\<rparr>"
  obtain c d' where run: "CritConfig_ConvertFrom sample_yaml ?d zero_config_v1alpha1 = (None, c)"
    "CritConfig_ConvertTo sample_yaml c zero_config = (None, d')"
    by (simp add: convert_wrappers auto_conversions spec_conversions zero_config_def zero_config_v1alpha1_def sample_yaml_def)
  have "UnmarshalFromYaml sample_yaml (spec_Config (cfg_Spec ?d)) = Inr (OtherObj ''y'')" "spec_Config (cfg_Spec ?d) \<noteq> []"
    by (simp_all add: sample_yaml_def)
  with stored_config_round_trip [OF run] run show ?thesis by auto
qed

end
