(* ===== verification/Ccp_Conversion.thy ===== *)
theory Ccp_Conversion
  imports Config_Conversion
begin

text \<open>
  \<^verbatim>\<open>src/apis/controlplane/v1alpha1/\<close>: the older version of \<^verbatim>\<open>CritControlPlane\<close> and its conversion to and
  from the stored version. The generated function leaves the embedded node specification to the
  scope it is given, and the hand-written one passes a scope that does nothing and converts the
  specification itself afterwards.
\<close>

section \<open>The older types\<close>

record ('c, 'k) CritControlPlaneSpec_v1alpha1 =
  p1_Replicas :: int
  p1_Version :: string
  p1_InfrastructureTemplate :: ObjectReference
  p1_CritConfigSpec :: "('c, 'k) CritConfigSpec_v1alpha1"

record CritControlPlaneStatus_v1alpha1 =
  pst1_Selector :: string
  pst1_Replicas :: "32 word"
  pst1_UpdatedReplicas :: "32 word"
  pst1_ReadyReplicas :: "32 word"
  pst1_UnavailableReplicas :: "32 word"
  pst1_Initialized :: bool
  pst1_Ready :: bool
  pst1_FailureReason :: string
  pst1_FailureMessage :: "string option"

record ('c, 'k) CritControlPlane_v1alpha1 =
  p1_meta :: ObjectMeta
  p1_Spec :: "('c, 'k) CritControlPlaneSpec_v1alpha1"
  p1_Status :: CritControlPlaneStatus_v1alpha1

section \<open>Specifications\<close>

text \<open>The scope of this package: converting a value leaves the destination as it is.\<close>

definition scope_Convert :: "'a \<Rightarrow> 'b \<Rightarrow> goerror option \<times> 'b" where
  "scope_Convert src dest = (None, dest)"

definition autoConvert_v1alpha1_CritControlPlaneSpec_To_v1alpha2_CritControlPlaneSpec ::
  "(('c, 'k) CritConfigSpec_v1alpha1 \<Rightarrow> CritConfigSpec \<Rightarrow> goerror option \<times> CritConfigSpec) \<Rightarrow>
   ('c, 'k) CritControlPlaneSpec_v1alpha1 \<Rightarrow> CritControlPlaneSpec \<Rightarrow> goerror option \<times> CritControlPlaneSpec" where
  "autoConvert_v1alpha1_CritControlPlaneSpec_To_v1alpha2_CritControlPlaneSpec s in' out =
     (let out = out\<lparr>ccps_Replicas := p1_Replicas in', ccps_Version := p1_Version in',
        ccps_InfrastructureTemplate := p1_InfrastructureTemplate in'\<rparr>
      in case s (p1_CritConfigSpec in') (ccps_CritConfigSpec out) of
           (e, spec) \<Rightarrow> (e, out\<lparr>ccps_CritConfigSpec := spec\<rparr>))"

definition autoConvert_v1alpha2_CritControlPlaneSpec_To_v1alpha1_CritControlPlaneSpec ::
  "(CritConfigSpec \<Rightarrow> ('c, 'k) CritConfigSpec_v1alpha1 \<Rightarrow> goerror option \<times> ('c, 'k) CritConfigSpec_v1alpha1) \<Rightarrow>
   CritControlPlaneSpec \<Rightarrow> ('c, 'k) CritControlPlaneSpec_v1alpha1 \<Rightarrow> goerror option \<times> ('c, 'k) CritControlPlaneSpec_v1alpha1" where
  "autoConvert_v1alpha2_CritControlPlaneSpec_To_v1alpha1_CritControlPlaneSpec s in' out =
     (let out = out\<lparr>p1_Replicas := ccps_Replicas in', p1_Version := ccps_Version in',
        p1_InfrastructureTemplate := ccps_InfrastructureTemplate in'\<rparr>
      in case s (ccps_CritConfigSpec in') (p1_CritConfigSpec out) of
           (e, spec) \<Rightarrow> (e, out\<lparr>p1_CritConfigSpec := spec\<rparr>))"

definition Convert_v1alpha1_CritControlPlaneSpec_To_v1alpha2_CritControlPlaneSpec ::
  "('c, 'k) crit_yaml \<Rightarrow> ('c, 'k) CritControlPlaneSpec_v1alpha1 \<Rightarrow> CritControlPlaneSpec \<Rightarrow> goerror option \<times> CritControlPlaneSpec" where
  "Convert_v1alpha1_CritControlPlaneSpec_To_v1alpha2_CritControlPlaneSpec Y in' out =
     (case autoConvert_v1alpha1_CritControlPlaneSpec_To_v1alpha2_CritControlPlaneSpec scope_Convert in' out of
        (Some err, out) \<Rightarrow> (Some err, out)
      | (None, out) \<Rightarrow>
          (case Convert_v1alpha1_CritConfigSpec_To_v1alpha2_CritConfigSpec Y (p1_CritConfigSpec in') (ccps_CritConfigSpec out) of
             (e, spec) \<Rightarrow> (e, out\<lparr>ccps_CritConfigSpec := spec\<rparr>)))"

definition Convert_v1alpha2_CritControlPlaneSpec_To_v1alpha1_CritControlPlaneSpec ::
  "('c, 'k) crit_yaml \<Rightarrow> CritControlPlaneSpec \<Rightarrow> ('c, 'k) CritControlPlaneSpec_v1alpha1 \<Rightarrow>
   goerror option \<times> ('c, 'k) CritControlPlaneSpec_v1alpha1" where
  "Convert_v1alpha2_CritControlPlaneSpec_To_v1alpha1_CritControlPlaneSpec Y in' out =
     (case autoConvert_v1alpha2_CritControlPlaneSpec_To_v1alpha1_CritControlPlaneSpec scope_Convert in' out of
        (Some err, out) \<Rightarrow> (Some err, out)
      | (None, out) \<Rightarrow>
          (case Convert_v1alpha2_CritConfigSpec_To_v1alpha1_CritConfigSpec Y (ccps_CritConfigSpec in') (p1_CritConfigSpec out) of
             (e, spec) \<Rightarrow> (e, out\<lparr>p1_CritConfigSpec := spec\<rparr>)))"

section \<open>Status\<close>

definition autoConvert_v1alpha1_CritControlPlaneStatus_To_v1alpha2_CritControlPlaneStatus ::
  "CritControlPlaneStatus_v1alpha1 \<Rightarrow> CritControlPlaneStatus \<Rightarrow> goerror option \<times> CritControlPlaneStatus" where
  "autoConvert_v1alpha1_CritControlPlaneStatus_To_v1alpha2_CritControlPlaneStatus in' out = (None, out\<lparr>
     ccpst_Selector := pst1_Selector in', ccpst_Replicas := pst1_Replicas in',
     ccpst_UpdatedReplicas := pst1_UpdatedReplicas in', ccpst_ReadyReplicas := pst1_ReadyReplicas in',
     ccpst_UnavailableReplicas := pst1_UnavailableReplicas in', ccpst_Initialized := pst1_Initialized in',
     ccpst_Ready := pst1_Ready in', ccpst_FailureReason := pst1_FailureReason in',
     ccpst_FailureMessage := pst1_FailureMessage in'\<rparr>)"

definition Convert_v1alpha1_CritControlPlaneStatus_To_v1alpha2_CritControlPlaneStatus ::
  "CritControlPlaneStatus_v1alpha1 \<Rightarrow> CritControlPlaneStatus \<Rightarrow> goerror option \<times> CritControlPlaneStatus" where
  "Convert_v1alpha1_CritControlPlaneStatus_To_v1alpha2_CritControlPlaneStatus =
     autoConvert_v1alpha1_CritControlPlaneStatus_To_v1alpha2_CritControlPlaneStatus"

definition autoConvert_v1alpha2_CritControlPlaneStatus_To_v1alpha1_CritControlPlaneStatus ::
  "CritControlPlaneStatus \<Rightarrow> CritControlPlaneStatus_v1alpha1 \<Rightarrow> goerror option \<times> CritControlPlaneStatus_v1alpha1" where
  "autoConvert_v1alpha2_CritControlPlaneStatus_To_v1alpha1_CritControlPlaneStatus in' out = (None, out\<lparr>
     pst1_Selector := ccpst_Selector in', pst1_Replicas := ccpst_Replicas in',
     pst1_UpdatedReplicas := ccpst_UpdatedReplicas in', pst1_ReadyReplicas := ccpst_ReadyReplicas in',
     pst1_UnavailableReplicas := ccpst_UnavailableReplicas in', pst1_Initialized := ccpst_Initialized in',
     pst1_Ready := ccpst_Ready in', pst1_FailureReason := ccpst_FailureReason in',
     pst1_FailureMessage := ccpst_FailureMessage in'\<rparr>)"

definition Convert_v1alpha2_CritControlPlaneStatus_To_v1alpha1_CritControlPlaneStatus ::
  "CritControlPlaneStatus \<Rightarrow> CritControlPlaneStatus_v1alpha1 \<Rightarrow> goerror option \<times> CritControlPlaneStatus_v1alpha1" where
  "Convert_v1alpha2_CritControlPlaneStatus_To_v1alpha1_CritControlPlaneStatus =
     autoConvert_v1alpha2_CritControlPlaneStatus_To_v1alpha1_CritControlPlaneStatus"

section \<open>Control planes\<close>

definition autoConvert_v1alpha1_CritControlPlane_To_v1alpha2_CritControlPlane ::
  "('c, 'k) crit_yaml \<Rightarrow> ('c, 'k) CritControlPlane_v1alpha1 \<Rightarrow> CritControlPlane \<Rightarrow> goerror option \<times> CritControlPlane" where
  "autoConvert_v1alpha1_CritControlPlane_To_v1alpha2_CritControlPlane Y in' out =
     (let out = out\<lparr>ccp_meta := p1_meta in'\<rparr>
      in case Convert_v1alpha1_CritControlPlaneSpec_To_v1alpha2_CritControlPlaneSpec Y (p1_Spec in') (ccp_Spec out) of
           (Some err, spec) \<Rightarrow> (Some err, out\<lparr>ccp_Spec := spec\<rparr>)
         | (None, spec) \<Rightarrow>
             (case Convert_v1alpha1_CritControlPlaneStatus_To_v1alpha2_CritControlPlaneStatus (p1_Status in') (ccp_Status out) of
                (e, status) \<Rightarrow> (e, out\<lparr>ccp_Spec := spec, ccp_Status := status\<rparr>)))"

definition Convert_v1alpha1_CritControlPlane_To_v1alpha2_CritControlPlane ::
  "('c, 'k) crit_yaml \<Rightarrow> ('c, 'k) CritControlPlane_v1alpha1 \<Rightarrow> CritControlPlane \<Rightarrow> goerror option \<times> CritControlPlane" where
  "Convert_v1alpha1_CritControlPlane_To_v1alpha2_CritControlPlane Y =
     autoConvert_v1alpha1_CritControlPlane_To_v1alpha2_CritControlPlane Y"

definition autoConvert_v1alpha2_CritControlPlane_To_v1alpha1_CritControlPlane ::
  "('c, 'k) crit_yaml \<Rightarrow> CritControlPlane \<Rightarrow> ('c, 'k) CritControlPlane_v1alpha1 \<Rightarrow>
   goerror option \<times> ('c, 'k) CritControlPlane_v1alpha1" where
  "autoConvert_v1alpha2_CritControlPlane_To_v1alpha1_CritControlPlane Y in' out =
     (let out = out\<lparr>p1_meta := ccp_meta in'\<rparr>
      in case Convert_v1alpha2_CritControlPlaneSpec_To_v1alpha1_CritControlPlaneSpec Y (ccp_Spec in') (p1_Spec out) of
           (Some err, spec) \<Rightarrow> (Some err, out\<lparr>p1_Spec := spec\<rparr>)
         | (None, spec) \<Rightarrow>
             (case Convert_v1alpha2_CritControlPlaneStatus_To_v1alpha1_CritControlPlaneStatus (ccp_Status in') (p1_Status out) of
                (e, status) \<Rightarrow> (e, out\<lparr>p1_Spec := spec, p1_Status := status\<rparr>)))"

definition Convert_v1alpha2_CritControlPlane_To_v1alpha1_CritControlPlane ::
  "('c, 'k) crit_yaml \<Rightarrow> CritControlPlane \<Rightarrow> ('c, 'k) CritControlPlane_v1alpha1 \<Rightarrow>
   goerror option \<times> ('c, 'k) CritControlPlane_v1alpha1" where
  "Convert_v1alpha2_CritControlPlane_To_v1alpha1_CritControlPlane Y =
     autoConvert_v1alpha2_CritControlPlane_To_v1alpha1_CritControlPlane Y"

definition CritControlPlane_ConvertTo ::
  "('c, 'k) crit_yaml \<Rightarrow> ('c, 'k) CritControlPlane_v1alpha1 \<Rightarrow> CritControlPlane \<Rightarrow> goerror option \<times> CritControlPlane" where
  "CritControlPlane_ConvertTo Y src dst = Convert_v1alpha1_CritControlPlane_To_v1alpha2_CritControlPlane Y src dst"

definition CritControlPlane_ConvertFrom ::
  "('c, 'k) crit_yaml \<Rightarrow> CritControlPlane \<Rightarrow> ('c, 'k) CritControlPlane_v1alpha1 \<Rightarrow>
   goerror option \<times> ('c, 'k) CritControlPlane_v1alpha1" where
  "CritControlPlane_ConvertFrom Y src dst = Convert_v1alpha2_CritControlPlane_To_v1alpha1_CritControlPlane Y src dst"

section \<open>Lists\<close>

definition zero_ref :: ObjectReference where
  "zero_ref = \<lparr>ref_Kind = [], ref_APIVersion = [], ref_Namespace = [], ref_Name = [], ref_UID = []\<rparr>"

definition zero_ccp :: CritControlPlane where
  "zero_ccp = \<lparr>ccp_meta = zero_meta,
     ccp_Spec = \<lparr>ccps_Replicas = 0, ccps_Version = [], ccps_InfrastructureTemplate = zero_ref, ccps_CritConfigSpec = zero_spec\<rparr>,
     ccp_Status = \<lparr>ccpst_Selector = [], ccpst_Replicas = 0, ccpst_UpdatedReplicas = 0, ccpst_ReadyReplicas = 0,
       ccpst_UnavailableReplicas = 0, ccpst_Initialized = False, ccpst_Ready = False, ccpst_FailureReason = [],
       ccpst_FailureMessage = None\<rparr>\<rparr>"

definition zero_ccp_v1alpha1 :: "('c, 'k) CritControlPlane_v1alpha1" where
  "zero_ccp_v1alpha1 = \<lparr>p1_meta = zero_meta,
     p1_Spec = \<lparr>p1_Replicas = 0, p1_Version = [], p1_InfrastructureTemplate = zero_ref, p1_CritConfigSpec = zero_spec_v1alpha1\<rparr>,
     p1_Status = \<lparr>pst1_Selector = [], pst1_Replicas = 0, pst1_UpdatedReplicas = 0, pst1_ReadyReplicas = 0,
       pst1_UnavailableReplicas = 0, pst1_Initialized = False, pst1_Ready = False, pst1_FailureReason = [],
       pst1_FailureMessage = None\<rparr>\<rparr>"

definition autoConvert_v1alpha1_CritControlPlaneList_To_v1alpha2_CritControlPlaneList ::
  "('c, 'k) crit_yaml \<Rightarrow> ('c, 'k) CritControlPlane_v1alpha1 ItemList \<Rightarrow> CritControlPlane ItemList \<Rightarrow>
   goerror option \<times> CritControlPlane ItemList" where
  "autoConvert_v1alpha1_CritControlPlaneList_To_v1alpha2_CritControlPlaneList Y =
     convert_list (Convert_v1alpha1_CritControlPlane_To_v1alpha2_CritControlPlane Y) zero_ccp"

definition Convert_v1alpha1_CritControlPlaneList_To_v1alpha2_CritControlPlaneList ::
  "('c, 'k) crit_yaml \<Rightarrow> ('c, 'k) CritControlPlane_v1alpha1 ItemList \<Rightarrow> CritControlPlane ItemList \<Rightarrow>
   goerror option \<times> CritControlPlane ItemList" where
  "Convert_v1alpha1_CritControlPlaneList_To_v1alpha2_CritControlPlaneList Y =
     autoConvert_v1alpha1_CritControlPlaneList_To_v1alpha2_CritControlPlaneList Y"

definition autoConvert_v1alpha2_CritControlPlaneList_To_v1alpha1_CritControlPlaneList ::
  "('c, 'k) crit_yaml \<Rightarrow> CritControlPlane ItemList \<Rightarrow> ('c, 'k) CritControlPlane_v1alpha1 ItemList \<Rightarrow>
   goerror option \<times> ('c, 'k) CritControlPlane_v1alpha1 ItemList" where
  "autoConvert_v1alpha2_CritControlPlaneList_To_v1alpha1_CritControlPlaneList Y =
     convert_list (Convert_v1alpha2_CritControlPlane_To_v1alpha1_CritControlPlane Y) zero_ccp_v1alpha1"

definition Convert_v1alpha2_CritControlPlaneList_To_v1alpha1_CritControlPlaneList ::
  "('c, 'k) crit_yaml \<Rightarrow> CritControlPlane ItemList \<Rightarrow> ('c, 'k) CritControlPlane_v1alpha1 ItemList \<Rightarrow>
   goerror option \<times> ('c, 'k) CritControlPlane_v1alpha1 ItemList" where
  "Convert_v1alpha2_CritControlPlaneList_To_v1alpha1_CritControlPlaneList Y =
     autoConvert_v1alpha2_CritControlPlaneList_To_v1alpha1_CritControlPlaneList Y"

section \<open>Round trips\<close>

lemmas ccp_conversions =
  autoConvert_v1alpha1_CritControlPlaneSpec_To_v1alpha2_CritControlPlaneSpec_def
  autoConvert_v1alpha2_CritControlPlaneSpec_To_v1alpha1_CritControlPlaneSpec_def
  Convert_v1alpha1_CritControlPlaneSpec_To_v1alpha2_CritControlPlaneSpec_def
  Convert_v1alpha2_CritControlPlaneSpec_To_v1alpha1_CritControlPlaneSpec_def
  autoConvert_v1alpha1_CritControlPlaneStatus_To_v1alpha2_CritControlPlaneStatus_def
  autoConvert_v1alpha2_CritControlPlaneStatus_To_v1alpha1_CritControlPlaneStatus_def
  Convert_v1alpha1_CritControlPlaneStatus_To_v1alpha2_CritControlPlaneStatus_def
  Convert_v1alpha2_CritControlPlaneStatus_To_v1alpha1_CritControlPlaneStatus_def
  autoConvert_v1alpha1_CritControlPlane_To_v1alpha2_CritControlPlane_def
  autoConvert_v1alpha2_CritControlPlane_To_v1alpha1_CritControlPlane_def
  Convert_v1alpha1_CritControlPlane_To_v1alpha2_CritControlPlane_def
  Convert_v1alpha2_CritControlPlane_To_v1alpha1_CritControlPlane_def
  scope_Convert_def zero_ccp_def zero_ccp_v1alpha1_def

lemmas ccp_list_conversions =
  Convert_v1alpha1_CritControlPlaneList_To_v1alpha2_CritControlPlaneList_def
  Convert_v1alpha2_CritControlPlaneList_To_v1alpha1_CritControlPlaneList_def
  autoConvert_v1alpha1_CritControlPlaneList_To_v1alpha2_CritControlPlaneList_def
  autoConvert_v1alpha2_CritControlPlaneList_To_v1alpha1_CritControlPlaneList_def

lemma ccp_round_trip:
  assumes "yaml_restores Y" and "one_configuration (p1_CritConfigSpec (p1_Spec c))"
  shows "\<exists>d. CritControlPlane_ConvertTo Y c zero_ccp = (None, d) \<and> CritControlPlane_ConvertFrom Y d zero_ccp_v1alpha1 = (None, c)"
proof -
  obtain t where "Convert_v1alpha1_CritConfigSpec_To_v1alpha2_CritConfigSpec Y (p1_CritConfigSpec (p1_Spec c)) zero_spec = (None, t)"
    "Convert_v1alpha2_CritConfigSpec_To_v1alpha1_CritConfigSpec Y t zero_spec_v1alpha1 = (None, p1_CritConfigSpec (p1_Spec c))"
    using spec_round_trip [OF assms] by blast
  then show ?thesis
    by (simp add: CritControlPlane_ConvertTo_def CritControlPlane_ConvertFrom_def ccp_conversions)
qed

interpretation ccp_lists: round_trip
  "Convert_v1alpha1_CritControlPlane_To_v1alpha2_CritControlPlane Y"
  "Convert_v1alpha2_CritControlPlane_To_v1alpha1_CritControlPlane Y"
  zero_ccp_v1alpha1 zero_ccp "\<lambda>c. yaml_restores Y \<and> one_configuration (p1_CritConfigSpec (p1_Spec c))" for Y
  using ccp_round_trip [unfolded CritControlPlane_ConvertTo_def CritControlPlane_ConvertFrom_def]
  by unfold_locales force+

section \<open>Properties\<close>



end
