(* ===== verification/Registration.thy ===== *)
theory Registration
  imports Ccp_Conversion
begin

text \<open>
  \<^verbatim>\<open>RegisterConversions\<close> of \<^verbatim>\<open>src/apis/bootstrap/v1alpha1/zz_generated.conversion.go\<close> and of
  \<^verbatim>\<open>src/apis/controlplane/v1alpha1/zz_generated.conversion.go\<close>: the conversion functions and the types they are
  registered for. A registered function takes two values of interface types and asserts their types; an
  assertion that fails panics. The scheme is a parameter: what it does with a registration is code of
  apimachinery.
\<close>

section \<open>Objects behind an interface\<close>

datatype ('c, 'k) api_object =
    CritConfig_1 "('c, 'k) CritConfig_v1alpha1"
  | CritConfig_2 "CritConfig"
  | CritConfigList_1 "('c, 'k) CritConfig_v1alpha1 ItemList"
  | CritConfigList_2 "CritConfig ItemList"
  | CritConfigStatus_1 "CritConfigStatus_v1alpha1"
  | CritConfigStatus_2 "CritConfigStatus"
  | CritConfigTemplate_1 "('c, 'k) CritConfigSpec_v1alpha1 CritConfigTemplate"
  | CritConfigTemplate_2 "CritConfigSpec CritConfigTemplate"
  | CritConfigTemplateList_1 "('c, 'k) CritConfigSpec_v1alpha1 CritConfigTemplate ItemList"
  | CritConfigTemplateList_2 "CritConfigSpec CritConfigTemplate ItemList"
  | CritConfigTemplateResource_1 "('c, 'k) CritConfigSpec_v1alpha1 CritConfigTemplateResource"
  | CritConfigTemplateResource_2 "CritConfigSpec CritConfigTemplateResource"
  | CritConfigTemplateSpec_1 "('c, 'k) CritConfigSpec_v1alpha1 CritConfigTemplateSpec"
  | CritConfigTemplateSpec_2 "CritConfigSpec CritConfigTemplateSpec"
  | File_1 "File_v1alpha1"
  | File_2 "File"
  | NTP_1 "NTP_v1alpha1"
  | NTP_2 "NTP"
  | User_1 "User_v1alpha1"
  | User_2 "User"
  | CritConfigSpec_1 "('c, 'k) CritConfigSpec_v1alpha1"
  | CritConfigSpec_2 "CritConfigSpec"
  | CritControlPlane_1 "('c, 'k) CritControlPlane_v1alpha1"
  | CritControlPlane_2 "CritControlPlane"
  | CritControlPlaneList_1 "('c, 'k) CritControlPlane_v1alpha1 ItemList"
  | CritControlPlaneList_2 "CritControlPlane ItemList"
  | CritControlPlaneStatus_1 "CritControlPlaneStatus_v1alpha1"
  | CritControlPlaneStatus_2 "CritControlPlaneStatus"
  | CritControlPlaneSpec_1 "('c, 'k) CritControlPlaneSpec_v1alpha1"
  | CritControlPlaneSpec_2 "CritControlPlaneSpec"

fun type_of :: "('c, 'k) api_object \<Rightarrow> string \<times> string" where
  "type_of (CritConfig_1 _) = (''v1alpha1'', ''CritConfig'')"
| "type_of (CritConfig_2 _) = (''v1alpha2'', ''CritConfig'')"
| "type_of (CritConfigList_1 _) = (''v1alpha1'', ''CritConfigList'')"
| "type_of (CritConfigList_2 _) = (''v1alpha2'', ''CritConfigList'')"
| "type_of (CritConfigStatus_1 _) = (''v1alpha1'', ''CritConfigStatus'')"
| "type_of (CritConfigStatus_2 _) = (''v1alpha2'', ''CritConfigStatus'')"
| "type_of (CritConfigTemplate_1 _) = (''v1alpha1'', ''CritConfigTemplate'')"
| "type_of (CritConfigTemplate_2 _) = (''v1alpha2'', ''CritConfigTemplate'')"
| "type_of (CritConfigTemplateList_1 _) = (''v1alpha1'', ''CritConfigTemplateList'')"
| "type_of (CritConfigTemplateList_2 _) = (''v1alpha2'', ''CritConfigTemplateList'')"
| "type_of (CritConfigTemplateResource_1 _) = (''v1alpha1'', ''CritConfigTemplateResource'')"
| "type_of (CritConfigTemplateResource_2 _) = (''v1alpha2'', ''CritConfigTemplateResource'')"
| "type_of (CritConfigTemplateSpec_1 _) = (''v1alpha1'', ''CritConfigTemplateSpec'')"
| "type_of (CritConfigTemplateSpec_2 _) = (''v1alpha2'', ''CritConfigTemplateSpec'')"
| "type_of (File_1 _) = (''v1alpha1'', ''File'')"
| "type_of (File_2 _) = (''v1alpha2'', ''File'')"
| "type_of (NTP_1 _) = (''v1alpha1'', ''NTP'')"
| "type_of (NTP_2 _) = (''v1alpha2'', ''NTP'')"
| "type_of (User_1 _) = (''v1alpha1'', ''User'')"
| "type_of (User_2 _) = (''v1alpha2'', ''User'')"
| "type_of (CritConfigSpec_1 _) = (''v1alpha1'', ''CritConfigSpec'')"
| "type_of (CritConfigSpec_2 _) = (''v1alpha2'', ''CritConfigSpec'')"
| "type_of (CritControlPlane_1 _) = (''v1alpha1'', ''CritControlPlane'')"
| "type_of (CritControlPlane_2 _) = (''v1alpha2'', ''CritControlPlane'')"
| "type_of (CritControlPlaneList_1 _) = (''v1alpha1'', ''CritControlPlaneList'')"
| "type_of (CritControlPlaneList_2 _) = (''v1alpha2'', ''CritControlPlaneList'')"
| "type_of (CritControlPlaneStatus_1 _) = (''v1alpha1'', ''CritControlPlaneStatus'')"
| "type_of (CritControlPlaneStatus_2 _) = (''v1alpha2'', ''CritControlPlaneStatus'')"
| "type_of (CritControlPlaneSpec_1 _) = (''v1alpha1'', ''CritControlPlaneSpec'')"
| "type_of (CritControlPlaneSpec_2 _) = (''v1alpha2'', ''CritControlPlaneSpec'')"

text \<open>A registration: by which method, from which type, to which type, and the function. \<open>None\<close> is a failed assertion.\<close>

record ('c, 'k) registration =
  reg_generated :: bool
  reg_from :: "string \<times> string"
  reg_to :: "string \<times> string"
  reg_func :: "('c, 'k) api_object \<Rightarrow> ('c, 'k) api_object \<Rightarrow> (goerror option \<times> ('c, 'k) api_object) option"

definition v1 :: "string \<Rightarrow> string \<times> string" where "v1 n = (''v1alpha1'', n)"
definition v2 :: "string \<Rightarrow> string \<times> string" where "v2 n = (''v1alpha2'', n)"

section \<open>The registrations\<close>

definition bootstrap_conversions :: "('c, 'k) crit_yaml \<Rightarrow> ('c, 'k) registration list" where
  "bootstrap_conversions Y = [
     \<lparr>reg_generated = True, reg_from = v1 ''CritConfig'', reg_to = v2 ''CritConfig'', reg_func = (\<lambda>a b. case (a, b) of
       (CritConfig_1 x, CritConfig_2 y) \<Rightarrow> Some (apsnd CritConfig_2 (Convert_v1alpha1_CritConfig_To_v1alpha2_CritConfig Y x y)) | _ \<Rightarrow> None)\<rparr>,
     \<lparr>reg_generated = True, reg_from = v2 ''CritConfig'', reg_to = v1 ''CritConfig'', reg_func = (\<lambda>a b. case (a, b) of
       (CritConfig_2 x, CritConfig_1 y) \<Rightarrow> Some (apsnd CritConfig_1 (Convert_v1alpha2_CritConfig_To_v1alpha1_CritConfig Y x y)) | _ \<Rightarrow> None)\<rparr>,
     \<lparr>reg_generated = True, reg_from = v1 ''CritConfigList'', reg_to = v2 ''CritConfigList'', reg_func = (\<lambda>a b. case (a, b) of
       (CritConfigList_1 x, CritConfigList_2 y) \<Rightarrow> Some (apsnd CritConfigList_2 (Convert_v1alpha1_CritConfigList_To_v1alpha2_CritConfigList Y x y)) | _ \<Rightarrow> None)\<rparr>,
     \<lparr>reg_generated = True, reg_from = v2 ''CritConfigList'', reg_to = v1 ''CritConfigList'', reg_func = (\<lambda>a b. case (a, b) of
       (CritConfigList_2 x, CritConfigList_1 y) \<Rightarrow> Some (apsnd CritConfigList_1 (Convert_v1alpha2_CritConfigList_To_v1alpha1_CritConfigList Y x y)) | _ \<Rightarrow> None)\<rparr>,
     \<lparr>reg_generated = True, reg_from = v1 ''CritConfigStatus'', reg_to = v2 ''CritConfigStatus'', reg_func = (\<lambda>a b. case (a, b) of
       (CritConfigStatus_1 x, CritConfigStatus_2 y) \<Rightarrow> Some (apsnd CritConfigStatus_2 (Convert_v1alpha1_CritConfigStatus_To_v1alpha2_CritConfigStatus x y)) | _ \<Rightarrow> None)\<rparr>,
     \<lparr>reg_generated = True, reg_from = v2 ''CritConfigStatus'', reg_to = v1 ''CritConfigStatus'', reg_func = (\<lambda>a b. case (a, b) of
       (CritConfigStatus_2 x, CritConfigStatus_1 y) \<Rightarrow> Some (apsnd CritConfigStatus_1 (Convert_v1alpha2_CritConfigStatus_To_v1alpha1_CritConfigStatus x y)) | _ \<Rightarrow> None)\<rparr>,
     \<lparr>reg_generated = True, reg_from = v1 ''CritConfigTemplate'', reg_to = v2 ''CritConfigTemplate'', reg_func = (\<lambda>a b. case (a, b) of
       (CritConfigTemplate_1 x, CritConfigTemplate_2 y) \<Rightarrow> Some (apsnd CritConfigTemplate_2 (Convert_v1alpha1_CritConfigTemplate_To_v1alpha2_CritConfigTemplate Y x y)) | _ \<Rightarrow> None)\<rparr>,
     \<lparr>reg_generated = True, reg_from = v2 ''CritConfigTemplate'', reg_to = v1 ''CritConfigTemplate'', reg_func = (\<lambda>a b. case (a, b) of
       (CritConfigTemplate_2 x, CritConfigTemplate_1 y) \<Rightarrow> Some (apsnd CritConfigTemplate_1 (Convert_v1alpha2_CritConfigTemplate_To_v1alpha1_CritConfigTemplate Y x y)) | _ \<Rightarrow> None)\<rparr>,
     \<lparr>reg_generated = True, reg_from = v1 ''CritConfigTemplateList'', reg_to = v2 ''CritConfigTemplateList'', reg_func = (\<lambda>a b. case (a, b) of
       (CritConfigTemplateList_1 x, CritConfigTemplateList_2 y) \<Rightarrow> Some (apsnd CritConfigTemplateList_2 (Convert_v1alpha1_CritConfigTemplateList_To_v1alpha2_CritConfigTemplateList Y x y)) | _ \<Rightarrow> None)\<rparr>,
     \<lparr>reg_generated = True, reg_from = v2 ''CritConfigTemplateList'', reg_to = v1 ''CritConfigTemplateList'', reg_func = (\<lambda>a b. case (a, b) of
       (CritConfigTemplateList_2 x, CritConfigTemplateList_1 y) \<Rightarrow> Some (apsnd CritConfigTemplateList_1 (Convert_v1alpha2_CritConfigTemplateList_To_v1alpha1_CritConfigTemplateList Y x y)) | _ \<Rightarrow> None)\<rparr>,
     \<lparr>reg_generated = True, reg_from = v1 ''CritConfigTemplateResource'', reg_to = v2 ''CritConfigTemplateResource'', reg_func = (\<lambda>a b. case (a, b) of
       (CritConfigTemplateResource_1 x, CritConfigTemplateResource_2 y) \<Rightarrow> Some (apsnd CritConfigTemplateResource_2 (Convert_v1alpha1_CritConfigTemplateResource_To_v1alpha2_CritConfigTemplateResource Y x y)) | _ \<Rightarrow> None)\<rparr>,
     \<lparr>reg_generated = True, reg_from = v2 ''CritConfigTemplateResource'', reg_to = v1 ''CritConfigTemplateResource'', reg_func = (\<lambda>a b. case (a, b) of
       (CritConfigTemplateResource_2 x, CritConfigTemplateResource_1 y) \<Rightarrow> Some (apsnd CritConfigTemplateResource_1 (Convert_v1alpha2_CritConfigTemplateResource_To_v1alpha1_CritConfigTemplateResource Y x y)) | _ \<Rightarrow> None)\<rparr>,
     \<lparr>reg_generated = True, reg_from = v1 ''CritConfigTemplateSpec'', reg_to = v2 ''CritConfigTemplateSpec'', reg_func = (\<lambda>a b. case (a, b) of
       (CritConfigTemplateSpec_1 x, CritConfigTemplateSpec_2 y) \<Rightarrow> Some (apsnd CritConfigTemplateSpec_2 (Convert_v1alpha1_CritConfigTemplateSpec_To_v1alpha2_CritConfigTemplateSpec Y x y)) | _ \<Rightarrow> None)\<rparr>,
     \<lparr>reg_generated = True, reg_from = v2 ''CritConfigTemplateSpec'', reg_to = v1 ''CritConfigTemplateSpec'', reg_func = (\<lambda>a b. case (a, b) of
       (CritConfigTemplateSpec_2 x, CritConfigTemplateSpec_1 y) \<Rightarrow> Some (apsnd CritConfigTemplateSpec_1 (Convert_v1alpha2_CritConfigTemplateSpec_To_v1alpha1_CritConfigTemplateSpec Y x y)) | _ \<Rightarrow> None)\<rparr>,
     \<lparr>reg_generated = True, reg_from = v1 ''File'', reg_to = v2 ''File'', reg_func = (\<lambda>a b. case (a, b) of
       (File_1 x, File_2 y) \<Rightarrow> Some (apsnd File_2 (Convert_v1alpha1_File_To_v1alpha2_File x y)) | _ \<Rightarrow> None)\<rparr>,
     \<lparr>reg_generated = True, reg_from = v2 ''File'', reg_to = v1 ''File'', reg_func = (\<lambda>a b. case (a, b) of
       (File_2 x, File_1 y) \<Rightarrow> Some (apsnd File_1 (Convert_v1alpha2_File_To_v1alpha1_File x y)) | _ \<Rightarrow> None)\<rparr>,
     \<lparr>reg_generated = True, reg_from = v1 ''NTP'', reg_to = v2 ''NTP'', reg_func = (\<lambda>a b. case (a, b) of
       (NTP_1 x, NTP_2 y) \<Rightarrow> Some (apsnd NTP_2 (Convert_v1alpha1_NTP_To_v1alpha2_NTP x y)) | _ \<Rightarrow> None)\<rparr>,
     \<lparr>reg_generated = True, reg_from = v2 ''NTP'', reg_to = v1 ''NTP'', reg_func = (\<lambda>a b. case (a, b) of
       (NTP_2 x, NTP_1 y) \<Rightarrow> Some (apsnd NTP_1 (Convert_v1alpha2_NTP_To_v1alpha1_NTP x y)) | _ \<Rightarrow> None)\<rparr>,
     \<lparr>reg_generated = True, reg_from = v1 ''User'', reg_to = v2 ''User'', reg_func = (\<lambda>a b. case (a, b) of
       (User_1 x, User_2 y) \<Rightarrow> Some (apsnd User_2 (Convert_v1alpha1_User_To_v1alpha2_User x y)) | _ \<Rightarrow> None)\<rparr>,
     \<lparr>reg_generated = True, reg_from = v2 ''User'', reg_to = v1 ''User'', reg_func = (\<lambda>a b. case (a, b) of
       (User_2 x, User_1 y) \<Rightarrow> Some (apsnd User_1 (Convert_v1alpha2_User_To_v1alpha1_User x y)) | _ \<Rightarrow> None)\<rparr>,
     \<lparr>reg_generated = False, reg_from = v1 ''CritConfigSpec'', reg_to = v2 ''CritConfigSpec'', reg_func = (\<lambda>a b. case (a, b) of
       (CritConfigSpec_1 x, CritConfigSpec_2 y) \<Rightarrow> Some (apsnd CritConfigSpec_2 (Convert_v1alpha1_CritConfigSpec_To_v1alpha2_CritConfigSpec Y x y)) | _ \<Rightarrow> None)\<rparr>,
     \<lparr>reg_generated = False, reg_from = v2 ''CritConfigSpec'', reg_to = v1 ''CritConfigSpec'', reg_func = (\<lambda>a b. case (a, b) of
       (CritConfigSpec_2 x, CritConfigSpec_1 y) \<Rightarrow> Some (apsnd CritConfigSpec_1 (Convert_v1alpha2_CritConfigSpec_To_v1alpha1_CritConfigSpec Y x y)) | _ \<Rightarrow> None)\<rparr>]"

definition controlplane_conversions :: "('c, 'k) crit_yaml \<Rightarrow> ('c, 'k) registration list" where
  "controlplane_conversions Y = [
     \<lparr>reg_generated = True, reg_from = v1 ''CritControlPlane'', reg_to = v2 ''CritControlPlane'', reg_func = (\<lambda>a b. case (a, b) of
       (CritControlPlane_1 x, CritControlPlane_2 y) \<Rightarrow> Some (apsnd CritControlPlane_2 (Convert_v1alpha1_CritControlPlane_To_v1alpha2_CritControlPlane Y x y)) | _ \<Rightarrow> None)\<rparr>,
     \<lparr>reg_generated = True, reg_from = v2 ''CritControlPlane'', reg_to = v1 ''CritControlPlane'', reg_func = (\<lambda>a b. case (a, b) of
       (CritControlPlane_2 x, CritControlPlane_1 y) \<Rightarrow> Some (apsnd CritControlPlane_1 (Convert_v1alpha2_CritControlPlane_To_v1alpha1_CritControlPlane Y x y)) | _ \<Rightarrow> None)\<rparr>,
     \<lparr>reg_generated = True, reg_from = v1 ''CritControlPlaneList'', reg_to = v2 ''CritControlPlaneList'', reg_func = (\<lambda>a b. case (a, b) of
       (CritControlPlaneList_1 x, CritControlPlaneList_2 y) \<Rightarrow> Some (apsnd CritControlPlaneList_2 (Convert_v1alpha1_CritControlPlaneList_To_v1alpha2_CritControlPlaneList Y x y)) | _ \<Rightarrow> None)\<rparr>,
     \<lparr>reg_generated = True, reg_from = v2 ''CritControlPlaneList'', reg_to = v1 ''CritControlPlaneList'', reg_func = (\<lambda>a b. case (a, b) of
       (CritControlPlaneList_2 x, CritControlPlaneList_1 y) \<Rightarrow> Some (apsnd CritControlPlaneList_1 (Convert_v1alpha2_CritControlPlaneList_To_v1alpha1_CritControlPlaneList Y x y)) | _ \<Rightarrow> None)\<rparr>,
     \<lparr>reg_generated = True, reg_from = v1 ''CritControlPlaneStatus'', reg_to = v2 ''CritControlPlaneStatus'', reg_func = (\<lambda>a b. case (a, b) of
       (CritControlPlaneStatus_1 x, CritControlPlaneStatus_2 y) \<Rightarrow> Some (apsnd CritControlPlaneStatus_2 (Convert_v1alpha1_CritControlPlaneStatus_To_v1alpha2_CritControlPlaneStatus x y)) | _ \<Rightarrow> None)\<rparr>,
     \<lparr>reg_generated = True, reg_from = v2 ''CritControlPlaneStatus'', reg_to = v1 ''CritControlPlaneStatus'', reg_func = (\<lambda>a b. case (a, b) of
       (CritControlPlaneStatus_2 x, CritControlPlaneStatus_1 y) \<Rightarrow> Some (apsnd CritControlPlaneStatus_1 (Convert_v1alpha2_CritControlPlaneStatus_To_v1alpha1_CritControlPlaneStatus x y)) | _ \<Rightarrow> None)\<rparr>,
     \<lparr>reg_generated = False, reg_from = v1 ''CritControlPlaneSpec'', reg_to = v2 ''CritControlPlaneSpec'', reg_func = (\<lambda>a b. case (a, b) of
       (CritControlPlaneSpec_1 x, CritControlPlaneSpec_2 y) \<Rightarrow> Some (apsnd CritControlPlaneSpec_2 (Convert_v1alpha1_CritControlPlaneSpec_To_v1alpha2_CritControlPlaneSpec Y x y)) | _ \<Rightarrow> None)\<rparr>,
     \<lparr>reg_generated = False, reg_from = v2 ''CritControlPlaneSpec'', reg_to = v1 ''CritControlPlaneSpec'', reg_func = (\<lambda>a b. case (a, b) of
       (CritControlPlaneSpec_2 x, CritControlPlaneSpec_1 y) \<Rightarrow> Some (apsnd CritControlPlaneSpec_1 (Convert_v1alpha2_CritControlPlaneSpec_To_v1alpha1_CritControlPlaneSpec Y x y)) | _ \<Rightarrow> None)\<rparr>]"

text \<open>The functions: they stop at the first registration that the scheme refuses.\<close>

fun register :: "('r \<Rightarrow> 's \<Rightarrow> goerror option \<times> 's) \<Rightarrow> 'r list \<Rightarrow> 's \<Rightarrow> goerror option \<times> 's" where
  "register add [] s = (None, s)"
| "register add (r # rs) s = (case add r s of
     (Some err, s) \<Rightarrow> (Some err, s)
   | (None, s) \<Rightarrow> register add rs s)"

definition bootstrap_RegisterConversions ::
  "('c, 'k) crit_yaml \<Rightarrow> (('c, 'k) registration \<Rightarrow> 's \<Rightarrow> goerror option \<times> 's) \<Rightarrow> 's \<Rightarrow> goerror option \<times> 's" where
  "bootstrap_RegisterConversions Y add s = register add (bootstrap_conversions Y) s"

definition controlplane_RegisterConversions ::
  "('c, 'k) crit_yaml \<Rightarrow> (('c, 'k) registration \<Rightarrow> 's \<Rightarrow> goerror option \<times> 's) \<Rightarrow> 's \<Rightarrow> goerror option \<times> 's" where
  "controlplane_RegisterConversions Y add s = register add (controlplane_conversions Y) s"

text \<open>A scheme that refuses some registrations keeps those before the first refused one.\<close>

lemma register_refusing:
  "register (\<lambda>r l. if accepts r then (None, l @ [r]) else (Some (err r), l)) rs l =
     (map_option err (find (\<lambda>r. \<not> accepts r) rs), l @ takeWhile accepts rs)"
  by (induction rs arbitrary: l) simp_all

section \<open>Every registration is well typed\<close>

definition well_typed :: "('c, 'k) registration \<Rightarrow> bool" where
  "well_typed r \<longleftrightarrow> (\<forall>a b. type_of a = reg_from r \<longrightarrow> type_of b = reg_to r \<longrightarrow>
     (\<exists>e c. reg_func r a b = Some (e, c) \<and> type_of c = reg_to r))"

text \<open>What a type assertion finds: the constructors are the types.\<close>

named_theorems asserted

lemma asserted_CritConfig [asserted]:
  "type_of a = v1 ''CritConfig'' \<longleftrightarrow> (\<exists>x. a = CritConfig_1 x)" "type_of a = v2 ''CritConfig'' \<longleftrightarrow> (\<exists>x. a = CritConfig_2 x)"
  by (cases a; simp add: v1_def v2_def)+

lemma asserted_CritConfigList [asserted]:
  "type_of a = v1 ''CritConfigList'' \<longleftrightarrow> (\<exists>x. a = CritConfigList_1 x)" "type_of a = v2 ''CritConfigList'' \<longleftrightarrow> (\<exists>x. a = CritConfigList_2 x)"
  by (cases a; simp add: v1_def v2_def)+

lemma asserted_CritConfigStatus [asserted]:
  "type_of a = v1 ''CritConfigStatus'' \<longleftrightarrow> (\<exists>x. a = CritConfigStatus_1 x)" "type_of a = v2 ''CritConfigStatus'' \<longleftrightarrow> (\<exists>x. a = CritConfigStatus_2 x)"
  by (cases a; simp add: v1_def v2_def)+

lemma asserted_CritConfigTemplate [asserted]:
  "type_of a = v1 ''CritConfigTemplate'' \<longleftrightarrow> (\<exists>x. a = CritConfigTemplate_1 x)" "type_of a = v2 ''CritConfigTemplate'' \<longleftrightarrow> (\<exists>x. a = CritConfigTemplate_2 x)"
  by (cases a; simp add: v1_def v2_def)+

lemma asserted_CritConfigTemplateList [asserted]:
  "type_of a = v1 ''CritConfigTemplateList'' \<longleftrightarrow> (\<exists>x. a = CritConfigTemplateList_1 x)" "type_of a = v2 ''CritConfigTemplateList'' \<longleftrightarrow> (\<exists>x. a = CritConfigTemplateList_2 x)"
  by (cases a; simp add: v1_def v2_def)+

lemma asserted_CritConfigTemplateResource [asserted]:
  "type_of a = v1 ''CritConfigTemplateResource'' \<longleftrightarrow> (\<exists>x. a = CritConfigTemplateResource_1 x)" "type_of a = v2 ''CritConfigTemplateResource'' \<longleftrightarrow> (\<exists>x. a = CritConfigTemplateResource_2 x)"
  by (cases a; simp add: v1_def v2_def)+

lemma asserted_CritConfigTemplateSpec [asserted]:
  "type_of a = v1 ''CritConfigTemplateSpec'' \<longleftrightarrow> (\<exists>x. a = CritConfigTemplateSpec_1 x)" "type_of a = v2 ''CritConfigTemplateSpec'' \<longleftrightarrow> (\<exists>x. a = CritConfigTemplateSpec_2 x)"
  by (cases a; simp add: v1_def v2_def)+

lemma asserted_File [asserted]:
  "type_of a = v1 ''File'' \<longleftrightarrow> (\<exists>x. a = File_1 x)" "type_of a = v2 ''File'' \<longleftrightarrow> (\<exists>x. a = File_2 x)"
  by (cases a; simp add: v1_def v2_def)+

lemma asserted_NTP [asserted]:
  "type_of a = v1 ''NTP'' \<longleftrightarrow> (\<exists>x. a = NTP_1 x)" "type_of a = v2 ''NTP'' \<longleftrightarrow> (\<exists>x. a = NTP_2 x)"
  by (cases a; simp add: v1_def v2_def)+

lemma asserted_User [asserted]:
  "type_of a = v1 ''User'' \<longleftrightarrow> (\<exists>x. a = User_1 x)" "type_of a = v2 ''User'' \<longleftrightarrow> (\<exists>x. a = User_2 x)"
  by (cases a; simp add: v1_def v2_def)+

lemma asserted_CritConfigSpec [asserted]:
  "type_of a = v1 ''CritConfigSpec'' \<longleftrightarrow> (\<exists>x. a = CritConfigSpec_1 x)" "type_of a = v2 ''CritConfigSpec'' \<longleftrightarrow> (\<exists>x. a = CritConfigSpec_2 x)"
  by (cases a; simp add: v1_def v2_def)+

lemma asserted_CritControlPlane [asserted]:
  "type_of a = v1 ''CritControlPlane'' \<longleftrightarrow> (\<exists>x. a = CritControlPlane_1 x)" "type_of a = v2 ''CritControlPlane'' \<longleftrightarrow> (\<exists>x. a = CritControlPlane_2 x)"
  by (cases a; simp add: v1_def v2_def)+

lemma asserted_CritControlPlaneList [asserted]:
  "type_of a = v1 ''CritControlPlaneList'' \<longleftrightarrow> (\<exists>x. a = CritControlPlaneList_1 x)" "type_of a = v2 ''CritControlPlaneList'' \<longleftrightarrow> (\<exists>x. a = CritControlPlaneList_2 x)"
  by (cases a; simp add: v1_def v2_def)+

lemma asserted_CritControlPlaneStatus [asserted]:
  "type_of a = v1 ''CritControlPlaneStatus'' \<longleftrightarrow> (\<exists>x. a = CritControlPlaneStatus_1 x)" "type_of a = v2 ''CritControlPlaneStatus'' \<longleftrightarrow> (\<exists>x. a = CritControlPlaneStatus_2 x)"
  by (cases a; simp add: v1_def v2_def)+

lemma asserted_CritControlPlaneSpec [asserted]:
  "type_of a = v1 ''CritControlPlaneSpec'' \<longleftrightarrow> (\<exists>x. a = CritControlPlaneSpec_1 x)" "type_of a = v2 ''CritControlPlaneSpec'' \<longleftrightarrow> (\<exists>x. a = CritControlPlaneSpec_2 x)"
  by (cases a; simp add: v1_def v2_def)+

lemma well_typedI:
  fixes r :: "('c, 'k) registration"
  assumes "\<And>x y. reg_func r (A x) (B y) = Some (apsnd B (f x y))"
    and "\<And>a. type_of a = reg_from r \<longleftrightarrow> (\<exists>x. a = A x)" "\<And>b. type_of b = reg_to r \<longleftrightarrow> (\<exists>y. b = B y)"
  shows "well_typed r"
  unfolding well_typed_def
proof (intro allI impI)
  fix a b :: "('c, 'k) api_object" assume "type_of a = reg_from r" "type_of b = reg_to r"
  then obtain x y where "a = A x" "b = B y" by (auto simp: assms(2,3))
  then have "reg_func r a b = Some (fst (f x y), B (snd (f x y)))"
    by (simp add: assms(1) apsnd_def map_prod_def case_prod_unfold)
  moreover have "type_of (B (snd (f x y))) = reg_to r" unfolding assms(3) by blast
  ultimately show "\<exists>e c. reg_func r a b = Some (e, c) \<and> type_of c = reg_to r" by blast
qed

lemma bootstrap_conversions_typed: "list_all well_typed (bootstrap_conversions Y)"
  unfolding bootstrap_conversions_def list.pred_inject
  by (intro conjI TrueI; (rule list.pred_inject(1) | rule well_typedI; simp add: asserted))

lemma controlplane_conversions_typed: "list_all well_typed (controlplane_conversions Y)"
  unfolding controlplane_conversions_def list.pred_inject
  by (intro conjI TrueI; (rule list.pred_inject(1) | rule well_typedI; simp add: asserted))

lemma conversions_distinct:
  "distinct (map (\<lambda>r. (reg_from r, reg_to r)) (bootstrap_conversions Y @ controlplane_conversions Y))"
  by (simp add: bootstrap_conversions_def controlplane_conversions_def v1_def v2_def)

lemma conversions_inverse:
  "list_all (\<lambda>r. (reg_to r, reg_from r) \<in> set (map (\<lambda>r. (reg_from r, reg_to r)) (bootstrap_conversions Y)))
     (bootstrap_conversions Y)"
  "list_all (\<lambda>r. (reg_to r, reg_from r) \<in> set (map (\<lambda>r. (reg_from r, reg_to r)) (controlplane_conversions Y)))
     (controlplane_conversions Y)"
  by (simp_all add: bootstrap_conversions_def controlplane_conversions_def)

lemma registers_until_refusal:
  "bootstrap_RegisterConversions Y (\<lambda>r l. if accepts r then (None, l @ [r]) else (Some (err r), l)) [] =
     (map_option err (find (\<lambda>r. \<not> accepts r) (bootstrap_conversions Y)), takeWhile accepts (bootstrap_conversions Y))"
  "controlplane_RegisterConversions Y (\<lambda>r l. if accepts r then (None, l @ [r]) else (Some (err r), l)) [] =
     (map_option err (find (\<lambda>r. \<not> accepts r) (controlplane_conversions Y)), takeWhile accepts (controlplane_conversions Y))"
  by (simp_all add: bootstrap_RegisterConversions_def controlplane_RegisterConversions_def register_refusing)

text \<open>
  C26: the conversions that the two packages register. Every registered function, given objects of the two types it
  is registered for, passes its type assertions and leaves an object of the target type; no pair of types is
  registered twice; and a type with a conversion in one direction has the one back. A scheme that refuses
  registrations ends with those before the first refused one, whose error is returned; with no refusal it has all.
\<close>

theorem registered_conversions_typed:
  fixes Y :: "('c, 'k) crit_yaml"
  shows "list_all well_typed (bootstrap_conversions Y @ controlplane_conversions Y) \<and>
    distinct (map (\<lambda>r. (reg_from r, reg_to r)) (bootstrap_conversions Y @ controlplane_conversions Y)) \<and>
    list_all (\<lambda>r. (reg_to r, reg_from r) \<in> set (map (\<lambda>r. (reg_from r, reg_to r)) (bootstrap_conversions Y)))
      (bootstrap_conversions Y) \<and>
    list_all (\<lambda>r. (reg_to r, reg_from r) \<in> set (map (\<lambda>r. (reg_from r, reg_to r)) (controlplane_conversions Y)))
      (controlplane_conversions Y) \<and>
    bootstrap_RegisterConversions Y (\<lambda>r l. if accepts r then (None, l @ [r]) else (Some (err r), l)) [] =
      (map_option err (find (\<lambda>r. \<not> accepts r) (bootstrap_conversions Y)), takeWhile accepts (bootstrap_conversions Y)) \<and>
    controlplane_RegisterConversions Y (\<lambda>r l. if accepts r then (None, l @ [r]) else (Some (err r), l)) [] =
      (map_option err (find (\<lambda>r. \<not> accepts r) (controlplane_conversions Y)), takeWhile accepts (controlplane_conversions Y))"
  by (intro conjI conversions_distinct conversions_inverse registers_until_refusal)
    (simp add: bootstrap_conversions_typed controlplane_conversions_typed)

end
