(* ===== verification/Scheme_Setup.thy ===== *)
theory Scheme_Setup
  imports Registration
begin

text \<open>
  How the API packages fill the scheme: the variables of the \<^verbatim>\<open>groupversion_info.go\<close> files, the \<^verbatim>\<open>init\<close>
  functions of the type files and of \<^verbatim>\<open>zz_generated.conversion.go\<close>, \<^verbatim>\<open>AddToScheme\<close>, and \<^verbatim>\<open>init\<close> of
  \<^verbatim>\<open>src/main.go\<close>. The builder of controller-runtime embeds a \<^verbatim>\<open>runtime.SchemeBuilder\<close>, a slice of functions;
  \<^verbatim>\<open>Register\<close> appends to the slice of its receiver and \<^verbatim>\<open>AddToScheme\<close> runs the functions of its receiver up to
  the first error. The operations of the scheme itself are parameters.
\<close>

section \<open>Package variables\<close>

datatype ('c, 'k) scheme_func =
    KnownTypes "string \<times> string" "string list"
  | Conversions "('c, 'k) registration list"

record ('c, 'k) scheme_vars =
  SchemeBuilder :: "('c, 'k) scheme_func list"
  localSchemeBuilder :: "('c, 'k) scheme_func list"

text \<open>
  Assigning a slice copies its header: the second variable starts as what the first one holds when the package
  variables are initialized, before any \<^verbatim>\<open>init\<close> function, and appending to one does not lengthen the other.
\<close>

definition package_vars :: "('c, 'k) scheme_vars" where
  "package_vars = (let sb = [] in \<lparr>SchemeBuilder = sb, localSchemeBuilder = sb\<rparr>)"

definition SchemeBuilder_Register ::
  "string \<times> string \<Rightarrow> string list \<Rightarrow> ('c, 'k) scheme_vars \<Rightarrow> ('c, 'k) scheme_vars" where
  "SchemeBuilder_Register gv objects v = v\<lparr>SchemeBuilder := SchemeBuilder v @ [KnownTypes gv objects]\<rparr>"

definition localSchemeBuilder_Register ::
  "('c, 'k) registration list \<Rightarrow> ('c, 'k) scheme_vars \<Rightarrow> ('c, 'k) scheme_vars" where
  "localSchemeBuilder_Register rs v = v\<lparr>localSchemeBuilder := localSchemeBuilder v @ [Conversions rs]\<rparr>"

definition bootstrap_GroupVersion_v1alpha1 :: "string \<times> string" where
  "bootstrap_GroupVersion_v1alpha1 = (''bootstrap.cluster.x-k8s.io'', ''v1alpha1'')"

definition controlplane_GroupVersion_v1alpha1 :: "string \<times> string" where
  "controlplane_GroupVersion_v1alpha1 = (''controlplane.cluster.x-k8s.io'', ''v1alpha1'')"

text \<open>The \<^verbatim>\<open>init\<close> functions of each package, in the order of its files.\<close>

definition critconfig_types_init :: "string \<times> string \<Rightarrow> ('c, 'k) scheme_vars \<Rightarrow> ('c, 'k) scheme_vars" where
  "critconfig_types_init gv v = SchemeBuilder_Register gv [''CritConfig'', ''CritConfigList''] v"

definition critconfigtemplate_types_init :: "string \<times> string \<Rightarrow> ('c, 'k) scheme_vars \<Rightarrow> ('c, 'k) scheme_vars" where
  "critconfigtemplate_types_init gv v = SchemeBuilder_Register gv [''CritConfigTemplate'', ''CritConfigTemplateList''] v"

definition critcontrolplane_types_init :: "string \<times> string \<Rightarrow> ('c, 'k) scheme_vars \<Rightarrow> ('c, 'k) scheme_vars" where
  "critcontrolplane_types_init gv v = SchemeBuilder_Register gv [''CritControlPlane'', ''CritControlPlaneList''] v"

definition bootstrap_conversion_init :: "('c, 'k) crit_yaml \<Rightarrow> ('c, 'k) scheme_vars \<Rightarrow> ('c, 'k) scheme_vars" where
  "bootstrap_conversion_init Y v = localSchemeBuilder_Register (bootstrap_conversions Y) v"

definition controlplane_conversion_init :: "('c, 'k) crit_yaml \<Rightarrow> ('c, 'k) scheme_vars \<Rightarrow> ('c, 'k) scheme_vars" where
  "controlplane_conversion_init Y v = localSchemeBuilder_Register (controlplane_conversions Y) v"

definition bootstrapv1alpha1 :: "('c, 'k) crit_yaml \<Rightarrow> ('c, 'k) scheme_vars" where
  "bootstrapv1alpha1 Y = bootstrap_conversion_init Y
     (critconfigtemplate_types_init bootstrap_GroupVersion_v1alpha1
     (critconfig_types_init bootstrap_GroupVersion_v1alpha1 package_vars))"

definition controlplanev1alpha1 :: "('c, 'k) crit_yaml \<Rightarrow> ('c, 'k) scheme_vars" where
  "controlplanev1alpha1 Y = controlplane_conversion_init Y
     (critcontrolplane_types_init controlplane_GroupVersion_v1alpha1 package_vars)"

definition bootstrapv1alpha2 :: "('c, 'k) scheme_vars" where
  "bootstrapv1alpha2 =
     critconfigtemplate_types_init bootstrap_GroupVersion (critconfig_types_init bootstrap_GroupVersion package_vars)"

definition controlplanev1alpha2 :: "('c, 'k) scheme_vars" where
  "controlplanev1alpha2 = critcontrolplane_types_init controlplane_GroupVersion package_vars"

section \<open>Filling the scheme\<close>

record ('s, 'c, 'k) scheme_ops =
  AddKnownTypes :: "string \<times> string \<Rightarrow> string list \<Rightarrow> 's \<Rightarrow> 's"
  AddConversionFunc :: "('c, 'k) registration \<Rightarrow> 's \<Rightarrow> goerror option \<times> 's"

fun run_func :: "('s, 'c, 'k) scheme_ops \<Rightarrow> ('c, 'k) scheme_func \<Rightarrow> 's \<Rightarrow> goerror option \<times> 's" where
  "run_func S (KnownTypes gv objects) s = (None, AddKnownTypes S gv objects s)"
| "run_func S (Conversions rs) s = register (AddConversionFunc S) rs s"

definition AddToScheme :: "('s, 'c, 'k) scheme_ops \<Rightarrow> ('c, 'k) scheme_vars \<Rightarrow> 's \<Rightarrow> goerror option \<times> 's" where
  "AddToScheme S v s = register (run_func S) (SchemeBuilder v) s"

text \<open>
  \<^verbatim>\<open>init\<close> of the main program, with the functions of the other three packages; the errors are dropped.
\<close>

definition main_init ::
  "('s, 'c, 'k) scheme_ops \<Rightarrow> ('c, 'k) crit_yaml \<Rightarrow> ('s \<Rightarrow> goerror option \<times> 's) \<Rightarrow> ('s \<Rightarrow> goerror option \<times> 's) \<Rightarrow>
   ('s \<Rightarrow> goerror option \<times> 's) \<Rightarrow> 's \<Rightarrow> 's" where
  "main_init S Y clientgoscheme clusterv1alpha3 expv1alpha3 s = (
     let (_, s) = clientgoscheme s;
         (_, s) = clusterv1alpha3 s;
         (_, s) = expv1alpha3 s;
         (_, s) = AddToScheme S (bootstrapv1alpha1 Y) s;
         (_, s) = AddToScheme S (controlplanev1alpha1 Y) s;
         (_, s) = AddToScheme S bootstrapv1alpha2 s;
         (_, s) = AddToScheme S controlplanev1alpha2 s
     in s)"

section \<open>What the scheme gets\<close>

lemmas package_defs = package_vars_def SchemeBuilder_Register_def localSchemeBuilder_Register_def
  critconfig_types_init_def critconfigtemplate_types_init_def critcontrolplane_types_init_def
  bootstrap_conversion_init_def controlplane_conversion_init_def
  bootstrapv1alpha1_def controlplanev1alpha1_def bootstrapv1alpha2_def controlplanev1alpha2_def

text \<open>The functions that \<^verbatim>\<open>localSchemeBuilder\<close> holds are there, but \<^verbatim>\<open>AddToScheme\<close> runs the other slice.\<close>

lemma local_builders:
  "localSchemeBuilder (bootstrapv1alpha1 Y) = [Conversions (bootstrap_conversions Y)]"
  "localSchemeBuilder (controlplanev1alpha1 Y) = [Conversions (controlplane_conversions Y)]"
  by (simp_all add: package_defs)

lemma AddToScheme_packages:
  "AddToScheme S (bootstrapv1alpha1 Y) s = (None,
     AddKnownTypes S bootstrap_GroupVersion_v1alpha1 [''CritConfigTemplate'', ''CritConfigTemplateList'']
     (AddKnownTypes S bootstrap_GroupVersion_v1alpha1 [''CritConfig'', ''CritConfigList''] s))"
  "AddToScheme S (controlplanev1alpha1 Y) s = (None,
     AddKnownTypes S controlplane_GroupVersion_v1alpha1 [''CritControlPlane'', ''CritControlPlaneList''] s)"
  "AddToScheme S bootstrapv1alpha2 s = (None,
     AddKnownTypes S bootstrap_GroupVersion [''CritConfigTemplate'', ''CritConfigTemplateList'']
     (AddKnownTypes S bootstrap_GroupVersion [''CritConfig'', ''CritConfigList''] s))"
  "AddToScheme S controlplanev1alpha2 s = (None,
     AddKnownTypes S controlplane_GroupVersion [''CritControlPlane'', ''CritControlPlaneList''] s)"
  by (simp_all add: AddToScheme_def package_defs)

text \<open>
  The scheme as what it was told: the group versions with their kinds, and the conversions.
\<close>

record ('c, 'k) told =
  told_types :: "((string \<times> string) \<times> string list) list"
  told_conversions :: "('c, 'k) registration list"

definition telling :: "(('c, 'k) told, 'c, 'k) scheme_ops" where
  "telling = \<lparr>AddKnownTypes = (\<lambda>gv ks t. t\<lparr>told_types := told_types t @ [(gv, ks)]\<rparr>),
     AddConversionFunc = (\<lambda>r t. (None, t\<lparr>told_conversions := told_conversions t @ [r]\<rparr>))\<rparr>"

lemma told_conversions_register:
  "snd (register (AddConversionFunc telling) rs t) = t\<lparr>told_conversions := told_conversions t @ rs\<rparr>"
  by (induction rs arbitrary: t) (simp_all add: telling_def)

text \<open>
  C27: what the program puts into the scheme. Every \<^verbatim>\<open>AddToScheme\<close> of the repository succeeds, so that dropping their
  errors loses nothing, and tells the scheme exactly the kinds of its package; after \<^verbatim>\<open>init\<close> the scheme has, after
  what the three other packages added, the six kinds of each version, older version first. But no conversion: the
  functions that \<^verbatim>\<open>RegisterConversions\<close> holds were appended to a copy of the slice, while running that
  copy would tell the scheme all of them.
\<close>

theorem conversions_never_added:
  fixes t :: "('c, 'k) told"
  shows "fst (AddToScheme telling (bootstrapv1alpha1 Y) t) = None \<and> fst (AddToScheme telling (controlplanev1alpha1 Y) t) = None \<and>
    fst (AddToScheme telling bootstrapv1alpha2 t) = None \<and> fst (AddToScheme telling controlplanev1alpha2 t) = None \<and>
    (let t0 = snd (e (snd (c (snd (g t)))));
         t' = main_init telling Y g c e t
     in told_types t' = told_types t0 @
          [(bootstrap_GroupVersion_v1alpha1, [''CritConfig'', ''CritConfigList'']),
           (bootstrap_GroupVersion_v1alpha1, [''CritConfigTemplate'', ''CritConfigTemplateList'']),
           (controlplane_GroupVersion_v1alpha1, [''CritControlPlane'', ''CritControlPlaneList'']),
           (bootstrap_GroupVersion, [''CritConfig'', ''CritConfigList'']),
           (bootstrap_GroupVersion, [''CritConfigTemplate'', ''CritConfigTemplateList'']),
           (controlplane_GroupVersion, [''CritControlPlane'', ''CritControlPlaneList''])] \<and>
        told_conversions t' = told_conversions t0 \<and>
        told_conversions (snd (register (run_func telling) (localSchemeBuilder (bootstrapv1alpha1 Y) @
          localSchemeBuilder (controlplanev1alpha1 Y)) t')) =
          told_conversions t0 @ bootstrap_conversions Y @ controlplane_conversions Y)"
proof -
  have "fst (register (AddConversionFunc telling) rs t) = None" for rs and t :: "('c, 'k) told"
    by (induction rs arbitrary: t) (simp_all add: telling_def)
  then have reg: "register (AddConversionFunc telling) rs t = (None, t\<lparr>told_conversions := told_conversions t @ rs\<rparr>)"
    for rs and t :: "('c, 'k) told"
    by (simp add: prod_eq_iff told_conversions_register)
  have types: "AddKnownTypes telling gv ks (t :: ('c, 'k) told) = t\<lparr>told_types := told_types t @ [(gv, ks)]\<rparr>" for gv ks t
    by (simp add: telling_def)
  show ?thesis
    by (simp add: AddToScheme_packages main_init_def Let_def case_prod_unfold types local_builders reg)
qed

end
