(* ===== verification/Go_Store.thy ===== *)
theory Go_Store
  imports Crit_Prelude
begin

text \<open>
  The memory of a Go program, as far as copying objects needs it: a store of cells, pointers that may be
  nil, and slices that are windows of arrays. The generated functions \<^verbatim>\<open>DeepCopyInto\<close> are built from
  three pieces of code, which are here: a new cell for what a pointer points to, a new array filled by
  \<^verbatim>\<open>copy\<close>, and a new array filled by a loop that copies each element.

  \<open>deep_copy\<close> is the contract of a copying function, over what the store holds for an object and the
  addresses reached from it: the copy has the same value, everything reached from the copy is new, and
  nothing that existed is changed. It is preserved by the three pieces and by sequences of fields.
\<close>

section \<open>Stores\<close>

type_synonym addr = nat

record 'c store =
  cells :: "addr \<Rightarrow> 'c option"
  lim :: addr

definition store_wf :: "'c store \<Rightarrow> bool" where
  "store_wf h \<longleftrightarrow> (\<forall>a. cells h a \<noteq> None \<longrightarrow> a < lim h)"

definition alloc :: "'c \<Rightarrow> 'c store \<Rightarrow> addr \<times> 'c store" where
  "alloc c h = (lim h, h\<lparr>cells := (cells h)(lim h \<mapsto> c), lim := lim h + 1\<rparr>)"

definition write_cell :: "addr \<Rightarrow> 'c \<Rightarrow> 'c store \<Rightarrow> 'c store" where
  "write_cell a c h = h\<lparr>cells := (cells h)(a \<mapsto> c)\<rparr>"

text \<open>\<open>grows L h h'\<close>: from \<open>h\<close> to \<open>h'\<close> cells were added, and none below \<open>L\<close> changed.\<close>

definition grows :: "addr \<Rightarrow> 'c store \<Rightarrow> 'c store \<Rightarrow> bool" where
  "grows L h h' \<longleftrightarrow> store_wf h' \<and> lim h \<le> lim h' \<and> (\<forall>a < L. cells h' a = cells h a)"

lemma grows_refl [intro]: "store_wf h \<Longrightarrow> grows L h h"
  by (simp add: grows_def)

lemma grows_trans: "grows L h h' \<Longrightarrow> grows L' h' h'' \<Longrightarrow> M \<le> L \<Longrightarrow> M \<le> L' \<Longrightarrow> grows M h h''"
  by (auto simp: grows_def)

lemma grows_alloc: "store_wf h \<Longrightarrow> L \<le> lim h \<Longrightarrow> alloc c h = (a, h') \<Longrightarrow> grows L h h' \<and> a = lim h \<and> cells h' a = Some c \<and> lim h' = lim h + 1"
  by (auto simp: grows_def store_wf_def alloc_def less_SucI split: if_splits)

lemma grows_write: "store_wf h \<Longrightarrow> L \<le> a \<Longrightarrow> a < lim h \<Longrightarrow> grows L h (write_cell a c h)"
  by (auto simp: grows_def store_wf_def write_cell_def)

lemma grows_wf: "grows L h h' \<Longrightarrow> store_wf h'"
  by (simp add: grows_def)

text \<open>How a type of Go values is kept in a cell, with its zero value.\<close>

record ('x, 'c) kind =
  inj :: "'x \<Rightarrow> 'c"
  prj :: "'c \<Rightarrow> 'x option"
  zero :: 'x

definition kind_ok :: "('x, 'c) kind \<Rightarrow> bool" where
  "kind_ok K \<longleftrightarrow> (\<forall>x. prj K (inj K x) = Some x)"

definition load :: "('x, 'c) kind \<Rightarrow> 'c store \<Rightarrow> addr \<Rightarrow> 'x option" where
  "load K h a = Option.bind (cells h a) (prj K)"

lemma load_cong: "cells h' a = cells h a \<Longrightarrow> load K h' a = load K h a"
  by (simp add: load_def)

lemma load_write [simp]: "kind_ok K \<Longrightarrow> load K (write_cell a (inj K x) h) a = Some x"
  by (simp add: load_def write_cell_def kind_ok_def)

lemma load_lt: "store_wf h \<Longrightarrow> load K h a = Some x \<Longrightarrow> a < lim h"
  by (auto simp: load_def store_wf_def split: Option.bind_splits)

text \<open>A slice is a window of an array; \<open>None\<close> is the nil slice.\<close>

record slice =
  sl_array :: addr
  sl_off :: nat
  sl_len :: nat

section \<open>The code of a copy\<close>

text \<open>\<^verbatim>\<open>if in.P != nil { *out = new(T); (*in).DeepCopyInto(*out) }\<close>, and the same for a method \<^verbatim>\<open>DeepCopy\<close>.\<close>

definition copy_ptr ::
  "('x, 'c) kind \<Rightarrow> ('x \<Rightarrow> 'c store \<Rightarrow> 'x \<times> 'c store) \<Rightarrow> addr option \<Rightarrow> 'c store \<Rightarrow> addr option \<times> 'c store" where
  "copy_ptr K into p h = (case p of
     None \<Rightarrow> (None, h)
   | Some a \<Rightarrow>
       (case load K h a of
          None \<Rightarrow> (None, h)
        | Some x \<Rightarrow>
            (let (b, h) = alloc (inj K (zero K)) h;
                 (y, h) = into x h
             in (Some b, write_cell b (inj K y) h))))"

text \<open>\<^verbatim>\<open>copy(dst, src)\<close>: as many elements as both slices have.\<close>

definition go_copy :: "('x list, 'c) kind \<Rightarrow> slice \<Rightarrow> slice \<Rightarrow> 'c store \<Rightarrow> 'c store" where
  "go_copy K dst src h = (case (load K h (sl_array dst), load K h (sl_array src)) of
     (Some ys, Some xs) \<Rightarrow>
       (let n = min (sl_len dst) (sl_len src)
        in write_cell (sl_array dst) (inj K (take (sl_off dst) ys @ take n (drop (sl_off src) xs) @ drop (sl_off dst + n) ys)) h)
   | _ \<Rightarrow> h)"

text \<open>\<^verbatim>\<open>*out = make([]T, len(*in)); copy(*out, *in)\<close>\<close>

definition copy_values :: "('x list, 'c) kind \<Rightarrow> 'x \<Rightarrow> slice option \<Rightarrow> 'c store \<Rightarrow> slice option \<times> 'c store" where
  "copy_values K z s h = (case s of
     None \<Rightarrow> (None, h)
   | Some src \<Rightarrow>
       (let (a, h) = alloc (inj K (replicate (sl_len src) z)) h;
            dst = \<lparr>sl_array = a, sl_off = 0, sl_len = sl_len src\<rparr>
        in (Some dst, go_copy K dst src h)))"

text \<open>\<^verbatim>\<open>for i := range *in { (*in)[i].DeepCopyInto(&(*out)[i]) }\<close>\<close>

fun copy_elems ::
  "('x list, 'c) kind \<Rightarrow> ('x \<Rightarrow> 'c store \<Rightarrow> 'x \<times> 'c store) \<Rightarrow> slice \<Rightarrow> slice \<Rightarrow> nat list \<Rightarrow> 'c store \<Rightarrow> 'c store" where
  "copy_elems K into src dst [] h = h"
| "copy_elems K into src dst (i # is) h =
     (case load K h (sl_array src) of
        None \<Rightarrow> h
      | Some xs \<Rightarrow>
          (let (y, h) = into (xs ! (sl_off src + i)) h
           in case load K h (sl_array dst) of
                None \<Rightarrow> h
              | Some ys \<Rightarrow>
                  copy_elems K into src dst is (write_cell (sl_array dst) (inj K (ys[sl_off dst + i := y])) h)))"

definition copy_slice ::
  "('x list, 'c) kind \<Rightarrow> 'x \<Rightarrow> ('x \<Rightarrow> 'c store \<Rightarrow> 'x \<times> 'c store) \<Rightarrow> slice option \<Rightarrow> 'c store \<Rightarrow> slice option \<times> 'c store" where
  "copy_slice K z into s h = (case s of
     None \<Rightarrow> (None, h)
   | Some src \<Rightarrow>
       (let (a, h) = alloc (inj K (replicate (sl_len src) z)) h;
            dst = \<lparr>sl_array = a, sl_off = 0, sl_len = sl_len src\<rparr>
        in (Some dst, copy_elems K into src dst [0..<sl_len src] h)))"

section \<open>What the store holds for an object\<close>

text \<open>
  A view gives the value of an object and the addresses reached from it; \<open>None\<close> if a pointer does not
  lead to a cell of its type.
\<close>

type_synonym ('c, 'm, 'v) view = "'c store \<Rightarrow> 'm \<Rightarrow> ('v \<times> addr set) option"

definition view_value :: "('c, 'm, 'm) view" where
  "view_value h x = Some (x, {})"

definition view_ptr :: "('x, 'c) kind \<Rightarrow> ('c, 'x, 'v) view \<Rightarrow> ('c, addr option, 'v option) view" where
  "view_ptr K view h p = (case p of
     None \<Rightarrow> Some (None, {})
   | Some a \<Rightarrow> Option.bind (load K h a) (\<lambda>x. map_option (\<lambda>(v, A). (Some v, insert a A)) (view h x)))"

fun view_list :: "('c, 'x, 'v) view \<Rightarrow> ('c, 'x list, 'v list) view" where
  "view_list view h [] = Some ([], {})"
| "view_list view h (x # xs) =
     Option.bind (view h x) (\<lambda>(v, A). map_option (\<lambda>(vs, B). (v # vs, A \<union> B)) (view_list view h xs))"

definition view_slice :: "('x list, 'c) kind \<Rightarrow> ('c, 'x, 'v) view \<Rightarrow> ('c, slice option, 'v list option) view" where
  "view_slice K view h s = (case s of
     None \<Rightarrow> Some (None, {})
   | Some t \<Rightarrow> Option.bind (load K h (sl_array t)) (\<lambda>xs.
       if sl_off t + sl_len t \<le> length xs
       then map_option (\<lambda>(vs, A). (Some vs, insert (sl_array t) A))
         (view_list view h (take (sl_len t) (drop (sl_off t) xs)))
       else None))"

definition view_pair :: "('c, 'm, 'v) view \<Rightarrow> ('c, 'n, 'w) view \<Rightarrow> ('c, 'm \<times> 'n, 'v \<times> 'w) view" where
  "view_pair f g h p = Option.bind (f h (fst p)) (\<lambda>(v, A). map_option (\<lambda>(w, B). ((v, w), A \<union> B)) (g h (snd p)))"

definition copy_pair ::
  "('m \<Rightarrow> 'c store \<Rightarrow> 'm \<times> 'c store) \<Rightarrow> ('n \<Rightarrow> 'c store \<Rightarrow> 'n \<times> 'c store) \<Rightarrow> 'm \<times> 'n \<Rightarrow> 'c store \<Rightarrow> ('m \<times> 'n) \<times> 'c store" where
  "copy_pair f g p h = (let (x, h) = f (fst p) h; (y, h) = g (snd p) h in ((x, y), h))"

text \<open>
  The view of a struct: its pointers, taken out by \<open>ptrs\<close>, are followed; \<open>strip\<close> is the rest of it.
\<close>

definition view_struct :: "('m \<Rightarrow> 'p) \<Rightarrow> ('m \<Rightarrow> 'm) \<Rightarrow> ('c, 'p, 'v) view \<Rightarrow> ('c, 'm, 'm \<times> 'v) view" where
  "view_struct ptrs strip view h x = map_option (\<lambda>(v, A). ((strip x, v), A)) (view h (ptrs x))"

section \<open>The contract of a copy\<close>

locale deep_copy =
  fixes view :: "('c, 'm, 'v) view" and into :: "'m \<Rightarrow> 'c store \<Rightarrow> 'm \<times> 'c store"
  assumes framed: "view h x = Some (v, A) \<Longrightarrow> (\<And>a. a \<in> A \<Longrightarrow> cells h' a = cells h a) \<Longrightarrow> view h' x = Some (v, A)"
    and reached: "store_wf h \<Longrightarrow> view h x = Some (v, A) \<Longrightarrow> A \<subseteq> {..<lim h}"
    and copied: "store_wf h \<Longrightarrow> view h x = Some (v, A) \<Longrightarrow> into x h = (y, h') \<Longrightarrow>
      grows (lim h) h h' \<and> (\<exists>B. view h' y = Some (v, B) \<and> B \<subseteq> {lim h..<lim h'})"
begin

lemma kept: "store_wf h \<Longrightarrow> view h x = Some (v, A) \<Longrightarrow> grows (lim h) h h' \<Longrightarrow> view h' x = Some (v, A)"
  using framed [of h x v A h'] reached [of h x v A] by (auto simp: grows_def)

text \<open>A copy and its original are independent: later changes that spare one of them leave its value.\<close>

lemma independent:
  assumes "store_wf h" and "view h x = Some (v, A)" and "into x h = (y, h')"
  obtains B where "view h' y = Some (v, B)" and "view h' x = Some (v, A)" and "A \<inter> B = {}" and "B \<subseteq> {lim h..<lim h'}"
    and "store_wf h'"
    and "\<And>h''. (\<And>a. a \<notin> B \<Longrightarrow> cells h'' a = cells h' a) \<Longrightarrow> view h'' x = Some (v, A)"
    and "\<And>h''. (\<And>a. a \<notin> A \<Longrightarrow> cells h'' a = cells h' a) \<Longrightarrow> view h'' y = Some (v, B)"
proof -
  obtain B where g: "grows (lim h) h h'" and B: "view h' y = Some (v, B)" "B \<subseteq> {lim h..<lim h'}"
    using copied [OF assms] by blast
  have x: "view h' x = Some (v, A)" using kept [OF assms(1,2) g] .
  have disj: "A \<inter> B = {}" using reached [OF assms(1,2)] B(2) by fastforce
  show thesis
    by (rule that [OF B(1) x disj B(2) grows_wf [OF g]]) (use framed [OF x] framed [OF B(1)] disj in blast)+
qed

lemma list_framed:
  "view_list view h xs = Some (vs, A) \<Longrightarrow> (\<And>a. a \<in> A \<Longrightarrow> cells h' a = cells h a) \<Longrightarrow> view_list view h' xs = Some (vs, A)"
proof (induction xs arbitrary: vs A)
  case (Cons x xs)
  then obtain v A1 ws A2 where "view h x = Some (v, A1)" "view_list view h xs = Some (ws, A2)" "vs = v # ws" "A = A1 \<union> A2"
    by (auto split: Option.bind_splits)
  moreover from this have "view h' x = Some (v, A1)" "view_list view h' xs = Some (ws, A2)"
    using framed Cons.IH Cons.prems(2) by blast+
  ultimately show ?case by simp
qed simp

lemma list_reached: "store_wf h \<Longrightarrow> view_list view h xs = Some (vs, A) \<Longrightarrow> A \<subseteq> {..<lim h}"
proof (induction xs arbitrary: vs A)
  case (Cons x xs)
  then obtain v A1 ws A2 where "view h x = Some (v, A1)" "view_list view h xs = Some (ws, A2)" "A = A1 \<union> A2"
    by (auto split: Option.bind_splits)
  with reached Cons show ?case by blast
qed simp

lemma copied_ptr:
  assumes K: "kind_ok K" and wf: "store_wf h" and p: "view_ptr K view h p = Some (v, A)" and run: "copy_ptr K into p h = (q, h')"
  shows "grows (lim h) h h' \<and> (\<exists>B. view_ptr K view h' q = Some (v, B) \<and> B \<subseteq> {lim h..<lim h'})"
proof (cases p)
  case None
  with wf p run show ?thesis by (auto simp: view_ptr_def copy_ptr_def)
next
  case (Some a)
  with p obtain x w A' where x: "load K h a = Some x" "view h x = Some (w, A')" and v: "v = Some w"
    unfolding view_ptr_def by (auto split: Option.bind_splits)
  obtain b h1 where b: "alloc (inj K (zero K)) h = (b, h1)" by fastforce
  obtain y h2 where y: "into x h1 = (y, h2)" by fastforce
  have h': "q = Some b" "h' = write_cell b (inj K y) h2" using run Some x(1) b y by (simp_all add: copy_ptr_def)
  have g1: "grows (lim h) h h1" "b = lim h" "lim h1 = lim h + 1" using grows_alloc [OF wf order_refl b] by simp_all
  obtain B where g2: "grows (lim h1) h1 h2" and B: "view h2 y = Some (w, B)" "B \<subseteq> {lim h1..<lim h2}"
    using copied [OF grows_wf [OF g1(1)] kept [OF wf x(2) g1(1)] y] by blast
  have g3: "grows (lim h) h2 h'" unfolding h'(2) using g1 g2 by (intro grows_write) (auto simp: grows_def)
  have "view h' y = Some (w, B)" using B g1 by (intro framed [OF B(1)]) (auto simp: h'(2) write_cell_def)
  then have "view_ptr K view h' q = Some (v, insert b B)" by (simp add: view_ptr_def h' v K)
  moreover have "grows (lim h) h h'" using grows_trans [OF grows_trans [OF g1(1) g2] g3] g1 by (metis order_refl le_add1)
  moreover have "insert b B \<subseteq> {lim h..<lim h'}" using B(2) g1 g2 g3 by (auto simp: grows_def)
  ultimately show ?thesis by blast
qed

theorem deep_copy_ptr:
  assumes "kind_ok K"
  shows "deep_copy (view_ptr K view) (copy_ptr K into)"
proof
  fix h p v A and h' :: "'c store"
  assume p: "view_ptr K view h p = Some (v, A)" and same: "\<And>a. a \<in> A \<Longrightarrow> cells h' a = cells h a"
  show "view_ptr K view h' p = Some (v, A)"
  proof (cases p)
    case (Some a)
    with p obtain x w A' where x: "load K h a = Some x" "view h x = Some (w, A')" "v = Some w" "A = insert a A'"
      by (auto simp: view_ptr_def split: Option.bind_splits)
    have "load K h' a = Some x" using x(1,4) same load_cong [of h' a h K] by simp
    moreover have "view h' x = Some (w, A')" by (rule framed [OF x(2)]) (simp add: same x(4))
    ultimately show ?thesis using Some x by (simp add: view_ptr_def)
  qed (use p in \<open>simp add: view_ptr_def\<close>)
next
  fix h p v A
  assume "store_wf h" and "view_ptr K view h p = Some (v, A)"
  then show "A \<subseteq> {..<lim h}"
    by (auto simp: view_ptr_def split: option.splits Option.bind_splits dest: load_lt reached)
qed (use copied_ptr [OF assms] in blast)

lemma slice_framed:
  assumes s: "view_slice K view h s = Some (v, A)" and same: "\<And>a. a \<in> A \<Longrightarrow> cells h' a = cells h a"
  shows "view_slice K view h' s = Some (v, A)"
proof (cases s)
  case (Some t)
  with s obtain xs vs A' where x: "load K h (sl_array t) = Some xs" "sl_off t + sl_len t \<le> length xs"
    "view_list view h (take (sl_len t) (drop (sl_off t) xs)) = Some (vs, A')" "v = Some vs" "A = insert (sl_array t) A'"
    by (auto simp: view_slice_def split: Option.bind_splits if_splits)
  have "load K h' (sl_array t) = Some xs" using x(1,5) same load_cong [of h' "sl_array t" h K] by simp
  moreover have "view_list view h' (take (sl_len t) (drop (sl_off t) xs)) = Some (vs, A')"
    by (rule list_framed [OF x(3)]) (simp add: same x(5))
  ultimately show ?thesis using Some x by (simp add: view_slice_def)
qed (use s in \<open>simp add: view_slice_def\<close>)

lemma slice_reached:
  assumes wf: "store_wf h" and s: "view_slice K view h s = Some (v, A)"
  shows "A \<subseteq> {..<lim h}"
proof (cases s)
  case (Some t)
  with s obtain xs vs A' where "load K h (sl_array t) = Some xs"
    "view_list view h (take (sl_len t) (drop (sl_off t) xs)) = Some (vs, A')" "A = insert (sl_array t) A'"
    by (auto simp: view_slice_def split: Option.bind_splits if_splits)
  with load_lt [OF wf] list_reached [OF wf] show ?thesis by fastforce
qed (use s in \<open>simp add: view_slice_def\<close>)

text \<open>
  The loop, from index \<open>i\<close> on: the array of the copy, at \<open>a\<close>, holds copies of the first \<open>i\<close> elements, and all
  that exists below \<open>L\<close> stays.
\<close>

definition half_copied :: "('m list, 'c) kind \<Rightarrow> addr \<Rightarrow> addr \<Rightarrow> 'v list \<Rightarrow> nat \<Rightarrow> 'c store \<Rightarrow> bool" where
  "half_copied K L a vs i h \<longleftrightarrow> store_wf h \<and> L \<le> a \<and> a < lim h \<and>
     (\<exists>ys B. load K h a = Some ys \<and> length ys = length vs \<and>
        view_list view h (take i ys) = Some (take i vs, B) \<and> B \<subseteq> {L..<lim h} - {a})"

lemma view_list_append:
  "view_list view h (xs @ ys) = Option.bind (view_list view h xs) (\<lambda>(v, A). map_option (\<lambda>(w, B). (v @ w, A \<union> B)) (view_list view h ys))"
  by (induction xs) (auto split: Option.bind_splits simp: Un_assoc option.map_comp option.map_ident comp_def case_prod_beta)

lemma view_list_nth:
  "view_list view h xs = Some (vs, A) \<Longrightarrow> i < length xs \<Longrightarrow> length vs = length xs \<and> (\<exists>Ai. view h (xs ! i) = Some (vs ! i, Ai) \<and> Ai \<subseteq> A)"
proof (induction xs arbitrary: vs A i)
  case (Cons x xs)
  then obtain v A1 ws A2 where x: "view h x = Some (v, A1)" "view_list view h xs = Some (ws, A2)" "vs = v # ws" "A = A1 \<union> A2"
    by (auto split: Option.bind_splits)
  have "length ws = length xs" using x(2) by (induction xs arbitrary: ws A2) (auto split: Option.bind_splits)
  with Cons.IH [OF x(2)] Cons.prems(2) x show ?case by (cases i) (auto, blast)
qed simp

lemma half_copied_step:
  assumes K: "kind_ok K" and half: "half_copied K L a vs i h" and i: "i < length vs"
    and x: "view h x = Some (vs ! i, A)" and y: "into x h = (y, h1)" and ys: "load K h1 a = Some ys"
  shows "half_copied K L a vs (Suc i) (write_cell a (inj K (ys[i := y])) h1) \<and> grows L h (write_cell a (inj K (ys[i := y])) h1)"
proof -
  obtain zs B where h: "store_wf h" "L \<le> a" "a < lim h" "load K h a = Some zs" "length zs = length vs"
    "view_list view h (take i zs) = Some (take i vs, B)" "B \<subseteq> {L..<lim h} - {a}"
    using half unfolding half_copied_def by blast
  obtain C where g: "grows (lim h) h h1" and C: "view h1 y = Some (vs ! i, C)" "C \<subseteq> {lim h..<lim h1}"
    using copied [OF h(1) x y] by blast
  let ?h2 = "write_cell a (inj K (ys[i := y])) h1"
  have "ys = zs" using ys h(3,4) g load_cong [of h1 a h K] by (simp add: grows_def)
  have "view_list view ?h2 (take i ys) = Some (take i vs, B)"
    using h(3,7) g by (intro list_framed [OF h(6) [folded \<open>ys = zs\<close>]]) (auto simp: write_cell_def grows_def)
  moreover have "view ?h2 y = Some (vs ! i, C)" using C h(3) by (intro framed [OF C(1)]) (auto simp: write_cell_def)
  moreover have "take (Suc i) (ys[i := y]) = take i ys @ [y]" using i h(5) \<open>ys = zs\<close> by (simp add: take_Suc_conv_app_nth)
  ultimately have "view_list view ?h2 (take (Suc i) (ys[i := y])) = Some (take (Suc i) vs, B \<union> C)"
    using i by (simp add: view_list_append take_Suc_conv_app_nth)
  moreover have "grows L h1 ?h2" using h g by (intro grows_write) (auto simp: grows_def)
  moreover have "B \<union> C \<subseteq> {L..<lim ?h2} - {a}" using h(2,3,7) C(2) g by (auto simp: grows_def write_cell_def)
  moreover have "load K ?h2 a = Some (ys[i := y])" "length (ys[i := y]) = length vs" using K h(5) \<open>ys = zs\<close> by simp_all
  moreover have "grows L h ?h2" using grows_trans [OF g \<open>grows L h1 ?h2\<close>] h(2,3) by simp
  ultimately show ?thesis using h(2,3) unfolding half_copied_def by (auto simp: grows_def)
qed

lemma copy_elems_run:
  assumes K: "kind_ok K" and src: "sl_array src < L" "sl_off src + length vs \<le> length xs" and d: "sl_off dst = 0"
  shows "half_copied K L (sl_array dst) vs i h \<Longrightarrow> load K h (sl_array src) = Some xs \<Longrightarrow>
    view_list view h (take (length vs) (drop (sl_off src) xs)) = Some (vs, A) \<Longrightarrow> A \<subseteq> {..<L} \<Longrightarrow> i \<le> length vs \<Longrightarrow>
    copy_elems K into src dst [i..<length vs] h = h' \<Longrightarrow>
    half_copied K L (sl_array dst) vs (length vs) h' \<and> grows L h h'"
proof (induction "length vs - i" arbitrary: i h)
  case 0
  then show ?case by (auto simp: half_copied_def)
next
  case (Suc n)
  let ?x = "xs ! (sl_off src + i)" and ?a = "sl_array dst"
  have i: "i < length vs" using Suc.hyps(2) by simp
  then obtain Ai where x: "view h ?x = Some (vs ! i, Ai)"
    using view_list_nth [OF Suc.prems(3), of i] src(2) by auto
  obtain y h1 where y: "into ?x h = (y, h1)" by fastforce
  have wf: "store_wf h" and la: "?a < lim h" using Suc.prems(1) by (auto simp: half_copied_def)
  have g: "grows (lim h) h h1" using copied [OF wf x y] by blast
  obtain ys where ys: "load K h1 ?a = Some ys"
    using Suc.prems(1) g la load_cong [of h1 ?a h K] by (auto simp: half_copied_def grows_def)
  let ?h2 = "write_cell ?a (inj K (ys[i := y])) h1"
  note step = half_copied_step [OF K Suc.prems(1) i x y ys]
  have "load K ?h2 (sl_array src) = Some xs"
    using Suc.prems(2) step src(1) load_cong [of ?h2 "sl_array src" h K] by (simp add: grows_def)
  moreover have "view_list view ?h2 (take (length vs) (drop (sl_off src) xs)) = Some (vs, A)"
    using Suc.prems(4) step by (intro list_framed [OF Suc.prems(3)]) (auto simp: grows_def)
  moreover have "copy_elems K into src dst [Suc i..<length vs] ?h2 = h'"
    using Suc.prems(2,6) y ys d i by (simp add: upt_conv_Cons)
  ultimately have "half_copied K L ?a vs (length vs) h' \<and> grows L ?h2 h'"
    using Suc.hyps(1) [of "Suc i" ?h2] Suc.hyps(2) step Suc.prems(4) i by simp
  with step show ?case using grows_trans by blast
qed

lemma copied_slice:
  assumes K: "kind_ok K" and wf: "store_wf h" and s: "view_slice K view h s = Some (v, A)"
    and run: "copy_slice K z into s h = (q, h')"
  shows "grows (lim h) h h' \<and> (\<exists>B. view_slice K view h' q = Some (v, B) \<and> B \<subseteq> {lim h..<lim h'})"
proof (cases s)
  case None
  with wf s run show ?thesis by (auto simp: view_slice_def copy_slice_def)
next
  case (Some t)
  with s obtain xs vs A' where x: "load K h (sl_array t) = Some xs" "sl_off t + sl_len t \<le> length xs"
    "view_list view h (take (sl_len t) (drop (sl_off t) xs)) = Some (vs, A')" "v = Some vs"
    by (auto simp: view_slice_def split: Option.bind_splits if_splits)
  have n: "length vs = sl_len t"
    using view_list_nth [OF x(3), of 0] x(2,3) by (cases "sl_len t = 0") auto
  obtain a h1 where a: "alloc (inj K (replicate (sl_len t) z)) h = (a, h1)" by fastforce
  let ?d = "\<lparr>sl_array = a, sl_off = 0, sl_len = sl_len t\<rparr>"
  have h': "q = Some ?d" "copy_elems K into t ?d [0..<length vs] h1 = h'" using run Some a n by (simp_all add: copy_slice_def Let_def)
  have g: "grows (lim h) h h1" "a = lim h" "cells h1 a = Some (inj K (replicate (sl_len t) z))" "lim h1 = lim h + 1"
    using grows_alloc [OF wf order_refl a] by auto
  have src: "sl_array t < lim h" "A' \<subseteq> {..<lim h}" using load_lt [OF wf x(1)] list_reached [OF wf x(3)] by auto
  have "half_copied K (lim h) a vs 0 h1"
    using g K n by (auto simp: half_copied_def grows_def load_def kind_ok_def)
  moreover have "load K h1 (sl_array t) = Some xs" using x(1) g(1) src(1) load_cong [of h1 "sl_array t" h K] by (simp add: grows_def)
  moreover have "view_list view h1 (take (length vs) (drop (sl_off t) xs)) = Some (vs, A')"
    unfolding n using src(2) g(1) by (intro list_framed [OF x(3)]) (auto simp: grows_def)
  ultimately have res: "half_copied K (lim h) a vs (length vs) h'" "grows (lim h) h1 h'"
    using copy_elems_run [OF K src(1), where dst = ?d and i = 0 and h = h1 and h' = h' and xs = xs and vs = vs and A = A'] x(2) n src(2) h'(2)
    by simp_all
  then obtain ys B where y: "load K h' a = Some ys" "length ys = length vs" "view_list view h' ys = Some (vs, B)" "B \<subseteq> {lim h..<lim h'}" "lim h \<le> a" "a < lim h'"
    unfolding half_copied_def by (auto, blast)
  then have "view_slice K view h' q = Some (v, insert a B)" by (simp add: view_slice_def h'(1) n x(4))
  with y grows_trans [OF g(1) res(2)] show ?thesis by (intro conjI exI [of _ "insert a B"]) auto
qed

theorem deep_copy_slice: "kind_ok K \<Longrightarrow> deep_copy (view_slice K view) (copy_slice K z into)"
  using slice_framed slice_reached copied_slice by unfold_locales blast+

end

section \<open>Copies of values, of sequences of fields and of structs\<close>

text \<open>A value without pointers is its own copy.\<close>

interpretation plain: deep_copy view_value Pair
  by unfold_locales (auto simp: view_value_def)

lemma view_list_value [simp]: "view_list view_value h xs = Some (xs, {})"
  by (induction xs) (simp_all add: view_value_def)

lemma copied_values:
  assumes K: "kind_ok K" and wf: "store_wf h" and s: "view_slice K view_value h s = Some (v, A)"
    and run: "copy_values K z s h = (q, h')"
  shows "grows (lim h) h h' \<and> (\<exists>B. view_slice K view_value h' q = Some (v, B) \<and> B \<subseteq> {lim h..<lim h'})"
proof (cases s)
  case None
  with wf s run show ?thesis by (auto simp: view_slice_def copy_values_def)
next
  case (Some t)
  with s obtain xs where x: "load K h (sl_array t) = Some xs" "sl_off t + sl_len t \<le> length xs"
    "v = Some (take (sl_len t) (drop (sl_off t) xs))"
    by (auto simp: view_slice_def split: Option.bind_splits if_splits)
  obtain a h1 where a: "alloc (inj K (replicate (sl_len t) z)) h = (a, h1)" by fastforce
  have g: "grows (lim h) h h1" "a = lim h" "cells h1 a = Some (inj K (replicate (sl_len t) z))" "lim h1 = lim h + 1"
    using grows_alloc [OF wf order_refl a] by auto
  have "load K h1 a = Some (replicate (sl_len t) z)" using g(3) K by (simp add: load_def kind_ok_def)
  moreover have "load K h1 (sl_array t) = Some xs"
    using x(1) g(1) load_lt [OF wf x(1)] load_cong [of h1 "sl_array t" h K] by (simp add: grows_def)
  ultimately have h': "q = Some \<lparr>sl_array = a, sl_off = 0, sl_len = sl_len t\<rparr>"
    "h' = write_cell a (inj K (take (sl_len t) (drop (sl_off t) xs))) h1"
    using run Some a by (auto simp: copy_values_def go_copy_def Let_def)
  have g2: "grows (lim h) h1 h'" unfolding h'(2) using g by (intro grows_write) (auto simp: grows_def)
  have "view_slice K view_value h' q = Some (v, {a})" using x(2,3) K by (simp add: view_slice_def h')
  moreover have "{a} \<subseteq> {lim h..<lim h'}" using g g2 by (auto simp: grows_def)
  ultimately show ?thesis using grows_trans [OF g(1) g2] by blast
qed

lemma deep_copy_values:
  assumes "kind_ok K"
  shows "deep_copy (view_slice K view_value) (copy_values K z)"
proof
  fix h h' :: "'b store" and s v A
  assume "view_slice K view_value h s = Some (v, A)" and "\<And>a. a \<in> A \<Longrightarrow> cells h' a = cells h a"
  then show "view_slice K view_value h' s = Some (v, A)" by (rule plain.slice_framed)
qed (use plain.slice_reached copied_values [OF assms] in blast)+

lemma deep_copy_pair:
  assumes f: "deep_copy f ff" and g: "deep_copy g gg"
  shows "deep_copy (view_pair f g) (copy_pair ff gg)"
proof
  fix h h' :: "'a store" and p v A
  assume p: "view_pair f g h p = Some (v, A)" and same: "\<And>a. a \<in> A \<Longrightarrow> cells h' a = cells h a"
  then obtain v1 A1 v2 A2 where v: "f h (fst p) = Some (v1, A1)" "g h (snd p) = Some (v2, A2)" "v = (v1, v2)" "A = A1 \<union> A2"
    by (auto simp: view_pair_def split: Option.bind_splits)
  have "f h' (fst p) = Some (v1, A1)" by (rule deep_copy.framed [OF f v(1)]) (simp add: same v(4))
  moreover have "g h' (snd p) = Some (v2, A2)" by (rule deep_copy.framed [OF g v(2)]) (simp add: same v(4))
  ultimately show "view_pair f g h' p = Some (v, A)" using v by (simp add: view_pair_def)
next
  fix h p v A
  assume "store_wf h" and "view_pair f g h p = Some (v, A)"
  then show "A \<subseteq> {..<lim h}"
    using deep_copy.reached [OF f] deep_copy.reached [OF g] by (fastforce simp: view_pair_def split: Option.bind_splits)
next
  fix h p v A q h'
  assume wf: "store_wf h" and p: "view_pair f g h p = Some (v, A)" and run: "copy_pair ff gg p h = (q, h')"
  obtain v1 A1 v2 A2 where v: "f h (fst p) = Some (v1, A1)" "g h (snd p) = Some (v2, A2)" "v = (v1, v2)"
    using p by (auto simp: view_pair_def split: Option.bind_splits)
  obtain x h1 where x: "ff (fst p) h = (x, h1)" by fastforce
  obtain y where y: "gg (snd p) h1 = (y, h')" and q: "q = (x, y)"
    using run x by (auto simp: copy_pair_def split: prod.splits)
  obtain B1 where b1: "grows (lim h) h h1" "f h1 x = Some (v1, B1)" "B1 \<subseteq> {lim h..<lim h1}"
    using deep_copy.copied [OF f wf v(1) x] by blast
  note wf1 = grows_wf [OF b1(1)]
  obtain B2 where b2: "grows (lim h1) h1 h'" "g h' y = Some (v2, B2)" "B2 \<subseteq> {lim h1..<lim h'}"
    using deep_copy.copied [OF g wf1 deep_copy.kept [OF g wf v(2) b1(1)] y] by blast
  have "view_pair f g h' q = Some (v, B1 \<union> B2)"
    using deep_copy.kept [OF f wf1 b1(2) b2(1)] b2(2) v(3) q by (simp add: view_pair_def)
  moreover have "B1 \<union> B2 \<subseteq> {lim h..<lim h'}" using b1 b2 by (auto simp: grows_def)
  moreover have "lim h \<le> lim h1" using b1(1) by (simp add: grows_def)
  with grows_trans [OF b1(1) b2(1) order_refl] have "grows (lim h) h h'" .
  ultimately show "grows (lim h) h h' \<and> (\<exists>B. view_pair f g h' q = Some (v, B) \<and> B \<subseteq> {lim h..<lim h'})" by blast
qed

lemma deep_copy_struct:
  assumes c: "deep_copy view into" and put: "\<And>x p. ptrs (put x p) = p" "\<And>x p. strip (put x p) = strip x"
    and code: "\<And>x h. into' x h = (case into (ptrs x) h of (p, h) \<Rightarrow> (put x p, h))"
  shows "deep_copy (view_struct ptrs strip view) into'"
proof
  fix h h' :: "'a store" and x v A
  assume "view_struct ptrs strip view h x = Some (v, A)" and "\<And>a. a \<in> A \<Longrightarrow> cells h' a = cells h a"
  then show "view_struct ptrs strip view h' x = Some (v, A)"
    using deep_copy.framed [OF c, of h "ptrs x" _ A h'] by (auto simp: view_struct_def)
next
  fix h x v A
  assume "store_wf h" and "view_struct ptrs strip view h x = Some (v, A)"
  then show "A \<subseteq> {..<lim h}" using deep_copy.reached [OF c, of h "ptrs x" _ A] by (auto simp: view_struct_def)
next
  fix h x v A y h'
  assume wf: "store_wf h" and x: "view_struct ptrs strip view h x = Some (v, A)" and run: "into' x h = (y, h')"
  obtain w where w: "view h (ptrs x) = Some (w, A)" "v = (strip x, w)" using x by (auto simp: view_struct_def)
  obtain p where p: "into (ptrs x) h = (p, h')" "y = put x p" using run code by (auto split: prod.splits)
  from deep_copy.copied [OF c wf w(1) p(1)]
  show "grows (lim h) h h' \<and> (\<exists>B. view_struct ptrs strip view h' y = Some (v, B) \<and> B \<subseteq> {lim h..<lim h'})"
    by (auto simp: view_struct_def put p(2) w(2))
qed

lemma deep_copy_map:
  assumes c: "deep_copy view into"
  shows "deep_copy (\<lambda>h x. map_option (apfst f) (view h x)) into"
proof
  fix h h' :: "'a store" and x v A
  assume "map_option (apfst f) (view h x) = Some (v, A)" and "\<And>a. a \<in> A \<Longrightarrow> cells h' a = cells h a"
  then show "map_option (apfst f) (view h' x) = Some (v, A)"
    using deep_copy.framed [OF c, of h x _ A h'] by auto
next
  fix h x v A
  assume "store_wf h" and "map_option (apfst f) (view h x) = Some (v, A)"
  then show "A \<subseteq> {..<lim h}" using deep_copy.reached [OF c, of h x _ A] by auto
next
  fix h x v A y h'
  assume "store_wf h" and "map_option (apfst f) (view h x) = Some (v, A)" and "into x h = (y, h')"
  then show "grows (lim h) h h' \<and> (\<exists>B. map_option (apfst f) (view h' y) = Some (v, B) \<and> B \<subseteq> {lim h..<lim h'})"
    using deep_copy.copied [OF c] by fastforce
qed

section \<open>Later writes\<close>

text \<open>What a program does to a store it got: it writes cells.\<close>

fun writes :: "(addr \<times> 'c) list \<Rightarrow> 'c store \<Rightarrow> 'c store" where
  "writes [] h = h"
| "writes ((a, c) # ws) h = writes ws (write_cell a c h)"

lemma cells_writes: "a \<notin> fst ` set ws \<Longrightarrow> cells (writes ws h) a = cells h a"
  by (induction ws h rule: writes.induct) (auto simp: write_cell_def)

text \<open>
  \<open>separate view h x y v\<close>: \<open>x\<close> and \<open>y\<close> both have the value \<open>v\<close>, and keep it whatever is written to the cells reached
  from the other.
\<close>

definition separate :: "('c, 'm, 'v) view \<Rightarrow> 'c store \<Rightarrow> 'm \<Rightarrow> 'm \<Rightarrow> 'v \<Rightarrow> bool" where
  "separate view h x y v \<longleftrightarrow> (\<exists>A B. view h x = Some (v, A) \<and> view h y = Some (v, B) \<and> A \<inter> B = {} \<and>
     (\<forall>ws. fst ` set ws \<subseteq> B \<longrightarrow> view (writes ws h) x = Some (v, A)) \<and>
     (\<forall>ws. fst ` set ws \<subseteq> A \<longrightarrow> view (writes ws h) y = Some (v, B)))"

context deep_copy
begin

lemma copy_separate:
  assumes "store_wf h" and "view h x = Some (v, A)" and "into x h = (y, h')"
  shows "separate view h' x y v"
  using assms
proof (rule independent)
  fix B
  assume v: "view h' y = Some (v, B)" "view h' x = Some (v, A)" "A \<inter> B = {}"
    and B: "\<And>h''. (\<And>a. a \<notin> B \<Longrightarrow> cells h'' a = cells h' a) \<Longrightarrow> view h'' x = Some (v, A)"
    and A: "\<And>h''. (\<And>a. a \<notin> A \<Longrightarrow> cells h'' a = cells h' a) \<Longrightarrow> view h'' y = Some (v, B)"
  have "view (writes ws h') x = Some (v, A)" if "fst ` set ws \<subseteq> B" for ws
    by (rule B) (rule cells_writes, use that in blast)
  moreover have "view (writes ws h') y = Some (v, B)" if "fst ` set ws \<subseteq> A" for ws
    by (rule A) (rule cells_writes, use that in blast)
  ultimately show ?thesis using v unfolding separate_def by blast
qed

end

end
