(* ===== verification/Deep_Copy.thy ===== *)
theory Deep_Copy
  imports Go_Store Ccp_Conversion
begin

text \<open>
  \<^verbatim>\<open>src/apis/bootstrap/v1alpha2/zz_generated.deepcopy.go\<close> and
  \<^verbatim>\<open>src/apis/controlplane/v1alpha2/zz_generated.deepcopy.go\<close>: the generated copies of the API types of version v1alpha2, on
  structs as they are in memory, with pointers and slices. The copy of a control plane is shown to refine
  the identity on the values of \<open>Api_Types\<close>, in which the rest of the development takes copies for granted.
\<close>

section \<open>Structs in memory\<close>

record go_User =
  gu_Name :: string
  gu_Gecos :: "addr option"
  gu_Groups :: "addr option"
  gu_HomeDir :: "addr option"
  gu_Inactive :: "addr option"
  gu_Shell :: "addr option"
  gu_Passwd :: "addr option"
  gu_PrimaryGroup :: "addr option"
  gu_LockPassword :: "addr option"
  gu_Sudo :: "addr option"
  gu_SSHAuthorizedKeys :: "slice option"

record go_NTP =
  gn_Servers :: "slice option"
  gn_Enabled :: "addr option"

record go_CritConfigSpec =
  gs_Config :: string
  gs_Files :: "slice option"
  gs_PreCritCommands :: "slice option"
  gs_PostCritCommands :: "slice option"
  gs_Users :: "slice option"
  gs_NTP :: "addr option"
  gs_Format :: string
  gs_Verbosity :: bool

record go_CritConfigStatus =
  gst_Ready :: bool
  gst_DataSecretName :: "addr option"
  gst_FailureReason :: string
  gst_FailureMessage :: string

text \<open>Metadata of objects and lists is a type \<open>'e\<close> of another package, with its own copies.\<close>

record 'e go_CritConfig =
  gc_TypeMeta :: "string \<times> string"
  gc_ObjectMeta :: 'e
  gc_Spec :: go_CritConfigSpec
  gc_Status :: go_CritConfigStatus

text \<open>The three list types have the same fields; the array tells what the items are.\<close>

record 'e go_List =
  gl_TypeMeta :: "string \<times> string"
  gl_ListMeta :: 'e
  gl_Items :: "slice option"

record go_CritConfigTemplateResource = gtr_Spec :: go_CritConfigSpec
record go_CritConfigTemplateSpec = gts_Template :: go_CritConfigTemplateResource

record 'e go_CritConfigTemplate =
  gt_TypeMeta :: "string \<times> string"
  gt_ObjectMeta :: 'e
  gt_Spec :: go_CritConfigTemplateSpec

record go_CritControlPlaneSpec =
  gps_Replicas :: int
  gps_Version :: string
  gps_InfrastructureTemplate :: ObjectReference
  gps_CritConfigSpec :: go_CritConfigSpec

record go_CritControlPlaneStatus =
  gpt_Selector :: string
  gpt_Replicas :: "32 word"
  gpt_UpdatedReplicas :: "32 word"
  gpt_ReadyReplicas :: "32 word"
  gpt_UnavailableReplicas :: "32 word"
  gpt_Initialized :: bool
  gpt_Ready :: bool
  gpt_FailureReason :: string
  gpt_FailureMessage :: "addr option"

record 'e go_CritControlPlane =
  gp_TypeMeta :: "string \<times> string"
  gp_ObjectMeta :: 'e
  gp_Spec :: go_CritControlPlaneSpec
  gp_Status :: go_CritControlPlaneStatus

section \<open>Cells\<close>

text \<open>What a pointer or a slice of the code can lead to.\<close>

datatype 'e cell =
    StringCell "string"
  | BoolCell "bool"
  | StringsCell "string list"
  | FilesCell "File list"
  | UsersCell "go_User list"
  | FileCell "File"
  | UserCell "go_User"
  | NTPCell "go_NTP"
  | SpecCell "go_CritConfigSpec"
  | StatusCell "go_CritConfigStatus"
  | ConfigCell "'e go_CritConfig"
  | ConfigsCell "'e go_CritConfig list"
  | ConfigListCell "'e go_List"
  | TemplateResourceCell "go_CritConfigTemplateResource"
  | TemplateSpecCell "go_CritConfigTemplateSpec"
  | TemplateCell "'e go_CritConfigTemplate"
  | TemplatesCell "'e go_CritConfigTemplate list"
  | TemplateListCell "'e go_List"
  | CcpSpecCell "go_CritControlPlaneSpec"
  | CcpStatusCell "go_CritControlPlaneStatus"
  | CcpCell "'e go_CritControlPlane"
  | CcpsCell "'e go_CritControlPlane list"
  | CcpListCell "'e go_List"
  | ExternalCell "'e"

text \<open>The zero values of the structs.\<close>

definition zero_File :: File where
  "zero_File = \<lparr>file_Path = [], file_Owner = [], file_Permissions = [], file_Encoding = [], file_Content = []\<rparr>"

definition zero_User :: go_User where
  "zero_User = \<lparr>gu_Name = [], gu_Gecos = None, gu_Groups = None, gu_HomeDir = None, gu_Inactive = None, gu_Shell = None,
     gu_Passwd = None, gu_PrimaryGroup = None, gu_LockPassword = None, gu_Sudo = None,
     gu_SSHAuthorizedKeys = None\<rparr>"

definition zero_NTP :: go_NTP where
  "zero_NTP = \<lparr>gn_Servers = None, gn_Enabled = None\<rparr>"

definition zero_CritConfigSpec :: go_CritConfigSpec where
  "zero_CritConfigSpec = \<lparr>gs_Config = [], gs_Files = None, gs_PreCritCommands = None, gs_PostCritCommands = None, gs_Users = None,
     gs_NTP = None, gs_Format = [], gs_Verbosity = False\<rparr>"

definition zero_CritConfigStatus :: go_CritConfigStatus where
  "zero_CritConfigStatus = \<lparr>gst_Ready = False, gst_DataSecretName = None, gst_FailureReason = [], gst_FailureMessage = []\<rparr>"

definition zero_CritControlPlaneStatus :: go_CritControlPlaneStatus where
  "zero_CritControlPlaneStatus = \<lparr>gpt_Selector = [], gpt_Replicas = 0, gpt_UpdatedReplicas = 0, gpt_ReadyReplicas = 0,
     gpt_UnavailableReplicas = 0, gpt_Initialized = False, gpt_Ready = False, gpt_FailureReason = [],
     gpt_FailureMessage = None\<rparr>"

definition zero_CritControlPlaneSpec :: go_CritControlPlaneSpec where
  "zero_CritControlPlaneSpec = \<lparr>gps_Replicas = 0, gps_Version = [], gps_InfrastructureTemplate = zero_ref,
     gps_CritConfigSpec = zero_CritConfigSpec\<rparr>"

definition zero_CritConfig :: "'e \<Rightarrow> 'e go_CritConfig" where
  "zero_CritConfig e = \<lparr>gc_TypeMeta = ([], []), gc_ObjectMeta = e, gc_Spec = zero_CritConfigSpec, gc_Status = zero_CritConfigStatus\<rparr>"

definition zero_CritConfigTemplate :: "'e \<Rightarrow> 'e go_CritConfigTemplate" where
  "zero_CritConfigTemplate e = \<lparr>gt_TypeMeta = ([], []), gt_ObjectMeta = e, gt_Spec = \<lparr>gts_Template = \<lparr>gtr_Spec = zero_CritConfigSpec\<rparr>\<rparr>\<rparr>"

definition zero_CritControlPlane :: "'e \<Rightarrow> 'e go_CritControlPlane" where
  "zero_CritControlPlane e = \<lparr>gp_TypeMeta = ([], []), gp_ObjectMeta = e, gp_Spec = zero_CritControlPlaneSpec, gp_Status = zero_CritControlPlaneStatus\<rparr>"

definition zero_List :: "'e \<Rightarrow> 'e go_List" where
  "zero_List e = \<lparr>gl_TypeMeta = ([], []), gl_ListMeta = e, gl_Items = None\<rparr>"

text \<open>How each type is kept in a cell.\<close>

definition String_kind :: "(string, 'e cell) kind" where
  "String_kind = \<lparr>inj = StringCell, prj = (\<lambda>c. case c of StringCell x \<Rightarrow> Some x | _ \<Rightarrow> None), zero = []\<rparr>"

definition Bool_kind :: "(bool, 'e cell) kind" where
  "Bool_kind = \<lparr>inj = BoolCell, prj = (\<lambda>c. case c of BoolCell x \<Rightarrow> Some x | _ \<Rightarrow> None), zero = False\<rparr>"

definition Strings_kind :: "(string list, 'e cell) kind" where
  "Strings_kind = \<lparr>inj = StringsCell, prj = (\<lambda>c. case c of StringsCell x \<Rightarrow> Some x | _ \<Rightarrow> None), zero = []\<rparr>"

definition Files_kind :: "(File list, 'e cell) kind" where
  "Files_kind = \<lparr>inj = FilesCell, prj = (\<lambda>c. case c of FilesCell x \<Rightarrow> Some x | _ \<Rightarrow> None), zero = []\<rparr>"

definition Users_kind :: "(go_User list, 'e cell) kind" where
  "Users_kind = \<lparr>inj = UsersCell, prj = (\<lambda>c. case c of UsersCell x \<Rightarrow> Some x | _ \<Rightarrow> None), zero = []\<rparr>"

definition File_kind :: "(File, 'e cell) kind" where
  "File_kind = \<lparr>inj = FileCell, prj = (\<lambda>c. case c of FileCell x \<Rightarrow> Some x | _ \<Rightarrow> None), zero = zero_File\<rparr>"

definition User_kind :: "(go_User, 'e cell) kind" where
  "User_kind = \<lparr>inj = UserCell, prj = (\<lambda>c. case c of UserCell x \<Rightarrow> Some x | _ \<Rightarrow> None), zero = zero_User\<rparr>"

definition NTP_kind :: "(go_NTP, 'e cell) kind" where
  "NTP_kind = \<lparr>inj = NTPCell, prj = (\<lambda>c. case c of NTPCell x \<Rightarrow> Some x | _ \<Rightarrow> None), zero = zero_NTP\<rparr>"

definition Spec_kind :: "(go_CritConfigSpec, 'e cell) kind" where
  "Spec_kind = \<lparr>inj = SpecCell, prj = (\<lambda>c. case c of SpecCell x \<Rightarrow> Some x | _ \<Rightarrow> None), zero = zero_CritConfigSpec\<rparr>"

definition Status_kind :: "(go_CritConfigStatus, 'e cell) kind" where
  "Status_kind = \<lparr>inj = StatusCell, prj = (\<lambda>c. case c of StatusCell x \<Rightarrow> Some x | _ \<Rightarrow> None), zero = zero_CritConfigStatus\<rparr>"

definition Config_kind :: "'e \<Rightarrow> ('e go_CritConfig, 'e cell) kind" where
  "Config_kind e = \<lparr>inj = ConfigCell, prj = (\<lambda>c. case c of ConfigCell x \<Rightarrow> Some x | _ \<Rightarrow> None), zero = zero_CritConfig e\<rparr>"

definition Configs_kind :: "('e go_CritConfig list, 'e cell) kind" where
  "Configs_kind = \<lparr>inj = ConfigsCell, prj = (\<lambda>c. case c of ConfigsCell x \<Rightarrow> Some x | _ \<Rightarrow> None), zero = []\<rparr>"

definition ConfigList_kind :: "'e \<Rightarrow> ('e go_List, 'e cell) kind" where
  "ConfigList_kind e = \<lparr>inj = ConfigListCell, prj = (\<lambda>c. case c of ConfigListCell x \<Rightarrow> Some x | _ \<Rightarrow> None), zero = zero_List e\<rparr>"

definition TemplateResource_kind :: "(go_CritConfigTemplateResource, 'e cell) kind" where
  "TemplateResource_kind = \<lparr>inj = TemplateResourceCell, prj = (\<lambda>c. case c of TemplateResourceCell x \<Rightarrow> Some x | _ \<Rightarrow> None), zero = \<lparr>gtr_Spec = zero_CritConfigSpec\<rparr>\<rparr>"

definition TemplateSpec_kind :: "(go_CritConfigTemplateSpec, 'e cell) kind" where
  "TemplateSpec_kind = \<lparr>inj = TemplateSpecCell, prj = (\<lambda>c. case c of TemplateSpecCell x \<Rightarrow> Some x | _ \<Rightarrow> None), zero = \<lparr>gts_Template = \<lparr>gtr_Spec = zero_CritConfigSpec\<rparr>\<rparr>\<rparr>"

definition Template_kind :: "'e \<Rightarrow> ('e go_CritConfigTemplate, 'e cell) kind" where
  "Template_kind e = \<lparr>inj = TemplateCell, prj = (\<lambda>c. case c of TemplateCell x \<Rightarrow> Some x | _ \<Rightarrow> None), zero = zero_CritConfigTemplate e\<rparr>"

definition Templates_kind :: "('e go_CritConfigTemplate list, 'e cell) kind" where
  "Templates_kind = \<lparr>inj = TemplatesCell, prj = (\<lambda>c. case c of TemplatesCell x \<Rightarrow> Some x | _ \<Rightarrow> None), zero = []\<rparr>"

definition TemplateList_kind :: "'e \<Rightarrow> ('e go_List, 'e cell) kind" where
  "TemplateList_kind e = \<lparr>inj = TemplateListCell, prj = (\<lambda>c. case c of TemplateListCell x \<Rightarrow> Some x | _ \<Rightarrow> None), zero = zero_List e\<rparr>"

definition CcpSpec_kind :: "(go_CritControlPlaneSpec, 'e cell) kind" where
  "CcpSpec_kind = \<lparr>inj = CcpSpecCell, prj = (\<lambda>c. case c of CcpSpecCell x \<Rightarrow> Some x | _ \<Rightarrow> None), zero = zero_CritControlPlaneSpec\<rparr>"

definition CcpStatus_kind :: "(go_CritControlPlaneStatus, 'e cell) kind" where
  "CcpStatus_kind = \<lparr>inj = CcpStatusCell, prj = (\<lambda>c. case c of CcpStatusCell x \<Rightarrow> Some x | _ \<Rightarrow> None), zero = zero_CritControlPlaneStatus\<rparr>"

definition Ccp_kind :: "'e \<Rightarrow> ('e go_CritControlPlane, 'e cell) kind" where
  "Ccp_kind e = \<lparr>inj = CcpCell, prj = (\<lambda>c. case c of CcpCell x \<Rightarrow> Some x | _ \<Rightarrow> None), zero = zero_CritControlPlane e\<rparr>"

definition Ccps_kind :: "('e go_CritControlPlane list, 'e cell) kind" where
  "Ccps_kind = \<lparr>inj = CcpsCell, prj = (\<lambda>c. case c of CcpsCell x \<Rightarrow> Some x | _ \<Rightarrow> None), zero = []\<rparr>"

definition CcpList_kind :: "'e \<Rightarrow> ('e go_List, 'e cell) kind" where
  "CcpList_kind e = \<lparr>inj = CcpListCell, prj = (\<lambda>c. case c of CcpListCell x \<Rightarrow> Some x | _ \<Rightarrow> None), zero = zero_List e\<rparr>"

definition External_kind :: "'e \<Rightarrow> ('e, 'e cell) kind" where
  "External_kind e = \<lparr>inj = ExternalCell, prj = (\<lambda>c. case c of ExternalCell x \<Rightarrow> Some x | _ \<Rightarrow> None), zero = e\<rparr>"

lemmas kind_defs =
  String_kind_def Bool_kind_def Strings_kind_def Files_kind_def Users_kind_def File_kind_def User_kind_def
     NTP_kind_def Spec_kind_def Status_kind_def Config_kind_def Configs_kind_def ConfigList_kind_def
     TemplateResource_kind_def TemplateSpec_kind_def Template_kind_def Templates_kind_def TemplateList_kind_def
     CcpSpec_kind_def CcpStatus_kind_def Ccp_kind_def Ccps_kind_def CcpList_kind_def External_kind_def

lemma kinds_ok [simp]:
  "kind_ok String_kind" "kind_ok Bool_kind" "kind_ok Strings_kind" "kind_ok Files_kind" "kind_ok Users_kind"
     "kind_ok File_kind" "kind_ok User_kind" "kind_ok NTP_kind" "kind_ok Spec_kind" "kind_ok Status_kind"
     "kind_ok (Config_kind e)" "kind_ok Configs_kind" "kind_ok (ConfigList_kind e)"
     "kind_ok TemplateResource_kind" "kind_ok TemplateSpec_kind" "kind_ok (Template_kind e)"
     "kind_ok Templates_kind" "kind_ok (TemplateList_kind e)" "kind_ok CcpSpec_kind" "kind_ok CcpStatus_kind"
     "kind_ok (Ccp_kind e)" "kind_ok Ccps_kind" "kind_ok (CcpList_kind e)" "kind_ok (External_kind e)"
  by (simp_all add: kind_ok_def kind_defs)

section \<open>The copies\<close>

text \<open>The copies of the metadata, what they keep in the store, and their zero values.\<close>

record 'e externals =
  ObjectMeta_DeepCopyInto :: "'e \<Rightarrow> 'e cell store \<Rightarrow> 'e \<times> 'e cell store"
  ObjectMeta_view :: "('e cell, 'e, ObjectMeta) view"
  zero_ObjectMeta :: 'e
  ListMeta_DeepCopyInto :: "'e \<Rightarrow> 'e cell store \<Rightarrow> 'e \<times> 'e cell store"
  ListMeta_view :: "('e cell, 'e, string) view"
  zero_ListMeta :: 'e

definition File_DeepCopyInto :: "File \<Rightarrow> 'e cell store \<Rightarrow> File \<times> 'e cell store" where
  "File_DeepCopyInto in' h = (let out = in' in (out, h))"

definition NTP_DeepCopyInto :: "go_NTP \<Rightarrow> 'e cell store \<Rightarrow> go_NTP \<times> 'e cell store" where
  "NTP_DeepCopyInto in' h = (let out = in';
         (p, h) = copy_values Strings_kind [] (gn_Servers in') h; out = out\<lparr>gn_Servers := p\<rparr>;
         (p, h) = copy_ptr Bool_kind Pair (gn_Enabled in') h; out = out\<lparr>gn_Enabled := p\<rparr>
     in (out, h))"

definition User_DeepCopyInto :: "go_User \<Rightarrow> 'e cell store \<Rightarrow> go_User \<times> 'e cell store" where
  "User_DeepCopyInto in' h = (let out = in';
         (p, h) = copy_ptr String_kind Pair (gu_Gecos in') h; out = out\<lparr>gu_Gecos := p\<rparr>;
         (p, h) = copy_ptr String_kind Pair (gu_Groups in') h; out = out\<lparr>gu_Groups := p\<rparr>;
         (p, h) = copy_ptr String_kind Pair (gu_HomeDir in') h; out = out\<lparr>gu_HomeDir := p\<rparr>;
         (p, h) = copy_ptr Bool_kind Pair (gu_Inactive in') h; out = out\<lparr>gu_Inactive := p\<rparr>;
         (p, h) = copy_ptr String_kind Pair (gu_Shell in') h; out = out\<lparr>gu_Shell := p\<rparr>;
         (p, h) = copy_ptr String_kind Pair (gu_Passwd in') h; out = out\<lparr>gu_Passwd := p\<rparr>;
         (p, h) = copy_ptr String_kind Pair (gu_PrimaryGroup in') h; out = out\<lparr>gu_PrimaryGroup := p\<rparr>;
         (p, h) = copy_ptr Bool_kind Pair (gu_LockPassword in') h; out = out\<lparr>gu_LockPassword := p\<rparr>;
         (p, h) = copy_ptr String_kind Pair (gu_Sudo in') h; out = out\<lparr>gu_Sudo := p\<rparr>;
         (p, h) = copy_values Strings_kind [] (gu_SSHAuthorizedKeys in') h; out = out\<lparr>gu_SSHAuthorizedKeys := p\<rparr>
     in (out, h))"

definition CritConfigSpec_DeepCopyInto :: "go_CritConfigSpec \<Rightarrow> 'e cell store \<Rightarrow> go_CritConfigSpec \<times> 'e cell store" where
  "CritConfigSpec_DeepCopyInto in' h = (let out = in';
         (p, h) = copy_values Files_kind zero_File (gs_Files in') h; out = out\<lparr>gs_Files := p\<rparr>;
         (p, h) = copy_values Strings_kind [] (gs_PreCritCommands in') h; out = out\<lparr>gs_PreCritCommands := p\<rparr>;
         (p, h) = copy_values Strings_kind [] (gs_PostCritCommands in') h; out = out\<lparr>gs_PostCritCommands := p\<rparr>;
         (p, h) = copy_slice Users_kind zero_User User_DeepCopyInto (gs_Users in') h; out = out\<lparr>gs_Users := p\<rparr>;
         (p, h) = copy_ptr NTP_kind NTP_DeepCopyInto (gs_NTP in') h; out = out\<lparr>gs_NTP := p\<rparr>
     in (out, h))"

definition CritConfigStatus_DeepCopyInto :: "go_CritConfigStatus \<Rightarrow> 'e cell store \<Rightarrow> go_CritConfigStatus \<times> 'e cell store" where
  "CritConfigStatus_DeepCopyInto in' h = (let out = in';
         (p, h) = copy_ptr String_kind Pair (gst_DataSecretName in') h; out = out\<lparr>gst_DataSecretName := p\<rparr>
     in (out, h))"

definition CritConfig_DeepCopyInto :: "'e externals \<Rightarrow> 'e go_CritConfig \<Rightarrow> 'e cell store \<Rightarrow> 'e go_CritConfig \<times> 'e cell store" where
  "CritConfig_DeepCopyInto X in' h = (let out = in';
         out = out\<lparr>gc_TypeMeta := gc_TypeMeta in'\<rparr>;
         (p, h) = ObjectMeta_DeepCopyInto X (gc_ObjectMeta in') h; out = out\<lparr>gc_ObjectMeta := p\<rparr>;
         (p, h) = CritConfigSpec_DeepCopyInto (gc_Spec in') h; out = out\<lparr>gc_Spec := p\<rparr>;
         (p, h) = CritConfigStatus_DeepCopyInto (gc_Status in') h; out = out\<lparr>gc_Status := p\<rparr>
     in (out, h))"

definition CritConfigTemplateResource_DeepCopyInto :: "go_CritConfigTemplateResource \<Rightarrow> 'e cell store \<Rightarrow> go_CritConfigTemplateResource \<times> 'e cell store" where
  "CritConfigTemplateResource_DeepCopyInto in' h = (let out = in';
         (p, h) = CritConfigSpec_DeepCopyInto (gtr_Spec in') h; out = out\<lparr>gtr_Spec := p\<rparr>
     in (out, h))"

definition CritConfigTemplateSpec_DeepCopyInto :: "go_CritConfigTemplateSpec \<Rightarrow> 'e cell store \<Rightarrow> go_CritConfigTemplateSpec \<times> 'e cell store" where
  "CritConfigTemplateSpec_DeepCopyInto in' h = (let out = in';
         (p, h) = CritConfigTemplateResource_DeepCopyInto (gts_Template in') h; out = out\<lparr>gts_Template := p\<rparr>
     in (out, h))"

definition CritConfigTemplate_DeepCopyInto :: "'e externals \<Rightarrow> 'e go_CritConfigTemplate \<Rightarrow> 'e cell store \<Rightarrow> 'e go_CritConfigTemplate \<times> 'e cell store" where
  "CritConfigTemplate_DeepCopyInto X in' h = (let out = in';
         out = out\<lparr>gt_TypeMeta := gt_TypeMeta in'\<rparr>;
         (p, h) = ObjectMeta_DeepCopyInto X (gt_ObjectMeta in') h; out = out\<lparr>gt_ObjectMeta := p\<rparr>;
         (p, h) = CritConfigTemplateSpec_DeepCopyInto (gt_Spec in') h; out = out\<lparr>gt_Spec := p\<rparr>
     in (out, h))"

definition CritControlPlaneSpec_DeepCopyInto :: "go_CritControlPlaneSpec \<Rightarrow> 'e cell store \<Rightarrow> go_CritControlPlaneSpec \<times> 'e cell store" where
  "CritControlPlaneSpec_DeepCopyInto in' h = (let out = in';
         out = out\<lparr>gps_InfrastructureTemplate := gps_InfrastructureTemplate in'\<rparr>;
         (p, h) = CritConfigSpec_DeepCopyInto (gps_CritConfigSpec in') h; out = out\<lparr>gps_CritConfigSpec := p\<rparr>
     in (out, h))"

definition CritControlPlaneStatus_DeepCopyInto :: "go_CritControlPlaneStatus \<Rightarrow> 'e cell store \<Rightarrow> go_CritControlPlaneStatus \<times> 'e cell store" where
  "CritControlPlaneStatus_DeepCopyInto in' h = (let out = in';
         (p, h) = copy_ptr String_kind Pair (gpt_FailureMessage in') h; out = out\<lparr>gpt_FailureMessage := p\<rparr>
     in (out, h))"

definition CritControlPlane_DeepCopyInto :: "'e externals \<Rightarrow> 'e go_CritControlPlane \<Rightarrow> 'e cell store \<Rightarrow> 'e go_CritControlPlane \<times> 'e cell store" where
  "CritControlPlane_DeepCopyInto X in' h = (let out = in';
         out = out\<lparr>gp_TypeMeta := gp_TypeMeta in'\<rparr>;
         (p, h) = ObjectMeta_DeepCopyInto X (gp_ObjectMeta in') h; out = out\<lparr>gp_ObjectMeta := p\<rparr>;
         (p, h) = CritControlPlaneSpec_DeepCopyInto (gp_Spec in') h; out = out\<lparr>gp_Spec := p\<rparr>;
         (p, h) = CritControlPlaneStatus_DeepCopyInto (gp_Status in') h; out = out\<lparr>gp_Status := p\<rparr>
     in (out, h))"

definition CritConfigList_DeepCopyInto :: "'e externals \<Rightarrow> 'e go_List \<Rightarrow> 'e cell store \<Rightarrow> 'e go_List \<times> 'e cell store" where
  "CritConfigList_DeepCopyInto X in' h = (let out = in';
         out = out\<lparr>gl_TypeMeta := gl_TypeMeta in'\<rparr>;
         (p, h) = ListMeta_DeepCopyInto X (gl_ListMeta in') h; out = out\<lparr>gl_ListMeta := p\<rparr>;
         (p, h) = copy_slice Configs_kind (zero_CritConfig (zero_ObjectMeta X)) (CritConfig_DeepCopyInto X) (gl_Items in') h; out = out\<lparr>gl_Items := p\<rparr>
     in (out, h))"

definition CritConfigTemplateList_DeepCopyInto :: "'e externals \<Rightarrow> 'e go_List \<Rightarrow> 'e cell store \<Rightarrow> 'e go_List \<times> 'e cell store" where
  "CritConfigTemplateList_DeepCopyInto X in' h = (let out = in';
         out = out\<lparr>gl_TypeMeta := gl_TypeMeta in'\<rparr>;
         (p, h) = ListMeta_DeepCopyInto X (gl_ListMeta in') h; out = out\<lparr>gl_ListMeta := p\<rparr>;
         (p, h) = copy_slice Templates_kind (zero_CritConfigTemplate (zero_ObjectMeta X)) (CritConfigTemplate_DeepCopyInto X) (gl_Items in') h; out = out\<lparr>gl_Items := p\<rparr>
     in (out, h))"

definition CritControlPlaneList_DeepCopyInto :: "'e externals \<Rightarrow> 'e go_List \<Rightarrow> 'e cell store \<Rightarrow> 'e go_List \<times> 'e cell store" where
  "CritControlPlaneList_DeepCopyInto X in' h = (let out = in';
         out = out\<lparr>gl_TypeMeta := gl_TypeMeta in'\<rparr>;
         (p, h) = ListMeta_DeepCopyInto X (gl_ListMeta in') h; out = out\<lparr>gl_ListMeta := p\<rparr>;
         (p, h) = copy_slice Ccps_kind (zero_CritControlPlane (zero_ObjectMeta X)) (CritControlPlane_DeepCopyInto X) (gl_Items in') h; out = out\<lparr>gl_Items := p\<rparr>
     in (out, h))"

text \<open>
  The methods \<^verbatim>\<open>DeepCopy\<close>: nil for nil, else a new object that \<^verbatim>\<open>DeepCopyInto\<close> fills. \<^verbatim>\<open>DeepCopyObject\<close> returns an
  interface: nil itself, and not an interface that holds a nil pointer, when there is nothing to copy.
\<close>

definition File_DeepCopy :: "addr option \<Rightarrow> 'e cell store \<Rightarrow> addr option \<times> 'e cell store" where
  "File_DeepCopy in' h = copy_ptr File_kind File_DeepCopyInto in' h"

definition NTP_DeepCopy :: "addr option \<Rightarrow> 'e cell store \<Rightarrow> addr option \<times> 'e cell store" where
  "NTP_DeepCopy in' h = copy_ptr NTP_kind NTP_DeepCopyInto in' h"

definition User_DeepCopy :: "addr option \<Rightarrow> 'e cell store \<Rightarrow> addr option \<times> 'e cell store" where
  "User_DeepCopy in' h = copy_ptr User_kind User_DeepCopyInto in' h"

definition CritConfigSpec_DeepCopy :: "addr option \<Rightarrow> 'e cell store \<Rightarrow> addr option \<times> 'e cell store" where
  "CritConfigSpec_DeepCopy in' h = copy_ptr Spec_kind CritConfigSpec_DeepCopyInto in' h"

definition CritConfigStatus_DeepCopy :: "addr option \<Rightarrow> 'e cell store \<Rightarrow> addr option \<times> 'e cell store" where
  "CritConfigStatus_DeepCopy in' h = copy_ptr Status_kind CritConfigStatus_DeepCopyInto in' h"

definition CritConfig_DeepCopy :: "'e externals \<Rightarrow> addr option \<Rightarrow> 'e cell store \<Rightarrow> addr option \<times> 'e cell store" where
  "CritConfig_DeepCopy X in' h = copy_ptr (Config_kind (zero_ObjectMeta X)) (CritConfig_DeepCopyInto X) in' h"

definition CritConfigList_DeepCopy :: "'e externals \<Rightarrow> addr option \<Rightarrow> 'e cell store \<Rightarrow> addr option \<times> 'e cell store" where
  "CritConfigList_DeepCopy X in' h = copy_ptr (ConfigList_kind (zero_ListMeta X)) (CritConfigList_DeepCopyInto X) in' h"

definition CritConfigTemplateResource_DeepCopy :: "addr option \<Rightarrow> 'e cell store \<Rightarrow> addr option \<times> 'e cell store" where
  "CritConfigTemplateResource_DeepCopy in' h = copy_ptr TemplateResource_kind CritConfigTemplateResource_DeepCopyInto in' h"

definition CritConfigTemplateSpec_DeepCopy :: "addr option \<Rightarrow> 'e cell store \<Rightarrow> addr option \<times> 'e cell store" where
  "CritConfigTemplateSpec_DeepCopy in' h = copy_ptr TemplateSpec_kind CritConfigTemplateSpec_DeepCopyInto in' h"

definition CritConfigTemplate_DeepCopy :: "'e externals \<Rightarrow> addr option \<Rightarrow> 'e cell store \<Rightarrow> addr option \<times> 'e cell store" where
  "CritConfigTemplate_DeepCopy X in' h = copy_ptr (Template_kind (zero_ObjectMeta X)) (CritConfigTemplate_DeepCopyInto X) in' h"

definition CritConfigTemplateList_DeepCopy :: "'e externals \<Rightarrow> addr option \<Rightarrow> 'e cell store \<Rightarrow> addr option \<times> 'e cell store" where
  "CritConfigTemplateList_DeepCopy X in' h = copy_ptr (TemplateList_kind (zero_ListMeta X)) (CritConfigTemplateList_DeepCopyInto X) in' h"

definition CritControlPlaneSpec_DeepCopy :: "addr option \<Rightarrow> 'e cell store \<Rightarrow> addr option \<times> 'e cell store" where
  "CritControlPlaneSpec_DeepCopy in' h = copy_ptr CcpSpec_kind CritControlPlaneSpec_DeepCopyInto in' h"

definition CritControlPlaneStatus_DeepCopy :: "addr option \<Rightarrow> 'e cell store \<Rightarrow> addr option \<times> 'e cell store" where
  "CritControlPlaneStatus_DeepCopy in' h = copy_ptr CcpStatus_kind CritControlPlaneStatus_DeepCopyInto in' h"

definition CritControlPlane_DeepCopy :: "'e externals \<Rightarrow> addr option \<Rightarrow> 'e cell store \<Rightarrow> addr option \<times> 'e cell store" where
  "CritControlPlane_DeepCopy X in' h = copy_ptr (Ccp_kind (zero_ObjectMeta X)) (CritControlPlane_DeepCopyInto X) in' h"

definition CritControlPlaneList_DeepCopy :: "'e externals \<Rightarrow> addr option \<Rightarrow> 'e cell store \<Rightarrow> addr option \<times> 'e cell store" where
  "CritControlPlaneList_DeepCopy X in' h = copy_ptr (CcpList_kind (zero_ListMeta X)) (CritControlPlaneList_DeepCopyInto X) in' h"

definition CritConfig_DeepCopyObject :: "'e externals \<Rightarrow> addr option \<Rightarrow> 'e cell store \<Rightarrow> (string \<times> addr option) option \<times> 'e cell store" where
  "CritConfig_DeepCopyObject X in' h = (case CritConfig_DeepCopy X in' h of
     (Some c, h) \<Rightarrow> (Some (''CritConfig'', Some c), h)
   | (None, h) \<Rightarrow> (None, h))"

definition CritConfigList_DeepCopyObject :: "'e externals \<Rightarrow> addr option \<Rightarrow> 'e cell store \<Rightarrow> (string \<times> addr option) option \<times> 'e cell store" where
  "CritConfigList_DeepCopyObject X in' h = (case CritConfigList_DeepCopy X in' h of
     (Some c, h) \<Rightarrow> (Some (''CritConfigList'', Some c), h)
   | (None, h) \<Rightarrow> (None, h))"

definition CritConfigTemplate_DeepCopyObject :: "'e externals \<Rightarrow> addr option \<Rightarrow> 'e cell store \<Rightarrow> (string \<times> addr option) option \<times> 'e cell store" where
  "CritConfigTemplate_DeepCopyObject X in' h = (case CritConfigTemplate_DeepCopy X in' h of
     (Some c, h) \<Rightarrow> (Some (''CritConfigTemplate'', Some c), h)
   | (None, h) \<Rightarrow> (None, h))"

definition CritConfigTemplateList_DeepCopyObject :: "'e externals \<Rightarrow> addr option \<Rightarrow> 'e cell store \<Rightarrow> (string \<times> addr option) option \<times> 'e cell store" where
  "CritConfigTemplateList_DeepCopyObject X in' h = (case CritConfigTemplateList_DeepCopy X in' h of
     (Some c, h) \<Rightarrow> (Some (''CritConfigTemplateList'', Some c), h)
   | (None, h) \<Rightarrow> (None, h))"

definition CritControlPlane_DeepCopyObject :: "'e externals \<Rightarrow> addr option \<Rightarrow> 'e cell store \<Rightarrow> (string \<times> addr option) option \<times> 'e cell store" where
  "CritControlPlane_DeepCopyObject X in' h = (case CritControlPlane_DeepCopy X in' h of
     (Some c, h) \<Rightarrow> (Some (''CritControlPlane'', Some c), h)
   | (None, h) \<Rightarrow> (None, h))"

definition CritControlPlaneList_DeepCopyObject :: "'e externals \<Rightarrow> addr option \<Rightarrow> 'e cell store \<Rightarrow> (string \<times> addr option) option \<times> 'e cell store" where
  "CritControlPlaneList_DeepCopyObject X in' h = (case CritControlPlaneList_DeepCopy X in' h of
     (Some c, h) \<Rightarrow> (Some (''CritControlPlaneList'', Some c), h)
   | (None, h) \<Rightarrow> (None, h))"

section \<open>What the store holds\<close>

text \<open>
  For each struct: its pointers, the struct with other pointers, and its view, which follows them.
\<close>

named_theorems copy_intros

lemmas [copy_intros] = deep_copy_pair deep_copy_values deep_copy.deep_copy_ptr deep_copy.deep_copy_slice plain.deep_copy_axioms

definition externals_ok :: "'e externals \<Rightarrow> bool" where
  "externals_ok X \<longleftrightarrow> deep_copy (ObjectMeta_view X) (ObjectMeta_DeepCopyInto X) \<and>
     deep_copy (ListMeta_view X) (ListMeta_DeepCopyInto X)"

lemma externals_okD [copy_intros]:
  "externals_ok X \<Longrightarrow> deep_copy (ObjectMeta_view X) (ObjectMeta_DeepCopyInto X)"
  "externals_ok X \<Longrightarrow> deep_copy (ListMeta_view X) (ListMeta_DeepCopyInto X)"
  by (simp_all add: externals_ok_def)

definition NTP_ptrs where
  "NTP_ptrs (x :: go_NTP) = (gn_Servers x, gn_Enabled x)"

definition NTP_put where
  "NTP_put (x :: go_NTP) p = x\<lparr>gn_Servers := fst p, gn_Enabled := snd p\<rparr>"

definition view_NTP where
  "view_NTP = view_struct NTP_ptrs (\<lambda>x :: go_NTP. NTP_put x (None, None))
     (view_pair (view_slice Strings_kind view_value) (view_ptr Bool_kind view_value))"

lemma NTP_copies: "deep_copy view_NTP NTP_DeepCopyInto"
  unfolding view_NTP_def
  by (rule deep_copy_struct [where put = NTP_put and into = "copy_pair (copy_values Strings_kind []) (copy_ptr Bool_kind Pair)"])
    (intro copy_intros kinds_ok | simp add: NTP_ptrs_def NTP_put_def NTP_DeepCopyInto_def copy_pair_def split_beta)+

lemmas [copy_intros] = NTP_copies

definition User_ptrs where
  "User_ptrs (x :: go_User) = (gu_Gecos x, gu_Groups x, gu_HomeDir x, gu_Inactive x, gu_Shell x, gu_Passwd x, gu_PrimaryGroup x, gu_LockPassword x, gu_Sudo x, gu_SSHAuthorizedKeys x)"

definition User_put where
  "User_put (x :: go_User) p = x\<lparr>gu_Gecos := fst p, gu_Groups := fst (snd p), gu_HomeDir := fst (snd (snd p)),
     gu_Inactive := fst (snd (snd (snd p))), gu_Shell := fst (snd (snd (snd (snd p)))),
     gu_Passwd := fst (snd (snd (snd (snd (snd p))))), gu_PrimaryGroup := fst (snd (snd (snd (snd (snd (snd p)))))),
     gu_LockPassword := fst (snd (snd (snd (snd (snd (snd (snd p))))))),
     gu_Sudo := fst (snd (snd (snd (snd (snd (snd (snd (snd p)))))))),
     gu_SSHAuthorizedKeys := snd (snd (snd (snd (snd (snd (snd (snd (snd p))))))))\<rparr>"

definition view_User where
  "view_User = view_struct User_ptrs (\<lambda>x :: go_User. User_put x (None, None, None, None, None, None, None, None, None, None))
     (view_pair (view_ptr String_kind view_value) (view_pair (view_ptr String_kind view_value) (view_pair (view_ptr String_kind view_value) (view_pair (view_ptr Bool_kind view_value) (view_pair (view_ptr String_kind view_value) (view_pair (view_ptr String_kind view_value) (view_pair (view_ptr String_kind view_value) (view_pair (view_ptr Bool_kind view_value) (view_pair (view_ptr String_kind view_value) (view_slice Strings_kind view_value))))))))))"

lemma User_copies: "deep_copy view_User User_DeepCopyInto"
  unfolding view_User_def
  by (rule deep_copy_struct [where put = User_put and into = "copy_pair (copy_ptr String_kind Pair) (copy_pair (copy_ptr String_kind Pair) (copy_pair (copy_ptr String_kind Pair) (copy_pair (copy_ptr Bool_kind Pair) (copy_pair (copy_ptr String_kind Pair) (copy_pair (copy_ptr String_kind Pair) (copy_pair (copy_ptr String_kind Pair) (copy_pair (copy_ptr Bool_kind Pair) (copy_pair (copy_ptr String_kind Pair) (copy_values Strings_kind [])))))))))"])
    (intro copy_intros kinds_ok | simp add: User_ptrs_def User_put_def User_DeepCopyInto_def copy_pair_def split_beta)+

lemmas [copy_intros] = User_copies

definition CritConfigSpec_ptrs where
  "CritConfigSpec_ptrs (x :: go_CritConfigSpec) = (gs_Files x, gs_PreCritCommands x, gs_PostCritCommands x, gs_Users x, gs_NTP x)"

definition CritConfigSpec_put where
  "CritConfigSpec_put (x :: go_CritConfigSpec) p = x\<lparr>gs_Files := fst p, gs_PreCritCommands := fst (snd p), gs_PostCritCommands := fst (snd (snd p)),
     gs_Users := fst (snd (snd (snd p))), gs_NTP := snd (snd (snd (snd p)))\<rparr>"

definition view_CritConfigSpec where
  "view_CritConfigSpec = view_struct CritConfigSpec_ptrs (\<lambda>x :: go_CritConfigSpec. CritConfigSpec_put x (None, None, None, None, None))
     (view_pair (view_slice Files_kind view_value) (view_pair (view_slice Strings_kind view_value) (view_pair (view_slice Strings_kind view_value) (view_pair (view_slice Users_kind view_User) (view_ptr NTP_kind view_NTP)))))"

lemma CritConfigSpec_copies: "deep_copy view_CritConfigSpec CritConfigSpec_DeepCopyInto"
  unfolding view_CritConfigSpec_def
  by (rule deep_copy_struct [where put = CritConfigSpec_put and into = "copy_pair (copy_values Files_kind zero_File) (copy_pair (copy_values Strings_kind []) (copy_pair (copy_values Strings_kind []) (copy_pair (copy_slice Users_kind zero_User User_DeepCopyInto) (copy_ptr NTP_kind NTP_DeepCopyInto))))"])
    (intro copy_intros kinds_ok | simp add: CritConfigSpec_ptrs_def CritConfigSpec_put_def CritConfigSpec_DeepCopyInto_def copy_pair_def split_beta)+

lemmas [copy_intros] = CritConfigSpec_copies

definition CritConfigStatus_ptrs where
  "CritConfigStatus_ptrs (x :: go_CritConfigStatus) = gst_DataSecretName x"

definition CritConfigStatus_put where
  "CritConfigStatus_put (x :: go_CritConfigStatus) p = x\<lparr>gst_DataSecretName := p\<rparr>"

definition view_CritConfigStatus where
  "view_CritConfigStatus = view_struct CritConfigStatus_ptrs (\<lambda>x :: go_CritConfigStatus. CritConfigStatus_put x None)
     (view_ptr String_kind view_value)"

lemma CritConfigStatus_copies: "deep_copy view_CritConfigStatus CritConfigStatus_DeepCopyInto"
  unfolding view_CritConfigStatus_def
  by (rule deep_copy_struct [where put = CritConfigStatus_put and into = "copy_ptr String_kind Pair"])
    (intro copy_intros kinds_ok | simp add: CritConfigStatus_ptrs_def CritConfigStatus_put_def CritConfigStatus_DeepCopyInto_def copy_pair_def split_beta)+

lemmas [copy_intros] = CritConfigStatus_copies

definition CritConfig_ptrs where
  "CritConfig_ptrs (x :: 'e go_CritConfig) = (gc_ObjectMeta x, gc_Spec x, gc_Status x)"

definition CritConfig_put where
  "CritConfig_put (x :: 'e go_CritConfig) p = x\<lparr>gc_ObjectMeta := fst p, gc_Spec := fst (snd p), gc_Status := snd (snd p)\<rparr>"

definition view_CritConfig where
  "view_CritConfig X = view_struct CritConfig_ptrs (\<lambda>x :: 'e go_CritConfig. CritConfig_put x (zero_ObjectMeta X, zero_CritConfigSpec, zero_CritConfigStatus))
     (view_pair (ObjectMeta_view X) (view_pair (view_CritConfigSpec) (view_CritConfigStatus)))"

lemma CritConfig_copies: "externals_ok X \<Longrightarrow> deep_copy (view_CritConfig X) (CritConfig_DeepCopyInto X)"
  unfolding view_CritConfig_def
  by (rule deep_copy_struct [where put = CritConfig_put and into = "copy_pair (ObjectMeta_DeepCopyInto X) (copy_pair (CritConfigSpec_DeepCopyInto) (CritConfigStatus_DeepCopyInto))"])
    (intro copy_intros kinds_ok | simp add: CritConfig_ptrs_def CritConfig_put_def CritConfig_DeepCopyInto_def copy_pair_def split_beta)+

lemmas [copy_intros] = CritConfig_copies

definition CritConfigTemplateResource_ptrs where
  "CritConfigTemplateResource_ptrs (x :: go_CritConfigTemplateResource) = gtr_Spec x"

definition CritConfigTemplateResource_put where
  "CritConfigTemplateResource_put (x :: go_CritConfigTemplateResource) p = x\<lparr>gtr_Spec := p\<rparr>"

definition view_CritConfigTemplateResource where
  "view_CritConfigTemplateResource = view_struct CritConfigTemplateResource_ptrs (\<lambda>x :: go_CritConfigTemplateResource. CritConfigTemplateResource_put x zero_CritConfigSpec)
     (view_CritConfigSpec)"

lemma CritConfigTemplateResource_copies: "deep_copy view_CritConfigTemplateResource CritConfigTemplateResource_DeepCopyInto"
  unfolding view_CritConfigTemplateResource_def
  by (rule deep_copy_struct [where put = CritConfigTemplateResource_put and into = "CritConfigSpec_DeepCopyInto"])
    (intro copy_intros kinds_ok | simp add: CritConfigTemplateResource_ptrs_def CritConfigTemplateResource_put_def CritConfigTemplateResource_DeepCopyInto_def copy_pair_def split_beta)+

lemmas [copy_intros] = CritConfigTemplateResource_copies

definition CritConfigTemplateSpec_ptrs where
  "CritConfigTemplateSpec_ptrs (x :: go_CritConfigTemplateSpec) = gts_Template x"

definition CritConfigTemplateSpec_put where
  "CritConfigTemplateSpec_put (x :: go_CritConfigTemplateSpec) p = x\<lparr>gts_Template := p\<rparr>"

definition view_CritConfigTemplateSpec where
  "view_CritConfigTemplateSpec = view_struct CritConfigTemplateSpec_ptrs (\<lambda>x :: go_CritConfigTemplateSpec. CritConfigTemplateSpec_put x (\<lparr>gtr_Spec = zero_CritConfigSpec\<rparr>))
     (view_CritConfigTemplateResource)"

lemma CritConfigTemplateSpec_copies: "deep_copy view_CritConfigTemplateSpec CritConfigTemplateSpec_DeepCopyInto"
  unfolding view_CritConfigTemplateSpec_def
  by (rule deep_copy_struct [where put = CritConfigTemplateSpec_put and into = "CritConfigTemplateResource_DeepCopyInto"])
    (intro copy_intros kinds_ok | simp add: CritConfigTemplateSpec_ptrs_def CritConfigTemplateSpec_put_def CritConfigTemplateSpec_DeepCopyInto_def copy_pair_def split_beta)+

lemmas [copy_intros] = CritConfigTemplateSpec_copies

definition CritConfigTemplate_ptrs where
  "CritConfigTemplate_ptrs (x :: 'e go_CritConfigTemplate) = (gt_ObjectMeta x, gt_Spec x)"

definition CritConfigTemplate_put where
  "CritConfigTemplate_put (x :: 'e go_CritConfigTemplate) p = x\<lparr>gt_ObjectMeta := fst p, gt_Spec := snd p\<rparr>"

definition view_CritConfigTemplate where
  "view_CritConfigTemplate X = view_struct CritConfigTemplate_ptrs (\<lambda>x :: 'e go_CritConfigTemplate. CritConfigTemplate_put x (zero_ObjectMeta X, \<lparr>gts_Template = \<lparr>gtr_Spec = zero_CritConfigSpec\<rparr>\<rparr>))
     (view_pair (ObjectMeta_view X) (view_CritConfigTemplateSpec))"

lemma CritConfigTemplate_copies: "externals_ok X \<Longrightarrow> deep_copy (view_CritConfigTemplate X) (CritConfigTemplate_DeepCopyInto X)"
  unfolding view_CritConfigTemplate_def
  by (rule deep_copy_struct [where put = CritConfigTemplate_put and into = "copy_pair (ObjectMeta_DeepCopyInto X) (CritConfigTemplateSpec_DeepCopyInto)"])
    (intro copy_intros kinds_ok | simp add: CritConfigTemplate_ptrs_def CritConfigTemplate_put_def CritConfigTemplate_DeepCopyInto_def copy_pair_def split_beta)+

lemmas [copy_intros] = CritConfigTemplate_copies

definition CritControlPlaneSpec_ptrs where
  "CritControlPlaneSpec_ptrs (x :: go_CritControlPlaneSpec) = gps_CritConfigSpec x"

definition CritControlPlaneSpec_put where
  "CritControlPlaneSpec_put (x :: go_CritControlPlaneSpec) p = x\<lparr>gps_CritConfigSpec := p\<rparr>"

definition view_CritControlPlaneSpec where
  "view_CritControlPlaneSpec = view_struct CritControlPlaneSpec_ptrs (\<lambda>x :: go_CritControlPlaneSpec. CritControlPlaneSpec_put x zero_CritConfigSpec)
     (view_CritConfigSpec)"

lemma CritControlPlaneSpec_copies: "deep_copy view_CritControlPlaneSpec CritControlPlaneSpec_DeepCopyInto"
  unfolding view_CritControlPlaneSpec_def
  by (rule deep_copy_struct [where put = CritControlPlaneSpec_put and into = "CritConfigSpec_DeepCopyInto"])
    (intro copy_intros kinds_ok | simp add: CritControlPlaneSpec_ptrs_def CritControlPlaneSpec_put_def CritControlPlaneSpec_DeepCopyInto_def copy_pair_def split_beta)+

lemmas [copy_intros] = CritControlPlaneSpec_copies

definition CritControlPlaneStatus_ptrs where
  "CritControlPlaneStatus_ptrs (x :: go_CritControlPlaneStatus) = gpt_FailureMessage x"

definition CritControlPlaneStatus_put where
  "CritControlPlaneStatus_put (x :: go_CritControlPlaneStatus) p = x\<lparr>gpt_FailureMessage := p\<rparr>"

definition view_CritControlPlaneStatus where
  "view_CritControlPlaneStatus = view_struct CritControlPlaneStatus_ptrs (\<lambda>x :: go_CritControlPlaneStatus. CritControlPlaneStatus_put x None)
     (view_ptr String_kind view_value)"

lemma CritControlPlaneStatus_copies: "deep_copy view_CritControlPlaneStatus CritControlPlaneStatus_DeepCopyInto"
  unfolding view_CritControlPlaneStatus_def
  by (rule deep_copy_struct [where put = CritControlPlaneStatus_put and into = "copy_ptr String_kind Pair"])
    (intro copy_intros kinds_ok | simp add: CritControlPlaneStatus_ptrs_def CritControlPlaneStatus_put_def CritControlPlaneStatus_DeepCopyInto_def copy_pair_def split_beta)+

lemmas [copy_intros] = CritControlPlaneStatus_copies

definition CritControlPlane_ptrs where
  "CritControlPlane_ptrs (x :: 'e go_CritControlPlane) = (gp_ObjectMeta x, gp_Spec x, gp_Status x)"

definition CritControlPlane_put where
  "CritControlPlane_put (x :: 'e go_CritControlPlane) p = x\<lparr>gp_ObjectMeta := fst p, gp_Spec := fst (snd p), gp_Status := snd (snd p)\<rparr>"

definition view_CritControlPlane where
  "view_CritControlPlane X = view_struct CritControlPlane_ptrs (\<lambda>x :: 'e go_CritControlPlane. CritControlPlane_put x (zero_ObjectMeta X, zero_CritControlPlaneSpec, zero_CritControlPlaneStatus))
     (view_pair (ObjectMeta_view X) (view_pair (view_CritControlPlaneSpec) (view_CritControlPlaneStatus)))"

lemma CritControlPlane_copies: "externals_ok X \<Longrightarrow> deep_copy (view_CritControlPlane X) (CritControlPlane_DeepCopyInto X)"
  unfolding view_CritControlPlane_def
  by (rule deep_copy_struct [where put = CritControlPlane_put and into = "copy_pair (ObjectMeta_DeepCopyInto X) (copy_pair (CritControlPlaneSpec_DeepCopyInto) (CritControlPlaneStatus_DeepCopyInto))"])
    (intro copy_intros kinds_ok | simp add: CritControlPlane_ptrs_def CritControlPlane_put_def CritControlPlane_DeepCopyInto_def copy_pair_def split_beta)+

lemmas [copy_intros] = CritControlPlane_copies

definition CritConfigList_ptrs where
  "CritConfigList_ptrs (x :: 'e go_List) = (gl_ListMeta x, gl_Items x)"

definition CritConfigList_put where
  "CritConfigList_put (x :: 'e go_List) p = x\<lparr>gl_ListMeta := fst p, gl_Items := snd p\<rparr>"

definition view_CritConfigList where
  "view_CritConfigList X = view_struct CritConfigList_ptrs (\<lambda>x :: 'e go_List. CritConfigList_put x (zero_ListMeta X, None))
     (view_pair (ListMeta_view X) (view_slice Configs_kind (view_CritConfig X)))"

lemma CritConfigList_copies: "externals_ok X \<Longrightarrow> deep_copy (view_CritConfigList X) (CritConfigList_DeepCopyInto X)"
  unfolding view_CritConfigList_def
  by (rule deep_copy_struct [where put = CritConfigList_put and into = "copy_pair (ListMeta_DeepCopyInto X) (copy_slice Configs_kind (zero_CritConfig (zero_ObjectMeta X)) (CritConfig_DeepCopyInto X))"])
    (intro copy_intros kinds_ok | simp add: CritConfigList_ptrs_def CritConfigList_put_def CritConfigList_DeepCopyInto_def copy_pair_def split_beta)+

lemmas [copy_intros] = CritConfigList_copies

definition CritConfigTemplateList_ptrs where
  "CritConfigTemplateList_ptrs (x :: 'e go_List) = (gl_ListMeta x, gl_Items x)"

definition CritConfigTemplateList_put where
  "CritConfigTemplateList_put (x :: 'e go_List) p = x\<lparr>gl_ListMeta := fst p, gl_Items := snd p\<rparr>"

definition view_CritConfigTemplateList where
  "view_CritConfigTemplateList X = view_struct CritConfigTemplateList_ptrs (\<lambda>x :: 'e go_List. CritConfigTemplateList_put x (zero_ListMeta X, None))
     (view_pair (ListMeta_view X) (view_slice Templates_kind (view_CritConfigTemplate X)))"

lemma CritConfigTemplateList_copies: "externals_ok X \<Longrightarrow> deep_copy (view_CritConfigTemplateList X) (CritConfigTemplateList_DeepCopyInto X)"
  unfolding view_CritConfigTemplateList_def
  by (rule deep_copy_struct [where put = CritConfigTemplateList_put and into = "copy_pair (ListMeta_DeepCopyInto X) (copy_slice Templates_kind (zero_CritConfigTemplate (zero_ObjectMeta X)) (CritConfigTemplate_DeepCopyInto X))"])
    (intro copy_intros kinds_ok | simp add: CritConfigTemplateList_ptrs_def CritConfigTemplateList_put_def CritConfigTemplateList_DeepCopyInto_def copy_pair_def split_beta)+

lemmas [copy_intros] = CritConfigTemplateList_copies

definition CritControlPlaneList_ptrs where
  "CritControlPlaneList_ptrs (x :: 'e go_List) = (gl_ListMeta x, gl_Items x)"

definition CritControlPlaneList_put where
  "CritControlPlaneList_put (x :: 'e go_List) p = x\<lparr>gl_ListMeta := fst p, gl_Items := snd p\<rparr>"

definition view_CritControlPlaneList where
  "view_CritControlPlaneList X = view_struct CritControlPlaneList_ptrs (\<lambda>x :: 'e go_List. CritControlPlaneList_put x (zero_ListMeta X, None))
     (view_pair (ListMeta_view X) (view_slice Ccps_kind (view_CritControlPlane X)))"

lemma CritControlPlaneList_copies: "externals_ok X \<Longrightarrow> deep_copy (view_CritControlPlaneList X) (CritControlPlaneList_DeepCopyInto X)"
  unfolding view_CritControlPlaneList_def
  by (rule deep_copy_struct [where put = CritControlPlaneList_put and into = "copy_pair (ListMeta_DeepCopyInto X) (copy_slice Ccps_kind (zero_CritControlPlane (zero_ObjectMeta X)) (CritControlPlane_DeepCopyInto X))"])
    (intro copy_intros kinds_ok | simp add: CritControlPlaneList_ptrs_def CritControlPlaneList_put_def CritControlPlaneList_DeepCopyInto_def copy_pair_def split_beta)+

lemmas [copy_intros] = CritControlPlaneList_copies

interpretation spec_copy: deep_copy view_CritConfigSpec CritConfigSpec_DeepCopyInto
  by (rule CritConfigSpec_copies)

section \<open>The values of the model\<close>

text \<open>The record of \<open>Api_Types\<close> that the value of a struct stands for; a nil slice is the empty list there.\<close>

definition nil_list :: "'a list option \<Rightarrow> 'a list" where
  "nil_list xs = (case xs of None \<Rightarrow> [] | Some ys \<Rightarrow> ys)"

fun NTP_of where
  "NTP_of (n :: go_NTP, servers, enabled) = \<lparr>ntp_Servers = nil_list servers, ntp_Enabled = enabled\<rparr>"

fun User_of where
  "User_of (u :: go_User, gecos, groups, homeDir, inactive, sh, passwd, primaryGroup, lockPassword, sudo, keys) =
     \<lparr>user_Name = gu_Name u, user_Gecos = gecos, user_Groups = groups, user_HomeDir = homeDir, user_Inactive = inactive,
      user_Shell = sh, user_Passwd = passwd, user_PrimaryGroup = primaryGroup, user_LockPassword = lockPassword,
      user_Sudo = sudo, user_SSHAuthorizedKeys = nil_list keys\<rparr>"

fun CritConfigSpec_of where
  "CritConfigSpec_of (s :: go_CritConfigSpec, files, pre, post, users, ntp) =
     \<lparr>spec_Config = gs_Config s, spec_Files = nil_list files, spec_PreCritCommands = nil_list pre,
      spec_PostCritCommands = nil_list post, spec_Users = map User_of (nil_list users),
      spec_NTP = map_option NTP_of ntp, spec_Format = gs_Format s, spec_Verbosity = gs_Verbosity s\<rparr>"

fun CritControlPlane_of where
  "CritControlPlane_of (_, meta, (cs :: go_CritControlPlaneSpec, spec), (st :: go_CritControlPlaneStatus, message)) =
     \<lparr>ccp_meta = meta,
      ccp_Spec = \<lparr>ccps_Replicas = gps_Replicas cs, ccps_Version = gps_Version cs,
        ccps_InfrastructureTemplate = gps_InfrastructureTemplate cs, ccps_CritConfigSpec = CritConfigSpec_of spec\<rparr>,
      ccp_Status = \<lparr>ccpst_Selector = gpt_Selector st, ccpst_Replicas = gpt_Replicas st,
        ccpst_UpdatedReplicas = gpt_UpdatedReplicas st, ccpst_ReadyReplicas = gpt_ReadyReplicas st,
        ccpst_UnavailableReplicas = gpt_UnavailableReplicas st, ccpst_Initialized = gpt_Initialized st,
        ccpst_Ready = gpt_Ready st, ccpst_FailureReason = gpt_FailureReason st, ccpst_FailureMessage = message\<rparr>\<rparr>"

text \<open>The control plane, and the specification, that a pointer stands for, and the cells it reaches.\<close>

definition ccp_at :: "'e externals \<Rightarrow> ('e cell, addr option, CritControlPlane option) view" where
  "ccp_at X h p = map_option (apfst (map_option CritControlPlane_of))
     (view_ptr (Ccp_kind (zero_ObjectMeta X)) (view_CritControlPlane X) h p)"

definition spec_at :: "('e cell, addr option, CritConfigSpec option) view" where
  "spec_at h p = map_option (apfst (map_option CritConfigSpec_of)) (view_ptr Spec_kind view_CritConfigSpec h p)"

lemma ccp_at_copies: "externals_ok X \<Longrightarrow> deep_copy (ccp_at X) (CritControlPlane_DeepCopy X)"
  using deep_copy_map [OF deep_copy.deep_copy_ptr [OF CritControlPlane_copies kinds_ok(21)]]
  unfolding ccp_at_def [abs_def] CritControlPlane_DeepCopy_def [abs_def] .

interpretation spec_ptr: deep_copy spec_at CritConfigSpec_DeepCopy
  unfolding spec_at_def [abs_def] CritConfigSpec_DeepCopy_def [abs_def]
  by (rule deep_copy_map [OF spec_copy.deep_copy_ptr]) simp

lemma ccp_at_reaches: "ccp_at X h (Some a) = Some (v, A) \<Longrightarrow> a \<in> A"
  by (auto simp: ccp_at_def view_ptr_def split: Option.bind_splits)

lemma copy_ptr_Some: "view_ptr K view h (Some a) = Some (v, A) \<Longrightarrow> \<exists>b. fst (copy_ptr K into (Some a) h) = Some b"
  by (auto simp: view_ptr_def copy_ptr_def split: Option.bind_splits prod.splits)

section \<open>A concrete store\<close>

text \<open>Metadata that is a slice of strings, the finalizers of an object and the name of a list.\<close>

definition meta_of :: "string list option \<Rightarrow> ObjectMeta" where
  "meta_of fs = zero_meta\<lparr>Finalizers := nil_list fs\<rparr>"

definition sample_externals :: "slice option externals" where
  "sample_externals = \<lparr>
     ObjectMeta_DeepCopyInto = copy_values Strings_kind [],
     ObjectMeta_view = (\<lambda>h x. map_option (apfst meta_of) (view_slice Strings_kind view_value h x)),
     zero_ObjectMeta = None,
     ListMeta_DeepCopyInto = copy_values Strings_kind [],
     ListMeta_view = (\<lambda>h x. map_option (apfst (concat \<circ> nil_list)) (view_slice Strings_kind view_value h x)),
     zero_ListMeta = None\<rparr>"

lemma sample_externals_ok: "externals_ok sample_externals"
  by (simp add: externals_ok_def sample_externals_def deep_copy_map deep_copy_values)

text \<open>
  A store with a control plane at 0, whose metadata, files and time servers are at 1 to 4, and a list at 5
  of one config, at 6.
\<close>

definition sample_store :: "slice option cell store" where
  "sample_store = \<lparr>cells = [
     0 \<mapsto> CcpCell ((zero_CritControlPlane (Some \<lparr>sl_array = 1, sl_off = 0, sl_len = 1\<rparr>))\<lparr>
       gp_Spec := zero_CritControlPlaneSpec\<lparr>gps_CritConfigSpec := zero_CritConfigSpec\<lparr>
         gs_Files := Some \<lparr>sl_array = 2, sl_off = 1, sl_len = 1\<rparr>, gs_NTP := Some 3\<rparr>\<rparr>\<rparr>),
     1 \<mapsto> StringsCell [''f''],
     2 \<mapsto> FilesCell [zero_File, zero_File\<lparr>file_Path := ''/a''\<rparr>],
     3 \<mapsto> NTPCell (zero_NTP\<lparr>gn_Enabled := Some 4\<rparr>),
     4 \<mapsto> BoolCell True,
     5 \<mapsto> ConfigListCell ((zero_List None)\<lparr>gl_Items := Some \<lparr>sl_array = 6, sl_off = 0, sl_len = 1\<rparr>\<rparr>),
     6 \<mapsto> ConfigsCell [(zero_CritConfig None)\<lparr>gc_Spec := zero_CritConfigSpec\<lparr>gs_NTP := Some 3\<rparr>\<rparr>]], lim = 7\<rparr>"

lemma sample_store_wf: "store_wf sample_store"
  by (auto simp: store_wf_def sample_store_def split: if_splits)

lemmas view_defs = view_CritControlPlane_def view_CritControlPlaneSpec_def view_CritControlPlaneStatus_def
  view_CritConfigSpec_def view_CritConfigStatus_def view_CritConfig_def view_CritConfigList_def view_NTP_def view_struct_def
  view_pair_def view_ptr_def view_slice_def view_value_def load_def kind_defs zero_CritControlPlane_def
  zero_CritControlPlaneSpec_def zero_CritConfigSpec_def zero_CritControlPlaneStatus_def zero_CritConfig_def zero_CritConfigStatus_def zero_List_def zero_NTP_def
  CritControlPlane_ptrs_def CritControlPlaneSpec_ptrs_def CritControlPlaneStatus_ptrs_def CritConfigSpec_ptrs_def CritConfigStatus_ptrs_def
  CritConfig_ptrs_def CritConfigList_ptrs_def NTP_ptrs_def CritControlPlane_put_def CritControlPlaneSpec_put_def
  CritControlPlaneStatus_put_def CritConfigSpec_put_def CritConfigStatus_put_def CritConfig_put_def CritConfigList_put_def NTP_put_def

lemma sample_ccp_at: "\<exists>ccp A. ccp_at sample_externals sample_store (Some 0) = Some (Some ccp, A) \<and> Finalizers (ccp_meta ccp) = [''f'']"
  by (simp add: ccp_at_def sample_store_def sample_externals_def view_defs meta_of_def nil_list_def zero_meta_def)

lemma sample_list_at: "\<exists>v A. view_ptr (ConfigList_kind None) (view_CritConfigList sample_externals) sample_store (Some 5) = Some (Some v, A)"
  by (simp add: sample_store_def sample_externals_def view_defs meta_of_def)

section \<open>Properties\<close>

text \<open>
  C12: a copy of a control plane is one. The method \<^verbatim>\<open>DeepCopy\<close> returns a new pointer to an object that
  stands for the same control plane; the original still does, and each keeps its value whatever is
  written to the cells reached from the other.
\<close>

theorem control_plane_deep_copy:
  assumes "externals_ok X" and "store_wf h" and "ccp_at X h (Some a) = Some (Some ccp, A)"
    and "CritControlPlane_DeepCopy X (Some a) h = (q, h')"
  shows "\<exists>b. q = Some b \<and> b \<noteq> a \<and> separate (ccp_at X) h' (Some a) (Some b) (Some ccp)"
proof -
  let ?K = "Ccp_kind (zero_ObjectMeta X)"
  note copies = ccp_at_copies [OF assms(1)]
  obtain v where "view_ptr ?K (view_CritControlPlane X) h (Some a) = Some (v, A)" using assms(3) by (auto simp: ccp_at_def)
  then obtain b where b: "q = Some b" using copy_ptr_Some assms(4) by (metis CritControlPlane_DeepCopy_def fst_conv)
  have sep: "separate (ccp_at X) h' (Some a) (Some b) (Some ccp)"
    using deep_copy.copy_separate [OF copies assms(2,3,4)] b by simp
  then obtain A B where "ccp_at X h' (Some a) = Some (Some ccp, A)" "ccp_at X h' (Some b) = Some (Some ccp, B)" "A \<inter> B = {}"
    unfolding separate_def by blast
  then have "b \<noteq> a" using ccp_at_reaches by blast
  with b sep show ?thesis by blast
qed

theorem control_plane_deep_copy_witness:
  "\<exists>b h' ccp. CritControlPlane_DeepCopy sample_externals (Some 0) sample_store = (Some b, h') \<and>
     separate (ccp_at sample_externals) h' (Some 0) (Some b) (Some ccp) \<and> Finalizers (ccp_meta ccp) = [''f'']"
proof -
  obtain ccp A where "ccp_at sample_externals sample_store (Some 0) = Some (Some ccp, A)" "Finalizers (ccp_meta ccp) = [''f'']"
    using sample_ccp_at by blast
  with control_plane_deep_copy [OF sample_externals_ok sample_store_wf] show ?thesis by (metis prod.collapse)
qed



end
