(* ===== verification/Deep_Copy_v1alpha1.thy ===== *)
theory Deep_Copy_v1alpha1
  imports Deep_Copy
begin

text \<open>
  \<^verbatim>\<open>src/apis/bootstrap/v1alpha1/zz_generated.deepcopy.go\<close> and
  \<^verbatim>\<open>src/apis/controlplane/v1alpha1/zz_generated.deepcopy.go\<close>: the generated copies of the API types of version v1alpha1, on
  structs as they are in memory, with pointers and slices. What is shown for the stored version holds for this one by the
  same lemmas; a specification has two more pointers, to node configurations of the \<^verbatim>\<open>crit\<close> package.
\<close>

section \<open>Structs in memory\<close>

record go_User_v1alpha1 =
  gu1_Name :: string
  gu1_Gecos :: "addr option"
  gu1_Groups :: "addr option"
  gu1_HomeDir :: "addr option"
  gu1_Inactive :: "addr option"
  gu1_Shell :: "addr option"
  gu1_Passwd :: "addr option"
  gu1_PrimaryGroup :: "addr option"
  gu1_LockPassword :: "addr option"
  gu1_Sudo :: "addr option"
  gu1_SSHAuthorizedKeys :: "slice option"

record go_NTP_v1alpha1 =
  gn1_Servers :: "slice option"
  gn1_Enabled :: "addr option"

record go_CritConfigSpec_v1alpha1 =
  gs1_ControlPlaneConfiguration :: "addr option"
  gs1_WorkerConfiguration :: "addr option"
  gs1_Files :: "slice option"
  gs1_PreCritCommands :: "slice option"
  gs1_PostCritCommands :: "slice option"
  gs1_Users :: "slice option"
  gs1_NTP :: "addr option"
  gs1_Format :: string
  gs1_Verbosity :: bool

record go_CritConfigStatus_v1alpha1 =
  gst1_Ready :: bool
  gst1_DataSecretName :: "addr option"
  gst1_FailureReason :: string
  gst1_FailureMessage :: string

text \<open>Metadata of objects and lists is a type \<open>'e\<close> of another package, with its own copies.\<close>

record 'e go_CritConfig_v1alpha1 =
  gc1_TypeMeta :: "string \<times> string"
  gc1_ObjectMeta :: 'e
  gc1_Spec :: go_CritConfigSpec_v1alpha1
  gc1_Status :: go_CritConfigStatus_v1alpha1

record go_CritConfigTemplateResource_v1alpha1 = gtr1_Spec :: go_CritConfigSpec_v1alpha1
record go_CritConfigTemplateSpec_v1alpha1 = gts1_Template :: go_CritConfigTemplateResource_v1alpha1

record 'e go_CritConfigTemplate_v1alpha1 =
  gt1_TypeMeta :: "string \<times> string"
  gt1_ObjectMeta :: 'e
  gt1_Spec :: go_CritConfigTemplateSpec_v1alpha1

record go_CritControlPlaneSpec_v1alpha1 =
  gps1_Replicas :: int
  gps1_Version :: string
  gps1_InfrastructureTemplate :: ObjectReference
  gps1_CritConfigSpec :: go_CritConfigSpec_v1alpha1

record go_CritControlPlaneStatus_v1alpha1 =
  gpt1_Selector :: string
  gpt1_Replicas :: "32 word"
  gpt1_UpdatedReplicas :: "32 word"
  gpt1_ReadyReplicas :: "32 word"
  gpt1_UnavailableReplicas :: "32 word"
  gpt1_Initialized :: bool
  gpt1_Ready :: bool
  gpt1_FailureReason :: string
  gpt1_FailureMessage :: "addr option"

record 'e go_CritControlPlane_v1alpha1 =
  gp1_TypeMeta :: "string \<times> string"
  gp1_ObjectMeta :: 'e
  gp1_Spec :: go_CritControlPlaneSpec_v1alpha1
  gp1_Status :: go_CritControlPlaneStatus_v1alpha1

section \<open>Cells\<close>

text \<open>What a pointer or a slice of the code can lead to.\<close>

datatype 'e cell1 =
    StringCell1 "string"
  | BoolCell1 "bool"
  | StringsCell1 "string list"
  | FilesCell1 "File_v1alpha1 list"
  | UsersCell1 "go_User_v1alpha1 list"
  | FileCell1 "File_v1alpha1"
  | UserCell1 "go_User_v1alpha1"
  | NTPCell1 "go_NTP_v1alpha1"
  | SpecCell1 "go_CritConfigSpec_v1alpha1"
  | StatusCell1 "go_CritConfigStatus_v1alpha1"
  | ConfigCell1 "'e go_CritConfig_v1alpha1"
  | ConfigsCell1 "'e go_CritConfig_v1alpha1 list"
  | ConfigListCell1 "'e go_List"
  | TemplateResourceCell1 "go_CritConfigTemplateResource_v1alpha1"
  | TemplateSpecCell1 "go_CritConfigTemplateSpec_v1alpha1"
  | TemplateCell1 "'e go_CritConfigTemplate_v1alpha1"
  | TemplatesCell1 "'e go_CritConfigTemplate_v1alpha1 list"
  | TemplateListCell1 "'e go_List"
  | CcpSpecCell1 "go_CritControlPlaneSpec_v1alpha1"
  | CcpStatusCell1 "go_CritControlPlaneStatus_v1alpha1"
  | CcpCell1 "'e go_CritControlPlane_v1alpha1"
  | CcpsCell1 "'e go_CritControlPlane_v1alpha1 list"
  | CcpListCell1 "'e go_List"
  | ExternalCell1 "'e"

text \<open>The zero values of the structs.\<close>

definition zero_File_v1alpha1 :: File_v1alpha1 where
  "zero_File_v1alpha1 = \<lparr>f1_Path = [], f1_Owner = [], f1_Permissions = [], f1_Encoding = [], f1_Content = []\<rparr>"

definition zero_User_v1alpha1 :: go_User_v1alpha1 where
  "zero_User_v1alpha1 = \<lparr>gu1_Name = [], gu1_Gecos = None, gu1_Groups = None, gu1_HomeDir = None, gu1_Inactive = None,
     gu1_Shell = None, gu1_Passwd = None, gu1_PrimaryGroup = None, gu1_LockPassword = None, gu1_Sudo = None,
     gu1_SSHAuthorizedKeys = None\<rparr>"

definition zero_NTP_v1alpha1 :: go_NTP_v1alpha1 where
  "zero_NTP_v1alpha1 = \<lparr>gn1_Servers = None, gn1_Enabled = None\<rparr>"

definition zero_CritConfigSpec_v1alpha1 :: go_CritConfigSpec_v1alpha1 where
  "zero_CritConfigSpec_v1alpha1 = \<lparr>gs1_ControlPlaneConfiguration = None, gs1_WorkerConfiguration = None, gs1_Files = None,
     gs1_PreCritCommands = None, gs1_PostCritCommands = None, gs1_Users = None, gs1_NTP = None, gs1_Format = [],
     gs1_Verbosity = False\<rparr>"

definition zero_CritConfigStatus_v1alpha1 :: go_CritConfigStatus_v1alpha1 where
  "zero_CritConfigStatus_v1alpha1 = \<lparr>gst1_Ready = False, gst1_DataSecretName = None, gst1_FailureReason = [],
     gst1_FailureMessage = []\<rparr>"

definition zero_CritControlPlaneStatus_v1alpha1 :: go_CritControlPlaneStatus_v1alpha1 where
  "zero_CritControlPlaneStatus_v1alpha1 = \<lparr>gpt1_Selector = [], gpt1_Replicas = 0, gpt1_UpdatedReplicas = 0, gpt1_ReadyReplicas = 0,
     gpt1_UnavailableReplicas = 0, gpt1_Initialized = False, gpt1_Ready = False, gpt1_FailureReason = [],
     gpt1_FailureMessage = None\<rparr>"

definition zero_CritControlPlaneSpec_v1alpha1 :: go_CritControlPlaneSpec_v1alpha1 where
  "zero_CritControlPlaneSpec_v1alpha1 = \<lparr>gps1_Replicas = 0, gps1_Version = [], gps1_InfrastructureTemplate = zero_ref,
     gps1_CritConfigSpec = zero_CritConfigSpec_v1alpha1\<rparr>"

definition zero_CritConfig_v1alpha1 :: "'e \<Rightarrow> 'e go_CritConfig_v1alpha1" where
  "zero_CritConfig_v1alpha1 e = \<lparr>gc1_TypeMeta = ([], []), gc1_ObjectMeta = e, gc1_Spec = zero_CritConfigSpec_v1alpha1, gc1_Status = zero_CritConfigStatus_v1alpha1\<rparr>"

definition zero_CritConfigTemplate_v1alpha1 :: "'e \<Rightarrow> 'e go_CritConfigTemplate_v1alpha1" where
  "zero_CritConfigTemplate_v1alpha1 e = \<lparr>gt1_TypeMeta = ([], []), gt1_ObjectMeta = e, gt1_Spec = \<lparr>gts1_Template = \<lparr>gtr1_Spec = zero_CritConfigSpec_v1alpha1\<rparr>\<rparr>\<rparr>"

definition zero_CritControlPlane_v1alpha1 :: "'e \<Rightarrow> 'e go_CritControlPlane_v1alpha1" where
  "zero_CritControlPlane_v1alpha1 e = \<lparr>gp1_TypeMeta = ([], []), gp1_ObjectMeta = e, gp1_Spec = zero_CritControlPlaneSpec_v1alpha1, gp1_Status = zero_CritControlPlaneStatus_v1alpha1\<rparr>"

text \<open>How each type is kept in a cell.\<close>

definition String_kind1 :: "(string, 'e cell1) kind" where
  "String_kind1 = \<lparr>inj = StringCell1, prj = (\<lambda>c. case c of StringCell1 x \<Rightarrow> Some x | _ \<Rightarrow> None), zero = []\<rparr>"

definition Bool_kind1 :: "(bool, 'e cell1) kind" where
  "Bool_kind1 = \<lparr>inj = BoolCell1, prj = (\<lambda>c. case c of BoolCell1 x \<Rightarrow> Some x | _ \<Rightarrow> None), zero = False\<rparr>"

definition Strings_kind1 :: "(string list, 'e cell1) kind" where
  "Strings_kind1 = \<lparr>inj = StringsCell1, prj = (\<lambda>c. case c of StringsCell1 x \<Rightarrow> Some x | _ \<Rightarrow> None), zero = []\<rparr>"

definition Files_kind1 :: "(File_v1alpha1 list, 'e cell1) kind" where
  "Files_kind1 = \<lparr>inj = FilesCell1, prj = (\<lambda>c. case c of FilesCell1 x \<Rightarrow> Some x | _ \<Rightarrow> None), zero = []\<rparr>"

definition Users_kind1 :: "(go_User_v1alpha1 list, 'e cell1) kind" where
  "Users_kind1 = \<lparr>inj = UsersCell1, prj = (\<lambda>c. case c of UsersCell1 x \<Rightarrow> Some x | _ \<Rightarrow> None), zero = []\<rparr>"

definition File_kind1 :: "(File_v1alpha1, 'e cell1) kind" where
  "File_kind1 = \<lparr>inj = FileCell1, prj = (\<lambda>c. case c of FileCell1 x \<Rightarrow> Some x | _ \<Rightarrow> None), zero = zero_File_v1alpha1\<rparr>"

definition User_kind1 :: "(go_User_v1alpha1, 'e cell1) kind" where
  "User_kind1 = \<lparr>inj = UserCell1, prj = (\<lambda>c. case c of UserCell1 x \<Rightarrow> Some x | _ \<Rightarrow> None), zero = zero_User_v1alpha1\<rparr>"

definition NTP_kind1 :: "(go_NTP_v1alpha1, 'e cell1) kind" where
  "NTP_kind1 = \<lparr>inj = NTPCell1, prj = (\<lambda>c. case c of NTPCell1 x \<Rightarrow> Some x | _ \<Rightarrow> None), zero = zero_NTP_v1alpha1\<rparr>"

definition Spec_kind1 :: "(go_CritConfigSpec_v1alpha1, 'e cell1) kind" where
  "Spec_kind1 = \<lparr>inj = SpecCell1, prj = (\<lambda>c. case c of SpecCell1 x \<Rightarrow> Some x | _ \<Rightarrow> None), zero = zero_CritConfigSpec_v1alpha1\<rparr>"

definition Status_kind1 :: "(go_CritConfigStatus_v1alpha1, 'e cell1) kind" where
  "Status_kind1 = \<lparr>inj = StatusCell1, prj = (\<lambda>c. case c of StatusCell1 x \<Rightarrow> Some x | _ \<Rightarrow> None), zero = zero_CritConfigStatus_v1alpha1\<rparr>"

definition Config_kind1 :: "'e \<Rightarrow> ('e go_CritConfig_v1alpha1, 'e cell1) kind" where
  "Config_kind1 e = \<lparr>inj = ConfigCell1, prj = (\<lambda>c. case c of ConfigCell1 x \<Rightarrow> Some x | _ \<Rightarrow> None), zero = zero_CritConfig_v1alpha1 e\<rparr>"

definition Configs_kind1 :: "('e go_CritConfig_v1alpha1 list, 'e cell1) kind" where
  "Configs_kind1 = \<lparr>inj = ConfigsCell1, prj = (\<lambda>c. case c of ConfigsCell1 x \<Rightarrow> Some x | _ \<Rightarrow> None), zero = []\<rparr>"

definition ConfigList_kind1 :: "'e \<Rightarrow> ('e go_List, 'e cell1) kind" where
  "ConfigList_kind1 e = \<lparr>inj = ConfigListCell1, prj = (\<lambda>c. case c of ConfigListCell1 x \<Rightarrow> Some x | _ \<Rightarrow> None), zero = zero_List e\<rparr>"

definition TemplateResource_kind1 :: "(go_CritConfigTemplateResource_v1alpha1, 'e cell1) kind" where
  "TemplateResource_kind1 = \<lparr>inj = TemplateResourceCell1, prj = (\<lambda>c. case c of TemplateResourceCell1 x \<Rightarrow> Some x | _ \<Rightarrow> None), zero = \<lparr>gtr1_Spec = zero_CritConfigSpec_v1alpha1\<rparr>\<rparr>"

definition TemplateSpec_kind1 :: "(go_CritConfigTemplateSpec_v1alpha1, 'e cell1) kind" where
  "TemplateSpec_kind1 = \<lparr>inj = TemplateSpecCell1, prj = (\<lambda>c. case c of TemplateSpecCell1 x \<Rightarrow> Some x | _ \<Rightarrow> None), zero = \<lparr>gts1_Template = \<lparr>gtr1_Spec = zero_CritConfigSpec_v1alpha1\<rparr>\<rparr>\<rparr>"

definition Template_kind1 :: "'e \<Rightarrow> ('e go_CritConfigTemplate_v1alpha1, 'e cell1) kind" where
  "Template_kind1 e = \<lparr>inj = TemplateCell1, prj = (\<lambda>c. case c of TemplateCell1 x \<Rightarrow> Some x | _ \<Rightarrow> None), zero = zero_CritConfigTemplate_v1alpha1 e\<rparr>"

definition Templates_kind1 :: "('e go_CritConfigTemplate_v1alpha1 list, 'e cell1) kind" where
  "Templates_kind1 = \<lparr>inj = TemplatesCell1, prj = (\<lambda>c. case c of TemplatesCell1 x \<Rightarrow> Some x | _ \<Rightarrow> None), zero = []\<rparr>"

definition TemplateList_kind1 :: "'e \<Rightarrow> ('e go_List, 'e cell1) kind" where
  "TemplateList_kind1 e = \<lparr>inj = TemplateListCell1, prj = (\<lambda>c. case c of TemplateListCell1 x \<Rightarrow> Some x | _ \<Rightarrow> None), zero = zero_List e\<rparr>"

definition CcpSpec_kind1 :: "(go_CritControlPlaneSpec_v1alpha1, 'e cell1) kind" where
  "CcpSpec_kind1 = \<lparr>inj = CcpSpecCell1, prj = (\<lambda>c. case c of CcpSpecCell1 x \<Rightarrow> Some x | _ \<Rightarrow> None), zero = zero_CritControlPlaneSpec_v1alpha1\<rparr>"

definition CcpStatus_kind1 :: "(go_CritControlPlaneStatus_v1alpha1, 'e cell1) kind" where
  "CcpStatus_kind1 = \<lparr>inj = CcpStatusCell1, prj = (\<lambda>c. case c of CcpStatusCell1 x \<Rightarrow> Some x | _ \<Rightarrow> None), zero = zero_CritControlPlaneStatus_v1alpha1\<rparr>"

definition Ccp_kind1 :: "'e \<Rightarrow> ('e go_CritControlPlane_v1alpha1, 'e cell1) kind" where
  "Ccp_kind1 e = \<lparr>inj = CcpCell1, prj = (\<lambda>c. case c of CcpCell1 x \<Rightarrow> Some x | _ \<Rightarrow> None), zero = zero_CritControlPlane_v1alpha1 e\<rparr>"

definition Ccps_kind1 :: "('e go_CritControlPlane_v1alpha1 list, 'e cell1) kind" where
  "Ccps_kind1 = \<lparr>inj = CcpsCell1, prj = (\<lambda>c. case c of CcpsCell1 x \<Rightarrow> Some x | _ \<Rightarrow> None), zero = []\<rparr>"

definition CcpList_kind1 :: "'e \<Rightarrow> ('e go_List, 'e cell1) kind" where
  "CcpList_kind1 e = \<lparr>inj = CcpListCell1, prj = (\<lambda>c. case c of CcpListCell1 x \<Rightarrow> Some x | _ \<Rightarrow> None), zero = zero_List e\<rparr>"

definition External_kind1 :: "'e \<Rightarrow> ('e, 'e cell1) kind" where
  "External_kind1 e = \<lparr>inj = ExternalCell1, prj = (\<lambda>c. case c of ExternalCell1 x \<Rightarrow> Some x | _ \<Rightarrow> None), zero = e\<rparr>"

lemmas kind_defs1 =
  String_kind1_def Bool_kind1_def Strings_kind1_def Files_kind1_def Users_kind1_def File_kind1_def
     User_kind1_def NTP_kind1_def Spec_kind1_def Status_kind1_def Config_kind1_def Configs_kind1_def
     ConfigList_kind1_def TemplateResource_kind1_def TemplateSpec_kind1_def Template_kind1_def
     Templates_kind1_def TemplateList_kind1_def CcpSpec_kind1_def CcpStatus_kind1_def Ccp_kind1_def
     Ccps_kind1_def CcpList_kind1_def External_kind1_def

lemma kinds_ok1 [simp]:
  "kind_ok String_kind1" "kind_ok Bool_kind1" "kind_ok Strings_kind1" "kind_ok Files_kind1"
     "kind_ok Users_kind1" "kind_ok File_kind1" "kind_ok User_kind1" "kind_ok NTP_kind1" "kind_ok Spec_kind1"
     "kind_ok Status_kind1" "kind_ok (Config_kind1 e)" "kind_ok Configs_kind1" "kind_ok (ConfigList_kind1 e)"
     "kind_ok TemplateResource_kind1" "kind_ok TemplateSpec_kind1" "kind_ok (Template_kind1 e)"
     "kind_ok Templates_kind1" "kind_ok (TemplateList_kind1 e)" "kind_ok CcpSpec_kind1" "kind_ok CcpStatus_kind1"
     "kind_ok (Ccp_kind1 e)" "kind_ok Ccps_kind1" "kind_ok (CcpList_kind1 e)" "kind_ok (External_kind1 e)"
  by (simp_all add: kind_ok_def kind_defs1)

section \<open>The copies\<close>

text \<open>The copies of the metadata and of the node configurations, what they keep in the store, and their zero values.\<close>

record ('e, 'c, 'k) externals1 =
  ObjectMeta_DeepCopyInto1 :: "'e \<Rightarrow> 'e cell1 store \<Rightarrow> 'e \<times> 'e cell1 store"
  ObjectMeta_view1 :: "('e cell1, 'e, ObjectMeta) view"
  zero_ObjectMeta1 :: 'e
  ListMeta_DeepCopyInto1 :: "'e \<Rightarrow> 'e cell1 store \<Rightarrow> 'e \<times> 'e cell1 store"
  ListMeta_view1 :: "('e cell1, 'e, string) view"
  zero_ListMeta1 :: 'e
  ControlPlaneConfiguration_DeepCopyInto1 :: "'e \<Rightarrow> 'e cell1 store \<Rightarrow> 'e \<times> 'e cell1 store"
  ControlPlaneConfiguration_view1 :: "('e cell1, 'e, 'c) view"
  zero_ControlPlaneConfiguration1 :: 'e
  WorkerConfiguration_DeepCopyInto1 :: "'e \<Rightarrow> 'e cell1 store \<Rightarrow> 'e \<times> 'e cell1 store"
  WorkerConfiguration_view1 :: "('e cell1, 'e, 'k) view"
  zero_WorkerConfiguration1 :: 'e

definition File_DeepCopyInto_v1alpha1 :: "File_v1alpha1 \<Rightarrow> 'e cell1 store \<Rightarrow> File_v1alpha1 \<times> 'e cell1 store" where
  "File_DeepCopyInto_v1alpha1 in' h = (let out = in' in (out, h))"

definition NTP_DeepCopyInto_v1alpha1 :: "go_NTP_v1alpha1 \<Rightarrow> 'e cell1 store \<Rightarrow> go_NTP_v1alpha1 \<times> 'e cell1 store" where
  "NTP_DeepCopyInto_v1alpha1 in' h = (let out = in';
         (p, h) = copy_values Strings_kind1 [] (gn1_Servers in') h; out = out\<lparr>gn1_Servers := p\<rparr>;
         (p, h) = copy_ptr Bool_kind1 Pair (gn1_Enabled in') h; out = out\<lparr>gn1_Enabled := p\<rparr>
     in (out, h))"

definition User_DeepCopyInto_v1alpha1 :: "go_User_v1alpha1 \<Rightarrow> 'e cell1 store \<Rightarrow> go_User_v1alpha1 \<times> 'e cell1 store" where
  "User_DeepCopyInto_v1alpha1 in' h = (let out = in';
         (p, h) = copy_ptr String_kind1 Pair (gu1_Gecos in') h; out = out\<lparr>gu1_Gecos := p\<rparr>;
         (p, h) = copy_ptr String_kind1 Pair (gu1_Groups in') h; out = out\<lparr>gu1_Groups := p\<rparr>;
         (p, h) = copy_ptr String_kind1 Pair (gu1_HomeDir in') h; out = out\<lparr>gu1_HomeDir := p\<rparr>;
         (p, h) = copy_ptr Bool_kind1 Pair (gu1_Inactive in') h; out = out\<lparr>gu1_Inactive := p\<rparr>;
         (p, h) = copy_ptr String_kind1 Pair (gu1_Shell in') h; out = out\<lparr>gu1_Shell := p\<rparr>;
         (p, h) = copy_ptr String_kind1 Pair (gu1_Passwd in') h; out = out\<lparr>gu1_Passwd := p\<rparr>;
         (p, h) = copy_ptr String_kind1 Pair (gu1_PrimaryGroup in') h; out = out\<lparr>gu1_PrimaryGroup := p\<rparr>;
         (p, h) = copy_ptr Bool_kind1 Pair (gu1_LockPassword in') h; out = out\<lparr>gu1_LockPassword := p\<rparr>;
         (p, h) = copy_ptr String_kind1 Pair (gu1_Sudo in') h; out = out\<lparr>gu1_Sudo := p\<rparr>;
         (p, h) = copy_values Strings_kind1 [] (gu1_SSHAuthorizedKeys in') h; out = out\<lparr>gu1_SSHAuthorizedKeys := p\<rparr>
     in (out, h))"

definition CritConfigSpec_DeepCopyInto_v1alpha1 :: "('e, 'c, 'k) externals1 \<Rightarrow> go_CritConfigSpec_v1alpha1 \<Rightarrow> 'e cell1 store \<Rightarrow> go_CritConfigSpec_v1alpha1 \<times> 'e cell1 store" where
  "CritConfigSpec_DeepCopyInto_v1alpha1 X in' h = (let out = in';
         (p, h) = copy_ptr (External_kind1 (zero_ControlPlaneConfiguration1 X)) (ControlPlaneConfiguration_DeepCopyInto1 X) (gs1_ControlPlaneConfiguration in') h; out = out\<lparr>gs1_ControlPlaneConfiguration := p\<rparr>;
         (p, h) = copy_ptr (External_kind1 (zero_WorkerConfiguration1 X)) (WorkerConfiguration_DeepCopyInto1 X) (gs1_WorkerConfiguration in') h; out = out\<lparr>gs1_WorkerConfiguration := p\<rparr>;
         (p, h) = copy_values Files_kind1 zero_File_v1alpha1 (gs1_Files in') h; out = out\<lparr>gs1_Files := p\<rparr>;
         (p, h) = copy_values Strings_kind1 [] (gs1_PreCritCommands in') h; out = out\<lparr>gs1_PreCritCommands := p\<rparr>;
         (p, h) = copy_values Strings_kind1 [] (gs1_PostCritCommands in') h; out = out\<lparr>gs1_PostCritCommands := p\<rparr>;
         (p, h) = copy_slice Users_kind1 zero_User_v1alpha1 User_DeepCopyInto_v1alpha1 (gs1_Users in') h; out = out\<lparr>gs1_Users := p\<rparr>;
         (p, h) = copy_ptr NTP_kind1 NTP_DeepCopyInto_v1alpha1 (gs1_NTP in') h; out = out\<lparr>gs1_NTP := p\<rparr>
     in (out, h))"

definition CritConfigStatus_DeepCopyInto_v1alpha1 :: "go_CritConfigStatus_v1alpha1 \<Rightarrow> 'e cell1 store \<Rightarrow> go_CritConfigStatus_v1alpha1 \<times> 'e cell1 store" where
  "CritConfigStatus_DeepCopyInto_v1alpha1 in' h = (let out = in';
         (p, h) = copy_ptr String_kind1 Pair (gst1_DataSecretName in') h; out = out\<lparr>gst1_DataSecretName := p\<rparr>
     in (out, h))"

definition CritConfig_DeepCopyInto_v1alpha1 :: "('e, 'c, 'k) externals1 \<Rightarrow> 'e go_CritConfig_v1alpha1 \<Rightarrow> 'e cell1 store \<Rightarrow> 'e go_CritConfig_v1alpha1 \<times> 'e cell1 store" where
  "CritConfig_DeepCopyInto_v1alpha1 X in' h = (let out = in';
         out = out\<lparr>gc1_TypeMeta := gc1_TypeMeta in'\<rparr>;
         (p, h) = ObjectMeta_DeepCopyInto1 X (gc1_ObjectMeta in') h; out = out\<lparr>gc1_ObjectMeta := p\<rparr>;
         (p, h) = CritConfigSpec_DeepCopyInto_v1alpha1 X (gc1_Spec in') h; out = out\<lparr>gc1_Spec := p\<rparr>;
         (p, h) = CritConfigStatus_DeepCopyInto_v1alpha1 (gc1_Status in') h; out = out\<lparr>gc1_Status := p\<rparr>
     in (out, h))"

definition CritConfigTemplateResource_DeepCopyInto_v1alpha1 :: "('e, 'c, 'k) externals1 \<Rightarrow> go_CritConfigTemplateResource_v1alpha1 \<Rightarrow> 'e cell1 store \<Rightarrow> go_CritConfigTemplateResource_v1alpha1 \<times> 'e cell1 store" where
  "CritConfigTemplateResource_DeepCopyInto_v1alpha1 X in' h = (let out = in';
         (p, h) = CritConfigSpec_DeepCopyInto_v1alpha1 X (gtr1_Spec in') h; out = out\<lparr>gtr1_Spec := p\<rparr>
     in (out, h))"

definition CritConfigTemplateSpec_DeepCopyInto_v1alpha1 :: "('e, 'c, 'k) externals1 \<Rightarrow> go_CritConfigTemplateSpec_v1alpha1 \<Rightarrow> 'e cell1 store \<Rightarrow> go_CritConfigTemplateSpec_v1alpha1 \<times> 'e cell1 store" where
  "CritConfigTemplateSpec_DeepCopyInto_v1alpha1 X in' h = (let out = in';
         (p, h) = CritConfigTemplateResource_DeepCopyInto_v1alpha1 X (gts1_Template in') h; out = out\<lparr>gts1_Template := p\<rparr>
     in (out, h))"

definition CritConfigTemplate_DeepCopyInto_v1alpha1 :: "('e, 'c, 'k) externals1 \<Rightarrow> 'e go_CritConfigTemplate_v1alpha1 \<Rightarrow> 'e cell1 store \<Rightarrow> 'e go_CritConfigTemplate_v1alpha1 \<times> 'e cell1 store" where
  "CritConfigTemplate_DeepCopyInto_v1alpha1 X in' h = (let out = in';
         out = out\<lparr>gt1_TypeMeta := gt1_TypeMeta in'\<rparr>;
         (p, h) = ObjectMeta_DeepCopyInto1 X (gt1_ObjectMeta in') h; out = out\<lparr>gt1_ObjectMeta := p\<rparr>;
         (p, h) = CritConfigTemplateSpec_DeepCopyInto_v1alpha1 X (gt1_Spec in') h; out = out\<lparr>gt1_Spec := p\<rparr>
     in (out, h))"

definition CritControlPlaneSpec_DeepCopyInto_v1alpha1 :: "('e, 'c, 'k) externals1 \<Rightarrow> go_CritControlPlaneSpec_v1alpha1 \<Rightarrow> 'e cell1 store \<Rightarrow> go_CritControlPlaneSpec_v1alpha1 \<times> 'e cell1 store" where
  "CritControlPlaneSpec_DeepCopyInto_v1alpha1 X in' h = (let out = in';
         out = out\<lparr>gps1_InfrastructureTemplate := gps1_InfrastructureTemplate in'\<rparr>;
         (p, h) = CritConfigSpec_DeepCopyInto_v1alpha1 X (gps1_CritConfigSpec in') h; out = out\<lparr>gps1_CritConfigSpec := p\<rparr>
     in (out, h))"

definition CritControlPlaneStatus_DeepCopyInto_v1alpha1 :: "go_CritControlPlaneStatus_v1alpha1 \<Rightarrow> 'e cell1 store \<Rightarrow> go_CritControlPlaneStatus_v1alpha1 \<times> 'e cell1 store" where
  "CritControlPlaneStatus_DeepCopyInto_v1alpha1 in' h = (let out = in';
         (p, h) = copy_ptr String_kind1 Pair (gpt1_FailureMessage in') h; out = out\<lparr>gpt1_FailureMessage := p\<rparr>
     in (out, h))"

definition CritControlPlane_DeepCopyInto_v1alpha1 :: "('e, 'c, 'k) externals1 \<Rightarrow> 'e go_CritControlPlane_v1alpha1 \<Rightarrow> 'e cell1 store \<Rightarrow> 'e go_CritControlPlane_v1alpha1 \<times> 'e cell1 store" where
  "CritControlPlane_DeepCopyInto_v1alpha1 X in' h = (let out = in';
         out = out\<lparr>gp1_TypeMeta := gp1_TypeMeta in'\<rparr>;
         (p, h) = ObjectMeta_DeepCopyInto1 X (gp1_ObjectMeta in') h; out = out\<lparr>gp1_ObjectMeta := p\<rparr>;
         (p, h) = CritControlPlaneSpec_DeepCopyInto_v1alpha1 X (gp1_Spec in') h; out = out\<lparr>gp1_Spec := p\<rparr>;
         (p, h) = CritControlPlaneStatus_DeepCopyInto_v1alpha1 (gp1_Status in') h; out = out\<lparr>gp1_Status := p\<rparr>
     in (out, h))"

definition CritConfigList_DeepCopyInto_v1alpha1 :: "('e, 'c, 'k) externals1 \<Rightarrow> 'e go_List \<Rightarrow> 'e cell1 store \<Rightarrow> 'e go_List \<times> 'e cell1 store" where
  "CritConfigList_DeepCopyInto_v1alpha1 X in' h = (let out = in';
         out = out\<lparr>gl_TypeMeta := gl_TypeMeta in'\<rparr>;
         (p, h) = ListMeta_DeepCopyInto1 X (gl_ListMeta in') h; out = out\<lparr>gl_ListMeta := p\<rparr>;
         (p, h) = copy_slice Configs_kind1 (zero_CritConfig_v1alpha1 (zero_ObjectMeta1 X)) (CritConfig_DeepCopyInto_v1alpha1 X) (gl_Items in') h; out = out\<lparr>gl_Items := p\<rparr>
     in (out, h))"

definition CritConfigTemplateList_DeepCopyInto_v1alpha1 :: "('e, 'c, 'k) externals1 \<Rightarrow> 'e go_List \<Rightarrow> 'e cell1 store \<Rightarrow> 'e go_List \<times> 'e cell1 store" where
  "CritConfigTemplateList_DeepCopyInto_v1alpha1 X in' h = (let out = in';
         out = out\<lparr>gl_TypeMeta := gl_TypeMeta in'\<rparr>;
         (p, h) = ListMeta_DeepCopyInto1 X (gl_ListMeta in') h; out = out\<lparr>gl_ListMeta := p\<rparr>;
         (p, h) = copy_slice Templates_kind1 (zero_CritConfigTemplate_v1alpha1 (zero_ObjectMeta1 X)) (CritConfigTemplate_DeepCopyInto_v1alpha1 X) (gl_Items in') h; out = out\<lparr>gl_Items := p\<rparr>
     in (out, h))"

definition CritControlPlaneList_DeepCopyInto_v1alpha1 :: "('e, 'c, 'k) externals1 \<Rightarrow> 'e go_List \<Rightarrow> 'e cell1 store \<Rightarrow> 'e go_List \<times> 'e cell1 store" where
  "CritControlPlaneList_DeepCopyInto_v1alpha1 X in' h = (let out = in';
         out = out\<lparr>gl_TypeMeta := gl_TypeMeta in'\<rparr>;
         (p, h) = ListMeta_DeepCopyInto1 X (gl_ListMeta in') h; out = out\<lparr>gl_ListMeta := p\<rparr>;
         (p, h) = copy_slice Ccps_kind1 (zero_CritControlPlane_v1alpha1 (zero_ObjectMeta1 X)) (CritControlPlane_DeepCopyInto_v1alpha1 X) (gl_Items in') h; out = out\<lparr>gl_Items := p\<rparr>
     in (out, h))"

text \<open>
  The methods \<^verbatim>\<open>DeepCopy\<close>: nil for nil, else a new object that \<^verbatim>\<open>DeepCopyInto\<close> fills. \<^verbatim>\<open>DeepCopyObject\<close> returns an
  interface: nil itself, and not an interface that holds a nil pointer, when there is nothing to copy.
\<close>

definition File_DeepCopy_v1alpha1 :: "addr option \<Rightarrow> 'e cell1 store \<Rightarrow> addr option \<times> 'e cell1 store" where
  "File_DeepCopy_v1alpha1 in' h = copy_ptr File_kind1 File_DeepCopyInto_v1alpha1 in' h"

definition NTP_DeepCopy_v1alpha1 :: "addr option \<Rightarrow> 'e cell1 store \<Rightarrow> addr option \<times> 'e cell1 store" where
  "NTP_DeepCopy_v1alpha1 in' h = copy_ptr NTP_kind1 NTP_DeepCopyInto_v1alpha1 in' h"

definition User_DeepCopy_v1alpha1 :: "addr option \<Rightarrow> 'e cell1 store \<Rightarrow> addr option \<times> 'e cell1 store" where
  "User_DeepCopy_v1alpha1 in' h = copy_ptr User_kind1 User_DeepCopyInto_v1alpha1 in' h"

definition CritConfigSpec_DeepCopy_v1alpha1 :: "('e, 'c, 'k) externals1 \<Rightarrow> addr option \<Rightarrow> 'e cell1 store \<Rightarrow> addr option \<times> 'e cell1 store" where
  "CritConfigSpec_DeepCopy_v1alpha1 X in' h = copy_ptr Spec_kind1 (CritConfigSpec_DeepCopyInto_v1alpha1 X) in' h"

definition CritConfigStatus_DeepCopy_v1alpha1 :: "addr option \<Rightarrow> 'e cell1 store \<Rightarrow> addr option \<times> 'e cell1 store" where
  "CritConfigStatus_DeepCopy_v1alpha1 in' h = copy_ptr Status_kind1 CritConfigStatus_DeepCopyInto_v1alpha1 in' h"

definition CritConfig_DeepCopy_v1alpha1 :: "('e, 'c, 'k) externals1 \<Rightarrow> addr option \<Rightarrow> 'e cell1 store \<Rightarrow> addr option \<times> 'e cell1 store" where
  "CritConfig_DeepCopy_v1alpha1 X in' h = copy_ptr (Config_kind1 (zero_ObjectMeta1 X)) (CritConfig_DeepCopyInto_v1alpha1 X) in' h"

definition CritConfigList_DeepCopy_v1alpha1 :: "('e, 'c, 'k) externals1 \<Rightarrow> addr option \<Rightarrow> 'e cell1 store \<Rightarrow> addr option \<times> 'e cell1 store" where
  "CritConfigList_DeepCopy_v1alpha1 X in' h = copy_ptr (ConfigList_kind1 (zero_ListMeta1 X)) (CritConfigList_DeepCopyInto_v1alpha1 X) in' h"

definition CritConfigTemplateResource_DeepCopy_v1alpha1 :: "('e, 'c, 'k) externals1 \<Rightarrow> addr option \<Rightarrow> 'e cell1 store \<Rightarrow> addr option \<times> 'e cell1 store" where
  "CritConfigTemplateResource_DeepCopy_v1alpha1 X in' h = copy_ptr TemplateResource_kind1 (CritConfigTemplateResource_DeepCopyInto_v1alpha1 X) in' h"

definition CritConfigTemplateSpec_DeepCopy_v1alpha1 :: "('e, 'c, 'k) externals1 \<Rightarrow> addr option \<Rightarrow> 'e cell1 store \<Rightarrow> addr option \<times> 'e cell1 store" where
  "CritConfigTemplateSpec_DeepCopy_v1alpha1 X in' h = copy_ptr TemplateSpec_kind1 (CritConfigTemplateSpec_DeepCopyInto_v1alpha1 X) in' h"

definition CritConfigTemplate_DeepCopy_v1alpha1 :: "('e, 'c, 'k) externals1 \<Rightarrow> addr option \<Rightarrow> 'e cell1 store \<Rightarrow> addr option \<times> 'e cell1 store" where
  "CritConfigTemplate_DeepCopy_v1alpha1 X in' h = copy_ptr (Template_kind1 (zero_ObjectMeta1 X)) (CritConfigTemplate_DeepCopyInto_v1alpha1 X) in' h"

definition CritConfigTemplateList_DeepCopy_v1alpha1 :: "('e, 'c, 'k) externals1 \<Rightarrow> addr option \<Rightarrow> 'e cell1 store \<Rightarrow> addr option \<times> 'e cell1 store" where
  "CritConfigTemplateList_DeepCopy_v1alpha1 X in' h = copy_ptr (TemplateList_kind1 (zero_ListMeta1 X)) (CritConfigTemplateList_DeepCopyInto_v1alpha1 X) in' h"

definition CritControlPlaneSpec_DeepCopy_v1alpha1 :: "('e, 'c, 'k) externals1 \<Rightarrow> addr option \<Rightarrow> 'e cell1 store \<Rightarrow> addr option \<times> 'e cell1 store" where
  "CritControlPlaneSpec_DeepCopy_v1alpha1 X in' h = copy_ptr CcpSpec_kind1 (CritControlPlaneSpec_DeepCopyInto_v1alpha1 X) in' h"

definition CritControlPlaneStatus_DeepCopy_v1alpha1 :: "addr option \<Rightarrow> 'e cell1 store \<Rightarrow> addr option \<times> 'e cell1 store" where
  "CritControlPlaneStatus_DeepCopy_v1alpha1 in' h = copy_ptr CcpStatus_kind1 CritControlPlaneStatus_DeepCopyInto_v1alpha1 in' h"

definition CritControlPlane_DeepCopy_v1alpha1 :: "('e, 'c, 'k) externals1 \<Rightarrow> addr option \<Rightarrow> 'e cell1 store \<Rightarrow> addr option \<times> 'e cell1 store" where
  "CritControlPlane_DeepCopy_v1alpha1 X in' h = copy_ptr (Ccp_kind1 (zero_ObjectMeta1 X)) (CritControlPlane_DeepCopyInto_v1alpha1 X) in' h"

definition CritControlPlaneList_DeepCopy_v1alpha1 :: "('e, 'c, 'k) externals1 \<Rightarrow> addr option \<Rightarrow> 'e cell1 store \<Rightarrow> addr option \<times> 'e cell1 store" where
  "CritControlPlaneList_DeepCopy_v1alpha1 X in' h = copy_ptr (CcpList_kind1 (zero_ListMeta1 X)) (CritControlPlaneList_DeepCopyInto_v1alpha1 X) in' h"

definition CritConfig_DeepCopyObject_v1alpha1 :: "('e, 'c, 'k) externals1 \<Rightarrow> addr option \<Rightarrow> 'e cell1 store \<Rightarrow> (string \<times> addr option) option \<times> 'e cell1 store" where
  "CritConfig_DeepCopyObject_v1alpha1 X in' h = (case CritConfig_DeepCopy_v1alpha1 X in' h of
     (Some c, h) \<Rightarrow> (Some (''CritConfig'', Some c), h)
   | (None, h) \<Rightarrow> (None, h))"

definition CritConfigList_DeepCopyObject_v1alpha1 :: "('e, 'c, 'k) externals1 \<Rightarrow> addr option \<Rightarrow> 'e cell1 store \<Rightarrow> (string \<times> addr option) option \<times> 'e cell1 store" where
  "CritConfigList_DeepCopyObject_v1alpha1 X in' h = (case CritConfigList_DeepCopy_v1alpha1 X in' h of
     (Some c, h) \<Rightarrow> (Some (''CritConfigList'', Some c), h)
   | (None, h) \<Rightarrow> (None, h))"

definition CritConfigTemplate_DeepCopyObject_v1alpha1 :: "('e, 'c, 'k) externals1 \<Rightarrow> addr option \<Rightarrow> 'e cell1 store \<Rightarrow> (string \<times> addr option) option \<times> 'e cell1 store" where
  "CritConfigTemplate_DeepCopyObject_v1alpha1 X in' h = (case CritConfigTemplate_DeepCopy_v1alpha1 X in' h of
     (Some c, h) \<Rightarrow> (Some (''CritConfigTemplate'', Some c), h)
   | (None, h) \<Rightarrow> (None, h))"

definition CritConfigTemplateList_DeepCopyObject_v1alpha1 :: "('e, 'c, 'k) externals1 \<Rightarrow> addr option \<Rightarrow> 'e cell1 store \<Rightarrow> (string \<times> addr option) option \<times> 'e cell1 store" where
  "CritConfigTemplateList_DeepCopyObject_v1alpha1 X in' h = (case CritConfigTemplateList_DeepCopy_v1alpha1 X in' h of
     (Some c, h) \<Rightarrow> (Some (''CritConfigTemplateList'', Some c), h)
   | (None, h) \<Rightarrow> (None, h))"

definition CritControlPlane_DeepCopyObject_v1alpha1 :: "('e, 'c, 'k) externals1 \<Rightarrow> addr option \<Rightarrow> 'e cell1 store \<Rightarrow> (string \<times> addr option) option \<times> 'e cell1 store" where
  "CritControlPlane_DeepCopyObject_v1alpha1 X in' h = (case CritControlPlane_DeepCopy_v1alpha1 X in' h of
     (Some c, h) \<Rightarrow> (Some (''CritControlPlane'', Some c), h)
   | (None, h) \<Rightarrow> (None, h))"

definition CritControlPlaneList_DeepCopyObject_v1alpha1 :: "('e, 'c, 'k) externals1 \<Rightarrow> addr option \<Rightarrow> 'e cell1 store \<Rightarrow> (string \<times> addr option) option \<times> 'e cell1 store" where
  "CritControlPlaneList_DeepCopyObject_v1alpha1 X in' h = (case CritControlPlaneList_DeepCopy_v1alpha1 X in' h of
     (Some c, h) \<Rightarrow> (Some (''CritControlPlaneList'', Some c), h)
   | (None, h) \<Rightarrow> (None, h))"

section \<open>What the store holds\<close>

text \<open>
  For each struct: its pointers, the struct with other pointers, and its view, which follows them.
\<close>

named_theorems copy_intros1

lemmas [copy_intros1] = deep_copy_pair deep_copy_values deep_copy.deep_copy_ptr deep_copy.deep_copy_slice plain.deep_copy_axioms

definition externals_ok1 :: "('e, 'c, 'k) externals1 \<Rightarrow> bool" where
  "externals_ok1 X \<longleftrightarrow> deep_copy (ObjectMeta_view1 X) (ObjectMeta_DeepCopyInto1 X) \<and>
     deep_copy (ListMeta_view1 X) (ListMeta_DeepCopyInto1 X) \<and>
     deep_copy (ControlPlaneConfiguration_view1 X) (ControlPlaneConfiguration_DeepCopyInto1 X) \<and>
     deep_copy (WorkerConfiguration_view1 X) (WorkerConfiguration_DeepCopyInto1 X)"

lemma externals_okD1 [copy_intros1]:
  "externals_ok1 X \<Longrightarrow> deep_copy (ObjectMeta_view1 X) (ObjectMeta_DeepCopyInto1 X)"
  "externals_ok1 X \<Longrightarrow> deep_copy (ListMeta_view1 X) (ListMeta_DeepCopyInto1 X)"
  "externals_ok1 X \<Longrightarrow> deep_copy (ControlPlaneConfiguration_view1 X) (ControlPlaneConfiguration_DeepCopyInto1 X)"
  "externals_ok1 X \<Longrightarrow> deep_copy (WorkerConfiguration_view1 X) (WorkerConfiguration_DeepCopyInto1 X)"
  by (simp_all add: externals_ok1_def)

definition NTP_ptrs_v1alpha1 where
  "NTP_ptrs_v1alpha1 (x :: go_NTP_v1alpha1) = (gn1_Servers x, gn1_Enabled x)"

definition NTP_put_v1alpha1 where
  "NTP_put_v1alpha1 (x :: go_NTP_v1alpha1) p = x\<lparr>gn1_Servers := fst p, gn1_Enabled := snd p\<rparr>"

definition view_NTP_v1alpha1 where
  "view_NTP_v1alpha1 = view_struct NTP_ptrs_v1alpha1 (\<lambda>x :: go_NTP_v1alpha1. NTP_put_v1alpha1 x (None, None))
     (view_pair (view_slice Strings_kind1 view_value) (view_ptr Bool_kind1 view_value))"

lemma NTP_copies_v1alpha1: "deep_copy view_NTP_v1alpha1 NTP_DeepCopyInto_v1alpha1"
  unfolding view_NTP_v1alpha1_def
  by (rule deep_copy_struct [where put = NTP_put_v1alpha1 and into = "copy_pair (copy_values Strings_kind1 []) (copy_ptr Bool_kind1 Pair)"])
    (intro copy_intros1 kinds_ok1 | simp add: NTP_ptrs_v1alpha1_def NTP_put_v1alpha1_def NTP_DeepCopyInto_v1alpha1_def copy_pair_def split_beta)+

lemmas [copy_intros1] = NTP_copies_v1alpha1

definition User_ptrs_v1alpha1 where
  "User_ptrs_v1alpha1 (x :: go_User_v1alpha1) = (gu1_Gecos x, gu1_Groups x, gu1_HomeDir x, gu1_Inactive x, gu1_Shell x, gu1_Passwd x, gu1_PrimaryGroup x, gu1_LockPassword x, gu1_Sudo x, gu1_SSHAuthorizedKeys x)"

definition User_put_v1alpha1 where
  "User_put_v1alpha1 (x :: go_User_v1alpha1) p = x\<lparr>gu1_Gecos := fst p, gu1_Groups := fst (snd p), gu1_HomeDir := fst (snd (snd p)),
     gu1_Inactive := fst (snd (snd (snd p))), gu1_Shell := fst (snd (snd (snd (snd p)))),
     gu1_Passwd := fst (snd (snd (snd (snd (snd p))))), gu1_PrimaryGroup := fst (snd (snd (snd (snd (snd (snd p)))))),
     gu1_LockPassword := fst (snd (snd (snd (snd (snd (snd (snd p))))))),
     gu1_Sudo := fst (snd (snd (snd (snd (snd (snd (snd (snd p)))))))),
     gu1_SSHAuthorizedKeys := snd (snd (snd (snd (snd (snd (snd (snd (snd p))))))))\<rparr>"

definition view_User_v1alpha1 where
  "view_User_v1alpha1 = view_struct User_ptrs_v1alpha1 (\<lambda>x :: go_User_v1alpha1. User_put_v1alpha1 x (None, None, None, None, None, None, None, None, None, None))
     (view_pair (view_ptr String_kind1 view_value) (view_pair (view_ptr String_kind1 view_value) (view_pair (view_ptr String_kind1 view_value) (view_pair (view_ptr Bool_kind1 view_value) (view_pair (view_ptr String_kind1 view_value) (view_pair (view_ptr String_kind1 view_value) (view_pair (view_ptr String_kind1 view_value) (view_pair (view_ptr Bool_kind1 view_value) (view_pair (view_ptr String_kind1 view_value) (view_slice Strings_kind1 view_value))))))))))"

lemma User_copies_v1alpha1: "deep_copy view_User_v1alpha1 User_DeepCopyInto_v1alpha1"
  unfolding view_User_v1alpha1_def
  by (rule deep_copy_struct [where put = User_put_v1alpha1 and into = "copy_pair (copy_ptr String_kind1 Pair) (copy_pair (copy_ptr String_kind1 Pair) (copy_pair (copy_ptr String_kind1 Pair) (copy_pair (copy_ptr Bool_kind1 Pair) (copy_pair (copy_ptr String_kind1 Pair) (copy_pair (copy_ptr String_kind1 Pair) (copy_pair (copy_ptr String_kind1 Pair) (copy_pair (copy_ptr Bool_kind1 Pair) (copy_pair (copy_ptr String_kind1 Pair) (copy_values Strings_kind1 [])))))))))"])
    (intro copy_intros1 kinds_ok1 | simp add: User_ptrs_v1alpha1_def User_put_v1alpha1_def User_DeepCopyInto_v1alpha1_def copy_pair_def split_beta)+

lemmas [copy_intros1] = User_copies_v1alpha1

definition CritConfigSpec_ptrs_v1alpha1 where
  "CritConfigSpec_ptrs_v1alpha1 (x :: go_CritConfigSpec_v1alpha1) = (gs1_ControlPlaneConfiguration x, gs1_WorkerConfiguration x, gs1_Files x, gs1_PreCritCommands x, gs1_PostCritCommands x, gs1_Users x, gs1_NTP x)"

definition CritConfigSpec_put_v1alpha1 where
  "CritConfigSpec_put_v1alpha1 (x :: go_CritConfigSpec_v1alpha1) p = x\<lparr>gs1_ControlPlaneConfiguration := fst p, gs1_WorkerConfiguration := fst (snd p), gs1_Files := fst (snd (snd p)),
     gs1_PreCritCommands := fst (snd (snd (snd p))), gs1_PostCritCommands := fst (snd (snd (snd (snd p)))),
     gs1_Users := fst (snd (snd (snd (snd (snd p))))), gs1_NTP := snd (snd (snd (snd (snd (snd p)))))\<rparr>"

definition view_CritConfigSpec_v1alpha1 where
  "view_CritConfigSpec_v1alpha1 X = view_struct CritConfigSpec_ptrs_v1alpha1 (\<lambda>x :: go_CritConfigSpec_v1alpha1. CritConfigSpec_put_v1alpha1 x (None, None, None, None, None, None, None))
     (view_pair (view_ptr (External_kind1 (zero_ControlPlaneConfiguration1 X)) (ControlPlaneConfiguration_view1 X)) (view_pair (view_ptr (External_kind1 (zero_WorkerConfiguration1 X)) (WorkerConfiguration_view1 X)) (view_pair (view_slice Files_kind1 view_value) (view_pair (view_slice Strings_kind1 view_value) (view_pair (view_slice Strings_kind1 view_value) (view_pair (view_slice Users_kind1 view_User_v1alpha1) (view_ptr NTP_kind1 view_NTP_v1alpha1)))))))"

lemma CritConfigSpec_copies_v1alpha1: "externals_ok1 X \<Longrightarrow> deep_copy (view_CritConfigSpec_v1alpha1 X) (CritConfigSpec_DeepCopyInto_v1alpha1 X)"
  unfolding view_CritConfigSpec_v1alpha1_def
  by (rule deep_copy_struct [where put = CritConfigSpec_put_v1alpha1 and into = "copy_pair (copy_ptr (External_kind1 (zero_ControlPlaneConfiguration1 X)) (ControlPlaneConfiguration_DeepCopyInto1 X)) (copy_pair (copy_ptr (External_kind1 (zero_WorkerConfiguration1 X)) (WorkerConfiguration_DeepCopyInto1 X)) (copy_pair (copy_values Files_kind1 zero_File_v1alpha1) (copy_pair (copy_values Strings_kind1 []) (copy_pair (copy_values Strings_kind1 []) (copy_pair (copy_slice Users_kind1 zero_User_v1alpha1 User_DeepCopyInto_v1alpha1) (copy_ptr NTP_kind1 NTP_DeepCopyInto_v1alpha1))))))"])
    (intro copy_intros1 kinds_ok1 | simp add: CritConfigSpec_ptrs_v1alpha1_def CritConfigSpec_put_v1alpha1_def CritConfigSpec_DeepCopyInto_v1alpha1_def copy_pair_def split_beta)+

lemmas [copy_intros1] = CritConfigSpec_copies_v1alpha1

definition CritConfigStatus_ptrs_v1alpha1 where
  "CritConfigStatus_ptrs_v1alpha1 (x :: go_CritConfigStatus_v1alpha1) = gst1_DataSecretName x"

definition CritConfigStatus_put_v1alpha1 where
  "CritConfigStatus_put_v1alpha1 (x :: go_CritConfigStatus_v1alpha1) p = x\<lparr>gst1_DataSecretName := p\<rparr>"

definition view_CritConfigStatus_v1alpha1 where
  "view_CritConfigStatus_v1alpha1 = view_struct CritConfigStatus_ptrs_v1alpha1 (\<lambda>x :: go_CritConfigStatus_v1alpha1. CritConfigStatus_put_v1alpha1 x None)
     (view_ptr String_kind1 view_value)"

lemma CritConfigStatus_copies_v1alpha1: "deep_copy view_CritConfigStatus_v1alpha1 CritConfigStatus_DeepCopyInto_v1alpha1"
  unfolding view_CritConfigStatus_v1alpha1_def
  by (rule deep_copy_struct [where put = CritConfigStatus_put_v1alpha1 and into = "copy_ptr String_kind1 Pair"])
    (intro copy_intros1 kinds_ok1 | simp add: CritConfigStatus_ptrs_v1alpha1_def CritConfigStatus_put_v1alpha1_def CritConfigStatus_DeepCopyInto_v1alpha1_def copy_pair_def split_beta)+

lemmas [copy_intros1] = CritConfigStatus_copies_v1alpha1

definition CritConfig_ptrs_v1alpha1 where
  "CritConfig_ptrs_v1alpha1 (x :: 'e go_CritConfig_v1alpha1) = (gc1_ObjectMeta x, gc1_Spec x, gc1_Status x)"

definition CritConfig_put_v1alpha1 where
  "CritConfig_put_v1alpha1 (x :: 'e go_CritConfig_v1alpha1) p = x\<lparr>gc1_ObjectMeta := fst p, gc1_Spec := fst (snd p), gc1_Status := snd (snd p)\<rparr>"

definition view_CritConfig_v1alpha1 where
  "view_CritConfig_v1alpha1 X = view_struct CritConfig_ptrs_v1alpha1 (\<lambda>x :: 'e go_CritConfig_v1alpha1. CritConfig_put_v1alpha1 x (zero_ObjectMeta1 X, zero_CritConfigSpec_v1alpha1, zero_CritConfigStatus_v1alpha1))
     (view_pair (ObjectMeta_view1 X) (view_pair (view_CritConfigSpec_v1alpha1 X) (view_CritConfigStatus_v1alpha1)))"

lemma CritConfig_copies_v1alpha1: "externals_ok1 X \<Longrightarrow> deep_copy (view_CritConfig_v1alpha1 X) (CritConfig_DeepCopyInto_v1alpha1 X)"
  unfolding view_CritConfig_v1alpha1_def
  by (rule deep_copy_struct [where put = CritConfig_put_v1alpha1 and into = "copy_pair (ObjectMeta_DeepCopyInto1 X) (copy_pair (CritConfigSpec_DeepCopyInto_v1alpha1 X) (CritConfigStatus_DeepCopyInto_v1alpha1))"])
    (intro copy_intros1 kinds_ok1 | simp add: CritConfig_ptrs_v1alpha1_def CritConfig_put_v1alpha1_def CritConfig_DeepCopyInto_v1alpha1_def copy_pair_def split_beta)+

lemmas [copy_intros1] = CritConfig_copies_v1alpha1

definition CritConfigTemplateResource_ptrs_v1alpha1 where
  "CritConfigTemplateResource_ptrs_v1alpha1 (x :: go_CritConfigTemplateResource_v1alpha1) = gtr1_Spec x"

definition CritConfigTemplateResource_put_v1alpha1 where
  "CritConfigTemplateResource_put_v1alpha1 (x :: go_CritConfigTemplateResource_v1alpha1) p = x\<lparr>gtr1_Spec := p\<rparr>"

definition view_CritConfigTemplateResource_v1alpha1 where
  "view_CritConfigTemplateResource_v1alpha1 X = view_struct CritConfigTemplateResource_ptrs_v1alpha1 (\<lambda>x :: go_CritConfigTemplateResource_v1alpha1. CritConfigTemplateResource_put_v1alpha1 x zero_CritConfigSpec_v1alpha1)
     (view_CritConfigSpec_v1alpha1 X)"

lemma CritConfigTemplateResource_copies_v1alpha1: "externals_ok1 X \<Longrightarrow> deep_copy (view_CritConfigTemplateResource_v1alpha1 X) (CritConfigTemplateResource_DeepCopyInto_v1alpha1 X)"
  unfolding view_CritConfigTemplateResource_v1alpha1_def
  by (rule deep_copy_struct [where put = CritConfigTemplateResource_put_v1alpha1 and into = "CritConfigSpec_DeepCopyInto_v1alpha1 X"])
    (intro copy_intros1 kinds_ok1 | simp add: CritConfigTemplateResource_ptrs_v1alpha1_def CritConfigTemplateResource_put_v1alpha1_def CritConfigTemplateResource_DeepCopyInto_v1alpha1_def copy_pair_def split_beta)+

lemmas [copy_intros1] = CritConfigTemplateResource_copies_v1alpha1

definition CritConfigTemplateSpec_ptrs_v1alpha1 where
  "CritConfigTemplateSpec_ptrs_v1alpha1 (x :: go_CritConfigTemplateSpec_v1alpha1) = gts1_Template x"

definition CritConfigTemplateSpec_put_v1alpha1 where
  "CritConfigTemplateSpec_put_v1alpha1 (x :: go_CritConfigTemplateSpec_v1alpha1) p = x\<lparr>gts1_Template := p\<rparr>"

definition view_CritConfigTemplateSpec_v1alpha1 where
  "view_CritConfigTemplateSpec_v1alpha1 X = view_struct CritConfigTemplateSpec_ptrs_v1alpha1 (\<lambda>x :: go_CritConfigTemplateSpec_v1alpha1. CritConfigTemplateSpec_put_v1alpha1 x (\<lparr>gtr1_Spec = zero_CritConfigSpec_v1alpha1\<rparr>))
     (view_CritConfigTemplateResource_v1alpha1 X)"

lemma CritConfigTemplateSpec_copies_v1alpha1: "externals_ok1 X \<Longrightarrow> deep_copy (view_CritConfigTemplateSpec_v1alpha1 X) (CritConfigTemplateSpec_DeepCopyInto_v1alpha1 X)"
  unfolding view_CritConfigTemplateSpec_v1alpha1_def
  by (rule deep_copy_struct [where put = CritConfigTemplateSpec_put_v1alpha1 and into = "CritConfigTemplateResource_DeepCopyInto_v1alpha1 X"])
    (intro copy_intros1 kinds_ok1 | simp add: CritConfigTemplateSpec_ptrs_v1alpha1_def CritConfigTemplateSpec_put_v1alpha1_def CritConfigTemplateSpec_DeepCopyInto_v1alpha1_def copy_pair_def split_beta)+

lemmas [copy_intros1] = CritConfigTemplateSpec_copies_v1alpha1

definition CritConfigTemplate_ptrs_v1alpha1 where
  "CritConfigTemplate_ptrs_v1alpha1 (x :: 'e go_CritConfigTemplate_v1alpha1) = (gt1_ObjectMeta x, gt1_Spec x)"

definition CritConfigTemplate_put_v1alpha1 where
  "CritConfigTemplate_put_v1alpha1 (x :: 'e go_CritConfigTemplate_v1alpha1) p = x\<lparr>gt1_ObjectMeta := fst p, gt1_Spec := snd p\<rparr>"

definition view_CritConfigTemplate_v1alpha1 where
  "view_CritConfigTemplate_v1alpha1 X = view_struct CritConfigTemplate_ptrs_v1alpha1 (\<lambda>x :: 'e go_CritConfigTemplate_v1alpha1. CritConfigTemplate_put_v1alpha1 x (zero_ObjectMeta1 X, \<lparr>gts1_Template = \<lparr>gtr1_Spec = zero_CritConfigSpec_v1alpha1\<rparr>\<rparr>))
     (view_pair (ObjectMeta_view1 X) (view_CritConfigTemplateSpec_v1alpha1 X))"

lemma CritConfigTemplate_copies_v1alpha1: "externals_ok1 X \<Longrightarrow> deep_copy (view_CritConfigTemplate_v1alpha1 X) (CritConfigTemplate_DeepCopyInto_v1alpha1 X)"
  unfolding view_CritConfigTemplate_v1alpha1_def
  by (rule deep_copy_struct [where put = CritConfigTemplate_put_v1alpha1 and into = "copy_pair (ObjectMeta_DeepCopyInto1 X) (CritConfigTemplateSpec_DeepCopyInto_v1alpha1 X)"])
    (intro copy_intros1 kinds_ok1 | simp add: CritConfigTemplate_ptrs_v1alpha1_def CritConfigTemplate_put_v1alpha1_def CritConfigTemplate_DeepCopyInto_v1alpha1_def copy_pair_def split_beta)+

lemmas [copy_intros1] = CritConfigTemplate_copies_v1alpha1

definition CritControlPlaneSpec_ptrs_v1alpha1 where
  "CritControlPlaneSpec_ptrs_v1alpha1 (x :: go_CritControlPlaneSpec_v1alpha1) = gps1_CritConfigSpec x"

definition CritControlPlaneSpec_put_v1alpha1 where
  "CritControlPlaneSpec_put_v1alpha1 (x :: go_CritControlPlaneSpec_v1alpha1) p = x\<lparr>gps1_CritConfigSpec := p\<rparr>"

definition view_CritControlPlaneSpec_v1alpha1 where
  "view_CritControlPlaneSpec_v1alpha1 X = view_struct CritControlPlaneSpec_ptrs_v1alpha1 (\<lambda>x :: go_CritControlPlaneSpec_v1alpha1. CritControlPlaneSpec_put_v1alpha1 x zero_CritConfigSpec_v1alpha1)
     (view_CritConfigSpec_v1alpha1 X)"

lemma CritControlPlaneSpec_copies_v1alpha1: "externals_ok1 X \<Longrightarrow> deep_copy (view_CritControlPlaneSpec_v1alpha1 X) (CritControlPlaneSpec_DeepCopyInto_v1alpha1 X)"
  unfolding view_CritControlPlaneSpec_v1alpha1_def
  by (rule deep_copy_struct [where put = CritControlPlaneSpec_put_v1alpha1 and into = "CritConfigSpec_DeepCopyInto_v1alpha1 X"])
    (intro copy_intros1 kinds_ok1 | simp add: CritControlPlaneSpec_ptrs_v1alpha1_def CritControlPlaneSpec_put_v1alpha1_def CritControlPlaneSpec_DeepCopyInto_v1alpha1_def copy_pair_def split_beta)+

lemmas [copy_intros1] = CritControlPlaneSpec_copies_v1alpha1

definition CritControlPlaneStatus_ptrs_v1alpha1 where
  "CritControlPlaneStatus_ptrs_v1alpha1 (x :: go_CritControlPlaneStatus_v1alpha1) = gpt1_FailureMessage x"

definition CritControlPlaneStatus_put_v1alpha1 where
  "CritControlPlaneStatus_put_v1alpha1 (x :: go_CritControlPlaneStatus_v1alpha1) p = x\<lparr>gpt1_FailureMessage := p\<rparr>"

definition view_CritControlPlaneStatus_v1alpha1 where
  "view_CritControlPlaneStatus_v1alpha1 = view_struct CritControlPlaneStatus_ptrs_v1alpha1 (\<lambda>x :: go_CritControlPlaneStatus_v1alpha1. CritControlPlaneStatus_put_v1alpha1 x None)
     (view_ptr String_kind1 view_value)"

lemma CritControlPlaneStatus_copies_v1alpha1: "deep_copy view_CritControlPlaneStatus_v1alpha1 CritControlPlaneStatus_DeepCopyInto_v1alpha1"
  unfolding view_CritControlPlaneStatus_v1alpha1_def
  by (rule deep_copy_struct [where put = CritControlPlaneStatus_put_v1alpha1 and into = "copy_ptr String_kind1 Pair"])
    (intro copy_intros1 kinds_ok1 | simp add: CritControlPlaneStatus_ptrs_v1alpha1_def CritControlPlaneStatus_put_v1alpha1_def CritControlPlaneStatus_DeepCopyInto_v1alpha1_def copy_pair_def split_beta)+

lemmas [copy_intros1] = CritControlPlaneStatus_copies_v1alpha1

definition CritControlPlane_ptrs_v1alpha1 where
  "CritControlPlane_ptrs_v1alpha1 (x :: 'e go_CritControlPlane_v1alpha1) = (gp1_ObjectMeta x, gp1_Spec x, gp1_Status x)"

definition CritControlPlane_put_v1alpha1 where
  "CritControlPlane_put_v1alpha1 (x :: 'e go_CritControlPlane_v1alpha1) p = x\<lparr>gp1_ObjectMeta := fst p, gp1_Spec := fst (snd p), gp1_Status := snd (snd p)\<rparr>"

definition view_CritControlPlane_v1alpha1 where
  "view_CritControlPlane_v1alpha1 X = view_struct CritControlPlane_ptrs_v1alpha1 (\<lambda>x :: 'e go_CritControlPlane_v1alpha1. CritControlPlane_put_v1alpha1 x (zero_ObjectMeta1 X, zero_CritControlPlaneSpec_v1alpha1, zero_CritControlPlaneStatus_v1alpha1))
     (view_pair (ObjectMeta_view1 X) (view_pair (view_CritControlPlaneSpec_v1alpha1 X) (view_CritControlPlaneStatus_v1alpha1)))"

lemma CritControlPlane_copies_v1alpha1: "externals_ok1 X \<Longrightarrow> deep_copy (view_CritControlPlane_v1alpha1 X) (CritControlPlane_DeepCopyInto_v1alpha1 X)"
  unfolding view_CritControlPlane_v1alpha1_def
  by (rule deep_copy_struct [where put = CritControlPlane_put_v1alpha1 and into = "copy_pair (ObjectMeta_DeepCopyInto1 X) (copy_pair (CritControlPlaneSpec_DeepCopyInto_v1alpha1 X) (CritControlPlaneStatus_DeepCopyInto_v1alpha1))"])
    (intro copy_intros1 kinds_ok1 | simp add: CritControlPlane_ptrs_v1alpha1_def CritControlPlane_put_v1alpha1_def CritControlPlane_DeepCopyInto_v1alpha1_def copy_pair_def split_beta)+

lemmas [copy_intros1] = CritControlPlane_copies_v1alpha1

definition CritConfigList_ptrs_v1alpha1 where
  "CritConfigList_ptrs_v1alpha1 (x :: 'e go_List) = (gl_ListMeta x, gl_Items x)"

definition CritConfigList_put_v1alpha1 where
  "CritConfigList_put_v1alpha1 (x :: 'e go_List) p = x\<lparr>gl_ListMeta := fst p, gl_Items := snd p\<rparr>"

definition view_CritConfigList_v1alpha1 where
  "view_CritConfigList_v1alpha1 X = view_struct CritConfigList_ptrs_v1alpha1 (\<lambda>x :: 'e go_List. CritConfigList_put_v1alpha1 x (zero_ListMeta1 X, None))
     (view_pair (ListMeta_view1 X) (view_slice Configs_kind1 (view_CritConfig_v1alpha1 X)))"

lemma CritConfigList_copies_v1alpha1: "externals_ok1 X \<Longrightarrow> deep_copy (view_CritConfigList_v1alpha1 X) (CritConfigList_DeepCopyInto_v1alpha1 X)"
  unfolding view_CritConfigList_v1alpha1_def
  by (rule deep_copy_struct [where put = CritConfigList_put_v1alpha1 and into = "copy_pair (ListMeta_DeepCopyInto1 X) (copy_slice Configs_kind1 (zero_CritConfig_v1alpha1 (zero_ObjectMeta1 X)) (CritConfig_DeepCopyInto_v1alpha1 X))"])
    (intro copy_intros1 kinds_ok1 | simp add: CritConfigList_ptrs_v1alpha1_def CritConfigList_put_v1alpha1_def CritConfigList_DeepCopyInto_v1alpha1_def copy_pair_def split_beta)+

lemmas [copy_intros1] = CritConfigList_copies_v1alpha1

definition CritConfigTemplateList_ptrs_v1alpha1 where
  "CritConfigTemplateList_ptrs_v1alpha1 (x :: 'e go_List) = (gl_ListMeta x, gl_Items x)"

definition CritConfigTemplateList_put_v1alpha1 where
  "CritConfigTemplateList_put_v1alpha1 (x :: 'e go_List) p = x\<lparr>gl_ListMeta := fst p, gl_Items := snd p\<rparr>"

definition view_CritConfigTemplateList_v1alpha1 where
  "view_CritConfigTemplateList_v1alpha1 X = view_struct CritConfigTemplateList_ptrs_v1alpha1 (\<lambda>x :: 'e go_List. CritConfigTemplateList_put_v1alpha1 x (zero_ListMeta1 X, None))
     (view_pair (ListMeta_view1 X) (view_slice Templates_kind1 (view_CritConfigTemplate_v1alpha1 X)))"

lemma CritConfigTemplateList_copies_v1alpha1: "externals_ok1 X \<Longrightarrow> deep_copy (view_CritConfigTemplateList_v1alpha1 X) (CritConfigTemplateList_DeepCopyInto_v1alpha1 X)"
  unfolding view_CritConfigTemplateList_v1alpha1_def
  by (rule deep_copy_struct [where put = CritConfigTemplateList_put_v1alpha1 and into = "copy_pair (ListMeta_DeepCopyInto1 X) (copy_slice Templates_kind1 (zero_CritConfigTemplate_v1alpha1 (zero_ObjectMeta1 X)) (CritConfigTemplate_DeepCopyInto_v1alpha1 X))"])
    (intro copy_intros1 kinds_ok1 | simp add: CritConfigTemplateList_ptrs_v1alpha1_def CritConfigTemplateList_put_v1alpha1_def CritConfigTemplateList_DeepCopyInto_v1alpha1_def copy_pair_def split_beta)+

lemmas [copy_intros1] = CritConfigTemplateList_copies_v1alpha1

definition CritControlPlaneList_ptrs_v1alpha1 where
  "CritControlPlaneList_ptrs_v1alpha1 (x :: 'e go_List) = (gl_ListMeta x, gl_Items x)"

definition CritControlPlaneList_put_v1alpha1 where
  "CritControlPlaneList_put_v1alpha1 (x :: 'e go_List) p = x\<lparr>gl_ListMeta := fst p, gl_Items := snd p\<rparr>"

definition view_CritControlPlaneList_v1alpha1 where
  "view_CritControlPlaneList_v1alpha1 X = view_struct CritControlPlaneList_ptrs_v1alpha1 (\<lambda>x :: 'e go_List. CritControlPlaneList_put_v1alpha1 x (zero_ListMeta1 X, None))
     (view_pair (ListMeta_view1 X) (view_slice Ccps_kind1 (view_CritControlPlane_v1alpha1 X)))"

lemma CritControlPlaneList_copies_v1alpha1: "externals_ok1 X \<Longrightarrow> deep_copy (view_CritControlPlaneList_v1alpha1 X) (CritControlPlaneList_DeepCopyInto_v1alpha1 X)"
  unfolding view_CritControlPlaneList_v1alpha1_def
  by (rule deep_copy_struct [where put = CritControlPlaneList_put_v1alpha1 and into = "copy_pair (ListMeta_DeepCopyInto1 X) (copy_slice Ccps_kind1 (zero_CritControlPlane_v1alpha1 (zero_ObjectMeta1 X)) (CritControlPlane_DeepCopyInto_v1alpha1 X))"])
    (intro copy_intros1 kinds_ok1 | simp add: CritControlPlaneList_ptrs_v1alpha1_def CritControlPlaneList_put_v1alpha1_def CritControlPlaneList_DeepCopyInto_v1alpha1_def copy_pair_def split_beta)+

lemmas [copy_intros1] = CritControlPlaneList_copies_v1alpha1

section \<open>Lists in the store\<close>

definition ccps_at where
  "ccps_at (X :: ('e, 'c, 'k) externals1) =
     view_ptr (CcpList_kind1 (zero_ListMeta1 X)) (view_CritControlPlaneList_v1alpha1 X)"

definition templates_at where
  "templates_at (X :: ('e, 'c, 'k) externals1) =
     view_ptr (TemplateList_kind1 (zero_ListMeta1 X)) (view_CritConfigTemplateList_v1alpha1 X)"

lemma lists_copy:
  assumes "externals_ok1 X"
  shows "deep_copy (ccps_at X) (CritControlPlaneList_DeepCopy_v1alpha1 X)"
    and "deep_copy (templates_at X) (CritConfigTemplateList_DeepCopy_v1alpha1 X)"
  unfolding ccps_at_def templates_at_def CritControlPlaneList_DeepCopy_v1alpha1_def [abs_def] CritConfigTemplateList_DeepCopy_v1alpha1_def [abs_def]
  using assms by (intro copy_intros1 kinds_ok1; assumption)+

section \<open>A concrete store\<close>

definition sample_externals1 :: "(slice option, string list, string list) externals1" where
  "sample_externals1 = \<lparr>
     ObjectMeta_DeepCopyInto1 = copy_values Strings_kind1 [],
     ObjectMeta_view1 = (\<lambda>h x. map_option (apfst meta_of) (view_slice Strings_kind1 view_value h x)),
     zero_ObjectMeta1 = None,
     ListMeta_DeepCopyInto1 = copy_values Strings_kind1 [],
     ListMeta_view1 = (\<lambda>h x. map_option (apfst (concat \<circ> nil_list)) (view_slice Strings_kind1 view_value h x)),
     zero_ListMeta1 = None,
     ControlPlaneConfiguration_DeepCopyInto1 = copy_values Strings_kind1 [],
     ControlPlaneConfiguration_view1 = (\<lambda>h x. map_option (apfst nil_list) (view_slice Strings_kind1 view_value h x)),
     zero_ControlPlaneConfiguration1 = None,
     WorkerConfiguration_DeepCopyInto1 = copy_values Strings_kind1 [],
     WorkerConfiguration_view1 = (\<lambda>h x. map_option (apfst nil_list) (view_slice Strings_kind1 view_value h x)),
     zero_WorkerConfiguration1 = None\<rparr>"

lemma sample_externals1_ok: "externals_ok1 sample_externals1"
  by (simp add: externals_ok1_def sample_externals1_def deep_copy_map deep_copy_values)

text \<open>A list at 0 of one control plane, at 1, with a node configuration at 2 that names its strings at 3; an empty list of templates at 4.\<close>

definition sample_store1 :: "slice option cell1 store" where
  "sample_store1 = \<lparr>cells = [
     0 \<mapsto> CcpListCell1 ((zero_List None)\<lparr>gl_Items := Some \<lparr>sl_array = 1, sl_off = 0, sl_len = 1\<rparr>\<rparr>),
     1 \<mapsto> CcpsCell1 [(zero_CritControlPlane_v1alpha1 None)\<lparr>gp1_Spec := zero_CritControlPlaneSpec_v1alpha1\<lparr>
       gps1_CritConfigSpec := zero_CritConfigSpec_v1alpha1\<lparr>gs1_ControlPlaneConfiguration := Some 2\<rparr>\<rparr>\<rparr>],
     2 \<mapsto> ExternalCell1 (Some \<lparr>sl_array = 3, sl_off = 0, sl_len = 2\<rparr>),
     3 \<mapsto> StringsCell1 [''a'', ''b''],
     4 \<mapsto> TemplateListCell1 (zero_List None)], lim = 5\<rparr>"

lemma sample_store1_wf: "store_wf sample_store1"
  by (auto simp: store_wf_def sample_store1_def split: if_splits)

lemma sample_lists_at:
  "\<exists>v A. ccps_at sample_externals1 sample_store1 (Some 0) = Some (Some v, A)"
  "\<exists>v A. templates_at sample_externals1 sample_store1 (Some 4) = Some (Some v, A)"
  by (simp_all add: ccps_at_def templates_at_def sample_store1_def sample_externals1_def view_struct_def view_pair_def view_ptr_def view_slice_def view_value_def
      load_def kind_defs1 zero_List_def zero_CritControlPlane_v1alpha1_def zero_CritControlPlaneSpec_v1alpha1_def
      zero_CritConfigSpec_v1alpha1_def zero_CritControlPlaneStatus_v1alpha1_def
      view_CritControlPlaneList_v1alpha1_def view_CritControlPlane_v1alpha1_def view_CritControlPlaneSpec_v1alpha1_def
      view_CritControlPlaneStatus_v1alpha1_def view_CritConfigSpec_v1alpha1_def view_CritConfigTemplateList_v1alpha1_def
      CritControlPlaneList_ptrs_v1alpha1_def CritControlPlane_ptrs_v1alpha1_def CritControlPlaneSpec_ptrs_v1alpha1_def
      CritControlPlaneStatus_ptrs_v1alpha1_def CritConfigSpec_ptrs_v1alpha1_def CritConfigTemplateList_ptrs_v1alpha1_def)

section \<open>Properties\<close>

text \<open>
  C29: copies of older objects. The method \<^verbatim>\<open>DeepCopy\<close> of a list of control planes, and of a list of templates,
  returns a new list with the same value, down to the node configurations of its items; the copy and the
  original keep their values whatever is written to the cells reached from the other.
\<close>

theorem list_deep_copy_v1alpha1:
  assumes "externals_ok1 X" and "store_wf h"
    and "ccps_at X h (Some a) = Some (Some v, A)" and "CritControlPlaneList_DeepCopy_v1alpha1 X (Some a) h = (q, h')"
    and "templates_at X h (Some c) = Some (Some w, C)" and "CritConfigTemplateList_DeepCopy_v1alpha1 X (Some c) h = (r, h'')"
  shows "(\<exists>b. q = Some b \<and> separate (ccps_at X) h' (Some a) (Some b) (Some v)) \<and>
    (\<exists>d. r = Some d \<and> separate (templates_at X) h'' (Some c) (Some d) (Some w))"
proof -
  obtain b where b: "q = Some b"
    using copy_ptr_Some assms(3,4) by (metis CritControlPlaneList_DeepCopy_v1alpha1_def ccps_at_def fst_conv)
  obtain d where d: "r = Some d"
    using copy_ptr_Some assms(5,6) by (metis CritConfigTemplateList_DeepCopy_v1alpha1_def templates_at_def fst_conv)
  from deep_copy.copy_separate [OF lists_copy(1) [OF assms(1)] assms(2,3,4)] b
    deep_copy.copy_separate [OF lists_copy(2) [OF assms(1)] assms(2,5,6)] d
  show ?thesis by simp
qed

theorem list_deep_copy_v1alpha1_witness:
  "\<exists>b h' v. CritControlPlaneList_DeepCopy_v1alpha1 sample_externals1 (Some 0) sample_store1 = (Some b, h') \<and>
     separate (ccps_at sample_externals1) h' (Some 0) (Some b) (Some v)"
proof -
  obtain v A w C where "ccps_at sample_externals1 sample_store1 (Some 0) = Some (Some v, A)"
    "templates_at sample_externals1 sample_store1 (Some 4) = Some (Some w, C)"
    using sample_lists_at by blast
  from list_deep_copy_v1alpha1 [OF sample_externals1_ok sample_store1_wf this(1) _ this(2)] show ?thesis
    by (metis prod.collapse)
qed

end
