(* ===== verification/Cluster_Cache.thy ===== *)
theory Cluster_Cache
  imports Workload_Cluster
begin

text \<open>
  \<^verbatim>\<open>src/internal/remote/cluster_cache.go\<close>: the tracker of client caches of workload clusters. It keeps
  one cache per cluster and the watches made on it, polls the health of every cluster it has a cache
  for, and drops the cache when the cluster is unhealthy or gone.

  A \<^verbatim>\<open>*clusterCache\<close> is an index into the list of all caches ever made, so that a cache that was
  replaced can be told from the one that replaced it. Watchers, kinds, event handlers, predicates
  and cache options are compared or passed on only: they are strings that stand for their identity.

  The first part translates each method as one call that runs alone. The second part runs the methods
  as threads that interleave where the code does not hold a lock, with a read of a map under its lock
  as one step; the write lock \<^verbatim>\<open>watchesLock\<close>, which \<^verbatim>\<open>Watch\<close> holds across calls of other code, is part of
  the state.
\<close>

section \<open>State\<close>

record clusterCache =
  cc_Cache :: string
  cc_stopped :: bool
  cc_stop_closed :: bool

record watchInfo =
  wi_watcher :: string
  wi_kind :: string
  wi_eventHandler :: string

record ClusterCacheTracker =
  clusterCaches :: "ObjectKey \<Rightarrow> nat option"
  watches :: "ObjectKey \<Rightarrow> watchInfo set option"
  all_caches :: "clusterCache list"

definition NewClusterCacheTracker :: ClusterCacheTracker where
  "NewClusterCacheTracker = \<lparr>clusterCaches = Map.empty, watches = Map.empty, all_caches = []\<rparr>"

record WatchInput =
  win_Cluster :: ObjectKey
  win_Watcher :: string
  win_Kind :: string
  win_CacheOptions :: string
  win_EventHandler :: string
  win_Predicates :: "string list"

text \<open>The packages and interfaces the tracker calls.\<close>

record 'w cache_ext =
  ce_lib :: lib
  ce_remote :: "'w remote"
  cache_New :: "RestConfig \<Rightarrow> string \<Rightarrow> 'w \<Rightarrow> (goerror + string) \<times> 'w"
  watcher_Watch :: "string \<Rightarrow> string \<Rightarrow> string \<Rightarrow> string \<Rightarrow> string list \<Rightarrow> 'w \<Rightarrow> goerror option \<times> 'w"
  getCluster :: "ObjectKey \<Rightarrow> 'w \<Rightarrow> goerror option \<times> 'w"
  UnversionedRESTClientFor :: "RestConfig \<Rightarrow> goerror + string"
  rest_Get :: "string \<Rightarrow> string \<Rightarrow> duration \<Rightarrow> 'w \<Rightarrow> goerror option \<times> 'w"

section \<open>Methods\<close>

text \<open>Closing a channel that is closed already panics.\<close>

definition Stop :: "clusterCache \<Rightarrow> goerror + clusterCache" where
  "Stop cc =
     (if cc_stopped cc then Inr cc
      else if cc_stop_closed cc then Inl (Panic ''close of closed channel'')
      else Inr (cc\<lparr>cc_stopped := True, cc_stop_closed := True\<rparr>))"

definition stop_cache :: "nat \<Rightarrow> ClusterCacheTracker \<Rightarrow> goerror + ClusterCacheTracker" where
  "stop_cache p m =
     (if p < length (all_caches m)
      then (case Stop (all_caches m ! p) of
              Inl err \<Rightarrow> Inl err
            | Inr cc \<Rightarrow> Inr (m\<lparr>all_caches := (all_caches m)[p := cc]\<rparr>))
      else Inl (Panic ''nil pointer dereference''))"

definition watchExists :: "ClusterCacheTracker \<Rightarrow> ObjectKey \<Rightarrow> watchInfo \<Rightarrow> bool" where
  "watchExists m cluster watch = (case watches m cluster of
     None \<Rightarrow> False
   | Some watchesForCluster \<Rightarrow> watch \<in> watchesForCluster)"

definition deleteWatchesForCluster :: "ObjectKey \<Rightarrow> ClusterCacheTracker \<Rightarrow> ClusterCacheTracker" where
  "deleteWatchesForCluster cluster m = m\<lparr>watches := (watches m)(cluster := None)\<rparr>"

definition getClusterCache :: "ClusterCacheTracker \<Rightarrow> ObjectKey \<Rightarrow> nat option" where
  "getClusterCache m cluster = clusterCaches m cluster"

definition deleteClusterCache :: "ObjectKey \<Rightarrow> ClusterCacheTracker \<Rightarrow> ClusterCacheTracker" where
  "deleteClusterCache cluster m = m\<lparr>clusterCaches := (clusterCaches m)(cluster := None)\<rparr>"

definition add_cache :: "ObjectKey \<Rightarrow> string \<Rightarrow> ClusterCacheTracker \<Rightarrow> ClusterCacheTracker" where
  "add_cache cluster remoteCache m = m\<lparr>
     clusterCaches := (clusterCaches m)(cluster := Some (length (all_caches m))),
     all_caches := all_caches m @ [\<lparr>cc_Cache = remoteCache, cc_stopped = False, cc_stop_closed = False\<rparr>]\<rparr>"

definition newClusterCache ::
  "'w cache_ext \<Rightarrow> ObjectKey \<Rightarrow> string \<Rightarrow> ClusterCacheTracker \<Rightarrow>
   ('w, action, (goerror + nat) \<times> ClusterCacheTracker) io" where
  "newClusterCache X cluster cacheOptions m =
     (case clusterCaches m cluster of
        Some c \<Rightarrow> State_Monad.return (Inr c, m)
      | None \<Rightarrow> do {
          r \<leftarrow> RESTConfig (ce_remote X) cluster;
          case r of
            Inl err \<Rightarrow> State_Monad.return (Inl (WrapError ''error fetching REST client config for remote cluster'' err), m)
          | Inr config \<Rightarrow> do {
              c \<leftarrow> call (NewCache config cacheOptions) (cache_New X config cacheOptions);
              case c of
                Inl err \<Rightarrow> State_Monad.return (Inl (WrapError ''error creating cache for remote cluster'' err), m)
              | Inr remoteCache \<Rightarrow> do {
                  let p = length (all_caches m);
                  let m = add_cache cluster remoteCache m;
                  note_event (StartCache p);
                  note_event (StartHealthCheck p cluster config);
                  State_Monad.return (Inr p, m) } } })"

definition getOrCreateClusterCache ::
  "'w cache_ext \<Rightarrow> ObjectKey \<Rightarrow> string \<Rightarrow> ClusterCacheTracker \<Rightarrow>
   ('w, action, (goerror + nat) \<times> ClusterCacheTracker) io" where
  "getOrCreateClusterCache X cluster cacheOptions m =
     (case getClusterCache m cluster of
        Some cache \<Rightarrow> State_Monad.return (Inr cache, m)
      | None \<Rightarrow> newClusterCache X cluster cacheOptions m)"

text \<open>The part of \<^verbatim>\<open>Watch\<close> that makes sure the cluster has a set of watches, and the part that adds one.\<close>

definition ensure_watches :: "ObjectKey \<Rightarrow> ClusterCacheTracker \<Rightarrow> ClusterCacheTracker" where
  "ensure_watches cluster m = (case watches m cluster of
     None \<Rightarrow> m\<lparr>watches := (watches m)(cluster := Some {})\<rparr>
   | Some _ \<Rightarrow> m)"

definition record_watch :: "ObjectKey \<Rightarrow> watchInfo \<Rightarrow> ClusterCacheTracker \<Rightarrow> ClusterCacheTracker" where
  "record_watch cluster wi m =
     m\<lparr>watches := (watches m)(cluster := Some (insert wi (case watches m cluster of None \<Rightarrow> {} | Some ws \<Rightarrow> ws)))\<rparr>"

definition watch_info :: "WatchInput \<Rightarrow> watchInfo" where
  "watch_info input =
     \<lparr>wi_watcher = win_Watcher input, wi_kind = win_Kind input, wi_eventHandler = win_EventHandler input\<rparr>"

definition Watch ::
  "'w cache_ext \<Rightarrow> WatchInput \<Rightarrow> ClusterCacheTracker \<Rightarrow> ('w, action, goerror option \<times> ClusterCacheTracker) io" where
  "Watch X input m = do {
     let wi = watch_info input;
     let cluster = win_Cluster input;
     if watchExists m cluster wi then State_Monad.return (None, m)
     else if watchExists m cluster wi then State_Monad.return (None, m)
     else do {
       let m = ensure_watches cluster m;
       (r, m) \<leftarrow> getOrCreateClusterCache X cluster (win_CacheOptions input) m;
       case r of
         Inl err \<Rightarrow> State_Monad.return (Some err, m)
       | Inr cache \<Rightarrow> do {
           e \<leftarrow> call (StartWatch (win_Watcher input) (win_Kind input) cache (win_EventHandler input))
             (watcher_Watch X (win_Watcher input) (win_Kind input) (cc_Cache (all_caches m ! cache))
               (win_EventHandler input) (win_Predicates input));
           State_Monad.return (case e of
             Some err \<Rightarrow> (Some (WrapError ''error creating watch'' err), m)
           | None \<Rightarrow> (None, record_watch cluster wi m)) } } }"

section \<open>Health checks\<close>

definition healthCheckPollInterval :: duration where "healthCheckPollInterval = seconds 10"
definition healthCheckRequestTimeout :: duration where "healthCheckRequestTimeout = seconds 5"
definition healthCheckUnhealthyThreshold :: int where "healthCheckUnhealthyThreshold = 3"

record healthCheckInput =
  hci_stop :: nat
  hci_cluster :: ObjectKey
  hci_cfg :: RestConfig
  hci_interval :: duration
  hci_requestTimeout :: duration
  hci_unhealthyThreshold :: int
  hci_path :: string

definition validate :: "healthCheckInput \<Rightarrow> healthCheckInput" where
  "validate h = (
     let h = (if hci_interval h = 0 then h\<lparr>hci_interval := healthCheckPollInterval\<rparr> else h);
         h = (if hci_requestTimeout h = 0 then h\<lparr>hci_requestTimeout := healthCheckRequestTimeout\<rparr> else h);
         h = (if hci_unhealthyThreshold h = 0 then h\<lparr>hci_unhealthyThreshold := healthCheckUnhealthyThreshold\<rparr> else h)
     in if hci_path h = [] then h\<lparr>hci_path := ''/''\<rparr> else h)"

definition healthCheckPath ::
  "'w cache_ext \<Rightarrow> RestConfig \<Rightarrow> duration \<Rightarrow> string \<Rightarrow> ('w, action, goerror option) io" where
  "healthCheckPath X sourceCfg requestTimeout path =
     (case UnversionedRESTClientFor X sourceCfg of
        Inl err \<Rightarrow> State_Monad.return (Some err)
      | Inr restClient \<Rightarrow> call (ProbePath sourceCfg path) (rest_Get X restClient path requestTimeout))"

text \<open>
  The function that is polled: \<open>check_count\<close> is what it does with the result of a probe (the new number
  of consecutive failures, and what it returns), \<open>runHealthCheckWithThreshold\<close> all of it.
\<close>

definition check_count :: "int \<Rightarrow> goerror option \<Rightarrow> int \<Rightarrow> (bool \<times> goerror option) \<times> int" where
  "check_count threshold err unhealthyCount = (
     let unhealthyCount = (if err \<noteq> None then unhealthyCount + 1 else 0)
     in if unhealthyCount \<ge> threshold then ((False, err), unhealthyCount) else ((False, None), unhealthyCount))"

definition runHealthCheckWithThreshold ::
  "'w cache_ext \<Rightarrow> healthCheckInput \<Rightarrow> ClusterCacheTracker \<Rightarrow> int \<Rightarrow>
   ('w, action, (bool \<times> goerror option) \<times> int) io" where
  "runHealthCheckWithThreshold X in' m unhealthyCount =
     (case getClusterCache m (hci_cluster in') of
        None \<Rightarrow> State_Monad.return ((True, None), unhealthyCount)
      | Some _ \<Rightarrow> do {
          err \<leftarrow> healthCheckPath X (hci_cfg in') (hci_requestTimeout in') (hci_path in');
          State_Monad.return (check_count (hci_unhealthyThreshold in') err unhealthyCount) })"

text \<open>
  Stopping and dropping what the tracker has for a cluster: the same three steps at the end of a failed
  health check and in the reconciler. \<open>healthCheckCluster\<close> takes the error that
  \<^verbatim>\<open>wait.PollImmediateUntil\<close> returned.
\<close>

definition drop_cluster :: "ObjectKey \<Rightarrow> ClusterCacheTracker \<Rightarrow> goerror option \<times> ClusterCacheTracker" where
  "drop_cluster cluster m = (case getClusterCache m cluster of
     None \<Rightarrow> (None, m)
   | Some c \<Rightarrow>
       (case stop_cache c m of
          Inl p \<Rightarrow> (Some p, m)
        | Inr m \<Rightarrow> (None, deleteWatchesForCluster cluster (deleteClusterCache cluster m))))"

definition healthCheckCluster ::
  "healthCheckInput \<Rightarrow> goerror option \<Rightarrow> ClusterCacheTracker \<Rightarrow> goerror option \<times> ClusterCacheTracker" where
  "healthCheckCluster in' err m = (if err \<noteq> None then drop_cluster (hci_cluster in') m else (None, m))"

definition cache_Reconcile ::
  "'w cache_ext \<Rightarrow> ObjectKey \<Rightarrow> ClusterCacheTracker \<Rightarrow>
   ('w, action, (Result \<times> goerror option) \<times> ClusterCacheTracker) io" where
  "cache_Reconcile X req m = do {
     err \<leftarrow> call (GetCluster req) (getCluster X req);
     State_Monad.return (case err of
       None \<Rightarrow> ((no_requeue, None), m)
     | Some err \<Rightarrow>
         if \<not> IsNotFound (ce_lib X) err then ((no_requeue, Some err), m)
         else (case drop_cluster req m of (p, m) \<Rightarrow> ((no_requeue, p), m))) }"

section \<open>Interleaving\<close>

text \<open>
  A thread is a call of \<^verbatim>\<open>Watch\<close>, a health check, or the end of either a failed health check or a
  reconciliation of a cluster that is gone; the constructor says how far it has come. A health check
  knows the cache whose stop channel it was given.
\<close>

datatype thread =
    WatchStart ObjectKey watchInfo      \<comment> \<open>before the first check, under the read lock\<close>
  | WatchWaiting ObjectKey watchInfo    \<comment> \<open>waits for the write lock\<close>
  | WatchGet ObjectKey watchInfo        \<comment> \<open>holds it; looks the cache up\<close>
  | WatchNew ObjectKey watchInfo        \<comment> \<open>holds it; found none and makes one\<close>
  | WatchOn ObjectKey watchInfo nat     \<comment> \<open>holds it; starts the watch on a cache\<close>
  | Polling ObjectKey nat int           \<comment> \<open>a health check, with its count of failures\<close>
  | DropGet ObjectKey                   \<comment> \<open>looks up the cache to drop\<close>
  | DropStop ObjectKey nat              \<comment> \<open>stops it\<close>
  | DropCache ObjectKey                 \<comment> \<open>removes the cluster from the caches\<close>
  | DropWatches ObjectKey               \<comment> \<open>removes it from the watches, under the write lock\<close>
  | Finished
  | Panicked

text \<open>
  \<open>attached\<close> is a ghost: the cache that a recorded watch was started on. The lock is held by the thread
  with that index.
\<close>

record system =
  tracker :: ClusterCacheTracker
  threads :: "thread list"
  watchesLock :: "nat option"
  attached :: "ObjectKey \<Rightarrow> watchInfo \<Rightarrow> nat"

text \<open>
  What the code outside the tracker answers: an error or none, or the cache that was made; a health
  check may also find its channel closed.
\<close>

datatype answer = Answer "goerror option" | Made string | StopClosed

text \<open>
  One step of thread \<open>i\<close>: where it goes, the threads it starts and the rest of the state; \<open>None\<close> if it
  has to wait for the lock or has ended.
\<close>

fun move :: "nat \<Rightarrow> answer \<Rightarrow> thread \<Rightarrow> system \<Rightarrow> (thread \<times> thread list \<times> system) option" where
  "move i a (WatchStart k wi) s =
     (if watchesLock s \<noteq> None then None
      else Some (if watchExists (tracker s) k wi then Finished else WatchWaiting k wi, [], s))"
| "move i a (WatchWaiting k wi) s =
     (if watchesLock s \<noteq> None then None
      else if watchExists (tracker s) k wi then Some (Finished, [], s)
      else Some (WatchGet k wi, [], s\<lparr>watchesLock := Some i, tracker := ensure_watches k (tracker s)\<rparr>))"
| "move i a (WatchGet k wi) s =
     (case getClusterCache (tracker s) k of
        Some p \<Rightarrow> Some (WatchOn k wi p, [], s)
      | None \<Rightarrow> Some (WatchNew k wi, [], s))"
| "move i a (WatchNew k wi) s =
     (case clusterCaches (tracker s) k of
        Some p \<Rightarrow> Some (WatchOn k wi p, [], s)
      | None \<Rightarrow>
          (case a of
             Made c \<Rightarrow>
               (let p = length (all_caches (tracker s))
                in Some (WatchOn k wi p, [Polling k p 0], s\<lparr>tracker := add_cache k c (tracker s)\<rparr>))
           | _ \<Rightarrow> Some (Finished, [], s\<lparr>watchesLock := None\<rparr>)))"
| "move i a (WatchOn k wi p) s =
     (if a = Answer None
      then Some (Finished, [], s\<lparr>watchesLock := None, tracker := record_watch k wi (tracker s),
        attached := (attached s)(k := (attached s k)(wi := p))\<rparr>)
      else Some (Finished, [], s\<lparr>watchesLock := None\<rparr>))"
| "move i a (Polling k p n) s =
     (case a of
        StopClosed \<Rightarrow> (if cc_stop_closed (all_caches (tracker s) ! p) then Some (DropGet k, [], s) else None)
      | Made _ \<Rightarrow> None
      | Answer err \<Rightarrow>
          (case getClusterCache (tracker s) k of
             None \<Rightarrow> Some (Finished, [], s)
           | Some _ \<Rightarrow>
               (case check_count healthCheckUnhealthyThreshold err n of
                  ((_, Some _), _) \<Rightarrow> Some (DropGet k, [], s)
                | ((_, None), n') \<Rightarrow> Some (Polling k p n', [], s))))"
| "move i a (DropGet k) s =
     (case getClusterCache (tracker s) k of
        None \<Rightarrow> Some (Finished, [], s)
      | Some c \<Rightarrow> Some (DropStop k c, [], s))"
| "move i a (DropStop k c) s =
     (case stop_cache c (tracker s) of
        Inl _ \<Rightarrow> Some (Panicked, [], s)
      | Inr m \<Rightarrow> Some (DropCache k, [], s\<lparr>tracker := m\<rparr>))"
| "move i a (DropCache k) s = Some (DropWatches k, [], s\<lparr>tracker := deleteClusterCache k (tracker s)\<rparr>)"
| "move i a (DropWatches k) s =
     (if watchesLock s \<noteq> None then None
      else Some (Finished, [], s\<lparr>tracker := deleteWatchesForCluster k (tracker s)\<rparr>))"
| "move i a Finished s = None"
| "move i a Panicked s = None"

text \<open>
  What happens: someone calls \<^verbatim>\<open>Watch\<close>, the reconciler finds a cluster gone, or a thread moves. A run is the
  list of what happened.
\<close>

datatype happening = CallWatch ObjectKey watchInfo | Gone ObjectKey | Move nat answer

inductive step :: "system \<Rightarrow> happening \<Rightarrow> system \<Rightarrow> bool" where
  call_watch: "step s (CallWatch k wi) (s\<lparr>threads := threads s @ [WatchStart k wi]\<rparr>)"
| gone: "step s (Gone k) (s\<lparr>threads := threads s @ [DropGet k]\<rparr>)"
| moves: "i < length (threads s) \<Longrightarrow> move i a (threads s ! i) s = Some (x, new, s') \<Longrightarrow>
    step s (Move i a) (s'\<lparr>threads := (threads s)[i := x] @ new\<rparr>)"

inductive runs :: "system \<Rightarrow> happening list \<Rightarrow> system \<Rightarrow> bool" where
  nothing: "runs s [] s"
| next_step: "runs s hs t \<Longrightarrow> step t h u \<Longrightarrow> runs s (hs @ [h]) u"

definition initial :: system where
  "initial = \<lparr>tracker = NewClusterCacheTracker, threads = [], watchesLock = None, attached = (\<lambda>_ _. 0)\<rparr>"

inductive_cases movesE: "step s h t"

section \<open>Invariants\<close>

text \<open>\<open>always\<close>: a predicate that holds at first and is kept by every step holds after every run.\<close>

locale always =
  fixes inv :: "system \<Rightarrow> bool"
  assumes at_first: "inv initial" and kept: "step s h t \<Longrightarrow> inv s \<Longrightarrow> inv t"
begin

lemma holds: "runs initial hs s \<Longrightarrow> inv s"
  by (induction initial hs s rule: runs.induct) (auto intro: at_first kept)

end

lemma set_update_mem: "x \<in> set xs \<Longrightarrow> x \<noteq> xs ! i \<Longrightarrow> x \<in> set (xs[i := y])"
  by (metis in_set_conv_nth length_list_update nth_list_update_neq)

lemma set_update_dest: "x \<in> set (xs[i := y]) \<Longrightarrow> x = y \<or> x \<in> set xs"
  using set_update_subset_insert by fastforce

lemmas move_splits = if_splits option.splits answer.splits sum.splits prod.splits

lemmas tracker_ops =
  watchExists_def ensure_watches_def record_watch_def getClusterCache_def add_cache_def deleteClusterCache_def
  deleteWatchesForCluster_def stop_cache_def Stop_def

lemma move_starts: "move i a th s = Some (x, new, s') \<Longrightarrow> y \<in> set new \<Longrightarrow> \<exists>k p. y = Polling k p 0"
  by (cases th) (auto simp: Let_def split: move_splits)

text \<open>The lock is held by the thread that is inside \<^verbatim>\<open>Watch\<close>.\<close>

fun holds_lock :: "thread \<Rightarrow> bool" where
  "holds_lock (WatchGet _ _) = True"
| "holds_lock (WatchNew _ _) = True"
| "holds_lock (WatchOn _ _ _) = True"
| "holds_lock _ = False"

lemma move_lock:
  "move i a th s = Some (x, new, s') \<Longrightarrow>
   watchesLock s' = (if holds_lock x then (if holds_lock th then watchesLock s else Some i)
     else if holds_lock th then None else watchesLock s) \<and>
   (holds_lock x \<longrightarrow> \<not> holds_lock th \<longrightarrow> watchesLock s = None)"
  by (cases th) (auto simp: Let_def split: move_splits)

definition lock_inv :: "system \<Rightarrow> bool" where
  "lock_inv s \<longleftrightarrow> (\<forall>i < length (threads s). holds_lock (threads s ! i) \<longrightarrow> watchesLock s = Some i)"

lemma lock_inv_step:
  assumes "step s h t" and "lock_inv s"
  shows "lock_inv t"
  using assms
proof cases
  case (moves i a x new s')
  have at: "holds_lock (threads s ! i) \<Longrightarrow> watchesLock s = Some i" using assms(2) moves(3) by (simp add: lock_inv_def)
  show ?thesis
    unfolding lock_inv_def
  proof (intro allI impI)
    fix j
    assume j: "j < length (threads t)" "holds_lock (threads t ! j)"
    then have "j < length (threads s)"
      using moves(2) move_starts [OF moves(4), of "new ! (j - length (threads s))"]
      by (auto simp: nth_append not_less split: if_splits)
    then have "j = i \<and> holds_lock x \<or> j \<noteq> i \<and> watchesLock s = Some j"
      using j moves(2,3) assms(2) by (cases "j = i") (auto simp: lock_inv_def nth_append)
    with move_lock [OF moves(4)] at moves(2) show "watchesLock t = Some j" by (auto split: if_splits)
  qed
qed (use assms(2) in \<open>auto simp: lock_inv_def nth_append\<close>)

lemma lock_inv_one:
  assumes "lock_inv s"
  shows "length (filter holds_lock (threads s)) \<le> 1"
proof -
  have "{i. i < length (threads s) \<and> holds_lock (threads s ! i)} \<subseteq> set_option (watchesLock s)"
    using assms by (auto simp: lock_inv_def)
  moreover have "finite (set_option (watchesLock s))" "card (set_option (watchesLock s)) \<le> 1"
    by (cases "watchesLock s"; simp)+
  ultimately show ?thesis by (metis card_mono length_filter_conv_card order_trans)
qed

text \<open>
  The pointers are sound: a cache belongs to one cluster, its stop channel is closed if and only if it
  was stopped, so no thread closes it twice.
\<close>

definition heap_inv :: "system \<Rightarrow> bool" where
  "heap_inv s \<longleftrightarrow>
     (\<forall>k p. clusterCaches (tracker s) k = Some p \<longrightarrow> p < length (all_caches (tracker s))) \<and>
     (\<forall>k k' p. clusterCaches (tracker s) k = Some p \<longrightarrow> clusterCaches (tracker s) k' = Some p \<longrightarrow> k = k') \<and>
     (\<forall>cc \<in> set (all_caches (tracker s)). cc_stopped cc = cc_stop_closed cc) \<and>
     (\<forall>k c. DropStop k c \<in> set (threads s) \<longrightarrow>
        c < length (all_caches (tracker s)) \<and> (\<forall>k'. clusterCaches (tracker s) k' = Some c \<longrightarrow> k' = k)) \<and>
     Panicked \<notin> set (threads s)"

lemma heap_frame:
  assumes "heap_inv s" and "clusterCaches (tracker t) = clusterCaches (tracker s)" and "all_caches (tracker t) = all_caches (tracker s)"
    and "\<And>y. y \<in> set (threads t) \<Longrightarrow> y \<in> set (threads s) \<or> (\<forall>k c. y \<noteq> DropStop k c) \<and> y \<noteq> Panicked"
  shows "heap_inv t"
  using assms unfolding heap_inv_def by metis

fun uses_caches :: "thread \<Rightarrow> bool" where
  "uses_caches (WatchNew _ _) = True"
| "uses_caches (DropGet _) = True"
| "uses_caches (DropStop _ _) = True"
| "uses_caches (DropCache _) = True"
| "uses_caches _ = False"

lemma move_frame:
  "move i a th s = Some (x, new, s') \<Longrightarrow> \<not> uses_caches th \<Longrightarrow>
   clusterCaches (tracker s') = clusterCaches (tracker s) \<and> all_caches (tracker s') = all_caches (tracker s) \<and>
   (\<forall>k c. x \<noteq> DropStop k c) \<and> x \<noteq> Panicked \<and> (\<forall>k. x \<noteq> DropCache k)"
  by (cases th) (auto simp: tracker_ops split: move_splits)

lemma heap_add:
  assumes inv: "heap_inv s"
    and ts: "\<And>y. y \<in> set ts \<Longrightarrow> y \<in> set (threads s) \<or> (\<forall>k c. y \<noteq> DropStop k c) \<and> y \<noteq> Panicked"
  shows "heap_inv (s\<lparr>tracker := add_cache k c (tracker s), threads := ts\<rparr>)"
proof -
  let ?m = "tracker s" and ?n = "length (all_caches (tracker s))"
  have old: "\<And>k' p. clusterCaches ?m k' = Some p \<Longrightarrow> p < ?n"
    and inj: "\<And>k k' p. clusterCaches ?m k = Some p \<Longrightarrow> clusterCaches ?m k' = Some p \<Longrightarrow> k = k'"
    using inv by (auto simp: heap_inv_def)
  have drop: "c < ?n \<and> (\<forall>k''. clusterCaches ?m k'' = Some c \<longrightarrow> k'' = k')" if "DropStop k' c \<in> set ts" for k' c
    using inv ts [OF that] by (auto simp: heap_inv_def)
  have fresh: "clusterCaches ?m k' \<noteq> Some ?n" for k' using old by blast
  have no_panic: "Panicked \<notin> set ts" using inv ts by (auto simp: heap_inv_def)
  show ?thesis
    unfolding heap_inv_def
  proof (intro conjI allI impI)
    show "\<forall>cc \<in> set (all_caches (tracker (s\<lparr>tracker := add_cache k c ?m, threads := ts\<rparr>))). cc_stopped cc = cc_stop_closed cc"
      using inv by (auto simp: heap_inv_def add_cache_def)
  qed (use old drop inj fresh no_panic in \<open>auto simp: add_cache_def less_SucI split: if_splits\<close>)
qed

lemma heap_inv_move:
  assumes inv: "heap_inv s" and i: "i < length (threads s)" and m: "move i a (threads s ! i) s = Some (x, new, s')"
  shows "heap_inv (s'\<lparr>threads := (threads s)[i := x] @ new\<rparr>)"
proof -
  have frame: ?thesis
    if "clusterCaches (tracker s') = clusterCaches (tracker s)" "all_caches (tracker s') = all_caches (tracker s)"
      "\<forall>k c. x \<noteq> DropStop k c" "x \<noteq> Panicked"
    using that by (intro heap_frame [OF inv]) (auto dest!: set_update_dest move_starts [OF m])
  show ?thesis
  proof (cases "threads s ! i")
    case (WatchNew k wi)
    show ?thesis
    proof (cases "clusterCaches (tracker s) k = None \<and> (\<exists>c. a = Made c)")
      case True
      with m WatchNew show ?thesis
        by (auto simp: Let_def dest!: set_update_dest intro!: heap_add [OF inv])
    next
      case False
      with m WatchNew show ?thesis by (intro frame) (auto split: option.splits answer.splits)
    qed
  next
    case (DropGet k)
    with inv m show ?thesis
      by (auto simp: heap_inv_def getClusterCache_def dest!: set_update_dest split: option.splits)
  next
    case (DropStop k c)
    then have "DropStop k c \<in> set (threads s)" using i by (metis nth_mem)
    with inv have c: "c < length (all_caches (tracker s))"
      and "\<forall>cc \<in> set (all_caches (tracker s)). cc_stopped cc = cc_stop_closed cc"
      by (auto simp: heap_inv_def)
    then have "cc_stopped (all_caches (tracker s) ! c) = cc_stop_closed (all_caches (tracker s) ! c)" by simp
    with c DropStop m inv show ?thesis
      by (auto simp: heap_inv_def stop_cache_def Stop_def dest!: set_update_dest split: if_splits)
  next
    case (DropCache k)
    with inv m show ?thesis
      by (auto simp: heap_inv_def deleteClusterCache_def dest!: set_update_dest split: if_splits)
  qed (use move_frame [OF m] frame in auto)
qed

lemma heap_inv_step: "step s h t \<Longrightarrow> heap_inv s \<Longrightarrow> heap_inv t"
  by (erule step.cases) (auto intro: heap_inv_move heap_frame)

text \<open>A cache that is tracked although it was stopped is about to be removed.\<close>

definition live_inv :: "system \<Rightarrow> bool" where
  "live_inv s \<longleftrightarrow> (\<forall>k p. clusterCaches (tracker s) k = Some p \<longrightarrow> cc_stopped (all_caches (tracker s) ! p) \<longrightarrow>
     DropCache k \<in> set (threads s))"

lemma live_inv_move:
  assumes heap: "heap_inv s" and live: "live_inv s" and i: "i < length (threads s)"
    and m: "move i a (threads s ! i) s = Some (x, new, s')"
  shows "live_inv (s'\<lparr>threads := (threads s)[i := x] @ new\<rparr>)"
proof -
  have keep: "DropCache k \<in> set ((threads s)[i := x])" if "DropCache k \<in> set (threads s)" "threads s ! i \<noteq> DropCache k" for k
    using that by (auto intro: set_update_mem)
  show ?thesis
  proof (cases "threads s ! i")
    case (WatchNew k wi)
    have "clusterCaches (tracker s) k' \<noteq> Some (length (all_caches (tracker s)))" for k'
      using heap by (auto simp: heap_inv_def)
    moreover have "clusterCaches (tracker s) k' = Some p \<Longrightarrow> p < length (all_caches (tracker s))" for k' p
      using heap by (auto simp: heap_inv_def)
    ultimately show ?thesis
      using WatchNew m live keep by (auto simp: live_inv_def add_cache_def Let_def nth_append split: option.splits answer.splits if_splits)
  next
    case (DropGet k)
    with m live keep show ?thesis by (auto simp: live_inv_def split: option.splits)
  next
    case (DropStop k c)
    then have "DropStop k c \<in> set (threads s)" using i by (metis nth_mem)
    with heap have c: "\<forall>k'. clusterCaches (tracker s) k' = Some c \<longrightarrow> k' = k" by (auto simp: heap_inv_def)
    have x: "x = DropCache k \<Longrightarrow> DropCache k \<in> set ((threads s)[i := x])" using i by (simp add: set_update_memI)
    show ?thesis
      using DropStop m live keep c x
      by (auto simp: live_inv_def stop_cache_def Stop_def nth_list_update split: if_splits sum.splits)
  next
    case (DropCache k)
    with m live keep show ?thesis by (auto simp: live_inv_def deleteClusterCache_def split: if_splits)
  qed (use m live keep move_frame [OF m] in \<open>auto simp: live_inv_def\<close>)
qed

lemma live_append: "live_inv s \<Longrightarrow> live_inv (s\<lparr>threads := threads s @ ts\<rparr>)"
  by (auto simp: live_inv_def)

lemma live_inv_step: "step s h t \<Longrightarrow> heap_inv s \<Longrightarrow> live_inv s \<Longrightarrow> live_inv t"
  by (erule step.cases) (auto intro: live_inv_move live_append)

text \<open>
  A watch that is recorded was started on the tracked cache, unless the records of the cluster are about
  to be removed; so was a watch that is about to be recorded.
\<close>

definition attach_ok :: "system \<Rightarrow> ObjectKey \<Rightarrow> nat \<Rightarrow> bool" where
  "attach_ok s k p \<longleftrightarrow> clusterCaches (tracker s) k = Some p \<or> DropWatches k \<in> set (threads s)"

definition watch_inv :: "system \<Rightarrow> bool" where
  "watch_inv s \<longleftrightarrow>
     (\<forall>k wi p. WatchOn k wi p \<in> set (threads s) \<longrightarrow> attach_ok s k p) \<and>
     (\<forall>k wi. watchExists (tracker s) k wi \<longrightarrow> attach_ok s k (attached s k wi))"

lemma watch_exists_ops [simp]:
  "watchExists (ensure_watches k m) k' wi = watchExists m k' wi"
  "watchExists (record_watch k wi' m) k' wi \<longleftrightarrow> (k' = k \<and> wi = wi') \<or> watchExists m k' wi"
  "watchExists (deleteWatchesForCluster k m) k' wi \<longleftrightarrow> k' \<noteq> k \<and> watchExists m k' wi"
  "watchExists (deleteClusterCache k m) k' wi = watchExists m k' wi"
  "watchExists (add_cache k c m) k' wi = watchExists m k' wi"
  unfolding tracker_ops by (cases "watches m k"; cases "k = k'"; simp)+

lemma stop_cache_frame:
  "stop_cache p m = Inr m' \<Longrightarrow> watches m' = watches m \<and> clusterCaches m' = clusterCaches m"
  by (auto simp: stop_cache_def split: if_splits sum.splits)

lemma stop_cache_exists: "stop_cache p m = Inr m' \<Longrightarrow> watchExists m' k wi = watchExists m k wi"
  by (drule stop_cache_frame) (simp add: watchExists_def)

lemma caches_ops [simp]:
  "clusterCaches (ensure_watches k m) = clusterCaches m" "clusterCaches (record_watch k wi m) = clusterCaches m"
  "clusterCaches (deleteWatchesForCluster k m) = clusterCaches m"
  "clusterCaches (deleteClusterCache k m) = (clusterCaches m)(k := None)"
  "clusterCaches (add_cache k c m) = (clusterCaches m)(k := Some (length (all_caches m)))"
  by (auto simp: tracker_ops split: option.splits)

lemma attach_ok_move:
  assumes ok: "attach_ok s k p" and i: "i < length (threads s)" and m: "move i a (threads s ! i) s = Some (x, new, s')"
    and "threads s ! i \<noteq> DropWatches k"
  shows "attach_ok (s'\<lparr>threads := (threads s)[i := x] @ new\<rparr>) k p"
proof (cases "DropWatches k \<in> set (threads s)")
  case True
  with assms(4) show ?thesis by (simp add: attach_ok_def set_update_mem)
next
  case False
  with ok have c: "clusterCaches (tracker s) k = Some p" by (simp add: attach_ok_def)
  have "clusterCaches (tracker s') k = Some p \<or> x = DropWatches k"
    using m c by (cases "threads s ! i") (auto simp: Let_def dest: stop_cache_frame split: move_splits)
  with i show ?thesis by (auto simp: attach_ok_def set_update_memI)
qed

lemma move_watch_on:
  "move i a th s = Some (x, new, s') \<Longrightarrow> x = WatchOn k wi p \<Longrightarrow> clusterCaches (tracker s') k = Some p"
  by (cases th) (auto simp: getClusterCache_def Let_def split: move_splits)

lemma move_watches:
  "move i a th s = Some (x, new, s') \<Longrightarrow> watchExists (tracker s') k wi \<Longrightarrow>
   th \<noteq> DropWatches k \<and> (watchExists (tracker s) k wi \<and> attached s' k wi = attached s k wi \<or> th = WatchOn k wi (attached s' k wi))"
  by (cases th) (auto simp: Let_def dest!: stop_cache_exists [of _ _ _ k wi] split: move_splits)

lemma move_drop_watches: "move i a (DropWatches k) s = Some (x, new, s') \<Longrightarrow> watchesLock s = None"
  by (auto split: if_splits)

lemma watch_inv_move:
  assumes lock: "lock_inv s" and inv: "watch_inv s" and i: "i < length (threads s)"
    and m: "move i a (threads s ! i) s = Some (x, new, s')"
  shows "watch_inv (s'\<lparr>threads := (threads s)[i := x] @ new\<rparr>)"
proof -
  have on: "attach_ok s k p" "threads s ! i \<noteq> DropWatches k" if w: "WatchOn k wi p \<in> set (threads s)" for k wi p
  proof -
    show "attach_ok s k p" using inv w by (auto simp: watch_inv_def)
    have "watchesLock s \<noteq> None" using lock w by (auto simp: lock_inv_def in_set_conv_nth)
    then show "threads s ! i \<noteq> DropWatches k" using move_drop_watches m by metis
  qed
  let ?t = "s'\<lparr>threads := (threads s)[i := x] @ new\<rparr>"
  have "attach_ok ?t k p" if w: "WatchOn k wi p \<in> set (threads ?t)" for k wi p
  proof -
    have "x = WatchOn k wi p \<or> WatchOn k wi p \<in> set (threads s)"
      using w move_starts [OF m] by (auto dest!: set_update_dest)
    then show ?thesis
    proof
      assume "x = WatchOn k wi p"
      with move_watch_on [OF m] show ?thesis by (simp add: attach_ok_def)
    next
      assume "WatchOn k wi p \<in> set (threads s)"
      from attach_ok_move [OF on(1) [OF this] i m on(2) [OF this]] show ?thesis .
    qed
  qed
  moreover have "attach_ok ?t k (attached ?t k wi)" if w: "watchExists (tracker ?t) k wi" for k wi
  proof -
    have "threads s ! i \<in> set (threads s)" using i by simp
    with move_watches [OF m, of k wi] w inv on
    have "attach_ok s k (attached s' k wi)" "threads s ! i \<noteq> DropWatches k" by (auto simp: watch_inv_def)
    then show ?thesis using attach_ok_move [OF _ i m] by simp
  qed
  ultimately show ?thesis unfolding watch_inv_def by blast
qed

lemma watch_append: "watch_inv s \<Longrightarrow> \<forall>k wi p. WatchOn k wi p \<notin> set ts \<Longrightarrow> watch_inv (s\<lparr>threads := threads s @ ts\<rparr>)"
  unfolding watch_inv_def attach_ok_def by simp metis

lemma watch_inv_step: "step s h t \<Longrightarrow> lock_inv s \<Longrightarrow> watch_inv s \<Longrightarrow> watch_inv t"
  by (erule step.cases) (auto intro: watch_inv_move watch_append)

interpretation tracker: always "\<lambda>s. lock_inv s \<and> heap_inv s \<and> live_inv s \<and> watch_inv s"
proof
  show "lock_inv initial \<and> heap_inv initial \<and> live_inv initial \<and> watch_inv initial"
    by (simp add: initial_def NewClusterCacheTracker_def lock_inv_def heap_inv_def live_inv_def watch_inv_def watchExists_def)
qed (use lock_inv_step heap_inv_step live_inv_step watch_inv_step in blast)

section \<open>The health check\<close>

text \<open>
  The result of polling a tracked cluster whose probes give \<open>es\<close>, from a count of \<open>n\<close>: the error that
  polling stops with, if it does.
\<close>

fun poll :: "int \<Rightarrow> int \<Rightarrow> goerror option list \<Rightarrow> goerror option" where
  "poll threshold n [] = None"
| "poll threshold n (e # es) =
     (case check_count threshold e n of
        ((_, Some err), _) \<Rightarrow> Some err
      | ((_, None), n') \<Rightarrow> poll threshold n' es)"

definition failing :: "goerror option list \<Rightarrow> nat" where
  "failing es = length (takeWhile (\<lambda>e. e \<noteq> None) es)"

definition failed_in_a_row :: "int \<Rightarrow> goerror option list \<Rightarrow> bool" where
  "failed_in_a_row k es \<longleftrightarrow> (\<exists>pre run post. es = pre @ run @ post \<and> int (length run) = k \<and> None \<notin> set run)"

lemma failing_simps [simp]: "failing [] = 0" "failing (None # es) = 0" "failing (Some e # es) = Suc (failing es)"
  by (simp_all add: failing_def)

lemma failing_run: "k \<le> int (failing es) \<Longrightarrow> 0 \<le> k \<Longrightarrow> \<exists>run post. es = run @ post \<and> int (length run) = k \<and> None \<notin> set run"
proof -
  let ?tw = "takeWhile (\<lambda>e. e \<noteq> None) es"
  assume k: "k \<le> int (failing es)" "0 \<le> k"
  then have "int (length (take (nat k) ?tw)) = k" by (simp add: failing_def)
  moreover have "None \<notin> set (take (nat k) ?tw)" by (auto dest: in_set_takeD set_takeWhileD)
  moreover have "es = take (nat k) ?tw @ drop (nat k) ?tw @ dropWhile (\<lambda>e. e \<noteq> None) es"
    by (simp only: append_assoc [symmetric] append_take_drop_id takeWhile_dropWhile_id)
  ultimately show ?thesis by blast
qed

lemma run_failing: "None \<notin> set run \<Longrightarrow> length run \<le> failing (run @ post)"
proof (induction run)
  case (Cons e run)
  then show ?case by (cases e) auto
qed simp

lemma failed_Cons:
  assumes "1 \<le> k"
  shows "failed_in_a_row k (e # es) \<longleftrightarrow> k \<le> int (failing (e # es)) \<or> failed_in_a_row k es"
proof
  assume "failed_in_a_row k (e # es)"
  then obtain pre run post where r: "e # es = pre @ run @ post" "int (length run) = k" "None \<notin> set run"
    unfolding failed_in_a_row_def by blast
  show "k \<le> int (failing (e # es)) \<or> failed_in_a_row k es"
  proof (cases pre)
    case Nil
    with r run_failing [of run post] show ?thesis by simp
  next
    case (Cons x xs)
    with r show ?thesis unfolding failed_in_a_row_def by auto
  qed
next
  assume "k \<le> int (failing (e # es)) \<or> failed_in_a_row k es"
  then show "failed_in_a_row k (e # es)"
  proof
    assume "k \<le> int (failing (e # es))"
    with failing_run [of k "e # es"] assms show ?thesis unfolding failed_in_a_row_def by (metis append_Nil zero_le_one order_trans)
  next
    assume "failed_in_a_row k es"
    then show ?thesis unfolding failed_in_a_row_def by (metis append_Cons)
  qed
qed

lemma poll_failed:
  assumes "1 \<le> k"
  shows "0 \<le> n \<Longrightarrow> n < k \<Longrightarrow> poll k n es \<noteq> None \<longleftrightarrow> k \<le> n + int (failing es) \<or> failed_in_a_row k es"
proof (induction es arbitrary: n)
  case Nil
  then show ?case using assms by (auto simp: failed_in_a_row_def)
next
  case (Cons e es)
  show ?case
  proof (cases e)
    case None
    have "k \<le> int (failing es) \<Longrightarrow> failed_in_a_row k es"
      using failing_run [of k es] assms unfolding failed_in_a_row_def by (metis append_Nil order_trans zero_le_one)
    then have "k \<le> int (failing es) \<or> failed_in_a_row k es \<longleftrightarrow> failed_in_a_row k es" by blast
    with None Cons assms show ?thesis by (simp add: check_count_def failed_Cons)
  next
    case (Some err)
    show ?thesis
    proof (cases "k \<le> n + 1")
      case True
      with Some show ?thesis by (simp add: check_count_def Let_def)
    next
      case False
      with Cons.IH [of "n + 1"] Cons.prems Some assms show ?thesis
        by (simp add: check_count_def Let_def failed_Cons) linarith
    qed
  qed
qed



section \<open>Runs\<close>

text \<open>The state after a list of happenings, if each of them can happen: a run that can be computed.\<close>

fun exec :: "happening list \<Rightarrow> system \<Rightarrow> system option" where
  "exec [] s = Some s"
| "exec (CallWatch k wi # hs) s = exec hs (s\<lparr>threads := threads s @ [WatchStart k wi]\<rparr>)"
| "exec (Gone k # hs) s = exec hs (s\<lparr>threads := threads s @ [DropGet k]\<rparr>)"
| "exec (Move i a # hs) s =
     (if i < length (threads s)
      then (case move i a (threads s ! i) s of
              None \<Rightarrow> None
            | Some (x, new, s') \<Rightarrow> exec hs (s'\<lparr>threads := (threads s)[i := x] @ new\<rparr>))
      else None)"

lemma runs_Cons: "runs t hs u \<Longrightarrow> step s h t \<Longrightarrow> runs s (h # hs) u"
proof (induction t hs u rule: runs.induct)
  case (nothing t)
  then show ?case using runs.next_step [OF runs.nothing] by fastforce
next
  case (next_step t hs u h' v)
  then show ?case using runs.next_step [of s "h # hs" u h' v] by simp
qed

lemma exec_runs: "exec hs s = Some t \<Longrightarrow> runs s hs t"
proof (induction hs s rule: exec.induct)
  case (4 i a hs s)
  then obtain x new s' where "i < length (threads s)" and m: "move i a (threads s ! i) s = Some (x, new, s')"
    and "exec hs (s'\<lparr>threads := (threads s)[i := x] @ new\<rparr>) = Some t"
    by (auto split: if_splits option.splits prod.splits)
  with 4 show ?case by (auto intro: runs_Cons [OF _ step.moves [OF _ m]])
qed (auto intro: runs.intros runs_Cons step.intros)

text \<open>
  C10: Whatever the order in which calls of \<^verbatim>\<open>Watch\<close>, health checks and reconciliations interleave, no stop
  channel is closed twice (so no thread panics), a cache is stopped if and only if its channel is
  closed, no two clusters share a cache, and at most one thread is inside the part of \<^verbatim>\<open>Watch\<close> that makes
  watches.
\<close>

theorem no_double_close:
  assumes "runs initial hs s"
  shows "Panicked \<notin> set (threads s) \<and>
    list_all (\<lambda>cc. cc_stopped cc = cc_stop_closed cc) (all_caches (tracker s)) \<and>
    inj_on (clusterCaches (tracker s)) (dom (clusterCaches (tracker s))) \<and>
    ran (clusterCaches (tracker s)) \<subseteq> {..< length (all_caches (tracker s))} \<and>
    length (filter holds_lock (threads s)) \<le> 1"
proof -
  from tracker.holds [OF assms] have l: "lock_inv s" and h: "heap_inv s" by simp_all
  have "length (filter holds_lock (threads s)) \<le> 1"
    using lock_inv_one [OF l] .
  with h show ?thesis by (auto simp: heap_inv_def list_all_iff inj_on_def ran_def)
qed

text \<open>
  C9: A watch that the tracker has recorded for a cluster was started on the cache it tracks for that
  cluster, and that cache runs, whenever no thread is on its way from stopping a cache of that cluster
  to removing its records.
\<close>

theorem watches_on_live_caches:
  assumes "runs initial hs s" and "DropCache k \<notin> set (threads s)" and "DropWatches k \<notin> set (threads s)"
    and "watchExists (tracker s) k wi"
  shows "\<exists>p. getClusterCache (tracker s) k = Some p \<and> p < length (all_caches (tracker s)) \<and>
    \<not> cc_stopped (all_caches (tracker s) ! p) \<and> attached s k wi = p"
proof -
  from tracker.holds [OF assms(1)] have heap: "heap_inv s" and live: "live_inv s" and "watch_inv s" by simp_all
  with assms(3,4) have "clusterCaches (tracker s) k = Some (attached s k wi)" by (auto simp: watch_inv_def attach_ok_def)
  with heap live assms(2) show ?thesis by (simp add: heap_inv_def live_inv_def getClusterCache_def) metis
qed

definition demo_wi :: watchInfo where
  "demo_wi = \<lparr>wi_watcher = ''mhc'', wi_kind = ''Node'', wi_eventHandler = ''h''\<rparr>"

definition demo_key :: ObjectKey where "demo_key = \<lparr>key_Namespace = ''ns'', key_Name = ''c''\<rparr>"

definition watched :: "happening list" where
  "watched = [CallWatch demo_key demo_wi, Move 0 (Answer None), Move 0 (Answer None), Move 0 (Answer None),
     Move 0 (Made ''cache0''), Move 0 (Answer None)]"

text \<open>
  A watch is made, the cluster is found healthy, then gone and dropped, and made again; the health check
  of the first cache was asleep all along.
\<close>

definition replaced :: "happening list" where
  "replaced = watched @ [Move 1 (Answer None), Gone demo_key, Move 2 (Answer None), Move 2 (Answer None),
     Move 2 (Answer None), Move 2 (Answer None), CallWatch demo_key demo_wi, Move 3 (Answer None),
     Move 3 (Answer None), Move 3 (Answer None), Move 3 (Made ''cache1''), Move 3 (Answer None),
     Move 4 (Answer None)]"

definition stale_drop :: "happening list" where
  "stale_drop = [Move 1 StopClosed, Move 1 (Answer None), Move 1 (Answer None), Move 1 (Answer None), Move 1 (Answer None)]"

theorem watches_on_live_caches_witness:
  "getClusterCache (tracker (the (exec watched initial))) demo_key = Some 0 \<and> 
   attached (the (exec watched initial)) demo_key demo_wi = 0"
  using watches_on_live_caches [OF exec_runs [of watched initial "the (exec watched initial)"], of demo_key demo_wi]
  by (simp add: watched_def initial_def NewClusterCacheTracker_def tracker_ops Let_def)

theorem no_double_close_witness:
  "Panicked \<notin> set (threads (the (exec watched initial))) \<and> length (threads (the (exec watched initial))) = 2"
  using no_double_close [OF exec_runs [of watched initial "the (exec watched initial)"]]
  by (simp add: watched_def initial_def NewClusterCacheTracker_def tracker_ops Let_def)

fun no_probe_failed :: "happening \<Rightarrow> bool" where
  "no_probe_failed (Move _ (Answer e)) = (e = None)"
| "no_probe_failed _ = True"

text \<open>
  C40: A cluster whose probes all succeed can lose its running cache. When the cache of a cluster was
  stopped and replaced, the health check of the replaced cache ends with a timeout because its channel is
  closed, takes that for an unhealthy cluster, looks the cluster up again and drops the new cache and its
  watches.
\<close>

theorem stale_health_check:
  "\<exists>s t. runs initial replaced s \<and> runs s stale_drop t \<and> list_all no_probe_failed (replaced @ stale_drop) \<and>
     getClusterCache (tracker s) demo_key = Some 1 \<and> \<not> cc_stopped (all_caches (tracker s) ! 1) \<and>
     watchExists (tracker s) demo_key demo_wi \<and> list_all (\<lambda>h. \<forall>k. h \<noteq> Gone k) stale_drop \<and>
     getClusterCache (tracker t) demo_key = None \<and> cc_stopped (all_caches (tracker t) ! 1) \<and>
     \<not> watchExists (tracker t) demo_key demo_wi"
proof -
  let ?s = "the (exec replaced initial)" and ?t = "the (exec stale_drop (the (exec replaced initial)))"
  note run = replaced_def watched_def stale_drop_def initial_def NewClusterCacheTracker_def tracker_ops Let_def
    check_count_def healthCheckUnhealthyThreshold_def
  have "runs initial replaced ?s" by (rule exec_runs) (simp add: run)
  moreover have "runs ?s stale_drop ?t" by (rule exec_runs) (simp add: run)
  moreover have "list_all no_probe_failed (replaced @ stale_drop)" "list_all (\<lambda>h. \<forall>k. h \<noteq> Gone k) stale_drop"
    by (simp_all add: run)
  moreover have "getClusterCache (tracker ?s) demo_key = Some 1" "\<not> cc_stopped (all_caches (tracker ?s) ! 1)"
     "watchExists (tracker ?s) demo_key demo_wi" by (simp_all add: run)
  moreover have "getClusterCache (tracker ?t) demo_key = None" "cc_stopped (all_caches (tracker ?t) ! 1)"
     "\<not> watchExists (tracker ?t) demo_key demo_wi" by (simp_all add: run)
  ultimately show ?thesis by blast
qed

section \<open>Progress\<close>

text \<open>The steps a thread has left; a health check has no bound until it ends polling.\<close>

fun rank :: "thread \<Rightarrow> nat" where
  "rank (WatchStart _ _) = 5"
| "rank (WatchWaiting _ _) = 4"
| "rank (WatchGet _ _) = 3"
| "rank (WatchNew _ _) = 2"
| "rank (WatchOn _ _ _) = 1"
| "rank (Polling _ _ _) = 5"
| "rank (DropGet _) = 4"
| "rank (DropStop _ _) = 3"
| "rank (DropCache _) = 2"
| "rank (DropWatches _) = 1"
| "rank Finished = 0"
| "rank Panicked = 0"

fun is_polling :: "thread \<Rightarrow> bool" where
  "is_polling (Polling _ _ _) = True"
| "is_polling _ = False"

fun moves_of :: "nat \<Rightarrow> happening \<Rightarrow> bool" where
  "moves_of i (Move j _) = (i = j)"
| "moves_of i _ = False"

lemma move_rank:
  "move i a th s = Some (x, new, s') \<Longrightarrow> \<not> is_polling th \<Longrightarrow> rank x < rank th \<and> \<not> is_polling x"
  by (cases th) (auto simp: Let_def split: move_splits)

lemma step_rank:
  assumes "step s h t" and "i < length (threads s)" and "\<not> is_polling (threads s ! i)"
  shows "i < length (threads t) \<and> \<not> is_polling (threads t ! i) \<and>
    (if moves_of i h then 1 else 0) + rank (threads t ! i) \<le> rank (threads s ! i)"
  using assms(1)
proof cases
  case (moves j a x new s')
  with assms(2,3) move_rank [OF moves(4)] show ?thesis by (cases "i = j") (auto simp: nth_append)
qed (use assms(2,3) in \<open>auto simp: nth_append\<close>)



text \<open>The lock is held by a thread that can move.\<close>

definition held_inv :: "system \<Rightarrow> bool" where
  "held_inv s \<longleftrightarrow> (\<forall>i. watchesLock s = Some i \<longrightarrow> i < length (threads s) \<and> holds_lock (threads s ! i))"

lemma held_inv_step:
  assumes "step s h t" and "lock_inv s" and inv: "held_inv s"
  shows "held_inv t"
  using assms(1)
proof cases
  case (moves i a x new s')
  have at: "holds_lock (threads s ! i) \<longrightarrow> watchesLock s = Some i" using assms(2) moves(3) by (simp add: lock_inv_def)
  have held: "watchesLock s = Some j \<Longrightarrow> j < length (threads s) \<and> holds_lock (threads s ! j)" for j
    using inv by (simp add: held_inv_def)
  show ?thesis
    unfolding held_inv_def
  proof (intro allI impI)
    fix j
    assume "watchesLock t = Some j"
    then have j: "watchesLock s' = Some j" using moves(2) by simp
    show "j < length (threads t) \<and> holds_lock (threads t ! j)"
    proof (cases "j = i")
      case True
      with j move_lock [OF moves(4)] held [of i] have "holds_lock x" by (cases "holds_lock (threads s ! i)") (auto split: if_splits)
      with True moves(2,3) show ?thesis by (simp add: nth_append)
    next
      case False
      with j at move_lock [OF moves(4)] have "watchesLock s = Some j" by (simp split: if_splits)
      with held [of j] False moves(2) show ?thesis by (simp add: nth_append)
    qed
  qed
qed (use inv in \<open>auto simp: held_inv_def nth_append\<close>)

interpretation lock: always "\<lambda>s. lock_inv s \<and> held_inv s"
proof
  show "lock_inv initial \<and> held_inv initial" by (simp add: initial_def lock_inv_def held_inv_def)
qed (use lock_inv_step held_inv_step in blast)

lemma holder_moves: "holds_lock th \<Longrightarrow> move i (Answer None) th s \<noteq> None"
  by (cases th) (auto split: option.splits)

lemma free_moves: "watchesLock s = None \<Longrightarrow> 0 < rank th \<Longrightarrow> move i (Answer None) th s \<noteq> None"
  by (cases th) (auto simp: Let_def split: option.splits sum.splits prod.splits)

text \<open>
  C23: The tracker never deadlocks: as long as some thread has not returned, some thread can take a step
  when the calls it makes return.
\<close>

theorem no_deadlock:
  assumes "runs initial hs s" and "i < length (threads s)" and "threads s ! i \<noteq> Finished"
  shows "\<exists>j < length (threads s). move j (Answer None) (threads s ! j) s \<noteq> None"
proof (cases "watchesLock s")
  case None
  have "Panicked \<notin> set (threads s)" using tracker.holds [OF assms(1)] by (simp add: heap_inv_def)
  then have "threads s ! i \<noteq> Panicked" using assms(2) nth_mem by metis
  then have "0 < rank (threads s ! i)" using assms(3) by (cases "threads s ! i") auto
  with free_moves [OF None] assms(2) show ?thesis by blast
next
  case (Some j)
  with lock.holds [OF assms(1)] have "j < length (threads s)" "holds_lock (threads s ! j)" by (auto simp: held_inv_def)
  with holder_moves show ?thesis by blast
qed

theorem no_deadlock_witness:
  "\<exists>j < 2. move j (Answer None) (threads (the (exec watched initial)) ! j) (the (exec watched initial)) \<noteq> None"
  using no_deadlock [OF exec_runs [of watched initial "the (exec watched initial)"], of 1]
  by (simp add: watched_def initial_def NewClusterCacheTracker_def tracker_ops Let_def numeral_2_eq_2)

section \<open>The methods and the steps\<close>

text \<open>What a call that runs alone makes of the tracker.\<close>

lemma newClusterCache_outcome:
  assumes "run_state (newClusterCache X k opts m) z = ((r, m'), z')"
  shows "(case clusterCaches m k of
     Some p \<Rightarrow> r = Inr p \<and> m' = m
   | None \<Rightarrow> (\<exists>err. r = Inl err \<and> m' = m) \<or> (\<exists>c. r = Inr (length (all_caches m)) \<and> m' = add_cache k c m))"
  using assms unfolding newClusterCache_def
  by (auto simp: run_simps Let_def split: option.splits sum.splits prod.splits)

lemma getOrCreate_outcome:
  assumes "run_state (getOrCreateClusterCache X k opts m) z = ((r, m'), z')"
  shows "(case clusterCaches m k of
     Some p \<Rightarrow> r = Inr p \<and> m' = m
   | None \<Rightarrow> (\<exists>err. r = Inl err \<and> m' = m) \<or> (\<exists>c. r = Inr (length (all_caches m)) \<and> m' = add_cache k c m))"
  using assms newClusterCache_outcome [of X k opts m z r m' z']
  by (auto simp: getOrCreateClusterCache_def getClusterCache_def split: option.splits)

lemma Watch_outcome:
  assumes "run_state (Watch X input m) z = ((r, m'), z')"
  defines "k \<equiv> win_Cluster input" and "wi \<equiv> watch_info input"
  shows "if watchExists m k wi then m' = m
    else (\<exists>m1. m' \<in> {m1, record_watch k wi m1} \<and>
      (m1 = ensure_watches k m \<and> clusterCaches m k \<noteq> None \<or>
       (\<exists>c. m1 = add_cache k c (ensure_watches k m)) \<and> clusterCaches m k = None)) \<or>
      m' = ensure_watches k m \<and> clusterCaches m k = None"
proof (cases "watchExists m k wi")
  case True
  with assms show ?thesis by (simp add: Watch_def Let_def)
next
  case False
  obtain q m1 z1 where g: "run_state (getOrCreateClusterCache X k (win_CacheOptions input) (ensure_watches k m)) z = ((q, m1), z1)"
    by (metis prod.exhaust)
  with False assms have "m' = m1 \<or> m' = record_watch k wi m1 \<and> (\<exists>p. q = Inr p)"
    by (auto simp: Watch_def Let_def run_simps split: sum.splits option.splits prod.splits)
  with getOrCreate_outcome [OF g] False show ?thesis by (auto split: option.splits)
qed

definition alone :: "thread \<Rightarrow> ClusterCacheTracker \<Rightarrow> (ObjectKey \<Rightarrow> watchInfo \<Rightarrow> nat) \<Rightarrow> system" where
  "alone th m g = \<lparr>tracker = m, threads = [th], watchesLock = None, attached = g\<rparr>"

definition reaches :: "system \<Rightarrow> thread \<Rightarrow> ClusterCacheTracker \<Rightarrow> bool" where
  "reaches s th m \<longleftrightarrow> (\<exists>as t. runs s (map (Move 0) as) t \<and> tracker t = m \<and> threads t ! 0 = th \<and> watchesLock t = None)"

lemma reachesI:
  "exec (map (Move 0) as) s = Some t \<Longrightarrow> tracker t = m \<Longrightarrow> threads t ! 0 = th \<Longrightarrow> watchesLock t = None \<Longrightarrow> reaches s th m"
  unfolding reaches_def using exec_runs by blast

lemma watch_alone:
  "reaches (alone (WatchStart (win_Cluster input) (watch_info input)) m g) Finished
     (snd (fst (run_state (Watch X input m) z)))"
proof -
  let ?k = "win_Cluster input" and ?wi = "watch_info input" and ?n = "Answer None" and ?e = "Answer (Some (ExtError []))"
  obtain r m' z' where w: "run_state (Watch X input m) z = ((r, m'), z')" by (metis prod.exhaust)
  have "reaches (alone (WatchStart ?k ?wi) m g) Finished m'"
  proof (cases "watchExists m ?k ?wi")
    case True
    with Watch_outcome [OF w] show ?thesis by (intro reachesI [of "[?n]"]) (auto simp: alone_def)
  next
    case False
    then consider p where "clusterCaches m ?k = Some p" "m' = ensure_watches ?k m"
      | p where "clusterCaches m ?k = Some p" "m' = record_watch ?k ?wi (ensure_watches ?k m)"
      | "clusterCaches m ?k = None" "m' = ensure_watches ?k m"
      | c where "clusterCaches m ?k = None" "m' = add_cache ?k c (ensure_watches ?k m)"
      | c where "clusterCaches m ?k = None" "m' = record_watch ?k ?wi (add_cache ?k c (ensure_watches ?k m))"
      using Watch_outcome [OF w] by auto
    then show ?thesis
    proof cases
      case 1
      with False show ?thesis by (intro reachesI [of "[?n, ?n, ?n, ?e]"]) (auto simp: alone_def getClusterCache_def)
    next
      case 2
      with False show ?thesis by (intro reachesI [of "[?n, ?n, ?n, ?n]"]) (auto simp: alone_def getClusterCache_def)
    next
      case 3
      with False show ?thesis by (intro reachesI [of "[?n, ?n, ?n, ?e]"]) (auto simp: alone_def getClusterCache_def)
    next
      case (4 c)
      with False show ?thesis
        by (intro reachesI [of "[?n, ?n, ?n, Made c, ?e]"]) (auto simp: alone_def getClusterCache_def Let_def)
    next
      case (5 c)
      with False show ?thesis
        by (intro reachesI [of "[?n, ?n, ?n, Made c, ?n]"]) (auto simp: alone_def getClusterCache_def Let_def)
    qed
  qed
  with w show ?thesis by simp
qed

lemma drop_alone:
  "reaches (alone (DropGet k) m g) (if fst (drop_cluster k m) = None then Finished else Panicked) (snd (drop_cluster k m))"
proof (cases "getClusterCache m k")
  case None
  then show ?thesis by (intro reachesI [of "[Answer None]"]) (auto simp: alone_def drop_cluster_def)
next
  case (Some c)
  then show ?thesis
  proof (cases "stop_cache c m")
    case (Inl err)
    with Some show ?thesis by (intro reachesI [of "[Answer None, Answer None]"]) (auto simp: alone_def drop_cluster_def)
  next
    case (Inr m1)
    with Some show ?thesis by (intro reachesI [of "[Answer None, Answer None, Answer None, Answer None]"]) (auto simp: alone_def drop_cluster_def)
  qed
qed


end
