(* ===== verification/Manager.thy ===== *)
theory Manager
  imports Bootstrap_Controller Ccp_Controller Cluster_Cache
begin

text \<open>
  The start of the program, \<^verbatim>\<open>src/main.go\<close>, with what it calls of this repository: the two
  \<^verbatim>\<open>SetupWithManager\<close> methods, the three \<^verbatim>\<open>SetupWebhookWithManager\<close> methods and the webhooks of
  \<^verbatim>\<open>CritConfig\<close>; \<^verbatim>\<open>NewClusterCacheReconciler\<close> and the fake \<^verbatim>\<open>NewClusterClient\<close>, which no start-up
  code calls. The command line is parsed as package \<^verbatim>\<open>flag\<close> does; what \<^verbatim>\<open>strconv\<close> and
  \<^verbatim>\<open>time.ParseDuration\<close> accept, and the flags that imported packages define, are parameters. The manager of
  controller-runtime is a parameter too: its objects are handles.
\<close>

section \<open>Flags\<close>

record flags =
  metricsAddr :: string
  enableLeaderElection :: bool
  leaderElectionLeaseDuration :: duration
  leaderElectionRenewDeadline :: duration
  leaderElectionRetryPeriod :: duration
  watchNamespace :: string
  profilerAddress :: string
  critConfigConcurrency :: int
  critControlPlaneConcurrency :: int
  syncPeriod :: duration
  webhookPort :: int

definition default_flags :: flags where
  "default_flags = \<lparr>metricsAddr = '':8081'', enableLeaderElection = False,
     leaderElectionLeaseDuration = seconds 15, leaderElectionRenewDeadline = seconds 10,
     leaderElectionRetryPeriod = seconds 2, watchNamespace = [], profilerAddress = [],
     critConfigConcurrency = 10, critControlPlaneConcurrency = 10, syncPeriod = seconds (10 * 60), webhookPort = 0\<rparr>"

text \<open>
  What the standard library and other packages contribute: the value parsers, the flags that imported packages
  define (whether they are boolean and which values they take), and the exit status after the help text, which
  depends on the release of Go.
\<close>

record flaglib =
  ParseBool :: "string \<Rightarrow> bool option"
  ParseInt :: "string \<Rightarrow> int option"
  ParseDuration :: "string \<Rightarrow> duration option"
  otherFlags :: "string \<Rightarrow> (bool \<times> (string \<Rightarrow> bool)) option"
  helpStatus :: int

type_synonym setter = "string \<Rightarrow> flags \<Rightarrow> flags option"

definition own_flags :: "flaglib \<Rightarrow> (string \<times> bool \<times> setter) list" where
  "own_flags F = [
     (''metrics-addr'', False, \<lambda>v fl. Some (fl\<lparr>metricsAddr := v\<rparr>)),
     (''enable-leader-election'', True, \<lambda>v fl. map_option (\<lambda>x. fl\<lparr>enableLeaderElection := x\<rparr>) (ParseBool F v)),
     (''leader-election-lease-duration'', False, \<lambda>v fl. map_option (\<lambda>x. fl\<lparr>leaderElectionLeaseDuration := x\<rparr>) (ParseDuration F v)),
     (''leader-election-renew-deadline'', False, \<lambda>v fl. map_option (\<lambda>x. fl\<lparr>leaderElectionRenewDeadline := x\<rparr>) (ParseDuration F v)),
     (''leader-election-retry-period'', False, \<lambda>v fl. map_option (\<lambda>x. fl\<lparr>leaderElectionRetryPeriod := x\<rparr>) (ParseDuration F v)),
     (''namespace'', False, \<lambda>v fl. Some (fl\<lparr>watchNamespace := v\<rparr>)),
     (''profiler-address'', False, \<lambda>v fl. Some (fl\<lparr>profilerAddress := v\<rparr>)),
     (''critconfig-concurrency'', False, \<lambda>v fl. map_option (\<lambda>x. fl\<lparr>critConfigConcurrency := x\<rparr>) (ParseInt F v)),
     (''critcontrolplane-concurrency'', False, \<lambda>v fl. map_option (\<lambda>x. fl\<lparr>critControlPlaneConcurrency := x\<rparr>) (ParseInt F v)),
     (''sync-period'', False, \<lambda>v fl. map_option (\<lambda>x. fl\<lparr>syncPeriod := x\<rparr>) (ParseDuration F v)),
     (''webhook-port'', False, \<lambda>v fl. map_option (\<lambda>x. fl\<lparr>webhookPort := x\<rparr>) (ParseInt F v))]"

definition formal :: "flaglib \<Rightarrow> string \<Rightarrow> (bool \<times> setter) option" where
  "formal F name = (case map_of (own_flags F) name of
     Some x \<Rightarrow> Some x
   | None \<Rightarrow> map_option (\<lambda>(b, ok). (b, \<lambda>v fl. if ok v then Some fl else None)) (otherFlags F name))"

text \<open>One argument of the command line, and \<^verbatim>\<open>flag.Parse\<close>; \<open>Inl\<close> is the exit status of the process.\<close>

datatype arg = NoFlag | Terminator | BadSyntax | FlagArg string "string option"

fun split_value :: "string \<Rightarrow> string \<times> string option" where
  "split_value [] = ([], None)"
| "split_value (c # s) = (if c = CHR ''='' then ([], Some s) else apfst ((#) c) (split_value s))"

definition classify :: "string \<Rightarrow> arg" where
  "classify s = (
     if length s < 2 \<or> s ! 0 \<noteq> CHR ''-'' then NoFlag
     else if s = ''--'' then Terminator
     else let name = drop (if s ! 1 = CHR ''-'' then 2 else 1) s in
       if name = [] \<or> name ! 0 = CHR ''-'' \<or> name ! 0 = CHR ''='' then BadSyntax
       else case split_value name of (n, v) \<Rightarrow> FlagArg n v)"

fun Parse :: "flaglib \<Rightarrow> string list \<Rightarrow> flags \<Rightarrow> int + flags" where
  "Parse F [] fl = Inr fl"
| "Parse F (s # args) fl = (case classify s of
     NoFlag \<Rightarrow> Inr fl
   | Terminator \<Rightarrow> Inr fl
   | BadSyntax \<Rightarrow> Inl 2
   | FlagArg name value \<Rightarrow>
       (case formal F name of
          None \<Rightarrow> Inl (if name = ''help'' \<or> name = ''h'' then helpStatus F else 2)
        | Some (True, set_value) \<Rightarrow>
            (case set_value (case value of Some v \<Rightarrow> v | None \<Rightarrow> ''true'') fl of
               None \<Rightarrow> Inl 2
             | Some fl \<Rightarrow> Parse F args fl)
        | Some (False, set_value) \<Rightarrow>
            (case value of
               Some v \<Rightarrow> (case set_value v fl of None \<Rightarrow> Inl 2 | Some fl \<Rightarrow> Parse F args fl)
             | None \<Rightarrow>
                 (case args of
                    [] \<Rightarrow> Inl 2
                  | v # rest \<Rightarrow> (case set_value v fl of None \<Rightarrow> Inl 2 | Some fl \<Rightarrow> Parse F rest fl)))))"

section \<open>What a controller watches\<close>

datatype api_kind = KCritConfig | KCritConfigTemplate | KCritControlPlane | KMachine | KMachinePool | KCluster

datatype runtime_object = AMachine Machine | AMachinePool MachinePool | ACluster Cluster

fun as_Machine :: "runtime_object \<Rightarrow> Machine option" where
  "as_Machine (AMachine m) = Some m" | "as_Machine _ = None"

fun as_MachinePool :: "runtime_object \<Rightarrow> MachinePool option" where
  "as_MachinePool (AMachinePool m) = Some m" | "as_MachinePool _ = None"

fun as_Cluster :: "runtime_object \<Rightarrow> Cluster option" where
  "as_Cluster (ACluster c) = Some c" | "as_Cluster _ = None"

fun kind_of_object :: "runtime_object \<Rightarrow> api_kind" where
  "kind_of_object (AMachine m) = KMachine"
| "kind_of_object (AMachinePool m) = KMachinePool"
| "kind_of_object (ACluster c) = KCluster"

text \<open>The builder of controller-runtime collects what it is told; \<^verbatim>\<open>Complete\<close> and \<^verbatim>\<open>Build\<close> are the manager's.\<close>

type_synonym 'w to_requests = "runtime_object \<Rightarrow> ('w, action, ObjectKey list) io"

record 'w builder =
  bl_For :: "api_kind option"
  bl_Owns :: "api_kind list"
  bl_Watches :: "(api_kind \<times> 'w to_requests) list"
  bl_MaxConcurrentReconciles :: int

definition NewControllerManagedBy :: "'w builder" where
  "NewControllerManagedBy = \<lparr>bl_For = None, bl_Owns = [], bl_Watches = [], bl_MaxConcurrentReconciles = 0\<rparr>"

definition For :: "api_kind \<Rightarrow> 'w builder \<Rightarrow> 'w builder" where
  "For k b = b\<lparr>bl_For := Some k\<rparr>"

definition Owns :: "api_kind \<Rightarrow> 'w builder \<Rightarrow> 'w builder" where
  "Owns k b = b\<lparr>bl_Owns := bl_Owns b @ [k]\<rparr>"

definition Watches :: "api_kind \<Rightarrow> 'w to_requests \<Rightarrow> 'w builder \<Rightarrow> 'w builder" where
  "Watches k f b = b\<lparr>bl_Watches := bl_Watches b @ [(k, f)]\<rparr>"

definition WithOptions :: "int \<Rightarrow> 'w builder \<Rightarrow> 'w builder" where
  "WithOptions n b = b\<lparr>bl_MaxConcurrentReconciles := n\<rparr>"

section \<open>The manager\<close>

type_synonym handle = nat

record Options =
  op_Scheme :: handle
  op_MetricsBindAddress :: string
  op_LeaderElection :: bool
  op_LeaderElectionID :: string
  op_LeaseDuration :: duration
  op_RenewDeadline :: duration
  op_RetryPeriod :: duration
  op_Namespace :: string
  op_SyncPeriod :: duration
  op_Port :: int

text \<open>The steps of the start that can fail; the trace records with each whether it succeeded.\<close>

datatype startup_step =
    ReadConfig
  | CreateManager Options
  | ServeWebhook api_kind
  | RunController "api_kind option" "api_kind list" "api_kind list" int
  | StartManager

record 'w manager_env =
  me_flags :: flaglib
  me_scheme :: handle
  me_MachinePool :: bool
  me_GetConfig :: "'w \<Rightarrow> (goerror + handle) \<times> 'w"
  me_NewManager :: "handle \<Rightarrow> Options \<Rightarrow> 'w \<Rightarrow> (goerror + handle) \<times> 'w"
  me_GetClient :: "handle \<Rightarrow> handle"
  me_GetScheme :: "handle \<Rightarrow> handle"
  me_GetEventRecorderFor :: "handle \<Rightarrow> string \<Rightarrow> handle"
  me_Build :: "handle \<Rightarrow> 'w builder \<Rightarrow> 'w \<Rightarrow> (goerror + handle) \<times> 'w"
  me_Webhook :: "handle \<Rightarrow> api_kind \<Rightarrow> 'w \<Rightarrow> (goerror + unit) \<times> 'w"
  me_Start :: "handle \<Rightarrow> 'w \<Rightarrow> (goerror + unit) \<times> 'w"
  me_NewClusterClient :: handle

definition attempt :: "startup_step \<Rightarrow> ('w \<Rightarrow> (goerror + 'a) \<times> 'w) \<Rightarrow> ('w, startup_step \<times> bool, goerror + 'a) io" where
  "attempt e f = do {
     x \<leftarrow> extern f;
     note_event (e, \<not> isl x);
     State_Monad.return x }"

definition Build :: "'w manager_env \<Rightarrow> handle \<Rightarrow> 'w builder \<Rightarrow> ('w, startup_step \<times> bool, goerror + handle) io" where
  "Build E mgr b = attempt (RunController (bl_For b) (bl_Owns b) (map fst (bl_Watches b)) (bl_MaxConcurrentReconciles b))
     (me_Build E mgr b)"

section \<open>The controllers\<close>

record CritConfigReconciler =
  ccr_Client :: handle
  ccr_Scheme :: handle
  ccr_remoteClientGetter :: "handle option"

definition bootstrap_builder ::
  "'w bootstrapper \<Rightarrow> (ObjectReference \<Rightarrow> string \<times> string \<times> string) \<Rightarrow> bool \<Rightarrow> int \<Rightarrow> 'w builder" where
  "bootstrap_builder r gvk machinePool options = (
     let builder =
       Watches KCluster (\<lambda>x. ClusterToCritConfigs r gvk (as_Cluster x))
       (Watches KMachine (\<lambda>x. State_Monad.return (MachineToBootstrapMapFunc gvk (as_Machine x)))
       (WithOptions options
       (For KCritConfig NewControllerManagedBy)))
     in if machinePool
        then Watches KMachinePool (\<lambda>x. State_Monad.return (MachinePoolToBootstrapMapFunc gvk (as_MachinePool x))) builder
        else builder)"

definition bootstrap_SetupWithManager ::
  "'w manager_env \<Rightarrow> 'w bootstrapper \<Rightarrow> (ObjectReference \<Rightarrow> string \<times> string \<times> string) \<Rightarrow> handle \<Rightarrow> int \<Rightarrow>
   CritConfigReconciler \<Rightarrow> ('w, startup_step \<times> bool, goerror option \<times> CritConfigReconciler) io" where
  "bootstrap_SetupWithManager E B gvk mgr options r = do {
     let r = (if ccr_remoteClientGetter r = None
              then r\<lparr>ccr_remoteClientGetter := Some (me_NewClusterClient E)\<rparr> else r);
     let r = r\<lparr>ccr_Scheme := me_GetScheme E mgr\<rparr>;
     c \<leftarrow> Build E mgr (bootstrap_builder B gvk (me_MachinePool E) options);
     State_Monad.return (case c of
       Inl err \<Rightarrow> (Some (WrapError ''failed setting up with a controller manager'' err), r)
     | Inr _ \<Rightarrow> (None, r)) }"

record CritControlPlaneReconciler =
  cpr_Client :: handle
  cpr_Scheme :: handle
  cpr_controller :: "handle option"
  cpr_recorder :: "handle option"
  cpr_remoteClientGetter :: "handle option"
  cpr_managementCluster :: "handle option"  \<comment> \<open>the client of the \<^verbatim>\<open>internal.Management\<close>\<close>

definition controlplane_builder :: "int \<Rightarrow> 'w builder" where
  "controlplane_builder options =
     WithOptions options
     (Watches KCluster (\<lambda>x. State_Monad.return (ClusterToCritControlPlane (as_Cluster x)))
     (Owns KMachine
     (For KCritControlPlane NewControllerManagedBy)))"

definition controlplane_SetupWithManager ::
  "'w manager_env \<Rightarrow> handle \<Rightarrow> int \<Rightarrow> CritControlPlaneReconciler \<Rightarrow>
   ('w, startup_step \<times> bool, goerror option \<times> CritControlPlaneReconciler) io" where
  "controlplane_SetupWithManager E mgr options r = do {
     c \<leftarrow> Build E mgr (controlplane_builder options);
     State_Monad.return (case c of
       Inl err \<Rightarrow> (Some (WrapError ''failed setting up with a controller manager'' err), r)
     | Inr c \<Rightarrow>
         let r = r\<lparr>cpr_Scheme := me_GetScheme E mgr, cpr_controller := Some c,
               cpr_recorder := Some (me_GetEventRecorderFor E mgr ''crit-control-plane-controller'')\<rparr>;
             r = (if cpr_remoteClientGetter r = None
                  then r\<lparr>cpr_remoteClientGetter := Some (me_NewClusterClient E)\<rparr> else r);
             r = (if cpr_managementCluster r = None
                  then r\<lparr>cpr_managementCluster := Some (cpr_Client r)\<rparr> else r)
         in (None, r)) }"

text \<open>The reconciler of the cluster caches; the main program does not make one.\<close>

record ClusterCacheReconciler =
  ctr_client :: handle
  ctr_tracker :: handle

definition NewClusterCacheReconciler ::
  "'w manager_env \<Rightarrow> handle \<Rightarrow> int \<Rightarrow> handle \<Rightarrow> ('w, startup_step \<times> bool, goerror + ClusterCacheReconciler) io" where
  "NewClusterCacheReconciler E mgr controllerOptions cct = do {
     let r = \<lparr>ctr_client = me_GetClient E mgr, ctr_tracker = cct\<rparr>;
     c \<leftarrow> Build E mgr (WithOptions controllerOptions (For KCluster NewControllerManagedBy));
     State_Monad.return (case c of
       Inl err \<Rightarrow> Inl (WrapError ''failed to create cluster cache manager controller'' err)
     | Inr _ \<Rightarrow> Inr r) }"

definition fake_NewClusterClient :: "'c \<Rightarrow> ObjectKey \<Rightarrow> handle \<Rightarrow> goerror + 'c" where
  "fake_NewClusterClient c key scheme = Inr c"

section \<open>The webhooks\<close>

definition CritConfig_SetupWebhookWithManager :: "'w manager_env \<Rightarrow> handle \<Rightarrow> ('w, startup_step \<times> bool, goerror + unit) io" where
  "CritConfig_SetupWebhookWithManager E mgr = attempt (ServeWebhook KCritConfig) (me_Webhook E mgr KCritConfig)"

definition CritConfigTemplate_SetupWebhookWithManager :: "'w manager_env \<Rightarrow> handle \<Rightarrow> ('w, startup_step \<times> bool, goerror + unit) io" where
  "CritConfigTemplate_SetupWebhookWithManager E mgr =
     attempt (ServeWebhook KCritConfigTemplate) (me_Webhook E mgr KCritConfigTemplate)"

definition CritControlPlane_SetupWebhookWithManager :: "'w manager_env \<Rightarrow> handle \<Rightarrow> ('w, startup_step \<times> bool, goerror + unit) io" where
  "CritControlPlane_SetupWebhookWithManager E mgr =
     attempt (ServeWebhook KCritControlPlane) (me_Webhook E mgr KCritControlPlane)"

text \<open>The webhooks of \<^verbatim>\<open>CritConfig\<close> log and accept everything.\<close>

definition CritConfig_Default :: "CritConfig \<Rightarrow> CritConfig" where
  "CritConfig_Default r = r"

definition CritConfig_ValidateCreate :: "CritConfig \<Rightarrow> goerror option" where
  "CritConfig_ValidateCreate r = None"

definition CritConfig_ValidateUpdate :: "CritConfig \<Rightarrow> 'o \<Rightarrow> goerror option" where
  "CritConfig_ValidateUpdate r old = None"

definition CritConfig_ValidateDelete :: "CritConfig \<Rightarrow> goerror option" where
  "CritConfig_ValidateDelete r = None"

section \<open>The main program\<close>

datatype outcome = Exit int | Returned

definition manager_Options :: "'w manager_env \<Rightarrow> flags \<Rightarrow> Options" where
  "manager_Options E fl = \<lparr>
     op_Scheme = me_scheme E,
     op_MetricsBindAddress = metricsAddr fl,
     op_LeaderElection = enableLeaderElection fl,
     op_LeaderElectionID = ''controller-leader-election-cabpc'',
     op_LeaseDuration = leaderElectionLeaseDuration fl,
     op_RenewDeadline = leaderElectionRenewDeadline fl,
     op_RetryPeriod = leaderElectionRetryPeriod fl,
     op_Namespace = watchNamespace fl,
     op_SyncPeriod = syncPeriod fl,
     op_Port = 9443\<rparr>"

definition setup_webhooks :: "'w manager_env \<Rightarrow> handle \<Rightarrow> ('w, startup_step \<times> bool, goerror option) io" where
  "setup_webhooks E mgr = do {
     x \<leftarrow> CritConfig_SetupWebhookWithManager E mgr;
     case x of
       Inl err \<Rightarrow> State_Monad.return (Some err)
     | Inr _ \<Rightarrow> do {
         x \<leftarrow> CritControlPlane_SetupWebhookWithManager E mgr;
         State_Monad.return (case x of Inl err \<Rightarrow> Some err | Inr _ \<Rightarrow> None) } }"

definition setup_controllers ::
  "'w manager_env \<Rightarrow> 'w bootstrapper \<Rightarrow> (ObjectReference \<Rightarrow> string \<times> string \<times> string) \<Rightarrow> flags \<Rightarrow> handle \<Rightarrow>
   ('w, startup_step \<times> bool, goerror option) io" where
  "setup_controllers E B gvk fl mgr = do {
     (err, _) \<leftarrow> bootstrap_SetupWithManager E B gvk mgr (critConfigConcurrency fl)
       \<lparr>ccr_Client = me_GetClient E mgr, ccr_Scheme = me_GetScheme E mgr, ccr_remoteClientGetter = None\<rparr>;
     case err of
       Some err \<Rightarrow> State_Monad.return (Some err)
     | None \<Rightarrow> do {
         (err, _) \<leftarrow> controlplane_SetupWithManager E mgr (critControlPlaneConcurrency fl)
           \<lparr>cpr_Client = me_GetClient E mgr, cpr_Scheme = me_GetScheme E mgr, cpr_controller = None,
            cpr_recorder = None, cpr_remoteClientGetter = None, cpr_managementCluster = None\<rparr>;
         State_Monad.return err } }"

definition main ::
  "'w manager_env \<Rightarrow> 'w bootstrapper \<Rightarrow> (ObjectReference \<Rightarrow> string \<times> string \<times> string) \<Rightarrow> string list \<Rightarrow>
   ('w, startup_step \<times> bool, outcome) io" where
  "main E B gvk args = (case Parse (me_flags E) args default_flags of
     Inl status \<Rightarrow> State_Monad.return (Exit status)
   | Inr fl \<Rightarrow> do {
       cfg \<leftarrow> attempt ReadConfig (me_GetConfig E);
       case cfg of
         Inl _ \<Rightarrow> State_Monad.return (Exit 1)
       | Inr cfg \<Rightarrow> do {
           let options = manager_Options E fl;
           mgr \<leftarrow> attempt (CreateManager options) (me_NewManager E cfg options);
           case mgr of
             Inl err \<Rightarrow> State_Monad.return (Exit 1)
           | Inr mgr \<Rightarrow> do {
               err \<leftarrow> (if webhookPort fl \<noteq> 0 then setup_webhooks E mgr else setup_controllers E B gvk fl mgr);
               case err of
                 Some err \<Rightarrow> State_Monad.return (Exit 1)
               | None \<Rightarrow> do {
                   x \<leftarrow> attempt StartManager (me_Start E mgr);
                   State_Monad.return (case x of Inl err \<Rightarrow> Exit 1 | Inr _ \<Rightarrow> Returned) } } } })"

text \<open>\<^verbatim>\<open>newClientFunc\<close>, which is not enabled.\<close>

record DelegatingClient =
  dc_Reader :: handle
  dc_Writer :: handle
  dc_StatusClient :: handle

definition newClientFunc ::
  "(handle \<Rightarrow> handle \<Rightarrow> goerror + handle) \<Rightarrow> handle \<Rightarrow> handle \<Rightarrow> handle \<Rightarrow> goerror + DelegatingClient" where
  "newClientFunc client_New cache config options = (case client_New config options of
     Inl err \<Rightarrow> Inl err
   | Inr c \<Rightarrow> Inr \<lparr>dc_Reader = cache, dc_Writer = c, dc_StatusClient = c\<rparr>)"

section \<open>The command line\<close>

lemma split_value_pair: "CHR ''='' \<notin> set n \<Longrightarrow> split_value (n @ CHR ''='' # v) = (n, Some v)"
  by (induction n) auto

lemma classify_pair:
  assumes "n \<noteq> []" and "n ! 0 \<noteq> CHR ''-''" and "CHR ''='' \<notin> set n"
  shows "classify (''--'' @ n @ CHR ''='' # v) = FlagArg n (Some v)"
proof -
  have "n ! 0 \<noteq> CHR ''=''" using assms(1,3) by (metis length_greater_0_conv nth_mem)
  with assms(1,2) show ?thesis
    by (simp add: classify_def split_value_pair [OF assms(3)] nth_append)
qed

lemma own_flag_names:
  "map_of (own_flags F) n = Some x \<Longrightarrow> n \<noteq> [] \<and> n ! 0 \<noteq> CHR ''-'' \<and> CHR ''='' \<notin> set n"
  by (drule map_of_SomeD) (auto simp: own_flags_def)

text \<open>Flags of the program, given as \<^verbatim>\<open>--name=value\<close> with values they take, are set and parsing goes on.\<close>

definition given :: "string \<times> string \<Rightarrow> string" where
  "given nv = (case nv of (n, v) \<Rightarrow> ''--'' @ n @ CHR ''='' # v)"

fun set_flags :: "flaglib \<Rightarrow> (string \<times> string) list \<Rightarrow> flags \<Rightarrow> flags option" where
  "set_flags F [] fl = Some fl"
| "set_flags F ((n, v) # nvs) fl = (case map_of (own_flags F) n of
     None \<Rightarrow> None
   | Some (b, f) \<Rightarrow> Option.bind (f v fl) (set_flags F nvs))"

lemma Parse_given:
  assumes "map_of (own_flags F) n = Some (b, f)" and "f v fl = Some fl'"
  shows "Parse F (given (n, v) # args) fl = Parse F args fl'"
  using assms own_flag_names [OF assms(1)]
  by (cases b) (simp_all add: given_def classify_pair formal_def del: append.simps)

lemma Parse_all_given:
  "set_flags F nvs fl = Some fl' \<Longrightarrow> Parse F (map given nvs @ args) fl = Parse F args fl'"
  by (induction F nvs fl rule: set_flags.induct)
    (auto simp: Parse_given bind_eq_Some_conv simp del: Parse.simps split: option.splits)

record printers =
  FormatBool :: "bool \<Rightarrow> string"
  FormatInt :: "int \<Rightarrow> string"
  FormatDuration :: "duration \<Rightarrow> string"

definition parses :: "flaglib \<Rightarrow> printers \<Rightarrow> flags \<Rightarrow> bool" where
  "parses F P fl \<longleftrightarrow>
     ParseBool F (FormatBool P (enableLeaderElection fl)) = Some (enableLeaderElection fl) \<and>
     list_all (\<lambda>n. ParseInt F (FormatInt P n) = Some n) [critConfigConcurrency fl, critControlPlaneConcurrency fl, webhookPort fl] \<and>
     list_all (\<lambda>d. ParseDuration F (FormatDuration P d) = Some d)
       [leaderElectionLeaseDuration fl, leaderElectionRenewDeadline fl, leaderElectionRetryPeriod fl, syncPeriod fl]"

definition command_line :: "printers \<Rightarrow> flags \<Rightarrow> string list" where
  "command_line P fl = map given [
     (''metrics-addr'', metricsAddr fl),
     (''enable-leader-election'', FormatBool P (enableLeaderElection fl)),
     (''leader-election-lease-duration'', FormatDuration P (leaderElectionLeaseDuration fl)),
     (''leader-election-renew-deadline'', FormatDuration P (leaderElectionRenewDeadline fl)),
     (''leader-election-retry-period'', FormatDuration P (leaderElectionRetryPeriod fl)),
     (''namespace'', watchNamespace fl),
     (''profiler-address'', profilerAddress fl),
     (''critconfig-concurrency'', FormatInt P (critConfigConcurrency fl)),
     (''critcontrolplane-concurrency'', FormatInt P (critControlPlaneConcurrency fl)),
     (''sync-period'', FormatDuration P (syncPeriod fl)),
     (''webhook-port'', FormatInt P (webhookPort fl))]"

text \<open>
  C34: the command line reaches the program. Written out as \<^verbatim>\<open>--name=value\<close> arguments, the values of all eleven
  flags are read back, whatever the values before; further arguments are parsed from there, so that a flag given
  again later wins; and an argument that is no flag, or the end of the line, ends the parsing with these values.
  The hypothesis is that the values are printed in a form that their parsers read.
\<close>

theorem flags_roundtrip:
  assumes "parses F P fl" and "classify a = NoFlag"
  shows "Parse F (command_line P fl @ args) fl0 = Parse F args fl \<and>
    Parse F (command_line P fl) fl0 = Inr fl \<and>
    Parse F (command_line P fl @ a # args) fl0 = Inr fl"
proof -
  have *: "Parse F (command_line P fl @ args) fl0 = Parse F args fl" for args
    unfolding command_line_def
    by (rule Parse_all_given) (use assms(1) in \<open>simp add: own_flags_def parses_def\<close>)
  from * [of "[]"] show ?thesis using assms(2) by (simp add: *)
qed

definition sample_flaglib :: flaglib where
  "sample_flaglib = \<lparr>ParseBool = map_of [(''true'', True), (''false'', False)],
     ParseInt = map_of [(''10'', 10), (''9443'', 9443)],
     ParseDuration = map_of [(''15s'', seconds 15), (''10s'', seconds 10), (''2s'', seconds 2), (''10m'', seconds 600)],
     otherFlags = map_of [(''kubeconfig'', (False, \<lambda>_. True))], helpStatus = 2\<rparr>"

definition sample_printers :: printers where
  "sample_printers = \<lparr>FormatBool = (\<lambda>b. if b then ''true'' else ''false''),
     FormatInt = (\<lambda>n. if n = 10 then ''10'' else ''9443''),
     FormatDuration = (\<lambda>d. if d = seconds 15 then ''15s'' else if d = seconds 10 then ''10s'' else if d = seconds 2 then ''2s'' else ''10m'')\<rparr>"

definition sample_flags :: flags where
  "sample_flags = default_flags\<lparr>webhookPort := 9443\<rparr>"

lemma sample_flags_parse: "parses sample_flaglib sample_printers sample_flags"
  by (simp add: parses_def sample_flaglib_def sample_printers_def sample_flags_def default_flags_def seconds_def)

theorem flags_roundtrip_witness:
  "Parse sample_flaglib (command_line sample_printers sample_flags @ [''x'']) default_flags = Inr sample_flags \<and>
   Parse sample_flaglib (command_line sample_printers sample_flags) default_flags = Inr sample_flags"
  using flags_roundtrip [OF sample_flags_parse, of "''x''"] by (simp add: classify_def)

section \<open>The start\<close>

text \<open>
  \<open>attempts plan es ok\<close>: the steps of \<open>plan\<close> were tried in order, the first that failed ended the run,
  and \<open>ok\<close> says that none failed.
\<close>

fun attempts :: "'e list \<Rightarrow> ('e \<times> bool) list \<Rightarrow> bool \<Rightarrow> bool" where
  "attempts [] es ok \<longleftrightarrow> es = [] \<and> ok"
| "attempts (p # ps) [] ok \<longleftrightarrow> False"
| "attempts (p # ps) ((e, b) # es) ok \<longleftrightarrow> e = p \<and> (if b then attempts ps es ok else es = [] \<and> \<not> ok)"

definition follows :: "'e list \<Rightarrow> ('a \<Rightarrow> bool) \<Rightarrow> ('w, 'e \<times> bool, 'a) io \<Rightarrow> bool" where
  "follows plan good m \<longleftrightarrow> (\<forall>s. \<exists>es. trace (snd (run_state m s)) = trace s @ es \<and>
     attempts plan es (good (fst (run_state m s))))"

lemma attempts_append:
  "attempts ps es True \<Longrightarrow> attempts qs es' ok \<Longrightarrow> attempts (ps @ qs) (es @ es') ok"
  by (induction ps es True rule: attempts.induct) (auto split: if_splits)

lemma attempts_fail: "attempts ps es False \<Longrightarrow> attempts (ps @ qs) es False"
  by (induction ps es False rule: attempts.induct) (auto split: if_splits)

lemma follows_attempt: "follows [e] (\<lambda>x. \<not> isl x) (attempt e f)"
  by (simp add: follows_def attempt_def run_simps split: prod.split)

lemma follows_return: "good x \<Longrightarrow> follows [] good (State_Monad.return x)"
  by (simp add: follows_def)

text \<open>A step that failed leads to a result that says so, without further steps.\<close>

lemma follows_bind:
  assumes "follows ps good m" and "\<And>x. good x \<Longrightarrow> follows qs good' (f x)"
    and "\<And>x. \<not> good x \<Longrightarrow> \<exists>y. f x = State_Monad.return y \<and> \<not> good' y"
  shows "follows (ps @ qs) good' (State_Monad.bind m f)"
  unfolding follows_def
proof
  fix s
  obtain x s' where m: "run_state m s = (x, s')" by fastforce
  then obtain es where es: "trace s' = trace s @ es" "attempts ps es (good x)"
    using assms(1) unfolding follows_def by (metis fst_conv snd_conv)
  show "\<exists>es. trace (snd (run_state (State_Monad.bind m f) s)) = trace s @ es \<and>
    attempts (ps @ qs) es (good' (fst (run_state (State_Monad.bind m f) s)))"
  proof (cases "good x")
    case True
    then obtain es' where "trace (snd (run_state (f x) s')) = trace s' @ es'"
      "attempts qs es' (good' (fst (run_state (f x) s')))"
      using assms(2) unfolding follows_def by blast
    with es True m show ?thesis by (intro exI [of _ "es @ es'"]) (simp add: attempts_append)
  next
    case False
    then obtain y where "f x = State_Monad.return y" "\<not> good' y" using assms(3) by blast
    with es False m show ?thesis by (intro exI [of _ es]) (simp add: attempts_fail)
  qed
qed

lemma follows_map:
  assumes "follows ps good m" and "\<And>x. good' (f x) \<longleftrightarrow> good x"
  shows "follows ps good' (State_Monad.bind m (\<lambda>x. State_Monad.return (f x)))"
proof -
  have "follows (ps @ []) good' (State_Monad.bind m (\<lambda>x. State_Monad.return (f x)))"
    by (rule follows_bind [OF assms(1)]) (auto simp: assms(2) intro: follows_return)
  then show ?thesis by simp
qed

lemma follows_bind_sum:
  assumes "follows ps (\<lambda>x. \<not> isl x) m" and "\<And>x. follows qs good (g x)"
    and "\<And>e. \<exists>y. h e = State_Monad.return y \<and> \<not> good y"
  shows "follows (ps @ qs) good (State_Monad.bind m (\<lambda>x. case x of Inl e \<Rightarrow> h e | Inr x \<Rightarrow> g x))"
  by (rule follows_bind [OF assms(1)]) (use assms(2,3) in \<open>auto split: sum.split\<close>)

definition webhook_plan :: "startup_step list" where
  "webhook_plan = [ServeWebhook KCritConfig, ServeWebhook KCritControlPlane]"

definition controller_plan :: "bool \<Rightarrow> flags \<Rightarrow> startup_step list" where
  "controller_plan machinePool fl = [
     RunController (Some KCritConfig) [] ([KMachine, KCluster] @ (if machinePool then [KMachinePool] else []))
       (critConfigConcurrency fl),
     RunController (Some KCritControlPlane) [KMachine] [KCluster] (critControlPlaneConcurrency fl)]"

definition startup_plan :: "'w manager_env \<Rightarrow> flags \<Rightarrow> startup_step list" where
  "startup_plan E fl = [ReadConfig, CreateManager (manager_Options E fl)] @
     (if webhookPort fl \<noteq> 0 then webhook_plan else controller_plan (me_MachinePool E) fl) @ [StartManager]"

lemmas builder_defs = NewControllerManagedBy_def For_def Owns_def Watches_def WithOptions_def

lemma bootstrap_setup_follows:
  "follows [RunController (Some KCritConfig) [] ([KMachine, KCluster] @ (if me_MachinePool E then [KMachinePool] else [])) n]
     (\<lambda>x. fst x = None) (bootstrap_SetupWithManager E B gvk mgr n r)"
proof -
  have "follows [RunController (Some KCritConfig) [] ([KMachine, KCluster] @ (if me_MachinePool E then [KMachinePool] else [])) n]
    (\<lambda>x. \<not> isl x) (Build E mgr (bootstrap_builder B gvk (me_MachinePool E) n))"
    unfolding Build_def
    by (simp add: bootstrap_builder_def builder_defs follows_attempt)
  then show ?thesis
    unfolding bootstrap_SetupWithManager_def Let_def by (rule follows_map) (simp split: sum.split)
qed

lemma controlplane_setup_follows:
  "follows [RunController (Some KCritControlPlane) [KMachine] [KCluster] n]
     (\<lambda>x. fst x = None) (controlplane_SetupWithManager E mgr n r)"
proof -
  have "follows [RunController (Some KCritControlPlane) [KMachine] [KCluster] n]
    (\<lambda>x. \<not> isl x) (Build E mgr (controlplane_builder n))"
    unfolding Build_def
    by (simp add: controlplane_builder_def builder_defs follows_attempt)
  then show ?thesis
    unfolding controlplane_SetupWithManager_def by (rule follows_map) (simp add: Let_def split: sum.split)
qed

lemma setup_webhooks_follows: "follows webhook_plan (\<lambda>e. e = None) (setup_webhooks E mgr)"
proof -
  have "follows ([ServeWebhook KCritConfig] @ [ServeWebhook KCritControlPlane]) (\<lambda>e. e = None) (setup_webhooks E mgr)"
    unfolding setup_webhooks_def CritConfig_SetupWebhookWithManager_def CritControlPlane_SetupWebhookWithManager_def
    by (rule follows_bind_sum [OF follows_attempt follows_map [OF follows_attempt]]) (auto split: sum.split)
  then show ?thesis by (simp add: webhook_plan_def)
qed

lemma setup_controllers_follows:
  "follows (controller_plan (me_MachinePool E) fl) (\<lambda>e. e = None) (setup_controllers E B gvk fl mgr)"
proof -
  let ?p = "[RunController (Some KCritConfig) [] ([KMachine, KCluster] @ (if me_MachinePool E then [KMachinePool] else []))
    (critConfigConcurrency fl)] @ [RunController (Some KCritControlPlane) [KMachine] [KCluster] (critControlPlaneConcurrency fl)]"
  have "follows ?p (\<lambda>e. e = None) (setup_controllers E B gvk fl mgr)"
    unfolding setup_controllers_def
    by (rule follows_bind [OF bootstrap_setup_follows])
      (auto simp: case_prod_unfold split: option.split intro!: follows_map [OF controlplane_setup_follows])
  then show ?thesis by (simp add: controller_plan_def)
qed

lemma main_follows:
  assumes "Parse (me_flags E) args default_flags = Inr fl"
  shows "follows (startup_plan E fl) (\<lambda>x. x = Returned) (main E B gvk args)"
proof -
  let ?sets_up = "if webhookPort fl \<noteq> 0 then webhook_plan else controller_plan (me_MachinePool E) fl"
  have sets_up: "follows ?sets_up (\<lambda>e. e = None)
    (if webhookPort fl \<noteq> 0 then setup_webhooks E mgr else setup_controllers E B gvk fl mgr)" for mgr
    by (simp add: setup_webhooks_follows setup_controllers_follows)
  have start: "follows [StartManager] (\<lambda>x. x = Returned) (State_Monad.bind (attempt StartManager (me_Start E mgr))
      (\<lambda>x. State_Monad.return (case x of Inl err \<Rightarrow> Exit 1 | Inr _ \<Rightarrow> Returned)))" for mgr
    by (rule follows_map [OF follows_attempt]) (simp split: sum.split)
  have "follows ([ReadConfig] @ [CreateManager (manager_Options E fl)] @ ?sets_up @ [StartManager]) (\<lambda>x. x = Returned)
    (main E B gvk args)"
    unfolding main_def assms sum.case Let_def
    by (intro follows_bind_sum follows_attempt follows_bind [OF sets_up]) (auto simp: start split: option.split)
  then show ?thesis by (simp add: startup_plan_def)
qed

lemma main_result:
  "Parse (me_flags E) args default_flags = Inr fl \<Longrightarrow> fst (run_state (main E B gvk args) s) \<in> {Returned, Exit 1}"
  by (simp add: main_def run_simps attempt_def Let_def split: sum.split prod.split option.split)

text \<open>
  C25: the start of the program. With a command line that does not parse nothing is done. Otherwise the steps are those
  of the plan, in its order: read the configuration, make the manager, set up the two webhooks when the webhook port
  is not 0 and the two controllers when it is, with the watches and the concurrency of each, and start the manager.
  The first step that fails is the last one, and then the exit status is 1; the program returns only after all of them.
\<close>

theorem main_startup:
  "\<exists>es. trace (snd (run_state (main E B gvk args) s)) = trace s @ es \<and>
     (case Parse (me_flags E) args default_flags of
        Inl status \<Rightarrow> es = [] \<and> fst (run_state (main E B gvk args) s) = Exit status
      | Inr fl \<Rightarrow> attempts (startup_plan E fl) es (fst (run_state (main E B gvk args) s) = Returned) \<and>
          fst (run_state (main E B gvk args) s) \<in> {Returned, Exit 1})"
proof (cases "Parse (me_flags E) args default_flags")
  case (Inl status)
  then show ?thesis by (intro exI [of _ "[]"]) (simp add: main_def)
next
  case (Inr fl)
  then obtain es where "trace (snd (run_state (main E B gvk args) s)) = trace s @ es"
    "attempts (startup_plan E fl) es (fst (run_state (main E B gvk args) s) = Returned)"
    using main_follows unfolding follows_def by blast
  with main_result [OF Inr] Inr show ?thesis by (intro exI [of _ es]) simp
qed

text \<open>
  Two flags do nothing: no step depends on the address of the profiler, and a webhook port other than 0 only selects
  the webhooks, which are served on port 9443.
\<close>

lemma profiler_address_unused: "startup_plan E (fl\<lparr>profilerAddress := a\<rparr>) = startup_plan E fl"
  by (simp add: startup_plan_def manager_Options_def controller_plan_def)

lemma webhook_port_ignored:
  "n \<noteq> 0 \<Longrightarrow> k \<noteq> 0 \<Longrightarrow> startup_plan E (fl\<lparr>webhookPort := n\<rparr>) = startup_plan E (fl\<lparr>webhookPort := k\<rparr>)"
  by (simp add: startup_plan_def manager_Options_def)

text \<open>
  An event runs the handlers that watch the kind of its object. Each handler gets an object of the type it asserts.
\<close>

definition handled :: "'w builder \<Rightarrow> runtime_object \<Rightarrow> ('w, action, ObjectKey list) io list" where
  "handled b x = map (\<lambda>(k, f). f x) (filter (\<lambda>(k, f). k = kind_of_object x) (bl_Watches b))"

lemma handled_events:
  "handled (bootstrap_builder B gvk p n) (AMachine m) = [State_Monad.return (MachineToBootstrapMapFunc gvk (Some m))]"
  "handled (bootstrap_builder B gvk p n) (ACluster c) = [ClusterToCritConfigs B gvk (Some c)]"
  "handled (bootstrap_builder B gvk p n) (AMachinePool mp) =
     (if p then [State_Monad.return (MachinePoolToBootstrapMapFunc gvk (Some mp))] else [])"
  "handled (controlplane_builder n) (ACluster c) = [State_Monad.return (ClusterToCritControlPlane (Some c))]"
  by (simp_all add: handled_def bootstrap_builder_def controlplane_builder_def builder_defs Let_def)

end
