(* ===== verification/Spec2Isabelle.thy ===== *)
theory Spec2Isabelle
  imports Ccp_Lifecycle Secrets_Kept Scheme_Setup Deep_Copy_v1alpha1 Cluster_Cache Manager
begin

text \<open>
  A model of the Cluster API provider for crit, with the theorems that make it correct.

  \<^bold>\<open>The program.\<close> Two controllers run against a management cluster. The control plane controller
  (\<^verbatim>\<open>src/controllers/controlplane/\<close>) keeps the wanted number of control plane machines of a cluster: it
  creates a machine from an infrastructure template and a \<^verbatim>\<open>CritConfig\<close>, replaces out-of-date machines
  one at a time behind a health check of the workload cluster, deletes them with the control plane and
  reports the status. The bootstrap controller (\<^verbatim>\<open>src/controllers/bootstrap/\<close>) turns each \<^verbatim>\<open>CritConfig\<close>
  into the cloud-config of its node: it completes the node configuration, looks up or generates the
  certificates, makes a join token for workers, renders the document and stores it in a secret that the
  machine names. Both rest on \<^verbatim>\<open>src/internal/\<close> and on the API types of \<^verbatim>\<open>src/apis/\<close>, whose older version
  is converted to and from the stored one. The cache tracker of \<^verbatim>\<open>src/internal/remote/\<close> keeps one client
  cache per workload cluster and drops those of clusters that are unhealthy or gone. \<^verbatim>\<open>src/main.go\<close> reads
  the command line and starts either the two controllers or the webhooks.

  \<^bold>\<open>How code corresponds to definitions.\<close> Structs are records with prefixed fields, pointers that may be
  nil are options, maps are association lists with distinct keys (\<open>gomap\<close>) or partial functions, 32-bit
  counters are words, Go's \<^verbatim>\<open>int\<close> is \<open>int\<close>. Errors are values of \<open>goerror\<close>; a panic is the error \<open>Panic\<close>,
  on which no later code of the function runs but deferred code does. An operation with effects is a
  \<open>State_Monad\<close> program on the world, about which nothing is known, and the record of the calls made so far
  (\<open>action\<close> in \<open>Cluster_Client\<close>); each call to the API servers goes through \<open>call\<close>, which may change the
  world in any way. Definitions have the names of the functions they translate; parts of a function that
  loops, and bodies that the proofs name, have names of their own.

  \<^bold>\<open>Theories.\<close>
  \<^item> \<open>Crit_Prelude\<close>: errors, durations, Go maps (locale \<open>dict\<close>), sorting by a weak order (locale
    \<open>weak_order\<close>), strings and paths, the effect monad with \<open>emits\<close>, \<open>at_most\<close> and \<open>yields\<close>, the
    proof rules about which calls a program makes.
  \<^item> \<open>Api_Types\<close>: objects of Kubernetes and Cluster API as far as the code reads them, the API types of
    version v1alpha2, the configuration hash (FNV-32a of the printed specification), and \<open>lib\<close>, the
    functions of other packages with what the code relies on. \<open>Samples\<close>: concrete instances.
  \<^item> \<open>Machine_Filters\<close>, \<open>Machine_Collection\<close>, \<open>Failure_Domain\<close>: \<^verbatim>\<open>machine_filters.go\<close>,
    \<^verbatim>\<open>machine_collection.go\<close>, \<^verbatim>\<open>failure_domain.go\<close>. The locales \<open>machine_filter\<close> and \<open>machine_coll\<close> state
    what a filter and a collection promise; the picks are compared with counts over the machines.
  \<^item> \<open>Cluster_Client\<close>, \<open>Control_Plane\<close>, \<open>Workload_Cluster\<close>: the calls to the clusters, \<^verbatim>\<open>control_plane.go\<close>
    with \<^verbatim>\<open>cluster_labels.go\<close>, and \<^verbatim>\<open>cluster.go\<close>, \<^verbatim>\<open>workload_cluster.go\<close>, \<^verbatim>\<open>remote/cluster.go\<close>: ownership,
    the machine to remove, the health check and its correspondence of machines and nodes.
  \<^item> \<open>Certificates\<close>: \<^verbatim>\<open>src/internal/secret/\<close>, over cryptography that is a parameter (\<open>crypto\<close>);
    certificates are generated once and read back unchanged from a store of secrets.
  \<^item> \<open>Base64\<close>, \<open>Cloud_Init\<close>: the encoding of file contents and \<^verbatim>\<open>cloudinit.go\<close>, each template as a
    function to text; the lines of the document, and that commands read back.
  \<^item> \<open>Ccp_Scaling\<close>, \<open>Ccp_Controller\<close>: \<^verbatim>\<open>helpers.go\<close>, \<^verbatim>\<open>upgrade.go\<close> and \<^verbatim>\<open>controller.go\<close>,
    \<^verbatim>\<open>controlplane.go\<close>, \<^verbatim>\<open>delete.go\<close>, \<^verbatim>\<open>status.go\<close>. The locale \<open>health_gated\<close> covers scaling up and down.
    An upgrade is simulated by the abstract rolling upgrade \<open>roll\<close>. \<open>Ccp_Lifecycle\<close>: successive
    reconciliations of a control plane as steps of an abstract system that the locale \<open>countdown\<close> describes, and
    what a reconciliation of a settled control plane does.
  \<^item> \<open>Bootstrap_Controller\<close>: \<^verbatim>\<open>src/controllers/bootstrap/\<close>, with tokens, both kinds of nodes and the
    functions that map events to configs. \<open>Secrets_Kept\<close>: what both controllers do to the secrets of the
    management cluster, by a predicate \<open>keeps\<close> that is closed under the constructs of programs.
  \<^item> \<open>Config_Conversion\<close>, \<open>Ccp_Conversion\<close>: \<^verbatim>\<open>src/apis/bootstrap/v1alpha1/\<close> and
    \<^verbatim>\<open>src/apis/controlplane/v1alpha1/\<close>. A conversion takes the object and what the destination held
    before, as the code writes into it; the cast of a slice through an unsafe pointer is the
    conversion field by field, shown equal to the generated function for the element. The locale
    \<open>round_trip\<close> lifts round trips of objects to lists and is interpreted for configs, templates and
    control planes. \<open>Registration\<close>: the conversions that \<^verbatim>\<open>RegisterConversions\<close> gives to the scheme, as
    functions on objects behind an interface, where a failed type assertion is \<open>None\<close>. \<open>Scheme_Setup\<close>: the
    package variables and \<^verbatim>\<open>init\<close> functions behind \<^verbatim>\<open>AddToScheme\<close>.
  \<^item> \<open>Go_Store\<close>, \<open>Deep_Copy\<close>, \<open>Deep_Copy_v1alpha1\<close>: the generated deep copies of both versions. Sharing
    matters here and nowhere else, so these theories have a store of cells, pointers as addresses and slices as
    windows of arrays; a cell holds a whole struct or array, as no pointer into the middle of one is made. A
    \<open>view\<close> gives the value that a pointer stands for and the cells it is read from. The locale \<open>deep_copy\<close>
    states what a copy promises (the value, new cells only, the rest of the store untouched), with lemmas
    that lift it to pointers, slices and structs; each type instantiates it, and for control planes and
    configs the value is the record of \<open>Api_Types\<close>.
  \<^item> \<open>Cluster_Cache\<close>: \<^verbatim>\<open>remote/cluster_cache.go\<close>, first as methods that run alone, then as threads
    (\<open>move\<close>, \<open>step\<close>, \<open>runs\<close>) that interleave wherever the code holds no lock. A method that runs alone is
    shown to be a run of the threads. The locale \<open>always\<close> gives the invariants.
  \<^item> \<open>Manager\<close>: \<^verbatim>\<open>main.go\<close> with the parser of the command line, the \<^verbatim>\<open>SetupWithManager\<close> methods with
    the watches they declare, and the webhooks. The trace records each step of the start with its success.

  \<^bold>\<open>What the theorems show.\<close> Of scaling: an upgrade changes one machine at a time, only behind the health
  check, removes and creates the right one and ends after twice as many reconciliations as machines were
  out of date; initialization is complete or fails; a failed creation cleans up after itself; deletion
  waits for other machines and keeps the finalizer until the last one is gone; from no machine, or from
  out-of-date ones, reconciliations without an error reach the wanted control plane in a known number of steps and
  then leave it alone. Of the status: it is
  always saved, exact, and an unready control plane is requeued. Of bootstrapping: a config is ready only
  with its data, workers get no key, the node configuration arrives, and certificates are stable. Of the
  picks, filters and checks: they agree with their descriptions over sets and counts. Of the conversion:
  no field of an older object is lost, and what a stored object loses is named. Of the cache tracker: in
  every interleaving no channel is closed twice, recorded watches belong to running caches, no deadlock
  occurs and threads end; the health check acts after exactly the threshold of failures in a row. Of the deep
  copies: a copy stands for the same object, shares no cell with it, and leaves the store well typed. Of
  the registered conversions: none fails its type assertions, and each has its inverse. Of the start: it
  follows its plan up to the first failure, and the flags are what the command line says. Across
  the controllers, in this theory: a machine that one creates leads the other to the config created with
  it, and both use the same etcd authority; however their reconciliations follow each other, no secret is
  replaced. Some
  theorems pin down behaviour that the surrounding code or comments do not intend: the result of the
  API server pod is overwritten, creating a kubeconfig still returns an error, a control plane of the wrong
  size is ignored, an existing data secret leaves a config unready, false flags render as true, and the
  health check of a replaced cache drops the cache that replaced it; the registered conversions never reach the
  scheme, as they are appended to a copy of a slice; the flags for the port of the webhooks and for
  the profiler have no effect of their own.

  \<^bold>\<open>Bounds and fuel.\<close> No definition has fuel: the loops of the code run over lists, and the polling of
  the health check, which has no end of its own, is a function of the results of its probes (\<open>poll\<close>) and
  a thread with one step per probe; the parser of the command line recurses on the arguments. The 32-bit counts are exact below \<open>2 ^ 31\<close> nodes, which is a
  hypothesis of the theorems about them.

  \<^bold>\<open>Other packages\<close> are parameters: the API clients, the Cluster API utilities, x509 and key generation, YAML
  of the node configuration, random token ids, the scheme and the manager of controller-runtime, the value
  parsers of \<^verbatim>\<open>strconv\<close> and \<^verbatim>\<open>time\<close>, the deep copies of types of other packages, controller-runtime's cache and \<^verbatim>\<open>wait.PollImmediateUntil\<close>
  (of which the model uses that it returns when the condition returns true or an error, or when the
  channel is closed, then with an error). What a theorem needs of them is a named hypothesis, shown
  satisfiable by a concrete instance.

  \<^bold>\<open>Not modelled.\<close> Logging, the text that \<^verbatim>\<open>flag\<close> prints, and what controller-runtime does with a controller
  or webhook that was set up: which objects the manager watches is stated, the delivery of its events is not. Go's
  panic on an index out of range of a slice does not occur in the deep copies, where the views require every
  slice to lie within its array.
\<close>

section \<open>The two controllers together\<close>

text \<open>
  What the API server and apimachinery promise: an object that was created has the name and namespace it
  was created with, and the group, version and kind of a reference are those it was made of.
\<close>

definition create_keeps_key :: "'w client \<Rightarrow> bool" where
  "create_keeps_key C \<longleftrightarrow> (\<forall>cfg w cfg' w'. createConfig C cfg w = (Inr cfg', w') \<longrightarrow>
     Name (cfg_meta cfg') = Name (cfg_meta cfg) \<and> Namespace (cfg_meta cfg') = Namespace (cfg_meta cfg))"

definition parses_version :: "lib \<Rightarrow> (ObjectReference \<Rightarrow> string \<times> string \<times> string) \<Rightarrow> bool" where
  "parses_version L gvk \<longleftrightarrow> (\<forall>ref. ref_APIVersion ref = GroupVersion_String L bootstrap_GroupVersion \<longrightarrow>
     gvk ref = (fst bootstrap_GroupVersion, snd bootstrap_GroupVersion, ref_Kind ref))"

lemma generated_config_ref:
  assumes "create_keeps_key (r_Client r)" and "run_state (generateCritConfig r ccp cluster spec) s = (Inr ref, s')"
  obtains cfg where "trace s' = trace s @ [CreateConfig cfg]" and "cfg_Spec cfg = spec" and "\<not> cfgst_Ready (cfg_Status cfg)"
    and "Labels (cfg_meta cfg) = ControlPlaneLabelsForClusterWithHash (r_lib r) (Name (cl_meta cluster))
      (Name (ccp_meta ccp)) (Hash (r_lib r) (ccp_Spec ccp))"
    and "Namespace (cfg_meta cfg) = Namespace (ccp_meta ccp)" and "ref_Name ref = Name (cfg_meta cfg)"
    and "ref_Kind ref = ''CritConfig''" and "ref_APIVersion ref = GroupVersion_String (r_lib r) bootstrap_GroupVersion"
  using assms(2) assms(1) [unfolded create_keeps_key_def, rule_format]
  by (fastforce simp: generateCritConfig_def run_simps Let_def new_meta_def split: prod.splits sum.splits)

lemma generated_machine_labels:
  assumes "run_state (generateMachine r ccp cluster infra boot fd) s = (e, s')"
  obtains m where "trace s' = trace s @ [CreateMachine m]" and "m_ConfigRef m = boot"
    and "Namespace (m_meta m) = Namespace (ccp_meta ccp)"
    and "Labels (m_meta m) = ControlPlaneLabelsForClusterWithHash (r_lib r) (Name (cl_meta cluster))
      (Name (ccp_meta ccp)) (Hash (r_lib r) (ccp_Spec ccp))"
  using assms by (auto simp: generateMachine_def run_simps Let_def case_prod_beta new_meta_def)



section \<open>Certificates across the controllers\<close>

text \<open>Reading the kubeconfig and making a client of a workload cluster change no secret.\<close>

definition remote_apart :: "'w remote \<Rightarrow> ('w \<Rightarrow> ObjectKey \<Rightarrow> Secret option) \<Rightarrow> bool" where
  "remote_apart R sel \<longleftrightarrow> (\<forall>k w. sel (snd (getKubeconfig R k w)) = sel w) \<and> (\<forall>cfg w. sel (snd (newClient R cfg w)) = sel w)"

lemma workload_reads_ca:
  assumes "secret_store L C sel" and "remote_apart R sel"
    and run: "run_state (GetWorkloadCluster C R K k) t = (Inr w, t')"
    and sec: "sel (world t) (secret_key k EtcdCA) = Some sec" and kp: "secretToKeyPair sec = Inr kp"
  shows "tls_RootCAs (wl_etcd w) = kp_Cert kp"
proof -
  have key: "\<lparr>key_Namespace = key_Namespace k, key_Name = key_Name k @ ''-etcd''\<rparr> = secret_key k EtcdCA"
    by (simp add: secret_key_def secret_Name_def EtcdCA_def)
  obtain rc t1 where r: "run_state (RESTConfig R k) t = (Inr rc, t1)"
    using run by (cases "run_state (RESTConfig R k) t") (auto simp: GetWorkloadCluster_def split: sum.splits)
  then have t1: "sel (world t1) = sel (world t)"
    using assms(2) by (auto simp: RESTConfig_def run_simps remote_apart_def case_prod_beta)
  obtain c w2 where n: "newClient R (rc\<lparr>rc_Timeout := seconds 30\<rparr>) (world t1) = (Inr c, w2)"
    using run r by (cases "newClient R (rc\<lparr>rc_Timeout := seconds 30\<rparr>) (world t1)")
      (auto simp: GetWorkloadCluster_def run_simps Let_def split: sum.splits)
  have "sel (snd (newClient R (rc\<lparr>rc_Timeout := seconds 30\<rparr>) (world t1))) = sel (world t1)"
    using assms(2) by (simp add: remote_apart_def)
  with n t1 sec have "sel w2 (secret_key k EtcdCA) = Some sec" by simp
  then have "getSecret C (secret_key k EtcdCA) w2 = (Inr sec, w2)"
    by (cases rule: getSecret_cases [OF assms(1), of w2 "secret_key k EtcdCA"]) auto
  with run r n kp show ?thesis
    by (auto simp: GetWorkloadCluster_def key run_simps Let_def secretToKeyPair_def
        split: option.splits sum.splits prod.splits)
qed

text \<open>
  C7: the etcd authority of a cluster is the same for both controllers. Once the bootstrap controller has
  the certificates of a control plane, looked up or generated, every client of the workload cluster that
  the control plane controller makes while the secrets are unchanged trusts, as the root of etcd, exactly
  the certificate of the key pair that the nodes get.
\<close>

theorem workload_trusts_bootstrap_ca:
  assumes "secret_store (b_lib r) (b_Client r) sel" and "crypto_apart (b_crypto r) sel" and "remote_apart R sel"
    and "run_state (reconcileControlPlaneCertificates r config cluster cfg) s = (Inr certs, s')"
    and "sel (world t) = sel (world s')"
    and "run_state (GetWorkloadCluster (b_Client r) R K (ObjectKey_of (cl_meta cluster))) t = (Inr w, t')"
  shows "\<exists>y kp. GetByPurpose certs EtcdCA = Some y \<and> cert_KeyPair y = Some kp \<and> tls_RootCAs (wl_etcd w) = kp_Cert kp"
proof -
  let ?k = "ObjectKey_of (cl_meta cluster)" and ?c = "NewCertificatesForControlPlane (path_Join [nc_KubeDir (cpc_NodeConfiguration cfg), ''pki''])"
  obtain owner where run: "run_state (LookupOrGenerate (b_lib r) (b_Client r) (b_crypto r) ?k owner ?c) s = ((None, certs), s')"
    using assms(4) by (auto simp: reconcileControlPlaneCertificates_def ObjectKey_of_def
        split: prod.splits option.splits goerror.splits)
  have c: "distinct (map cert_Purpose ?c)" "list_all (\<lambda>x. cert_KeyPair x = None \<and> \<not> cert_Generated x) ?c"
    "cert_Purpose (?c ! 4) = EtcdCA" "length ?c = 5"
    by (simp_all add: NewCertificatesForControlPlane_def new_cert_def purpose_defs)
  have p: "map cert_Purpose certs = map cert_Purpose ?c" using LookupOrGenerate_purposes [OF run] .
  then have len: "length certs = 5" using c(4) by (metis length_map)
  have y: "cert_Purpose (certs ! 4) = EtcdCA" using arg_cong [OF p, of "\<lambda>xs. xs ! 4"] c(3,4) len by simp
  with LookupOrGenerate_pairs [OF run] len obtain kp where kp: "cert_KeyPair (certs ! 4) = Some kp"
    by (cases "cert_KeyPair (certs ! 4)") (auto simp: list_all_length purpose_defs)
  have "GetByPurpose certs EtcdCA = Some (certs ! 4)"
    using p len by (auto simp: NewCertificatesForControlPlane_def new_cert_def purpose_defs)
  moreover obtain sec where "sel (world t) (secret_key ?k EtcdCA) = Some sec" "secretToKeyPair sec = Inr kp"
    using stored_pair [OF assms(1,2) c(1,2) run _ kp] c(3,4) assms(5) by auto
  with workload_reads_ca [OF assms(1,3,6)] have "tls_RootCAs (wl_etcd w) = kp_Cert kp" by blast
  ultimately show ?thesis using kp by blast
qed

text \<open>A management cluster in which every secret exists.\<close>

definition full_store :: "Machine list bootstrapper" where
  "full_store = sample_bootstrapper\<lparr>b_Client := sample_client\<lparr>createSecret := (\<lambda>_ w. (Some (ExtError ''AlreadyExists''), w))\<rparr>\<rparr>"

definition full_secret :: Secret where
  "full_secret = \<lparr>s_meta = sample_meta ''s'', s_Type = [], s_Data = Some [(''tls.crt'', ''C''), (''tls.key'', ''K'')]\<rparr>"

theorem workload_trusts_bootstrap_ca_witness:
  "\<exists>certs s' w t' y kp.
     run_state (reconcileControlPlaneCertificates full_store sample_config sample_cluster sample_cfg) \<lparr>world = [], trace = []\<rparr> = (Inr certs, s') \<and>
     run_state (GetWorkloadCluster (b_Client full_store) (sample_remote []) sample_crypto (ObjectKey_of (cl_meta sample_cluster))) s' = (Inr w, t') \<and>
     GetByPurpose certs EtcdCA = Some y \<and> cert_KeyPair y = Some kp \<and> tls_RootCAs (wl_etcd w) = kp_Cert kp"
proof -
  let ?sel = "\<lambda>_ _. Some full_secret"
  have store: "secret_store (b_lib full_store) (b_Client full_store) ?sel"
    by (simp add: secret_store_def full_store_def full_secret_def sample_bootstrapper_def)
  have apart: "crypto_apart (b_crypto full_store) ?sel" "remote_apart (sample_remote []) ?sel"
    by (simp_all add: crypto_apart_def remote_apart_def)
  have pair: "secretToKeyPair full_secret = Inr \<lparr>kp_Cert = ''C'', kp_Key = ''K''\<rparr>"
    by (simp add: full_secret_def secretToKeyPair_def TLSCrtDataName_def TLSKeyDataName_def)
  obtain certs s' where run: "run_state (reconcileControlPlaneCertificates full_store sample_config sample_cluster sample_cfg)
      \<lparr>world = [], trace = []\<rparr> = (Inr certs, s')"
    by (simp add: reconcileControlPlaneCertificates_def full_store_def sample_bootstrapper_def NewCertificatesForControlPlane_def
        new_cert_def LookupOrGenerate_def run_simps Let_def pair [unfolded full_secret_def] SaveGenerated_def save_one_def)
  obtain w t' where work: "run_state (GetWorkloadCluster (b_Client full_store) (sample_remote []) sample_crypto
      (ObjectKey_of (cl_meta sample_cluster))) s' = (Inr w, t')"
    by (simp add: full_store_def sample_bootstrapper_def GetWorkloadCluster_def RESTConfig_def generateClientCert_def newClientCert_def
        run_simps Let_def TLSCrtDataName_def TLSKeyDataName_def)
  from workload_trusts_bootstrap_ca [OF store apart run refl work] run work show ?thesis by blast
qed

end
